(* ===== verification/Prelude.thy ===== *)
theory Prelude
  imports Main "HOL-Library.Word" "HOL-Library.AList" "HOL-Library.Sublist"
begin

text \<open>
  Shared vocabulary of the development.

  A Go \<open>string\<close> is a sequence of bytes, and so is a HOL \<open>string\<close> (a list of 8-bit
  characters), so Go strings and the \<open>[]byte\<close> values that the code converts to and from
  strings are HOL strings.  The wire codecs, which do arithmetic on bytes, use lists of
  \<open>8 word\<close>.  A Go map that the code ranges over is an association list with distinct keys:
  the list order stands for the iteration order, which Go leaves open, so a statement about
  every list is a statement about every iteration order.  A Go pair \<open>(value, error)\<close> is a sum
  whose left side is the text of the error.

  The section on strings models the functions of the package \<open>strings\<close> and of \<open>strconv\<close>
  that the program calls.
\<close>

named_theorems go_str \<open>string functions of the Go standard library\<close>
named_theorems go_map \<open>association lists used as Go maps\<close>

type_synonym bytes = "8 word list"
type_synonym error = string
type_synonym 'a result = "error + 'a"
type_synonym 'v gomap = "(string \<times> 'v) list"

section \<open>Results\<close>

definition bind_result :: "'a result \<Rightarrow> ('a \<Rightarrow> 'b result) \<Rightarrow> 'b result" where
  "bind_result r f = (case r of Inl e \<Rightarrow> Inl e | Inr x \<Rightarrow> f x)"

definition is_ok :: "'a result \<Rightarrow> bool" where
  "is_ok r = (case r of Inl _ \<Rightarrow> False | Inr _ \<Rightarrow> True)"

section \<open>Go maps\<close>

definition gm_get :: "'v gomap \<Rightarrow> string \<Rightarrow> 'v option" where
  "gm_get m k = map_of m k"

definition gm_set :: "string \<Rightarrow> 'v \<Rightarrow> 'v gomap \<Rightarrow> 'v gomap" where
  "gm_set k v m = AList.update k v m"

definition gm_del :: "string \<Rightarrow> 'v gomap \<Rightarrow> 'v gomap" where
  "gm_del k m = AList.delete k m"

definition gm_wf :: "'v gomap \<Rightarrow> bool" where
  "gm_wf m = distinct (map fst m)"

text \<open>Reading a key of a \<open>map[string]string\<close> that may be absent gives the empty string.\<close>

definition gm_str :: "string gomap \<Rightarrow> string \<Rightarrow> string" where
  "gm_str m k = (case gm_get m k of None \<Rightarrow> '''' | Some v \<Rightarrow> v)"

section \<open>Strings\<close>

definition has_prefix :: "string \<Rightarrow> string \<Rightarrow> bool" where
  "has_prefix s p = prefix p s"

definition has_suffix :: "string \<Rightarrow> string \<Rightarrow> bool" where
  "has_suffix s p = suffix p s"

definition trim_prefix :: "string \<Rightarrow> string \<Rightarrow> string" where
  "trim_prefix s p = (if prefix p s then drop (length p) s else s)"

definition trim_suffix :: "string \<Rightarrow> string \<Rightarrow> string" where
  "trim_suffix s p = (if suffix p s then take (length s - length p) s else s)"

definition str_contains :: "string \<Rightarrow> string \<Rightarrow> bool" where
  "str_contains s sub = sublist sub s"

text \<open>
  \<open>strings.Cut\<close>: the parts before and after the first occurrence of the separator.
\<close>

fun str_cut :: "string \<Rightarrow> string \<Rightarrow> (string \<times> string) option" where
  "str_cut sep [] = (if sep = [] then Some ([], []) else None)"
| "str_cut sep (c # cs) =
     (if prefix sep (c # cs) then Some ([], drop (length sep) (c # cs))
      else map_option (\<lambda>(a, b). (c # a, b)) (str_cut sep cs))"

lemma str_cut_Some: "str_cut sep s = Some (a, b) \<Longrightarrow> s = a @ sep @ b"
proof (induction s arbitrary: a)
  case Nil
  then show ?case by (simp split: if_splits)
next
  case (Cons c cs)
  show ?case
  proof (cases "prefix sep (c # cs)")
    case True
    with Cons.prems show ?thesis by (auto simp: prefix_def)
  next
    case False
    with Cons.prems obtain a' where "str_cut sep cs = Some (a', b)" "a = c # a'"
      by auto
    with Cons.IH show ?thesis by simp
  qed
qed

text \<open>
  \<open>strings.Split\<close>.  The program only calls it with constant, non-empty separators; the
  first branch is there to make the definition total.
\<close>

function str_split :: "string \<Rightarrow> string \<Rightarrow> string list" where
  "str_split sep s =
     (if sep = [] then [s]
      else (case str_cut sep s of None \<Rightarrow> [s] | Some (a, b) \<Rightarrow> a # str_split sep b))"
  by pat_completeness auto
termination
proof (relation "measure (\<lambda>(sep, s). length s)")
  fix sep s :: string and p a b
  assume "sep \<noteq> []" "str_cut sep s = Some p" "(a, b) = p"
  then have "s = a @ sep @ b" by (auto dest: str_cut_Some)
  with \<open>sep \<noteq> []\<close> show "((sep, b), (sep, s)) \<in> measure (\<lambda>(sep, s). length s)"
    by simp
qed simp

declare str_split.simps [simp del]

fun str_join :: "string \<Rightarrow> string list \<Rightarrow> string" where
  "str_join sep [] = []"
| "str_join sep [x] = x"
| "str_join sep (x # y # zs) = x @ sep @ str_join sep (y # zs)"

text \<open>
  \<open>strings.ToLower\<close> and \<open>strings.ToUpper\<close> on ASCII letters; the other bytes are kept.
\<close>

definition char_lower :: "char \<Rightarrow> char" where
  "char_lower c = (let n = of_char c :: nat in if 65 \<le> n \<and> n \<le> 90 then char_of (n + 32) else c)"

definition to_lower :: "string \<Rightarrow> string" where
  "to_lower s = map char_lower s"

text \<open>\<open>strings.TrimSpace\<close>, for ASCII blanks.\<close>

definition is_space :: "char \<Rightarrow> bool" where
  "is_space c \<longleftrightarrow> c \<in> {CHR '' '', CHR 0x09, CHR 0x0A, CHR 0x0B, CHR 0x0C, CHR 0x0D}"

definition trim_space :: "string \<Rightarrow> string" where
  "trim_space s = rev (dropWhile is_space (rev (dropWhile is_space s)))"

text \<open>Decimal printing, \<open>strconv.Itoa\<close>, and parsing, \<open>strconv.Atoi\<close>, on 64-bit integers.\<close>

definition digit_char :: "nat \<Rightarrow> char" where
  "digit_char d = char_of (48 + d)"

fun nat_dec :: "nat \<Rightarrow> string" where
  "nat_dec n = (if n < 10 then [digit_char n] else nat_dec (n div 10) @ [digit_char (n mod 10)])"

declare nat_dec.simps [simp del]

definition itoa :: "int \<Rightarrow> string" where
  "itoa i = (if i < 0 then ''-'' @ nat_dec (nat (- i)) else nat_dec (nat i))"

definition digit_val :: "char \<Rightarrow> nat option" where
  "digit_val c = (let n = of_char c :: nat in if 48 \<le> n \<and> n \<le> 57 then Some (n - 48) else None)"

fun dec_val :: "nat \<Rightarrow> string \<Rightarrow> nat option" where
  "dec_val acc [] = Some acc"
| "dec_val acc (c # cs) =
     (case digit_val c of None \<Rightarrow> None | Some d \<Rightarrow> dec_val (10 * acc + d) cs)"

definition dec_nat :: "string \<Rightarrow> nat option" where
  "dec_nat s = (if s = [] then None else dec_val 0 s)"

definition atoi :: "string \<Rightarrow> int option" where
  "atoi s =
     (let (neg, ds) = (case s of [] \<Rightarrow> (False, [])
                       | c # cs \<Rightarrow> if c = CHR ''-'' then (True, cs)
                                   else if c = CHR ''+'' then (False, cs) else (False, s))
      in case dec_nat ds of None \<Rightarrow> None
         | Some n \<Rightarrow> (let i = (if neg then - int n else int n)
                      in if - (2 ^ 63) \<le> i \<and> i < 2 ^ 63 then Some i else None))"

text \<open>
  The verb \<open>%q\<close>: a quoted string.  Bytes outside ASCII are kept, which is what Go prints for
  valid text.
\<close>

definition hex_digit :: "nat \<Rightarrow> char" where
  "hex_digit d = (if d < 10 then char_of (48 + d) else char_of (87 + d))"

definition quote_char :: "char \<Rightarrow> string" where
  "quote_char c =
     (let n = of_char c :: nat in
      if n = 34 \<or> n = 92 then [CHR 92, c]
      else if n = 7 then [CHR 92, CHR ''a''] else if n = 8 then [CHR 92, CHR ''b'']
      else if n = 12 then [CHR 92, CHR ''f''] else if n = 10 then [CHR 92, CHR ''n'']
      else if n = 13 then [CHR 92, CHR ''r''] else if n = 9 then [CHR 92, CHR ''t'']
      else if n = 11 then [CHR 92, CHR ''v'']
      else if n < 32 \<or> n = 127 then [CHR 92, CHR ''x'', hex_digit (n div 16), hex_digit (n mod 16)]
      else [c])"

definition go_quote :: "string \<Rightarrow> string" where
  "go_quote s = [CHR 34] @ concat (map quote_char s) @ [CHR 34]"

text \<open>\<open>%q\<close> and \<open>%v\<close> on a list of strings.\<close>

definition go_quote_list :: "string list \<Rightarrow> string" where
  "go_quote_list xs = ''['' @ str_join '' '' (map go_quote xs) @ '']''"

definition go_show_list :: "string list \<Rightarrow> string" where
  "go_show_list xs = ''['' @ str_join '' '' xs @ '']''"

text \<open>A Go call either returns or panics.\<close>

datatype 'a outcome = Panic | Ret 'a

section \<open>Lemmas\<close>

lemma bind_result_simps [simp]:
  "bind_result (Inl e) f = Inl e" "bind_result (Inr x) f = f x"
  by (simp_all add: bind_result_def)

lemma is_ok_simps [simp]: "is_ok (Inl e) = False" "is_ok (Inr x) = True"
  by (simp_all add: is_ok_def)

lemma bex_set_nth: "(\<exists>x \<in> set xs. P x) \<longleftrightarrow> (\<exists>i < length xs. P (xs ! i))"
  by (metis in_set_conv_nth)

subsection \<open>Maps\<close>

lemma gm_get_Nil [simp]: "gm_get [] k = None"
  by (simp add: gm_get_def)

lemma gm_get_Cons: "gm_get ((k', v) # m) k = (if k = k' then Some v else gm_get m k)"
  by (auto simp: gm_get_def)

lemma gm_get_set [simp, go_map]: "gm_get (gm_set k v m) k' = (if k' = k then Some v else gm_get m k')"
  by (simp add: gm_get_def gm_set_def update_conv)

lemma gm_get_del [simp, go_map]: "gm_get (gm_del k m) k' = (if k' = k then None else gm_get m k')"
  by (simp add: gm_get_def gm_del_def delete_conv)

lemma gm_wf_Nil [simp]: "gm_wf []"
  by (simp add: gm_wf_def)

lemma gm_wf_set [simp, go_map]: "gm_wf m \<Longrightarrow> gm_wf (gm_set k v m)"
  by (simp add: gm_wf_def gm_set_def distinct_update)

lemma gm_wf_del [simp, go_map]: "gm_wf m \<Longrightarrow> gm_wf (gm_del k m)"
  by (simp add: gm_wf_def gm_del_def distinct_delete)

lemma gm_wf_filter [simp, go_map]: "gm_wf m \<Longrightarrow> gm_wf (filter P m)"
  by (simp add: gm_wf_def distinct_map_filter)

lemma gm_get_in_set: "gm_wf m \<Longrightarrow> (k, v) \<in> set m \<longleftrightarrow> gm_get m k = Some v"
  by (auto simp: gm_wf_def gm_get_def map_of_eq_Some_iff)

lemma gm_get_dom: "k \<in> fst ` set m \<longleftrightarrow> gm_get m k \<noteq> None"
  by (simp add: gm_get_def map_of_eq_None_iff)

lemma gm_get_filter_key [go_map]:
  "gm_get (filter (\<lambda>(k, v). P k) m) k = (if P k then gm_get m k else None)"
  by (induction m) (auto simp: gm_get_def)

lemma gm_str_set [simp]: "gm_str (gm_set k v m) k' = (if k' = k then v else gm_str m k')"
  by (simp add: gm_str_def)

subsection \<open>Strings\<close>

lemma trim_prefix_append [simp, go_str]: "trim_prefix (p @ s) p = s"
  by (simp add: trim_prefix_def)

lemma trim_suffix_append [simp, go_str]: "trim_suffix (s @ p) p = s"
  by (simp add: trim_suffix_def suffix_def)

lemma str_cut_None_iff: "sep \<noteq> [] \<Longrightarrow> str_cut sep s = None \<longleftrightarrow> \<not> sublist sep s"
proof (induction s)
  case Nil
  then show ?case by simp
next
  case (Cons c cs)
  then show ?case by (auto simp: sublist_Cons_right)
qed

lemma str_split_nonempty [simp]: "str_split sep s \<noteq> []"
  by (subst str_split.simps) (auto split: option.splits)

lemma str_join_Cons: "xs \<noteq> [] \<Longrightarrow> str_join sep (x # xs) = x @ sep @ str_join sep xs"
  by (cases xs) auto

lemma str_join_split: "str_join sep (str_split sep s) = s"
proof (induction sep s rule: str_split.induct)
  case (1 sep s)
  show ?case
  proof (cases "sep = []")
    case True
    then show ?thesis by (simp add: str_split.simps)
  next
    case False
    show ?thesis
    proof (cases "str_cut sep s")
      case None
      with False show ?thesis by (simp add: str_split.simps)
    next
      case (Some p)
      obtain a b where p: "p = (a, b)" by (cases p)
      with 1 False Some have "str_join sep (str_split sep b) = b" by simp
      moreover have "s = a @ sep @ b" using Some p by (auto dest: str_cut_Some)
      moreover have "str_split sep s = a # str_split sep b"
        using False Some p by (subst str_split.simps) simp
      ultimately show ?thesis by (simp add: str_join_Cons)
    qed
  qed
qed

text \<open>A single-character separator splits an input without it into one piece.\<close>

lemma str_cut_char:
  "c \<notin> set a \<Longrightarrow> str_cut [c] (a @ c # b) = Some (a, b)"
  by (induction a) auto

lemma str_cut_char_None: "c \<notin> set a \<Longrightarrow> str_cut [c] a = None"
  by (induction a) auto

lemma str_split_char [go_str]:
  "c \<notin> set a \<Longrightarrow> str_split [c] (a @ c # b) = a # str_split [c] b"
  by (subst str_split.simps) (simp add: str_cut_char)

lemma str_split_char_none [go_str]: "c \<notin> set a \<Longrightarrow> str_split [c] a = [a]"
  by (subst str_split.simps) (simp add: str_cut_char_None)

lemma str_contains_char: "str_contains s [c] \<longleftrightarrow> c \<in> set s"
  by (simp add: str_contains_def sublist_def in_set_conv_decomp)

text \<open>Trimming leaves no blank at either end.\<close>

lemma trim_space_ends: "trim_space s \<noteq> [] \<Longrightarrow> \<not> is_space (hd (trim_space s)) \<and> \<not> is_space (last (trim_space s))"
proof -
  assume ne: "trim_space s \<noteq> []"
  let ?t = "dropWhile is_space s"
  have "\<not> is_space (hd (dropWhile is_space (rev ?t)))" using ne hd_dropWhile [of is_space "rev ?t"] by (auto simp: trim_space_def)
  then have last: "\<not> is_space (last (trim_space s))" using ne by (simp add: trim_space_def last_rev)
  have "suffix (dropWhile is_space (rev ?t)) (rev ?t)" by (rule suffix_dropWhile)
  then have "prefix (trim_space s) ?t" by (simp add: trim_space_def suffix_to_prefix)
  then obtain zs where zs: "?t = trim_space s @ zs" by (rule prefixE)
  then have t: "?t \<noteq> []" "hd (trim_space s) = hd ?t" using ne by (simp_all only: hd_append2 append_is_Nil_conv not_False_eq_True simp_thms)
  then have "\<not> is_space (hd (trim_space s))" using hd_dropWhile [OF t(1)] by (simp only: t(2) not_False_eq_True)
  with last show ?thesis by simp
qed

subsection \<open>Decimal numbers\<close>

lemma digit_val_char [simp]: "d < 10 \<Longrightarrow> digit_val (digit_char d) = Some d"
  by (simp add: digit_val_def digit_char_def of_char_of)

lemma dec_val_append:
  "dec_val acc (xs @ ys) = (case dec_val acc xs of None \<Rightarrow> None | Some n \<Rightarrow> dec_val n ys)"
  by (induction xs arbitrary: acc) (auto split: option.splits)

lemma dec_val_nat_dec: "dec_val 0 (nat_dec n) = Some n"
proof (induction n rule: nat_dec.induct)
  case (1 n)
  show ?case
  proof (cases "n < 10")
    case True
    then show ?thesis by (subst nat_dec.simps) simp
  next
    case False
    with 1 have "dec_val 0 (nat_dec (n div 10)) = Some (n div 10)" by simp
    with False show ?thesis by (subst nat_dec.simps) (simp add: dec_val_append)
  qed
qed

lemma nat_dec_nonempty [simp]: "nat_dec n \<noteq> []"
  by (subst nat_dec.simps) simp

lemma dec_nat_nat_dec [simp]: "dec_nat (nat_dec n) = Some n"
  by (simp add: dec_nat_def dec_val_nat_dec)

lemma nat_dec_digits: "c \<in> set (nat_dec n) \<Longrightarrow> digit_val c \<noteq> None"
proof (induction n rule: nat_dec.induct)
  case (1 n)
  then show ?case
    by (subst (asm) (2) nat_dec.simps) (auto split: if_splits)
qed

lemma nat_dec_hd:
  assumes "nat_dec n = c # cs"
  shows "c \<noteq> CHR ''-'' \<and> c \<noteq> CHR ''+''"
proof -
  have "digit_val c \<noteq> None"
    using assms nat_dec_digits [of c n] by simp
  then show ?thesis by (auto simp: digit_val_def)
qed

lemma atoi_itoa:
  assumes "- (2 ^ 63) \<le> i" "i < 2 ^ 63"
  shows "atoi (itoa i) = Some i"
proof (cases "i < 0")
  case True
  with assms show ?thesis by (simp add: atoi_def itoa_def)
next
  case False
  obtain c cs where c: "nat_dec (nat i) = c # cs"
    by (cases "nat_dec (nat i)") auto
  from dec_nat_nat_dec [of "nat i"] have "dec_nat (c # cs) = Some (nat i)"
    by (simp add: c)
  with False assms nat_dec_hd [OF c] show ?thesis
    by (simp add: atoi_def itoa_def c)
qed

end
