(* ===== verification/Base64.thy ===== *)
theory Base64
  imports Prelude
begin

text \<open>
  The standard base64 codec, \<open>base64.StdEncoding\<close>, which the API server, the agent and the
  secrets manager use for every environment variable.  \<open>DecodeString\<close> skips carriage returns
  and line feeds, insists on the padding, and on a corrupt input returns the bytes decoded so
  far together with the offset of the offending byte; the callers that drop the error go on
  with those bytes, so the model keeps both.
\<close>

definition b64_char :: "nat \<Rightarrow> char" where
  "b64_char i =
     (if i < 26 then char_of (65 + i) else if i < 52 then char_of (71 + i)
      else if i < 62 then char_of (i - 4) else if i = 62 then CHR ''+'' else CHR ''/'')"

definition b64_val :: "char \<Rightarrow> nat option" where
  "b64_val c = (let n = of_char c :: nat in
     if 65 \<le> n \<and> n \<le> 90 then Some (n - 65) else if 97 \<le> n \<and> n \<le> 122 then Some (n - 71)
     else if 48 \<le> n \<and> n \<le> 57 then Some (n + 4) else if n = 43 then Some 62
     else if n = 47 then Some 63 else None)"

abbreviation b64_pad :: char where
  "b64_pad \<equiv> CHR ''=''"

definition b64_quad :: "nat \<Rightarrow> string" where
  "b64_quad n = [b64_char (n div 262144), b64_char (n div 4096 mod 64),
                 b64_char (n div 64 mod 64), b64_char (n mod 64)]"

definition b64_triple :: "char \<Rightarrow> char \<Rightarrow> char \<Rightarrow> nat" where
  "b64_triple a b c = of_char a * 65536 + of_char b * 256 + of_char c"

fun b64_encode :: "string \<Rightarrow> string" where
  "b64_encode [] = []"
| "b64_encode [a] = take 2 (b64_quad (b64_triple a (char_of (0::nat)) (char_of (0::nat)))) @ [b64_pad, b64_pad]"
| "b64_encode [a, b] = take 3 (b64_quad (b64_triple a b (char_of (0::nat)))) @ [b64_pad]"
| "b64_encode (a # b # c # rest) = b64_quad (b64_triple a b c) @ b64_encode rest"

definition b64_bytes :: "nat \<Rightarrow> nat \<Rightarrow> nat \<Rightarrow> nat \<Rightarrow> string" where
  "b64_bytes p q r s = (let n = p * 262144 + q * 4096 + r * 64 + s in
     [char_of (n div 65536), char_of (n div 256 mod 256), char_of (n mod 256)])"

text \<open>
  One quantum of four characters after the other.  The list holds the characters with their
  offsets, without line breaks; the number is the length of the input.
\<close>

fun b64_quanta :: "nat \<Rightarrow> (nat \<times> char) list \<Rightarrow> string \<times> nat option" where
  "b64_quanta n [] = ([], None)"
| "b64_quanta n [(i, a)] = ([], Some (if b64_val a = None then i else n - 1))"
| "b64_quanta n [(i, a), (j, b)] =
     ([], Some (if b64_val a = None then i else if b64_val b = None then j else n - 2))"
| "b64_quanta n [(i, a), (j, b), (k, c)] =
     ([], Some (if b64_val a = None then i else if b64_val b = None then j
                else if b64_val c \<noteq> None then n - 3 else if c = b64_pad then n else k))"
| "b64_quanta n ((i, a) # (j, b) # (k, c) # (l, d) # rest) =
     (case b64_val a of None \<Rightarrow> ([], Some i)
      | Some p \<Rightarrow> (case b64_val b of None \<Rightarrow> ([], Some j)
        | Some q \<Rightarrow> (case b64_val c of
            None \<Rightarrow>
              if c \<noteq> b64_pad then ([], Some k)
              else if d \<noteq> b64_pad then ([], Some (l - 1))
              else (take 1 (b64_bytes p q 0 0), case rest of [] \<Rightarrow> None | (m, _) # _ \<Rightarrow> Some m)
          | Some r \<Rightarrow> (case b64_val d of
              None \<Rightarrow>
                if d \<noteq> b64_pad then ([], Some l)
                else (take 2 (b64_bytes p q r 0), case rest of [] \<Rightarrow> None | (m, _) # _ \<Rightarrow> Some m)
            | Some s \<Rightarrow> (case b64_quanta n rest of (out, e) \<Rightarrow> (b64_bytes p q r s @ out, e))))))"

definition b64_skip :: "(nat \<times> char) list \<Rightarrow> (nat \<times> char) list" where
  "b64_skip = filter (\<lambda>(i, c). c \<noteq> CHR 0x0A \<and> c \<noteq> CHR 0x0D)"

definition b64_decode :: "string \<Rightarrow> string \<times> nat option" where
  "b64_decode s = b64_quanta (length s) (b64_skip (enumerate 0 s))"

text \<open>\<open>DecodeString\<close> with its error checked, and with its error dropped.\<close>

definition b64_decode_string :: "string \<Rightarrow> string result" where
  "b64_decode_string s =
     (case b64_decode s of (out, None) \<Rightarrow> Inr out
      | (_, Some p) \<Rightarrow> Inl (''illegal base64 data at input byte '' @ nat_dec p))"

definition b64_decode_lenient :: "string \<Rightarrow> string" where
  "b64_decode_lenient s = fst (b64_decode s)"

section \<open>Decoding inverts encoding\<close>

lemma b64_val_char [simp]: "i < 64 \<Longrightarrow> b64_val (b64_char i) = Some i"
  by (auto simp: b64_val_def b64_char_def Let_def of_char_of)

lemma b64_char_plain: "i < 64 \<Longrightarrow> b64_char i \<noteq> CHR 0x0A \<and> b64_char i \<noteq> CHR 0x0D \<and> b64_char i \<noteq> b64_pad"
  using b64_val_char [of i] by (auto simp: b64_val_def)

lemma b64_quad_idx:
  fixes n :: nat
  assumes "n < 16777216"
  shows "n div 262144 < 64" "n div 4096 mod 64 < 64" "n div 64 mod 64 < 64" "n mod 64 < 64"
  using assms by (simp_all add: less_mult_imp_div_less)

lemma b64_recompose:
  "(n::nat) div 262144 * 262144 + n div 4096 mod 64 * 4096 + n div 64 mod 64 * 64 + n mod 64 = n"
proof -
  have "n div 64 = n div 4096 * 64 + n div 64 mod 64"
    using div_mult_mod_eq [of "n div 64" 64] by (simp flip: div_mult2_eq)
  moreover have "n div 4096 = n div 262144 * 64 + n div 4096 mod 64"
    using div_mult_mod_eq [of "n div 4096" 64] by (simp flip: div_mult2_eq)
  moreover have "n = n div 64 * 64 + n mod 64" by simp
  ultimately show ?thesis by linarith
qed

lemma b64_triple_lt: "b64_triple a b c < 16777216"
  using nat_of_char_less_256 [of a] nat_of_char_less_256 [of b] nat_of_char_less_256 [of c] unfolding b64_triple_def by linarith

lemma b64_bytes_triple:
  assumes "n = b64_triple a b c"
  shows "b64_bytes (n div 262144) (n div 4096 mod 64) (n div 64 mod 64) (n mod 64) = [a, b, c]"
proof -
  define m :: nat where "m = of_char a * 256 + of_char b"
  have n: "n = m * 256 + of_char c"
    by (simp add: assms b64_triple_def m_def algebra_simps)
  then have d: "n div 256 = m" and c: "n mod 256 = of_char c" by simp_all
  have a: "n div 65536 = of_char a"
  proof -
    have "n div 65536 = n div 256 div 256" by (simp flip: div_mult2_eq)
    then show ?thesis by (simp only: d) (simp add: m_def)
  qed
  have b: "n div 256 mod 256 = of_char b"
    by (simp only: d) (simp add: m_def)
  from a b c show ?thesis
    by (simp add: b64_bytes_def b64_recompose Let_def del: char_of_mod_256)
qed

lemma b64_triple_zero_tail:
  "b64_triple a b (char_of (0::nat)) mod 64 = 0"
  "b64_triple a (char_of (0::nat)) (char_of (0::nat)) div 64 mod 64 = 0"
  using nat_of_char_less_256 [of a] nat_of_char_less_256 [of b] unfolding b64_triple_def by (simp_all add: of_char_of)

lemma b64_skip_simps [simp]:
  "b64_skip [] = []"
  "b64_skip ((i, c) # xs) = (if c \<noteq> CHR 0x0A \<and> c \<noteq> CHR 0x0D then (i, c) # b64_skip xs else b64_skip xs)"
  by (simp_all add: b64_skip_def)

lemma b64_quanta_encode: "b64_quanta n (b64_skip (enumerate i (b64_encode s))) = (s, None)"
proof (induction s arbitrary: i rule: b64_encode.induct)
  case 1
  then show ?case by simp
next
  case (2 a)
  let ?n = "b64_triple a (char_of (0::nat)) (char_of (0::nat))"
  have z: "?n div 64 mod 64 = 0" "?n mod 64 = 0" by (simp_all add: b64_triple_zero_tail)
  have "b64_bytes (?n div 262144) (?n div 4096 mod 64) 0 0 = [a, char_of (0::nat), char_of (0::nat)]"
    using b64_bytes_triple [OF refl, of a "char_of (0::nat)" "char_of (0::nat)"] by (simp only: z)
  then show ?case
    by (simp add: b64_quad_def b64_char_plain b64_quad_idx b64_triple_lt b64_val_def [of b64_pad])
next
  case (3 a b)
  let ?n = "b64_triple a b (char_of (0::nat))"
  have z: "?n mod 64 = 0" by (simp add: b64_triple_zero_tail)
  have "b64_bytes (?n div 262144) (?n div 4096 mod 64) (?n div 64 mod 64) 0 = [a, b, char_of (0::nat)]"
    using b64_bytes_triple [OF refl, of a b "char_of (0::nat)"] by (simp only: z)
  then show ?case
    by (simp add: b64_quad_def b64_char_plain b64_quad_idx b64_triple_lt b64_val_def [of b64_pad])
next
  case (4 a b c rest)
  then show ?case
    by (simp add: b64_quad_def b64_char_plain b64_quad_idx b64_triple_lt b64_bytes_triple)
qed

theorem b64_roundtrip [simp]: "b64_decode (b64_encode s) = (s, None)"
  by (simp add: b64_decode_def b64_quanta_encode)

lemma b64_decode_string_encode [simp]: "b64_decode_string (b64_encode s) = Inr s"
  by (simp add: b64_decode_string_def)

lemma b64_decode_lenient_encode [simp]: "b64_decode_lenient (b64_encode s) = s"
  by (simp add: b64_decode_lenient_def)

lemma b64_encode_inj: "b64_encode s = b64_encode t \<Longrightarrow> s = t"
  by (metis b64_roundtrip prod.inject)

lemma b64_encode_no_break: "c \<in> set (b64_encode s) \<Longrightarrow> b64_val c \<noteq> None \<or> c = b64_pad"
  by (induction s rule: b64_encode.induct)
     (auto simp: b64_quad_def b64_quad_idx b64_triple_lt)

declare b64_encode.simps [simp del]

end
