(* ===== verification/Memory.thy ===== *)
theory Memory
  imports Prelude
begin

text \<open>
  The in-memory key/value store of \<open>src/common/memory/memory.go\<close>, which the agent uses for its
  connections, the secret providers for their caches and the provisioner for its locks.

  Every operation of the code runs under the store's mutex, so one operation is one step of the
  model.  A stored value is a Go \<open>any\<close>, which may be nil: \<open>None\<close> is the nil value, and
  \<open>Get\<close> answers nil both for a missing key and for a key that holds nil, while \<open>Has\<close> tells
  the two apart.
\<close>

record 'v store =
  store_m :: "'v option gomap"

definition mem_Set :: "string \<Rightarrow> 'v option \<Rightarrow> 'v store \<Rightarrow> 'v store" where
  "mem_Set key val s = s\<lparr>store_m := gm_set key val (store_m s)\<rparr>"

definition mem_Del :: "string \<Rightarrow> 'v store \<Rightarrow> 'v store" where
  "mem_Del key s = s\<lparr>store_m := gm_del key (store_m s)\<rparr>"

text \<open>\<open>List\<close> and \<open>Filter\<close> copy the map entry by entry into a fresh map.\<close>

definition mem_List :: "'v store \<Rightarrow> 'v option gomap" where
  "mem_List s = fold (\<lambda>(key, val) copyMap. gm_set key val copyMap) (store_m s) []"

definition mem_Filter :: "(string \<Rightarrow> bool) \<Rightarrow> 'v store \<Rightarrow> 'v option gomap" where
  "mem_Filter fn s =
     fold (\<lambda>(key, obj) filteredStore. if fn key then gm_set key obj filteredStore else filteredStore)
       (store_m s) []"

definition mem_Get :: "'v store \<Rightarrow> string \<Rightarrow> 'v option" where
  "mem_Get s key = (case gm_get (store_m s) key of Some val \<Rightarrow> val | None \<Rightarrow> None)"

definition mem_Has :: "'v store \<Rightarrow> string \<Rightarrow> bool" where
  "mem_Has s key = (gm_get (store_m s) key \<noteq> None)"

definition mem_Pop :: "string \<Rightarrow> 'v store \<Rightarrow> 'v option \<times> 'v store" where
  "mem_Pop key s =
     (case gm_get (store_m s) key of
        Some val \<Rightarrow> (val, s\<lparr>store_m := gm_del key (store_m s)\<rparr>)
      | None \<Rightarrow> (None, s))"

definition mem_New :: "'v store" where
  "mem_New = \<lparr>store_m = []\<rparr>"

definition mem_wf :: "'v store \<Rightarrow> bool" where
  "mem_wf s = gm_wf (store_m s)"

section \<open>The interface its clients rely on\<close>

text \<open>
  What the Go interface \<open>memory.Store\<close> promises: the values it holds are those of the last
  \<open>Set\<close>, \<open>Del\<close> and \<open>Pop\<close> remove exactly one key, and \<open>List\<close> and \<open>Filter\<close> return a
  copy with every matching entry once.
\<close>

locale key_store =
  fixes new :: 's
    and set_key :: "string \<Rightarrow> 'v option \<Rightarrow> 's \<Rightarrow> 's"
    and del_key :: "string \<Rightarrow> 's \<Rightarrow> 's"
    and entry :: "'s \<Rightarrow> string \<Rightarrow> 'v option option"
    and filter_keys :: "(string \<Rightarrow> bool) \<Rightarrow> 's \<Rightarrow> 'v option gomap"
    and wf :: "'s \<Rightarrow> bool"
  assumes entry_new: "entry new k = None"
    and entry_set: "entry (set_key k v s) k' = (if k' = k then Some v else entry s k')"
    and entry_del: "entry (del_key k s) k' = (if k' = k then None else entry s k')"
    and wf_new: "wf new"
    and wf_set: "wf s \<Longrightarrow> wf (set_key k v s)"
    and wf_del: "wf s \<Longrightarrow> wf (del_key k s)"
    and entry_filter: "wf s \<Longrightarrow> gm_get (filter_keys P s) k = (if P k then entry s k else None)"
    and wf_filter: "wf s \<Longrightarrow> gm_wf (filter_keys P s)"
begin

text \<open>Deleting keys one after the other removes those keys and nothing else.\<close>

lemma entry_del_all:
  "entry (fold del_key ks s) k = (if k \<in> set ks then None else entry s k)"
  by (induction ks arbitrary: s) (auto simp: entry_del)

lemma wf_del_all: "wf s \<Longrightarrow> wf (fold del_key ks s)"
  by (induction ks arbitrary: s) (auto intro: wf_del)

text \<open>
  The cleanup loops of the agent: walk over a filtered copy of the store and delete the entries
  whose value satisfies a test.
\<close>

definition del_matching :: "('v option \<Rightarrow> bool) \<Rightarrow> 'v option gomap \<Rightarrow> 's \<Rightarrow> 's" where
  "del_matching c m s = fold del_key (map fst (filter (\<lambda>(k, v). c v) m)) s"

lemma entry_del_matching:
  assumes "wf s"
  shows "entry (del_matching c (filter_keys P s) s) k =
           (case entry s k of
              Some v \<Rightarrow> if P k \<and> c v then None else Some v
            | None \<Rightarrow> None)"
proof -
  have "k \<in> set (map fst (filter (\<lambda>(k, v). c v) (filter_keys P s))) \<longleftrightarrow>
        (\<exists>v. (k, v) \<in> set (filter_keys P s) \<and> c v)"
    by force
  also have "\<dots> \<longleftrightarrow> (\<exists>v. P k \<and> entry s k = Some v \<and> c v)"
    using assms by (auto simp: gm_get_in_set wf_filter entry_filter split: if_splits)
  finally show ?thesis
    by (auto simp: del_matching_def entry_del_all split: option.splits)
qed

end

section \<open>The store satisfies the interface\<close>

definition mem_entry :: "'v store \<Rightarrow> string \<Rightarrow> 'v option option" where
  "mem_entry s k = gm_get (store_m s) k"

lemma gm_get_copy:
  "gm_get (fold (\<lambda>(k, v) acc. if P k then gm_set k v acc else acc) m acc) k' =
     (if P k' \<and> k' \<in> fst ` set m then gm_get (rev m) k' else gm_get acc k')"
proof (induction m arbitrary: acc)
  case Nil
  then show ?case by simp
next
  case (Cons x m)
  obtain k v where x: "x = (k, v)" by (cases x)
  have "k' \<in> fst ` set m \<Longrightarrow> gm_get (rev m @ [(k, v)]) k' = gm_get (rev m) k'"
  proof -
    assume "k' \<in> fst ` set m"
    then have "gm_get (rev m) k' \<noteq> None"
      by (subst gm_get_dom [symmetric]) simp
    then show ?thesis by (auto simp: gm_get_def map_add_def split: option.splits)
  qed
  moreover have "k' \<notin> fst ` set m \<Longrightarrow> gm_get (rev m @ [(k, v)]) k' = (if k' = k then Some v else None)"
  proof -
    assume "k' \<notin> fst ` set m"
    then have "gm_get (rev m) k' = None"
      using gm_get_dom [of k' "rev m"] by simp
    then show ?thesis by (auto simp: gm_get_def map_add_def split: option.splits)
  qed
  ultimately show ?case by (auto simp: Cons.IH x)
qed

lemma gm_get_rev:
  assumes "gm_wf m"
  shows "gm_get (rev m) k = gm_get m k"
proof (cases "gm_get m k")
  case None
  then show ?thesis using gm_get_dom [of k m] gm_get_dom [of k "rev m"] by simp
next
  case (Some v)
  have "gm_wf (rev m)" using assms by (simp add: gm_wf_def rev_map [symmetric])
  then have "gm_get (rev m) k = Some v \<longleftrightarrow> gm_get m k = Some v"
    using assms by (simp add: gm_get_in_set [symmetric])
  with Some show ?thesis by simp
qed

lemma gm_wf_copy:
  "gm_wf acc \<Longrightarrow> gm_wf (fold (\<lambda>(k, v) acc. if P k then gm_set k v acc else acc) m acc)"
  by (induction m arbitrary: acc) auto

lemma mem_Filter_get:
  assumes "mem_wf s"
  shows "gm_get (mem_Filter P s) k = (if P k then mem_entry s k else None)"
proof -
  have "k \<notin> fst ` set (store_m s) \<Longrightarrow> gm_get (store_m s) k = None"
    using gm_get_dom by blast
  then show ?thesis
    using assms gm_get_rev [of "store_m s" k]
    by (simp add: mem_Filter_def gm_get_copy mem_entry_def mem_wf_def)
qed

lemma mem_List_Filter: "mem_List s = mem_Filter (\<lambda>_. True) s"
  by (simp add: mem_List_def mem_Filter_def)

interpretation ms: key_store mem_New mem_Set mem_Del mem_entry mem_Filter mem_wf
proof unfold_locales
  fix P k and s :: "'v store"
  assume "mem_wf s"
  then show "gm_get (mem_Filter P s) k = (if P k then mem_entry s k else None)"
    by (rule mem_Filter_get)
next
  fix P and s :: "'v store"
  show "gm_wf (mem_Filter P s)"
    unfolding mem_Filter_def by (rule gm_wf_copy) simp
qed (simp_all add: mem_New_def mem_Set_def mem_Del_def mem_entry_def mem_wf_def)

section \<open>Reading through the nil-valued accessors\<close>

lemma mem_Get_entry: "mem_Get s k = (case mem_entry s k of Some v \<Rightarrow> v | None \<Rightarrow> None)"
  by (simp add: mem_Get_def mem_entry_def)

lemma mem_Has_entry: "mem_Has s k \<longleftrightarrow> mem_entry s k \<noteq> None"
  by (simp add: mem_Has_def mem_entry_def)

lemma mem_Get_Set [simp]: "mem_Get (mem_Set k v s) k' = (if k' = k then v else mem_Get s k')"
  by (simp add: mem_Get_entry ms.entry_set)

lemma mem_Get_Del [simp]: "mem_Get (mem_Del k s) k' = (if k' = k then None else mem_Get s k')"
  by (simp add: mem_Get_entry ms.entry_del)

lemma mem_Has_Set [simp]: "mem_Has (mem_Set k v s) k' = (k' = k \<or> mem_Has s k')"
  by (simp add: mem_Has_entry ms.entry_set)

lemma mem_Has_Del [simp]: "mem_Has (mem_Del k s) k' = (k' \<noteq> k \<and> mem_Has s k')"
  by (simp add: mem_Has_entry ms.entry_del)

lemma mem_New_simps [simp]: "mem_Get mem_New k = None" "mem_Has mem_New k = False" "mem_wf mem_New"
  by (simp_all add: mem_Get_entry mem_Has_entry ms.entry_new ms.wf_new)

lemma mem_wf_Set [simp]: "mem_wf s \<Longrightarrow> mem_wf (mem_Set k v s)"
  by (rule ms.wf_set)

lemma mem_wf_Del [simp]: "mem_wf s \<Longrightarrow> mem_wf (mem_Del k s)"
  by (rule ms.wf_del)

end
