(* ===== verification/Wire.thy ===== *)
theory Wire
  imports Prelude
begin

text \<open>
  Byte-level input and output shared by the PostgreSQL, SQL Server and MongoDB codecs: the
  fixed-width integers of \<open>encoding/binary\<close> in both byte orders, \<open>io.ReadFull\<close> on a stream
  of bytes, slice expressions, which panic out of range, and the contract of a packet codec.
\<close>

named_theorems wire \<open>lengths and round trips of fixed-width integers\<close>

section \<open>Fixed-width integers\<close>

fun put_le :: "nat \<Rightarrow> nat \<Rightarrow> bytes" where
  "put_le 0 v = []"
| "put_le (Suc n) v = word_of_nat (v mod 256) # put_le n (v div 256)"

fun get_le :: "bytes \<Rightarrow> nat" where
  "get_le [] = 0"
| "get_le (b # bs) = unat b + 256 * get_le bs"

definition put_be :: "nat \<Rightarrow> nat \<Rightarrow> bytes" where
  "put_be n v = rev (put_le n v)"

definition get_be :: "bytes \<Rightarrow> nat" where
  "get_be bs = get_le (rev bs)"

section \<open>Reading\<close>

text \<open>
  \<open>io.ReadFull(r, buf)\<close> with a buffer of \<open>n\<close> bytes, and the rest of the stream.
\<close>

definition read_full :: "nat \<Rightarrow> bytes \<Rightarrow> (bytes \<times> bytes) result" where
  "read_full n r =
     (if n \<le> length r then Inr (take n r, drop n r)
      else if r = [] then Inl ''EOF'' else Inl ''unexpected EOF'')"

text \<open>
  A slice is the visible part of a backing array; \<open>spare\<close> is what the array holds behind it.
  \<open>s[lo:hi]\<close> may reach into the spare capacity, and panics beyond it.
\<close>

definition slice :: "nat \<Rightarrow> nat \<Rightarrow> bytes \<Rightarrow> bytes \<Rightarrow> bytes outcome" where
  "slice lo hi s spare =
     (if lo \<le> hi \<and> hi \<le> length s + length spare then Ret (take (hi - lo) (drop lo (s @ spare)))
      else Panic)"

text \<open>\<open>bytes.IndexByte(s, b)\<close>, with \<open>None\<close> for \<open>-1\<close>.\<close>

fun index_byte :: "bytes \<Rightarrow> 8 word \<Rightarrow> nat option" where
  "index_byte [] b = None"
| "index_byte (x # xs) b = (if x = b then Some 0 else map_option Suc (index_byte xs b))"

text \<open>\<open>make([]byte, n)\<close> followed by \<open>copy(dst, src)\<close>: cut off or padded with zeros.\<close>

definition copy_into :: "nat \<Rightarrow> bytes \<Rightarrow> bytes" where
  "copy_into n src = take n src @ replicate (n - length src) 0"

section \<open>The contract of a codec\<close>

text \<open>
  \<open>enc\<close> writes a packet, \<open>dec\<close> reads one from the front of a stream, and \<open>ok\<close> says which
  packets the code means to write.
\<close>

locale packet_codec =
  fixes enc :: "'p \<Rightarrow> bytes"
    and dec :: "bytes \<Rightarrow> ('p \<times> bytes) result"
    and ok :: "'p \<Rightarrow> bool"
  assumes dec_enc: "ok p \<Longrightarrow> dec (enc p @ rest) = Inr (p, rest)"
begin

lemma unique_decoding:
  assumes "ok p" "ok q" "enc p @ r = enc q @ s"
  shows "p = q \<and> r = s"
proof -
  have "dec (enc p @ r) = Inr (p, r)" by (rule dec_enc [OF assms(1)])
  moreover have "dec (enc p @ r) = Inr (q, s)"
    unfolding assms(3) by (rule dec_enc [OF assms(2)])
  ultimately show ?thesis by simp
qed

lemma enc_inj: "ok p \<Longrightarrow> ok q \<Longrightarrow> enc p = enc q \<Longrightarrow> p = q"
  using unique_decoding [of p q "[]" "[]"] by simp

primrec dec_many :: "nat \<Rightarrow> bytes \<Rightarrow> ('p list \<times> bytes) result" where
  "dec_many 0 bs = Inr ([], bs)"
| "dec_many (Suc n) bs =
     bind_result (dec bs) (\<lambda>(p, rest).
       bind_result (dec_many n rest) (\<lambda>(ps, rest'). Inr (p # ps, rest')))"

text \<open>A stream of packets written one after the other is read back packet by packet.\<close>

lemma stream_roundtrip:
  "(\<forall>p \<in> set ps. ok p) \<Longrightarrow> dec_many (length ps) (concat (map enc ps) @ rest) = Inr (ps, rest)"
  by (induction ps) (simp_all add: dec_enc)

end

section \<open>Lemmas\<close>

lemma length_put_le [simp, wire]: "length (put_le n v) = n"
  by (induction n arbitrary: v) auto

lemma length_put_be [simp, wire]: "length (put_be n v) = n"
  by (simp add: put_be_def)

lemma get_put_le [simp, wire]: "get_le (put_le n v) = v mod 256 ^ n"
proof (induction n arbitrary: v)
  case 0
  then show ?case by simp
next
  case (Suc n)
  have "unat (word_of_nat (v mod 256) :: 8 word) = v mod 256"
    by (simp add: unat_of_nat)
  then show ?case by (simp add: Suc.IH mod_mult2_eq)
qed

lemma get_put_be [simp, wire]: "get_be (put_be n v) = v mod 256 ^ n"
  by (simp add: get_be_def put_be_def)

lemma put_get_le [simp, wire]: "put_le (length bs) (get_le bs) = bs"
proof (induction bs)
  case Nil
  then show ?case by simp
next
  case (Cons b bs)
  have b: "unat b < 256" using unsigned_less [of b] by simp
  then have "(unat b + 256 * get_le bs) div 256 = get_le bs" by simp
  with b Cons show ?case by simp
qed

lemma put_get_be: "length bs = n \<Longrightarrow> put_be n (get_be bs) = bs"
  using put_get_le [of "rev bs"] by (simp add: put_be_def get_be_def)

lemma put_get_le_n: "length bs = n \<Longrightarrow> put_le n (get_le bs) = bs"
  using put_get_le by blast

lemma get_le_bound: "get_le bs < 256 ^ length bs"
proof (induction bs)
  case Nil
  then show ?case by simp
next
  case (Cons b bs)
  have "unat b < 256" using unsigned_less [of b] by simp
  with Cons show ?case by simp
qed

lemma get_be_bound: "get_be bs < 256 ^ length bs"
  using get_le_bound [of "rev bs"] by (simp add: get_be_def)

lemma get_be_Cons: "get_be (b # bs) = unat b * 256 ^ length bs + get_be bs"
proof -
  have app: "get_le (xs @ [y]) = get_le xs + 256 ^ length xs * unat y" for xs y
    by (induction xs) (auto simp: algebra_simps)
  show ?thesis by (simp add: get_be_def app)
qed

lemma read_full_append [simp]: "length a = n \<Longrightarrow> read_full n (a @ rest) = Inr (a, rest)"
  by (simp add: read_full_def)

lemma read_full_Inr: "read_full n r = Inr (a, rest) \<longleftrightarrow> r = a @ rest \<and> length a = n"
  by (auto simp: read_full_def)

lemma copy_into_exact [simp]: "length src = n \<Longrightarrow> copy_into n src = src"
  by (simp add: copy_into_def)

lemma length_copy_into [simp]: "length (copy_into n src) = n"
  by (simp add: copy_into_def)

lemma index_byte_append: "b \<notin> set a \<Longrightarrow> index_byte (a @ b # c) b = Some (length a)"
  by (induction a) auto

lemma index_byte_None: "index_byte s b = None \<longleftrightarrow> b \<notin> set s"
  by (induction s) auto

end
