(* ===== verification/PgTypes.thy ===== *)
theory PgTypes
  imports Wire
begin

text \<open>
  The PostgreSQL wire format of \<open>src/common/pgtypes\<close>: \<open>packet.go\<close> and the tables of
  \<open>const.go\<close>.  A reader is the list of bytes still to be read.  A packet carries an optional
  type byte, the four length bytes, which count themselves, and the frame.
\<close>

section \<open>Constants\<close>

abbreviation DefaultBufferSize :: nat where "DefaultBufferSize \<equiv> 16777216"

abbreviation ClientBind :: "8 word" where "ClientBind \<equiv> 0x42"
abbreviation ClientClose :: "8 word" where "ClientClose \<equiv> 0x43"
abbreviation ClientCopyData :: "8 word" where "ClientCopyData \<equiv> 0x64"
abbreviation ClientCopyDone :: "8 word" where "ClientCopyDone \<equiv> 0x63"
abbreviation ClientCopyFail :: "8 word" where "ClientCopyFail \<equiv> 0x66"
abbreviation ClientDescribe :: "8 word" where "ClientDescribe \<equiv> 0x44"
abbreviation ClientExecute :: "8 word" where "ClientExecute \<equiv> 0x45"
abbreviation ClientFlush :: "8 word" where "ClientFlush \<equiv> 0x48"
abbreviation ClientParse :: "8 word" where "ClientParse \<equiv> 0x50"
abbreviation ClientPassword :: "8 word" where "ClientPassword \<equiv> 0x70"
abbreviation ClientSimpleQuery :: "8 word" where "ClientSimpleQuery \<equiv> 0x51"
abbreviation ClientSync :: "8 word" where "ClientSync \<equiv> 0x53"
abbreviation ClientTerminate :: "8 word" where "ClientTerminate \<equiv> 0x58"
abbreviation ServerErrorResponse :: "8 word" where "ServerErrorResponse \<equiv> 0x45"

abbreviation ClientCancelRequestMessage :: nat where "ClientCancelRequestMessage \<equiv> 80877102"
abbreviation ClientSSLRequestMessage :: nat where "ClientSSLRequestMessage \<equiv> 80877103"
abbreviation ClientGSSENCRequestMessage :: nat where "ClientGSSENCRequestMessage \<equiv> 80877104"

abbreviation LevelFatal :: string where "LevelFatal \<equiv> ''FATAL''"
abbreviation ConnectionFailure :: string where "ConnectionFailure \<equiv> ''08006''"

definition clientPacketType :: "(8 word \<times> string) list" where
  "clientPacketType =
     [(ClientBind, ''ClientBind''), (ClientClose, ''ClientClose''), (ClientCopyData, ''ClientCopyData''),
      (ClientCopyDone, ''ClientCopyDone''), (ClientCopyFail, ''ClientCopyFail''),
      (ClientDescribe, ''ClientDescribe''), (ClientExecute, ''ClientExecute''),
      (ClientFlush, ''ClientFlush''), (ClientParse, ''ClientParse''), (ClientPassword, ''ClientPassword''),
      (ClientSimpleQuery, ''ClientSimpleQuery''), (ClientSync, ''ClientSync''),
      (ClientTerminate, ''ClientTerminate'')]"

definition pg_PacketType_String :: "8 word \<Rightarrow> string" where
  "pg_PacketType_String t = (case map_of clientPacketType t of Some s \<Rightarrow> s | None \<Rightarrow> ''unknown'')"

definition isClientType :: "8 word \<Rightarrow> bool" where
  "isClientType packetType = (map_of clientPacketType packetType \<noteq> None)"

section \<open>Packets\<close>

record pg_packet =
  pg_typ :: "8 word option"
  pg_header :: bytes
  pg_frame :: bytes

definition pg_HeaderLength :: "pg_packet \<Rightarrow> nat" where
  "pg_HeaderLength p = get_be (pg_header p)"

definition pg_Encode :: "pg_packet \<Rightarrow> bytes" where
  "pg_Encode p =
     (let dst = copy_into (pg_HeaderLength p) (pg_header p @ pg_frame p)
      in case pg_typ p of None \<Rightarrow> dst | Some t \<Rightarrow> t # dst)"

definition pg_Type :: "pg_packet \<Rightarrow> 8 word" where
  "pg_Type p = (case pg_typ p of Some t \<Rightarrow> t | None \<Rightarrow> 0)"

definition pg_Length :: "pg_packet \<Rightarrow> nat" where
  "pg_Length p = pg_HeaderLength p + 1"

definition pg_IsCancelRequest :: "pg_packet \<Rightarrow> bool" where
  "pg_IsCancelRequest p =
     (if length (pg_frame p) > 4
      then get_be (take 4 (pg_frame p)) = ClientCancelRequestMessage else False)"

definition pg_IsFrontendSSLRequest :: "pg_packet \<Rightarrow> bool" where
  "pg_IsFrontendSSLRequest p =
     (if length (pg_frame p) = 4
      then (let sslRequest = get_be (pg_frame p)
            in sslRequest = ClientSSLRequestMessage \<or> sslRequest = ClientGSSENCRequestMessage)
      else False)"

definition pg_max_size_error :: error where
  "pg_max_size_error = ''max size ('' @ nat_dec DefaultBufferSize @ '') reached''"

definition pg_Decode :: "bytes \<Rightarrow> (pg_packet \<times> bytes) result" where
  "pg_Decode data =
     (case data of [] \<Rightarrow> Inl ''EOF''
      | typ # data \<Rightarrow>
        if \<not> isClientType typ then
          bind_result (read_full 3 data) (\<lambda>(h, data).
            let header = typ # h; pktLen = int (get_be header) - 4
            in if pktLen > int DefaultBufferSize \<or> pktLen < 0 then Inl pg_max_size_error
               else (case read_full (nat pktLen) data of
                       Inl e \<Rightarrow> Inl (''failed reading packet frame, err='' @ e)
                     | Inr (frame, data) \<Rightarrow>
                         Inr (\<lparr>pg_typ = None, pg_header = header, pg_frame = frame\<rparr>, data)))
        else
          bind_result (read_full 4 data) (\<lambda>(header, data).
            let pktLen = int (get_be header) - 4
            in if pktLen > int DefaultBufferSize \<or> pktLen < 0 then Inl pg_max_size_error
               else bind_result (read_full (nat pktLen) data) (\<lambda>(frame, data).
                      Inr (\<lparr>pg_typ = Some typ, pg_header = header, pg_frame = frame\<rparr>, data))))"

text \<open>
  \<open>ParseQuery\<close> works on a slice, so it may read what the backing array holds behind the
  payload (\<open>spare\<close>), and panics where an index or a slice expression is out of range.
  \<open>Ret None\<close> is the result nil.
\<close>

definition pg_ParseQuery :: "bytes \<Rightarrow> bytes \<Rightarrow> bytes option outcome" where
  "pg_ParseQuery payload spare =
     (if payload = [] then Panic
      else if hd payload = ClientSimpleQuery then
        (case slice 1 5 payload spare of
           Panic \<Rightarrow> Panic
         | Ret lb \<Rightarrow> (case slice 5 (get_be lb) payload spare of Panic \<Rightarrow> Panic | Ret q \<Rightarrow> Ret (Some q)))
      else if hd payload = ClientParse then
        (if length payload \<le> 5 then Panic
         else (let isUnnamedPreparedStmt = (payload ! 5 = 0); payload = drop 5 payload;
                   rest = (if isUnnamedPreparedStmt then Some (drop 1 payload)
                           else map_option (\<lambda>idx. drop (idx + 1) payload) (index_byte payload 0))
               in case rest of
                    None \<Rightarrow> Ret None
                  | Some payload \<Rightarrow> (case index_byte payload 0 of
                      None \<Rightarrow> Ret None
                    | Some idx \<Rightarrow> Ret (Some (take idx payload)))))
      else Ret None)"

definition str_bytes :: "string \<Rightarrow> bytes" where
  "str_bytes s = map of_char s"

definition pg_setHeaderLength :: "nat \<Rightarrow> pg_packet \<Rightarrow> pg_packet" where
  "pg_setHeaderLength len p = p\<lparr>pg_header := put_be 4 len\<rparr>"

text \<open>The message of \<open>NewFatalError\<close> is the formatted one.\<close>

definition pg_NewFatalError :: "string \<Rightarrow> pg_packet" where
  "pg_NewFatalError msg =
     (let frame = str_bytes ''S'' @ str_bytes LevelFatal @ [0] @ str_bytes ''V'' @ str_bytes LevelFatal @ [0]
                  @ str_bytes ''C'' @ str_bytes ConnectionFailure @ [0] @ str_bytes ''M'' @ str_bytes msg @ [0, 0]
      in pg_setHeaderLength (length frame + 4)
           \<lparr>pg_typ = Some ServerErrorResponse, pg_header = [0, 0, 0, 0], pg_frame = frame\<rparr>)"

section \<open>Well-formed packets\<close>

text \<open>The packets \<open>Decode\<close> accepts: the length field matches the frame, which fits the buffer.\<close>

definition pg_ok :: "pg_packet \<Rightarrow> bool" where
  "pg_ok p \<longleftrightarrow> length (pg_header p) = 4 \<and> pg_HeaderLength p = length (pg_frame p) + 4 \<and>
     length (pg_frame p) \<le> DefaultBufferSize \<and> (\<forall>t. pg_typ p = Some t \<longrightarrow> isClientType t)"

lemma pg_Encode_ok:
  "pg_ok p \<Longrightarrow> pg_Encode p = (case pg_typ p of None \<Rightarrow> [] | Some t \<Rightarrow> [t]) @ pg_header p @ pg_frame p"
  by (auto simp: pg_ok_def pg_Encode_def Let_def split: option.splits)

text \<open>
  An untyped packet never looks like a typed one: its first length byte is 0 or 1, and no
  client type is.
\<close>

lemma pg_ok_untyped_hd:
  assumes "pg_ok p" "pg_header p = b # h"
  shows "\<not> isClientType b"
proof -
  have len: "length h = 3" using assms by (simp add: pg_ok_def)
  have "get_be (b # h) \<le> DefaultBufferSize + 4"
    using assms by (simp add: pg_ok_def pg_HeaderLength_def)
  then have "unat b * 16777216 \<le> 16777220"
    by (simp add: get_be_Cons len)
  then have "unat b \<le> 1" by linarith
  then have "b = 0 \<or> b = 1"
    by (metis One_nat_def le_Suc_eq le_zero_eq unsigned_1 unat_eq_zero word_unat_eq_iff)
  then show ?thesis by (auto simp: isClientType_def clientPacketType_def)
qed

lemma pg_Decode_Encode:
  assumes ok: "pg_ok p"
  shows "pg_Decode (pg_Encode p @ rest) = Inr (p, rest)"
proof (cases "pg_typ p")
  case None
  obtain b h where h: "pg_header p = b # h" "length h = 3"
    using ok by (cases "pg_header p") (auto simp: pg_ok_def)
  have "pg_Encode p @ rest = b # h @ pg_frame p @ rest"
    using ok None h by (simp add: pg_Encode_ok)
  moreover have "\<not> isClientType b" using ok h(1) by (rule pg_ok_untyped_hd)
  moreover have "get_be (b # h) = length (pg_frame p) + 4"
    using ok h by (simp add: pg_ok_def pg_HeaderLength_def)
  moreover have "p = \<lparr>pg_typ = None, pg_header = b # h, pg_frame = pg_frame p\<rparr>"
    using None h by simp
  ultimately show ?thesis
    using ok h by (simp add: pg_Decode_def pg_ok_def)
next
  case (Some t)
  have "pg_Encode p @ rest = t # pg_header p @ pg_frame p @ rest"
    using ok Some by (simp add: pg_Encode_ok)
  moreover have "isClientType t" using ok Some by (simp add: pg_ok_def)
  moreover have "get_be (pg_header p) = length (pg_frame p) + 4" "length (pg_header p) = 4"
    using ok by (simp_all add: pg_ok_def pg_HeaderLength_def)
  moreover have "p = \<lparr>pg_typ = Some t, pg_header = pg_header p, pg_frame = pg_frame p\<rparr>"
    using Some by simp
  ultimately show ?thesis
    using ok by (simp add: pg_Decode_def pg_ok_def)
qed

interpretation pgc: packet_codec pg_Encode pg_Decode pg_ok
  by unfold_locales (rule pg_Decode_Encode)

lemma pg_Decode_sound_untyped:
  assumes "\<not> isClientType t" "pg_Decode (t # bs) = Inr (p, rest)"
  shows "pg_ok p \<and> pg_Encode p @ rest = t # bs"
proof -
  from assms obtain h r where r: "read_full 3 bs = Inr (h, r)"
    by (cases "read_full 3 bs") (auto simp: pg_Decode_def)
  define n where "n = int (get_be (t # h)) - 4"
  from assms r have n: "0 \<le> n" "n \<le> int DefaultBufferSize"
    by (auto simp: pg_Decode_def n_def Let_def split: if_splits)
  with assms r obtain f where f: "read_full (nat n) r = Inr (f, rest)"
      and p: "p = \<lparr>pg_typ = None, pg_header = t # h, pg_frame = f\<rparr>"
    by (auto simp: pg_Decode_def n_def Let_def split: sum.splits if_splits)
  from r f have "bs = h @ f @ rest" "length h = 3" "length f = nat n"
    by (auto simp: read_full_Inr)
  moreover from this n p have "pg_ok p"
    by (auto simp: pg_ok_def pg_HeaderLength_def n_def)
  ultimately show ?thesis using p by (simp add: pg_Encode_ok)
qed

lemma pg_Decode_sound_typed:
  assumes "isClientType t" "pg_Decode (t # bs) = Inr (p, rest)"
  shows "pg_ok p \<and> pg_Encode p @ rest = t # bs"
proof -
  from assms obtain h r where r: "read_full 4 bs = Inr (h, r)"
    by (cases "read_full 4 bs") (auto simp: pg_Decode_def)
  define n where "n = int (get_be h) - 4"
  from assms r have n: "0 \<le> n" "n \<le> int DefaultBufferSize"
    by (auto simp: pg_Decode_def n_def Let_def split: if_splits)
  with assms r obtain f where f: "read_full (nat n) r = Inr (f, rest)"
      and p: "p = \<lparr>pg_typ = Some t, pg_header = h, pg_frame = f\<rparr>"
    by (cases "read_full (nat n) r") (auto simp: pg_Decode_def n_def Let_def split: if_splits)
  from r f have "bs = h @ f @ rest" "length h = 4" "length f = nat n"
    by (auto simp: read_full_Inr)
  moreover from this n p assms(1) have "pg_ok p"
    by (auto simp: pg_ok_def pg_HeaderLength_def n_def)
  ultimately show ?thesis using p by (simp add: pg_Encode_ok)
qed

lemma pg_Decode_sound:
  assumes "pg_Decode bs = Inr (p, rest)"
  shows "pg_ok p \<and> pg_Encode p @ rest = bs"
proof (cases bs)
  case Nil
  with assms show ?thesis by (simp add: pg_Decode_def)
next
  case (Cons t bs')
  with assms show ?thesis
    using pg_Decode_sound_typed pg_Decode_sound_untyped by (cases "isClientType t") blast+
qed

section \<open>Queries\<close>

text \<open>A simple query message, and a Parse message for a named or unnamed statement.\<close>

definition pg_simple_query :: "bytes \<Rightarrow> pg_packet" where
  "pg_simple_query q = \<lparr>pg_typ = Some ClientSimpleQuery, pg_header = put_be 4 (length q + 5), pg_frame = q @ [0]\<rparr>"

definition pg_parse_message :: "bytes \<Rightarrow> bytes \<Rightarrow> bytes \<Rightarrow> pg_packet" where
  "pg_parse_message name q params =
     (let frame = name @ [0] @ q @ [0] @ params
      in \<lparr>pg_typ = Some ClientParse, pg_header = put_be 4 (length frame + 4), pg_frame = frame\<rparr>)"

lemma pg_ok_intro:
  assumes "isClientType t" "length f \<le> DefaultBufferSize" "n = length f + 4"
  shows "pg_ok \<lparr>pg_typ = Some t, pg_header = put_be 4 n, pg_frame = f\<rparr>"
  using assms by (simp add: pg_ok_def pg_HeaderLength_def)

lemma isClientType_query [simp]: "isClientType ClientSimpleQuery" "isClientType ClientParse"
  "isClientType ClientExecute"
  by (simp_all add: isClientType_def clientPacketType_def)

lemma pg_simple_query_ok: "length q < DefaultBufferSize \<Longrightarrow> pg_ok (pg_simple_query q)"
  unfolding pg_simple_query_def by (rule pg_ok_intro) simp_all

lemma pg_parse_message_ok:
  "length name + length q + length params + 2 \<le> DefaultBufferSize \<Longrightarrow> pg_ok (pg_parse_message name q params)"
  unfolding pg_parse_message_def Let_def by (rule pg_ok_intro) simp_all

lemma pg_ParseQuery_simple:
  assumes "length q < DefaultBufferSize"
  shows "pg_ParseQuery (pg_Encode (pg_simple_query q)) spare = Ret (Some q)"
proof -
  have e: "pg_Encode (pg_simple_query q) = ClientSimpleQuery # put_be 4 (length q + 5) @ q @ [0]"
    using pg_Encode_ok [OF pg_simple_query_ok [OF assms]] by (simp add: pg_simple_query_def)
  have "slice 1 5 (pg_Encode (pg_simple_query q)) spare = Ret (put_be 4 (length q + 5))"
    by (simp add: slice_def e)
  moreover have "get_be (put_be 4 (length q + 5)) = length q + 5"
    using assms by simp
  ultimately show ?thesis
    by (simp add: pg_ParseQuery_def e slice_def)
qed

lemma pg_ParseQuery_parse:
  assumes "0 \<notin> set name" "0 \<notin> set q" "length name + length q + length params + 2 \<le> DefaultBufferSize"
  shows "pg_ParseQuery (pg_Encode (pg_parse_message name q params)) spare = Ret (Some q)"
proof -
  let ?h = "put_be 4 (length (name @ [0] @ q @ [0] @ params) + 4)"
  have e: "pg_Encode (pg_parse_message name q params) = ClientParse # ?h @ name @ [0] @ q @ [0] @ params"
    using pg_Encode_ok [OF pg_parse_message_ok [OF assms(3)]] by (simp add: pg_parse_message_def Let_def)
  have q: "index_byte (q @ 0 # params) 0 = Some (length q)"
    using assms(2) by (rule index_byte_append)
  have n: "(ClientParse # ?h @ name @ [0] @ q @ [0] @ params) ! 5 = (name @ [0]) ! 0"
    by (cases name) (simp_all add: nth_append)
  show ?thesis
  proof (cases name)
    case Nil
    with n q show ?thesis unfolding e by (simp add: pg_ParseQuery_def Let_def)
  next
    case (Cons a as)
    have "index_byte (name @ 0 # q @ 0 # params) 0 = Some (length name)"
      using assms(1) by (rule index_byte_append)
    with Cons n q assms(1) show ?thesis
      unfolding e by (simp add: pg_ParseQuery_def Let_def)
  qed
qed

lemma pg_NewFatalError_ok:
  assumes "length msg + 28 \<le> DefaultBufferSize"
  shows "pg_ok (pg_NewFatalError msg)"
  using assms
  by (simp add: pg_ok_def pg_NewFatalError_def pg_setHeaderLength_def Let_def pg_HeaderLength_def str_bytes_def)

section \<open>Properties\<close>

text \<open>
  C16: \<open>Decode\<close> accepts exactly the encodings of well-formed packets: it returns a packet and the
  rest of the stream if and only if the packet's length field matches its frame, the frame fits
  the buffer, a type byte is a client type, and the stream starts with the packet's encoding.
\<close>

theorem pg_decode_exact:
  "pg_Decode bs = Inr (p, rest) \<longleftrightarrow> pg_ok p \<and> bs = pg_Encode p @ rest"
  using pg_Decode_sound [of bs p rest] pg_Decode_Encode [of p rest] by blast

text \<open>
  C27: \<open>ParseQuery\<close> returns the statement of a simple query message, and that of a Parse message
  with or without a statement name, whatever the backing array holds behind the message.
\<close>

theorem pg_parse_query_extracts:
  assumes "0 \<notin> set name" "0 \<notin> set q" "length name + length q + length params + 2 \<le> DefaultBufferSize"
  shows "pg_ParseQuery (pg_Encode (pg_simple_query q)) spare = Ret (Some q) \<and>
    pg_ParseQuery (pg_Encode (pg_parse_message name q params)) spare = Ret (Some q)"
  using pg_ParseQuery_simple [of q spare] pg_ParseQuery_parse [OF assms] assms(3) by simp_all

theorem pg_parse_query_extracts_witness:
  "pg_ParseQuery (pg_Encode (pg_simple_query (str_bytes ''select 1''))) [7] = Ret (Some (str_bytes ''select 1''))"
  using pg_parse_query_extracts [of "[]" "str_bytes ''select 1''" "[]" "[7]"] by (simp add: str_bytes_def)

end
