(* ===== verification/MongoTypes.thy ===== *)
theory MongoTypes
  imports Wire
begin

text \<open>
  The MongoDB wire packet of \<open>src/common/mongotypes/packet.go\<close>: a header of four little-endian
  32-bit words and a frame.  The length field counts the header, and \<open>Decode\<close> subtracts its 16 bytes
  in 32-bit arithmetic, so a length below 16 wraps around to almost four gigabytes.

  The reading of the sections of an \<open>OP_MSG\<close> and the printing of documents are functions of the
  MongoDB driver and parameters here.
\<close>

abbreviation OpMsgType :: "32 word" where "OpMsgType \<equiv> 2013"

record mongo_header =
  mh_MessageLength :: "32 word"
  mh_RequestID :: "32 word"
  mh_ResponseTo :: "32 word"
  mh_OpCode :: "32 word"

definition mongo_header_Encode :: "mongo_header \<Rightarrow> bytes" where
  "mongo_header_Encode h =
     put_le 4 (unat (mh_MessageLength h)) @ put_le 4 (unat (mh_RequestID h)) @
     put_le 4 (unat (mh_ResponseTo h)) @ put_le 4 (unat (mh_OpCode h))"

record mongo_packet =
  mp_MessageLength :: "32 word"
  mp_RequestID :: "32 word"
  mp_ResponseTo :: "32 word"
  mp_OpCode :: "32 word"
  mp_Frame :: bytes

definition mongo_Encode :: "mongo_packet \<Rightarrow> bytes" where
  "mongo_Encode p =
     put_le 4 (unat (mp_MessageLength p)) @ put_le 4 (unat (mp_RequestID p)) @
     put_le 4 (unat (mp_ResponseTo p)) @ put_le 4 (unat (mp_OpCode p)) @ mp_Frame p"

definition mongo_Decode :: "bytes \<Rightarrow> (mongo_packet \<times> bytes) result" where
  "mongo_Decode r =
     bind_result (read_full 16 r) (\<lambda>(header, r).
       let len = word_of_nat (get_le (take 4 header)) :: 32 word;
           pktLen = unat (len - 16)
       in bind_result (read_full pktLen r) (\<lambda>(frame, r).
            Inr (\<lparr>mp_MessageLength = len,
                  mp_RequestID = word_of_nat (get_le (take 4 (drop 4 header))),
                  mp_ResponseTo = word_of_nat (get_le (take 4 (drop 8 header))),
                  mp_OpCode = word_of_nat (get_le (take 4 (drop 12 header))),
                  mp_Frame = frame\<rparr>, r)))"

section \<open>OP\_MSG\<close>

datatype section_type = SingleDocument | DocumentSequence | OtherSection nat

text \<open>
  The driver: the type of the next section, the document or documents of a section with the rest
  of the message, and the extended JSON of a document.
\<close>

record 'd mongo_libs =
  ml_sectionType :: "bytes \<Rightarrow> (section_type \<times> bytes) option"
  ml_document :: "bytes \<Rightarrow> ('d \<times> bytes) option"
  ml_documents :: "bytes \<Rightarrow> ('d list \<times> bytes) option"
  ml_extJSON :: "'d \<Rightarrow> string result"

text \<open>
  The loop over the sections.  The fuel is the length of the message plus one: the driver's readers
  consume at least the type byte of a section, so it is enough whenever they do.
\<close>

fun op_msg_sections :: "'d mongo_libs \<Rightarrow> nat \<Rightarrow> bytes \<Rightarrow> 'd list \<Rightarrow> 'd list result option" where
  "op_msg_sections L 0 wm docs = None"
| "op_msg_sections L (Suc fuel) wm docs =
     (if wm = [] then Some (Inr docs)
      else case ml_sectionType L wm of
             None \<Rightarrow> Some (Inl ''failed decoding OP_MSG: unable to read section type'')
           | Some (stype, wm) \<Rightarrow>
               (case stype of
                  DocumentSequence \<Rightarrow>
                    (case ml_documents L wm of
                       None \<Rightarrow> Some (Inl ''failed decoding OP_MSG: wiremessage is too short to unmarshal'')
                     | Some (ds, wm) \<Rightarrow> op_msg_sections L fuel wm (docs @ ds))
                | SingleDocument \<Rightarrow>
                    (case ml_document L wm of
                       None \<Rightarrow> Some (Inl ''failed decoding OP_MSG: wiremessage is too short to unmarshal'')
                     | Some (d, wm) \<Rightarrow> op_msg_sections L fuel wm (docs @ [d]))
                | OtherSection n \<Rightarrow>
                    Some (Inl (''failed decoding OP_MSG: found unknown section type ('' @ nat_dec n @ '')''))))"

fun docs_json :: "'d mongo_libs \<Rightarrow> 'd list \<Rightarrow> string \<Rightarrow> string result" where
  "docs_json L [] result = Inr result"
| "docs_json L (d # ds) result =
     (case ml_extJSON L d of
        Inl _ \<Rightarrow> Inl ''failed decoding OP_MSG: unable to re-encode document to json''
      | Inr data \<Rightarrow> docs_json L ds (result @ data @ [CHR 0x0A]))"

text \<open>
  \<open>pkt.Frame[4:]\<close> panics on a frame shorter than four bytes.  \<open>Ret (Inr None)\<close> is the nil result
  for other operations.
\<close>

definition DecodeOpMsgToJSON :: "'d mongo_libs \<Rightarrow> mongo_packet \<Rightarrow> string option result outcome option" where
  "DecodeOpMsgToJSON L pkt =
     (if mp_OpCode pkt \<noteq> OpMsgType then Some (Ret (Inr None))
      else if length (mp_Frame pkt) < 4 then Some Panic
      else let wm = drop 4 (mp_Frame pkt) in
        map_option (\<lambda>r. Ret (bind_result r (\<lambda>docs. map_sum (\<lambda>e. e) Some (docs_json L docs ''''))))
          (op_msg_sections L (length wm + 1) wm []))"

section \<open>Properties\<close>

definition mongo_ok :: "mongo_packet \<Rightarrow> bool" where
  "mongo_ok p \<longleftrightarrow> length (mp_Frame p) + 16 < 2 ^ 32 \<and> mp_MessageLength p = word_of_nat (length (mp_Frame p) + 16)"

lemma unat_le_word [simp]: "word_of_nat (get_le (put_le 4 (unat w))) = (w :: 32 word)"
proof -
  have "unat w < 2 ^ 32" using unsigned_less [of w] by simp
  then show ?thesis by simp
qed

lemma unat_mod_32 [simp]: "unat (w :: 32 word) mod 4294967296 = unat w"
proof -
  have "unat w < 2 ^ 32" using unsigned_less [of w] by simp
  then show ?thesis by simp
qed

lemma mongo_ok_length:
  assumes "mongo_ok p"
  shows "unat (mp_MessageLength p - 16) = length (mp_Frame p)"
proof -
  have "mp_MessageLength p - 16 = (word_of_nat (length (mp_Frame p)) :: 32 word)"
    using assms by (simp add: mongo_ok_def)
  then show ?thesis using assms by (simp add: mongo_ok_def unat_of_nat)
qed

lemma mongo_Decode_Encode:
  assumes "mongo_ok p"
  shows "mongo_Decode (mongo_Encode p @ rest) = Inr (p, rest)"
proof -
  let ?h = "put_le 4 (unat (mp_MessageLength p)) @ put_le 4 (unat (mp_RequestID p)) @
     put_le 4 (unat (mp_ResponseTo p)) @ put_le 4 (unat (mp_OpCode p))"
  have e: "mongo_Encode p @ rest = ?h @ mp_Frame p @ rest" by (simp add: mongo_Encode_def)
  have "read_full 16 (mongo_Encode p @ rest) = Inr (?h, mp_Frame p @ rest)"
    unfolding e by (rule read_full_append) simp
  then show ?thesis
    by (simp add: mongo_Decode_def Let_def mongo_ok_length [OF assms])
qed

interpretation mgc: packet_codec mongo_Encode mongo_Decode mongo_ok
  by unfold_locales (rule mongo_Decode_Encode)

lemma mongo_Decode_sound:
  assumes "mongo_Decode bs = Inr (p, rest)"
  shows "mongo_Encode p @ rest = bs \<and> length (mp_Frame p) = unat (mp_MessageLength p - 16)"
proof -
  obtain h r where h: "read_full 16 bs = Inr (h, r)"
    using assms by (cases "read_full 16 bs") (auto simp: mongo_Decode_def)
  define len where "len = (word_of_nat (get_le (take 4 h)) :: 32 word)"
  obtain f where f: "read_full (unat (len - 16)) r = Inr (f, rest)"
    and p: "p = \<lparr>mp_MessageLength = len, mp_RequestID = word_of_nat (get_le (take 4 (drop 4 h))),
       mp_ResponseTo = word_of_nat (get_le (take 4 (drop 8 h))), mp_OpCode = word_of_nat (get_le (take 4 (drop 12 h))),
       mp_Frame = f\<rparr>"
    using assms h by (cases "read_full (unat (len - 16)) r") (auto simp: mongo_Decode_def Let_def len_def)
  have b: "bs = h @ f @ rest" "length h = 16" "length f = unat (len - 16)"
    using h f by (auto simp: read_full_Inr)
  have again: "put_le 4 (unat (word_of_nat (get_le x) :: 32 word)) = x" if "length x = 4" for x
  proof -
    have "get_le x < 2 ^ 32" using get_le_bound [of x] that by simp
    then show ?thesis using put_get_le_n [OF that] by (simp add: unat_of_nat)
  qed
  have "take 4 h @ take 4 (drop 4 h) @ take 4 (drop 8 h) @ take 4 (drop 12 h) = h"
  proof -
    have "take 4 h @ take 4 (drop 4 h) @ take 4 (drop 4 (drop 4 h)) @ drop 4 (drop 4 (drop 4 h)) = h"
      by (simp only: append_take_drop_id)
    moreover have "take 4 (drop 12 h) = drop 12 h" using b(2) by simp
    ultimately show ?thesis by simp
  qed
  then have "mongo_Encode p = h @ f" using b(2) by (simp add: mongo_Encode_def p len_def again)
  with b show ?thesis by (simp add: p)
qed

text \<open>
  C39: MongoDB packets survive the wire: whatever \<open>Decode\<close> accepts is exactly the encoding of the
  packet it returns, followed by the rest of the stream, and every packet whose length field
  counts its frame and header is decoded back.
\<close>

theorem mongo_roundtrip:
  "(mongo_Decode bs = Inr (p, rest) \<longrightarrow> bs = mongo_Encode p @ rest) \<and>
   (length (mp_Frame p) + 16 < 2 ^ 32 \<longrightarrow> mp_MessageLength p = word_of_nat (length (mp_Frame p) + 16) \<longrightarrow>
      mongo_Decode (mongo_Encode p @ rest) = Inr (p, rest))"
  using mongo_Decode_sound [of bs p rest] mongo_Decode_Encode [of p rest] by (auto simp: mongo_ok_def)

definition demo_mongo :: mongo_packet where
  "demo_mongo = \<lparr>mp_MessageLength = 18, mp_RequestID = 7, mp_ResponseTo = 0, mp_OpCode = OpMsgType, mp_Frame = [1, 2]\<rparr>"

theorem mongo_roundtrip_witness:
  "mongo_Decode (mongo_Encode demo_mongo @ [9]) = Inr (demo_mongo, [9])"
  using mongo_roundtrip [of "[]" demo_mongo "[9]"] by (simp add: demo_mongo_def)

text \<open>
  A length field below 16 is not refused: the subtraction wraps around, and \<open>Decode\<close> asks for
  more than four billion bytes instead of reporting a malformed header.
\<close>

theorem mongo_short_length_wraps:
  assumes "unat (w :: 32 word) < 16" "length h = 12" "length rest < 2 ^ 32 - 16"
  shows "mongo_Decode (put_le 4 (unat w) @ h @ rest) = Inl (if rest = [] then ''EOF'' else ''unexpected EOF'')"
proof -
  have "unat (w - 16) = unat w + 2 ^ 32 - 16"
    using unat_sub_if' [of w 16] assms(1) by simp
  with assms(3) have "\<not> unat (w - 16) \<le> length rest" by simp
  moreover have "read_full 16 (put_le 4 (unat w) @ h @ rest) = Inr (put_le 4 (unat w) @ h, rest)"
    using read_full_append [of "put_le 4 (unat w) @ h" 16 rest] assms(2) by simp
  ultimately show ?thesis by (simp add: mongo_Decode_def Let_def read_full_def)
qed

theorem mongo_short_length_wraps_witness:
  "mongo_Decode (put_le 4 (unat (3 :: 32 word)) @ replicate 12 0 @ [1]) = Inl ''unexpected EOF''"
  using mongo_short_length_wraps [of 3 "replicate 12 0" "[1]"] by simp

text \<open>The driver reads forward: the type byte is consumed and a document never puts bytes back.\<close>

definition reads_forward :: "'d mongo_libs \<Rightarrow> bool" where
  "reads_forward L \<longleftrightarrow>
     (\<forall>wm t r. ml_sectionType L wm = Some (t, r) \<longrightarrow> length r < length wm) \<and>
     (\<forall>wm d r. ml_document L wm = Some (d, r) \<longrightarrow> length r \<le> length wm) \<and>
     (\<forall>wm d r. ml_documents L wm = Some (d, r) \<longrightarrow> length r \<le> length wm)"

lemma op_msg_sections_terminates:
  assumes "reads_forward L" "length wm < fuel"
  shows "op_msg_sections L fuel wm docs \<noteq> None"
  using assms(2)
proof (induction fuel arbitrary: wm docs)
  case 0
  then show ?case by simp
next
  case (Suc fuel)
  have next_ok: "op_msg_sections L fuel r' ds \<noteq> None"
    if "ml_sectionType L wm = Some (t, r)" "length r' \<le> length r" for t r r' ds
    using that Suc.prems assms(1) by (intro Suc.IH) (fastforce simp: reads_forward_def)
  show ?case
    using next_ok assms(1)
    by (auto simp: reads_forward_def split: option.splits section_type.splits)
qed

text \<open>
  C40: the section loop of \<open>DecodeOpMsgToJSON\<close> ends: with a driver that reads forward it returns a
  result, an error or, for a frame without flag bits, a panic, for every packet.
\<close>

theorem mongo_op_msg_terminates:
  assumes "reads_forward L"
  shows "DecodeOpMsgToJSON L pkt \<noteq> None"
  using op_msg_sections_terminates [OF assms, of "drop 4 (mp_Frame pkt)" "length (drop 4 (mp_Frame pkt)) + 1" "[]"]
  by (simp add: DecodeOpMsgToJSON_def Let_def del: op_msg_sections.simps)

definition demo_mongo_libs :: "8 word mongo_libs" where
  "demo_mongo_libs = \<lparr>
     ml_sectionType = (\<lambda>wm. case wm of [] \<Rightarrow> None | t # r \<Rightarrow> Some (if t = 0 then SingleDocument else OtherSection (unat t), r)),
     ml_document = (\<lambda>wm. case wm of [] \<Rightarrow> None | d # r \<Rightarrow> Some (d, r)),
     ml_documents = (\<lambda>_. None), ml_extJSON = (\<lambda>d. Inr (nat_dec (unat d)))\<rparr>"

theorem mongo_op_msg_terminates_witness:
  "DecodeOpMsgToJSON demo_mongo_libs (demo_mongo\<lparr>mp_Frame := [0, 0, 0, 0, 0, 5]\<rparr>) \<noteq> None"
  by (rule mongo_op_msg_terminates) (auto simp: reads_forward_def demo_mongo_libs_def split: list.splits)

end
