(* ===== verification/MssqlTypes.thy ===== *)
theory MssqlTypes
  imports Wire
begin

text \<open>
  The TDS packets of \<open>src/common/mssqltypes\<close>: \<open>packet.go\<close>, the packet types of \<open>const.go\<close>, the text
  of a SQL batch (\<open>sqlbatch.go\<close>) and the UCS-2 and password helpers of \<open>login.go\<close>.

  The length field has 16 bits, and the code computes with it in 16 bits.  A text is a list of
  runes, the code points of a Go string.
\<close>

unbundle bit_operations_syntax

section \<open>Packets\<close>

abbreviation PacketSQLBatchType :: "8 word" where "PacketSQLBatchType \<equiv> 0x01"
abbreviation PacketLogin7Type :: "8 word" where "PacketLogin7Type \<equiv> 0x10"

definition packetTypeMap :: "(8 word \<times> string) list" where
  "packetTypeMap =
     [(0x01, ''PacketSQLBatchType''), (0x03, ''PacketRPCRequestType''), (0x04, ''PacketReplyType''),
      (0x06, ''PacketAttentionType''), (0x07, ''PacketBulkLoadBCPType''), (0x0a, ''PacketFedAuthTokenType''),
      (0x0e, ''PacketTransMgrReqType''), (0x0f, ''PacketNormalType''), (0x10, ''PacketLogin7Type''),
      (0x11, ''PacketSSPIMessageType''), (0x12, ''PacketPreloginType'')]"

record tds_packet =
  tds_header :: bytes
  tds_Frame :: bytes

definition tds_NewHeader :: "8 word \<Rightarrow> nat \<Rightarrow> bytes" where
  "tds_NewHeader packetType dataSize =
     [packetType, 0x01] @ put_be 2 (unat (word_of_nat dataSize + 8 :: 16 word)) @ [0, 0, 0x01, 0]"

definition tds_New :: "8 word \<Rightarrow> bytes \<Rightarrow> tds_packet" where
  "tds_New typ data = \<lparr>tds_header = tds_NewHeader typ (length data), tds_Frame = data\<rparr>"

definition tds_Length :: "tds_packet \<Rightarrow> 16 word" where
  "tds_Length p = word_of_nat (get_be (take 2 (drop 2 (tds_header p))))"

definition tds_Type :: "tds_packet \<Rightarrow> 8 word" where
  "tds_Type p = hd (tds_header p)"

definition tds_Encode :: "tds_packet \<Rightarrow> bytes" where
  "tds_Encode p = copy_into (unat (tds_Length p)) (tds_header p @ tds_Frame p)"

text \<open>The verb \<open>%X\<close>: bytes as upper-case hexadecimal digits.\<close>

definition hex_upper :: "nat \<Rightarrow> char" where
  "hex_upper d = (if d < 10 then char_of (48 + d) else char_of (55 + d))"

definition show_X :: "bytes \<Rightarrow> string" where
  "show_X bs = concat (map (\<lambda>b. [hex_upper (unat b div 16), hex_upper (unat b mod 16)]) bs)"

text \<open>\<open>%X\<close> of a single byte is a number: no leading zero.\<close>

definition show_X_byte :: "8 word \<Rightarrow> string" where
  "show_X_byte b = (if unat b < 16 then [hex_upper (unat b)] else show_X [b])"

definition tds_Decode :: "bytes \<Rightarrow> (tds_packet \<times> bytes) result" where
  "tds_Decode data =
     bind_result (read_full 8 data) (\<lambda>(header, data).
       if map_of packetTypeMap (hd header) = None then
         Inl (''decoded an unknown packet type ['' @ show_X_byte (hd header) @ '']'')
       else
         let pktLen = unat (word_of_nat (get_be (take 2 (drop 2 header))) - 8 :: 16 word) in
         bind_result (read_full pktLen data) (\<lambda>(frame, data).
           Inr (\<lparr>tds_header = header, tds_Frame = frame\<rparr>, data)))"

text \<open>
  \<open>DecodeFull\<close> cuts the input into chunks of the maximal packet size and decodes one packet from
  each; a negative size makes the slice expression panic.
\<close>

function tds_decode_chunks :: "nat \<Rightarrow> bytes \<Rightarrow> tds_packet list result" where
  "tds_decode_chunks maxPacketSize p =
     (if p = [] then Inr []
      else let maxSize = min (length p) maxPacketSize in
        (case tds_Decode (take maxSize p) of
           Inl err \<Rightarrow> Inl err
         | Inr (pkt, _) \<Rightarrow>
             bind_result (tds_decode_chunks maxPacketSize (drop maxSize p)) (\<lambda>pkts. Inr (pkt # pkts))))"
  by pat_completeness auto
termination
proof (relation "measure (\<lambda>(m, p). length p)")
  fix m :: nat and p :: bytes and x b a y
  assume a: "p \<noteq> []" "x = min (length p) m" "tds_Decode (take x p) = Inr b" "(a, y) = b"
  have "x \<noteq> 0"
  proof
    assume "x = 0"
    with a(3) show False by (simp add: tds_Decode_def read_full_def)
  qed
  with a(1) show "((m, drop x p), (m, p)) \<in> measure (\<lambda>(m, p). length p)" by simp
qed simp

declare tds_decode_chunks.simps [simp del]

definition tds_DecodeFull :: "bytes \<Rightarrow> int \<Rightarrow> tds_packet list result outcome" where
  "tds_DecodeFull p maxPacketSize =
     (if p = [] then Ret (Inl ''unable to decode packets'')
      else if maxPacketSize < 0 then Panic
      else Ret (tds_decode_chunks (nat maxPacketSize) p))"

section \<open>Text\<close>

type_synonym runes = "nat list"

definition valid_rune :: "nat \<Rightarrow> bool" where
  "valid_rune r \<longleftrightarrow> r < 0xD800 \<or> 0xE000 \<le> r \<and> r \<le> 0x10FFFF"

text \<open>\<open>utf16.Encode\<close> and \<open>utf16.Decode\<close>.\<close>

definition utf16_encode_rune :: "nat \<Rightarrow> nat list" where
  "utf16_encode_rune r =
     (if r < 0xD800 \<or> 0xE000 \<le> r \<and> r < 0x10000 then [r]
      else if 0x10000 \<le> r \<and> r \<le> 0x10FFFF then [0xD800 + (r - 0x10000) div 0x400, 0xDC00 + (r - 0x10000) mod 0x400]
      else [0xFFFD])"

definition utf16_Encode :: "runes \<Rightarrow> nat list" where
  "utf16_Encode rs = concat (map utf16_encode_rune rs)"

fun utf16_Decode :: "nat list \<Rightarrow> runes" where
  "utf16_Decode [] = []"
| "utf16_Decode (u # us) =
     (if u < 0xD800 \<or> 0xE000 \<le> u then u # utf16_Decode us
      else case us of
             v # vs \<Rightarrow>
               if u < 0xDC00 \<and> 0xDC00 \<le> v \<and> v < 0xE000
               then (0x10000 + (u - 0xD800) * 0x400 + (v - 0xDC00)) # utf16_Decode vs
               else 0xFFFD # utf16_Decode us
           | [] \<Rightarrow> 0xFFFD # utf16_Decode us)"

text \<open>\<open>ucs22str\<close> reads past the end of an input of odd length, which panics.\<close>

fun ucs2_units :: "bytes \<Rightarrow> nat list option" where
  "ucs2_units [] = Some []"
| "ucs2_units [b] = None"
| "ucs2_units (a # b # s) = map_option (\<lambda>us. get_le [a, b] # us) (ucs2_units s)"

definition ucs22str :: "bytes \<Rightarrow> runes outcome" where
  "ucs22str s = (case ucs2_units s of None \<Rightarrow> Panic | Some us \<Rightarrow> Ret (utf16_Decode us))"

definition str2ucs2 :: "runes \<Rightarrow> bytes" where
  "str2ucs2 s = concat (map (put_le 2) (utf16_Encode s))"

definition mangle_byte :: "8 word \<Rightarrow> 8 word" where
  "mangle_byte ch = ((push_bit 4 ch AND 0xff) OR drop_bit 4 ch) XOR 0xA5"

definition manglePassword :: "runes \<Rightarrow> bytes" where
  "manglePassword password = map mangle_byte (str2ucs2 password)"

section \<open>SQL batches\<close>

definition DecodeSQLBatchToRawQuery :: "bytes \<Rightarrow> runes result outcome" where
  "DecodeSQLBatchToRawQuery data =
     (if length data < 12 then Ret (Inl (''not a valid sql batch type, data='' @ show_X data))
      else if hd data \<noteq> PacketSQLBatchType then
        Ret (Inl (''it'' @ [CHR 39] @ ''s not a sql batch type, found='' @ show_X_byte (hd data)))
      else
        (let packetNo = data ! 6; data = drop 8 data;
             text = (if packetNo = 0x01 then
                       (let batchHeaderLength = get_le (take 4 data) in
                        if batchHeaderLength > length (drop 4 data) then data else drop batchHeaderLength data)
                     else data)
         in case ucs22str text of Panic \<Rightarrow> Panic | Ret q \<Rightarrow> Ret (Inr q)))"

section \<open>Well-formed packets\<close>

definition tds_ok :: "tds_packet \<Rightarrow> bool" where
  "tds_ok p \<longleftrightarrow> length (tds_header p) = 8 \<and> map_of packetTypeMap (tds_Type p) \<noteq> None \<and>
     length (tds_Frame p) + 8 < 2 ^ 16 \<and> tds_Length p = word_of_nat (length (tds_Frame p) + 8)"

lemma tds_ok_Encode:
  assumes "tds_ok p"
  shows "tds_Encode p = tds_header p @ tds_Frame p"
proof -
  have "unat (tds_Length p) = (length (tds_Frame p) + 8) mod 2 ^ 16"
    using assms unat_of_nat [of "length (tds_Frame p) + 8", where 'a = 16]
    by (simp only: tds_ok_def) simp
  then have "unat (tds_Length p) = length (tds_header p @ tds_Frame p)"
    using assms by (simp add: tds_ok_def)
  then show ?thesis by (simp add: tds_Encode_def)
qed

lemma tds_ok_frame:
  assumes "tds_ok p"
  shows "unat (tds_Length p - 8) = length (tds_Frame p)"
proof -
  have "tds_Length p - 8 = (word_of_nat (length (tds_Frame p)) :: 16 word)"
    using assms by (simp add: tds_ok_def)
  then show ?thesis using assms by (simp add: tds_ok_def unat_of_nat)
qed

lemma tds_Decode_Encode:
  assumes "tds_ok p"
  shows "tds_Decode (tds_Encode p @ rest) = Inr (p, rest)"
proof -
  have "read_full 8 (tds_Encode p @ rest) = Inr (tds_header p, tds_Frame p @ rest)"
    using assms by (simp add: tds_ok_Encode tds_ok_def)
  then show ?thesis
    using assms tds_ok_frame [OF assms]
    by (simp add: tds_Decode_def tds_ok_def Let_def tds_Length_def tds_Type_def)
qed

interpretation tds: packet_codec tds_Encode tds_Decode tds_ok
  by unfold_locales (rule tds_Decode_Encode)

lemma tds_Decode_sound:
  assumes "tds_Decode bs = Inr (p, rest)" "8 \<le> unat (tds_Length p)"
  shows "tds_ok p \<and> bs = tds_Encode p @ rest"
proof -
  obtain h r where h: "read_full 8 bs = Inr (h, r)"
    using assms by (cases "read_full 8 bs") (auto simp: tds_Decode_def)
  define len where "len = (word_of_nat (get_be (take 2 (drop 2 h))) :: 16 word)"
  have t: "map_of packetTypeMap (hd h) \<noteq> None"
    using assms h by (auto simp: tds_Decode_def split: if_splits)
  with assms h obtain f where f: "read_full (unat (len - 8)) r = Inr (f, rest)"
    and p: "p = \<lparr>tds_header = h, tds_Frame = f\<rparr>"
    by (cases "read_full (unat (len - 8)) r") (auto simp: tds_Decode_def Let_def len_def)
  have b: "bs = h @ f @ rest" "length h = 8" "length f = unat (len - 8)"
    using h f by (auto simp: read_full_Inr)
  have "tds_Length p = len" by (simp add: p tds_Length_def len_def)
  with assms(2) have "8 \<le> unat len" by simp
  then have lf: "unat (len - 8) + 8 = unat len"
    using unat_sub_if' [of len 8] by simp
  have "unat len < 2 ^ 16" using unsigned_less [of len] by simp
  with b t lf \<open>tds_Length p = len\<close> have "tds_ok p"
    by (simp add: tds_ok_def p tds_Type_def)
  with b show ?thesis by (simp add: tds_ok_Encode p)
qed

lemma tds_New_ok:
  assumes "map_of packetTypeMap t \<noteq> None" "length d + 8 < 2 ^ 16"
  shows "tds_ok (tds_New t d)"
proof -
  have "unat (word_of_nat (length d) + 8 :: 16 word) = length d + 8"
    using assms(2) by (simp add: unat_of_nat unat_word_ariths)
  then have "tds_Length (tds_New t d) = word_of_nat (length d + 8)"
    using assms(2) by (simp add: tds_Length_def tds_New_def tds_NewHeader_def)
  with assms show ?thesis
    by (simp add: tds_ok_def tds_New_def tds_NewHeader_def tds_Type_def)
qed

text \<open>Packets of the maximal size, and a last one that may be shorter, are found again by \<open>DecodeFull\<close>.\<close>

lemma tds_decode_chunks_concat:
  assumes "\<forall>p \<in> set ps. tds_ok p \<and> length (tds_Encode p) = m" "tds_ok q" "length (tds_Encode q) \<le> m"
  shows "tds_decode_chunks m (concat (map tds_Encode ps) @ tds_Encode q) = Inr (ps @ [q])"
  using assms(1)
proof (induction ps)
  case Nil
  have ne: "tds_Encode q \<noteq> []" using assms(2) by (auto simp: tds_ok_Encode tds_ok_def)
  have "tds_Decode (tds_Encode q) = Inr (q, [])" using tds_Decode_Encode [OF assms(2), of "[]"] by simp
  with ne assms(3) show ?case by (simp add: tds_decode_chunks.simps [of m "tds_Encode q"] tds_decode_chunks.simps [of m "[]"])
next
  case (Cons p ps)
  let ?rest = "concat (map tds_Encode ps) @ tds_Encode q"
  have p: "tds_ok p" "length (tds_Encode p) = m" using Cons.prems by auto
  have ne: "tds_Encode p @ ?rest \<noteq> []" using p(1) by (auto simp: tds_ok_Encode tds_ok_def)
  have "tds_Decode (tds_Encode p) = Inr (p, [])" using tds_Decode_Encode [OF p(1), of "[]"] by simp
  with ne p(2) Cons show ?case
    by (simp add: tds_decode_chunks.simps [of m "tds_Encode p @ ?rest"])
qed

section \<open>Text round trips\<close>

lemma utf16_rune_roundtrip:
  assumes "valid_rune r"
  shows "utf16_Decode (utf16_encode_rune r @ us) = r # utf16_Decode us"
proof (cases "r < 0x10000")
  case True
  with assms show ?thesis by (auto simp: utf16_encode_rune_def valid_rune_def)
next
  case False
  then have r: "0x10000 \<le> r" "r \<le> 0x10FFFF" using assms by (auto simp: valid_rune_def)
  define d where "d = r - 0x10000"
  have d: "d < 0x100000" using r by (simp add: d_def)
  then have "d div 0x400 < 0x400" by (simp add: div_less_iff_less_mult)
  moreover have "d mod 0x400 < 0x400" by simp
  moreover have "0x10000 + (d div 0x400) * 0x400 + d mod 0x400 = r"
    using r div_mult_mod_eq [of d "0x400"] by (simp add: d_def)
  ultimately show ?thesis
    using r by (simp add: utf16_encode_rune_def d_def [symmetric])
qed

lemma utf16_roundtrip: "(\<forall>r \<in> set rs. valid_rune r) \<Longrightarrow> utf16_Decode (utf16_Encode rs) = rs"
proof (induction rs)
  case Nil
  then show ?case by (simp add: utf16_Encode_def)
next
  case (Cons r rs)
  then show ?case using utf16_rune_roundtrip [of r "utf16_Encode rs"] by (simp add: utf16_Encode_def)
qed

lemma utf16_units: "u \<in> set (utf16_Encode rs) \<Longrightarrow> u < 2 ^ 16"
proof (induction rs)
  case Nil
  then show ?case by (simp add: utf16_Encode_def)
next
  case (Cons r rs)
  have "u < 2 ^ 16" if "u \<in> set (utf16_encode_rune r)"
  proof -
    have "(r - 65536) div 1024 < 1024" if "r \<le> 1114111" using that by (simp add: div_less_iff_less_mult)
    with that show ?thesis by (auto simp: utf16_encode_rune_def split: if_splits)
  qed
  with Cons show ?case by (auto simp: utf16_Encode_def)
qed

lemma ucs2_units_put:
  "(\<forall>u \<in> set us. u < 2 ^ 16) \<Longrightarrow> ucs2_units (concat (map (put_le 2) us)) = Some us"
proof (induction us)
  case Nil
  then show ?case by simp
next
  case (Cons u us)
  obtain a b where ab: "put_le 2 u = [a, b]" by (simp add: numeral_2_eq_2)
  have "get_le [a, b] = u" using get_put_le [of 2 u] Cons.prems by (simp add: ab)
  with Cons ab show ?case by simp
qed

lemma ucs22str_str2ucs2:
  "(\<forall>r \<in> set s. valid_rune r) \<Longrightarrow> ucs22str (str2ucs2 s) = Ret s"
  using ucs2_units_put [of "utf16_Encode s"] utf16_units
  by (auto simp: ucs22str_def str2ucs2_def utf16_roundtrip split: option.splits)

lemma length_str2ucs2: "length (str2ucs2 s) = 2 * length (utf16_Encode s)"
proof -
  have "length (concat (map (put_le 2) us)) = 2 * length us" for us :: "nat list"
    by (induction us) simp_all
  then show ?thesis by (simp add: str2ucs2_def)
qed

definition unmangle_byte :: "8 word \<Rightarrow> 8 word" where
  "unmangle_byte c = (let d = c XOR 0xA5 in push_bit 4 d OR drop_bit 4 d)"

lemma unmangle_mangle: "unmangle_byte (mangle_byte c) = c"
proof -
  have x: "mangle_byte c XOR 0xA5 = push_bit 4 c OR drop_bit 4 c"
  proof -
    have "push_bit 4 c AND 0xff = push_bit 4 c"
    proof -
      have "(0xff :: 8 word) = - 1" by simp
      then show ?thesis by (simp only: and.right_neutral)
    qed
    then show ?thesis by (simp add: mangle_byte_def xor.assoc)
  qed
  have "push_bit 4 (push_bit 4 c OR drop_bit 4 c) OR drop_bit 4 (push_bit 4 c OR drop_bit 4 c) = c"
    by (rule bit_word_eqI) (auto simp: bit_simps)
  then show ?thesis by (simp add: unmangle_byte_def Let_def x)
qed

section \<open>Properties\<close>

text \<open>
  C37: TDS packets survive the wire: a packet accepted by \<open>Decode\<close> whose length field covers its own
  header is well formed and the input is exactly its encoding and the rest of the stream, and every
  well-formed packet is decoded back from its encoding.
\<close>

theorem tds_decode_exact:
  "(tds_Decode bs = Inr (p, rest) \<and> 8 \<le> unat (tds_Length p) \<longrightarrow> tds_ok p \<and> bs = tds_Encode p @ rest) \<and>
   (tds_ok p \<longrightarrow> tds_Decode (tds_Encode p @ rest) = Inr (p, rest))"
  using tds_Decode_sound [of bs p rest] tds_Decode_Encode [of p rest] by blast

theorem tds_decode_exact_witness:
  "tds_Decode (tds_Encode (tds_New PacketLogin7Type [1, 2]) @ [9]) = Inr (tds_New PacketLogin7Type [1, 2], [9])"
proof -
  have "tds_ok (tds_New PacketLogin7Type [1, 2])"
    by (rule tds_New_ok) (simp_all add: packetTypeMap_def)
  then show ?thesis using tds_decode_exact by blast
qed

text \<open>
  C38: \<open>DecodeFull\<close> recovers a message cut into packets: for frames that fill packets of the maximal
  size, and a last one that need not, decoding the concatenated encodings of the packets that
  \<open>New\<close> builds gives exactly these packets.
\<close>

theorem tds_decode_full_recovers:
  assumes "map_of packetTypeMap t \<noteq> None" "m < 2 ^ 16"
    and "\<forall>d \<in> set ds. length d + 8 = m" "length e + 8 \<le> m"
  shows "tds_DecodeFull (concat (map (\<lambda>d. tds_Encode (tds_New t d)) (ds @ [e]))) (int m) =
         Ret (Inr (map (tds_New t) (ds @ [e])))"
proof -
  have ok: "tds_ok (tds_New t d)" if "length d + 8 \<le> m" for d
    using that assms(1,2) by (intro tds_New_ok) auto
  have len: "length (tds_Encode (tds_New t d)) = length d + 8" if "length d + 8 \<le> m" for d
    using ok [OF that] by (simp add: tds_ok_Encode) (simp add: tds_New_def tds_NewHeader_def)
  have "tds_decode_chunks m (concat (map tds_Encode (map (tds_New t) ds)) @ tds_Encode (tds_New t e)) =
        Inr (map (tds_New t) ds @ [tds_New t e])"
    using assms(3,4) ok len by (intro tds_decode_chunks_concat) auto
  moreover have "tds_Encode (tds_New t e) \<noteq> []"
    using len [OF assms(4)] by (metis add_is_0 list.size(3) zero_neq_numeral)
  ultimately show ?thesis by (simp add: tds_DecodeFull_def comp_def)
qed

theorem tds_decode_full_recovers_witness:
  "tds_DecodeFull (concat (map (\<lambda>d. tds_Encode (tds_New PacketSQLBatchType d)) ([[1, 2], [3, 4]] @ [[5]]))) (int 10) =
   Ret (Inr (map (tds_New PacketSQLBatchType) ([[1, 2], [3, 4]] @ [[5]])))"
  by (rule tds_decode_full_recovers) (simp_all add: packetTypeMap_def)

lemma tds_batch_bytes:
  assumes "length d + 8 < 2 ^ 16"
  shows "\<exists>a b. tds_Encode (tds_New PacketSQLBatchType d) = [1, 1, a, b, 0, 0, 1, 0] @ d"
proof -
  have "tds_ok (tds_New PacketSQLBatchType d)"
    using assms by (intro tds_New_ok) (simp_all add: packetTypeMap_def)
  moreover obtain a b where "put_be 2 (unat (word_of_nat (length d) + 8 :: 16 word)) = [a, b]"
    by (simp add: put_be_def numeral_2_eq_2)
  ultimately show ?thesis by (simp add: tds_ok_Encode) (simp add: tds_New_def tds_NewHeader_def)
qed

text \<open>
  The SQL text of a batch is found: a first packet that carries its headers, led by their own
  length, and then the text of a query of at least two UTF-16 units decodes to the query.  For a
  shorter query the bounds check compares with the data behind the length field and the headers
  are read as text.
\<close>

theorem sql_batch_query:
  assumes "\<forall>r \<in> set q. valid_rune r"
    and "length h + 4 + 2 * length (utf16_Encode q) + 8 < 2 ^ 16"
  shows "DecodeSQLBatchToRawQuery (tds_Encode (tds_New PacketSQLBatchType (put_le 4 (length h + 4) @ h @ str2ucs2 q))) =
    (if 2 \<le> length (utf16_Encode q) then Ret (Inr q)
     else case ucs22str (put_le 4 (length h + 4) @ h @ str2ucs2 q) of Panic \<Rightarrow> Panic | Ret t \<Rightarrow> Ret (Inr t))"
proof -
  let ?d = "put_le 4 (length h + 4) @ h @ str2ucs2 q"
  obtain a b where e: "tds_Encode (tds_New PacketSQLBatchType ?d) = [1, 1, a, b, 0, 0, 1, 0] @ ?d"
    using tds_batch_bytes [of ?d] assms(2) by (auto simp: length_str2ucs2)
  have g: "get_le (take 4 ?d) = length h + 4" using assms(2) by simp
  have dr: "drop (length h + 4) ?d = str2ucs2 q" by simp
  show ?thesis
    using g dr ucs22str_str2ucs2 [OF assms(1)]
    by (simp add: e DecodeSQLBatchToRawQuery_def Let_def length_str2ucs2 split: outcome.splits)
qed

theorem sql_batch_query_witness:
  "DecodeSQLBatchToRawQuery (tds_Encode (tds_New PacketSQLBatchType (put_le 4 (length [0, 0] + 4) @ [0, 0] @ str2ucs2 [83, 0x1F600]))) =
   Ret (Inr [83, 0x1F600])"
proof -
  have "\<forall>r \<in> set [83, 0x1F600]. valid_rune r" by (simp add: valid_rune_def)
  moreover have "length (utf16_Encode [83, 0x1F600]) = 3" by (simp add: utf16_Encode_def utf16_encode_rune_def)
  ultimately show ?thesis using sql_batch_query [of "[83, 0x1F600]" "[0, 0]"] by simp
qed

end
