(* ===== verification/MssqlLogin.thy ===== *)
theory MssqlLogin
  imports MssqlTypes "HOL-Library.Monad_Syntax"
begin

text \<open>
  The login packet of SQL Server, \<open>src/common/mssqltypes/login.go\<close>: \<open>DecodeLogin\<close> and
  \<open>EncodeLogin\<close>, with the 94-byte header whose fields locate the variable part.

  Offsets and lengths are 16-bit words and computed in 16 bits as in the code.  Text fields are
  lists of runes.  The input of \<open>DecodeLogin\<close> is taken to have no spare capacity behind it, so a
  slice beyond its length panics.
\<close>

unbundle bit_operations_syntax

section \<open>Data\<close>

abbreviation fChangePassword :: "8 word" where "fChangePassword \<equiv> 0x01"
abbreviation fExtension :: "8 word" where "fExtension \<equiv> 0x10"

text \<open>The position of a field in the variable part.\<close>

record field_pos =
  fp_off :: "16 word"
  fp_len :: "16 word"

record login_header =
  lh_Length :: "32 word"
  lh_TDSVersion :: "32 word"
  lh_PacketSize :: "32 word"
  lh_ClientProgVer :: "32 word"
  lh_ClientPID :: "32 word"
  lh_ConnectionID :: "32 word"
  lh_OptionFlags1 :: "8 word"
  lh_OptionFlags2 :: "8 word"
  lh_TypeFlags :: "8 word"
  lh_OptionFlags3 :: "8 word"
  lh_ClientTimeZone :: "32 word"
  lh_ClientLCID :: "32 word"
  lh_HostName :: field_pos
  lh_UserName :: field_pos
  lh_Password :: field_pos
  lh_AppName :: field_pos
  lh_ServerName :: field_pos
  lh_Extension :: field_pos
  lh_CtlIntName :: field_pos
  lh_Language :: field_pos
  lh_Database :: field_pos
  lh_ClientID :: bytes
  lh_SSPI :: field_pos
  lh_AtchDBFile :: field_pos
  lh_ChangePassword :: field_pos
  lh_SSPILongLength :: "32 word"

record login =
  lg_HostName :: runes
  lg_UserName :: runes
  lg_Password :: runes
  lg_AppName :: runes
  lg_ServerName :: runes
  lg_CtlIntName :: runes
  lg_Language :: runes
  lg_Database :: runes
  lg_ClientID :: bytes
  lg_SSPI :: bytes
  lg_AtchDBFile :: runes
  lg_ChangePassword :: runes
  lg_FeatureExt :: bytes
  lg_header :: login_header

definition login_PacketSize :: "login \<Rightarrow> 32 word" where
  "login_PacketSize l = lh_PacketSize (lg_header l)"

definition login_TDSVersion :: "login \<Rightarrow> 32 word" where
  "login_TDSVersion l = lh_TDSVersion (lg_header l)"

definition DisablePasswordChange :: "login \<Rightarrow> login" where
  "DisablePasswordChange l =
     (let h = lg_header l in
      if lh_OptionFlags3 h AND fChangePassword > 0
      then l\<lparr>lg_header := h\<lparr>lh_OptionFlags3 := lh_OptionFlags3 h AND NOT fChangePassword\<rparr>\<rparr>
      else l)"

section \<open>Reading\<close>

text \<open>
  \<open>buf.Next(n)\<close> followed by the decoding of an integer of \<open>n\<close> bytes, which panics (\<open>None\<close>) when
  the buffer has run out.
\<close>

definition next32 :: "bytes \<Rightarrow> (32 word \<times> bytes) option" where
  "next32 buf = (if length buf < 4 then None else Some (word_of_nat (get_le (take 4 buf)), drop 4 buf))"

definition next16 :: "bytes \<Rightarrow> (16 word \<times> bytes) option" where
  "next16 buf = (if length buf < 2 then None else Some (word_of_nat (get_le (take 2 buf)), drop 2 buf))"

definition next_pos :: "bytes \<Rightarrow> (field_pos \<times> bytes) option" where
  "next_pos buf = do { (off, buf) \<leftarrow> next16 buf; (len, buf) \<leftarrow> next16 buf; Some (\<lparr>fp_off = off, fp_len = len\<rparr>, buf) }"

text \<open>The four flag bytes are indexed one by one; a missing one panics.\<close>

fun next_flags :: "bytes \<Rightarrow> ((8 word \<times> 8 word \<times> 8 word \<times> 8 word) \<times> bytes) option" where
  "next_flags (a # b # c # d # buf) = Some ((a, b, c, d), buf)"
| "next_flags _ = None"

definition decode_login_header :: "bytes \<Rightarrow> login_header option" where
  "decode_login_header buf = do {
     (len, buf) \<leftarrow> next32 buf;
     (tds, buf) \<leftarrow> next32 buf;
     (psize, buf) \<leftarrow> next32 buf;
     (prog, buf) \<leftarrow> next32 buf;
     (pid, buf) \<leftarrow> next32 buf;
     (conn, buf) \<leftarrow> next32 buf;
     ((f1, f2, ft, f3), buf) \<leftarrow> next_flags buf;
     let buf = drop 4 buf;
     (lcid, buf) \<leftarrow> next32 buf;
     (host, buf) \<leftarrow> next_pos buf;
     (user, buf) \<leftarrow> next_pos buf;
     (pass, buf) \<leftarrow> next_pos buf;
     (app, buf) \<leftarrow> next_pos buf;
     (server, buf) \<leftarrow> next_pos buf;
     (ext, buf) \<leftarrow> next_pos buf;
     (ctl, buf) \<leftarrow> next_pos buf;
     (lang, buf) \<leftarrow> next_pos buf;
     (db, buf) \<leftarrow> next_pos buf;
     let clientID = copy_into 6 (take 6 buf);
     let buf = drop 6 buf;
     (sspi, buf) \<leftarrow> next_pos buf;
     (atch, buf) \<leftarrow> next_pos buf;
     (chg, buf) \<leftarrow> next_pos buf;
     (long, buf) \<leftarrow> next32 buf;
     Some \<lparr>lh_Length = len, lh_TDSVersion = tds, lh_PacketSize = psize, lh_ClientProgVer = prog,
       lh_ClientPID = pid, lh_ConnectionID = conn, lh_OptionFlags1 = f1, lh_OptionFlags2 = f2,
       lh_TypeFlags = ft, lh_OptionFlags3 = f3, lh_ClientTimeZone = 0, lh_ClientLCID = lcid,
       lh_HostName = host, lh_UserName = user, lh_Password = pass, lh_AppName = app,
       lh_ServerName = server, lh_Extension = ext, lh_CtlIntName = ctl, lh_Language = lang,
       lh_Database = db, lh_ClientID = clientID, lh_SSPI = sspi, lh_AtchDBFile = atch,
       lh_ChangePassword = chg, lh_SSPILongLength = long\<rparr> }"

definition or_panic :: "'a outcome \<Rightarrow> 'a option" where
  "or_panic r = (case r of Panic \<Rightarrow> None | Ret x \<Rightarrow> Some x)"

definition getOption :: "bytes \<Rightarrow> field_pos \<Rightarrow> runes option" where
  "getOption v pos =
     (let offset = fp_off pos; len = fp_len pos in
      if offset = 0 \<or> len = 0 then Some []
      else do {
        s \<leftarrow> or_panic (slice (unat offset) (unat (offset + len * 2)) v []);
        or_panic (ucs22str s) })"

definition decode_feature_ext :: "bytes \<Rightarrow> field_pos \<Rightarrow> bytes option" where
  "decode_feature_ext data ext =
     (if fp_off ext > 0 then do {
        s \<leftarrow> or_panic (slice (unat (fp_off ext)) (unat (fp_off ext + fp_len ext)) data []);
        (featureExtOffset, _) \<leftarrow> next32 s;
        or_panic (slice (unat featureExtOffset) (length data) data []) }
      else Some [])"

definition DecodeLogin :: "bytes \<Rightarrow> login outcome" where
  "DecodeLogin data =
     (case do {
        h \<leftarrow> decode_login_header data;
        host \<leftarrow> getOption data (lh_HostName h);
        user \<leftarrow> getOption data (lh_UserName h);
        pass \<leftarrow> getOption data (lh_Password h);
        app \<leftarrow> getOption data (lh_AppName h);
        server \<leftarrow> getOption data (lh_ServerName h);
        ctl \<leftarrow> getOption data (lh_CtlIntName h);
        lang \<leftarrow> getOption data (lh_Language h);
        db \<leftarrow> getOption data (lh_Database h);
        atch \<leftarrow> getOption data (lh_AtchDBFile h);
        chg \<leftarrow> getOption data (lh_ChangePassword h);
        feat \<leftarrow> decode_feature_ext data (lh_Extension h);
        Some \<lparr>lg_HostName = host, lg_UserName = user, lg_Password = pass, lg_AppName = app,
          lg_ServerName = server, lg_CtlIntName = ctl, lg_Language = lang, lg_Database = db,
          lg_ClientID = replicate 6 0, lg_SSPI = [], lg_AtchDBFile = atch, lg_ChangePassword = chg,
          lg_FeatureExt = feat, lg_header = h\<rparr> }
      of None \<Rightarrow> Panic | Some l \<Rightarrow> Ret l)"

section \<open>Writing\<close>

definition put_pos :: "field_pos \<Rightarrow> bytes" where
  "put_pos p = put_le 2 (unat (fp_off p)) @ put_le 2 (unat (fp_len p))"

text \<open>\<open>binary.Write\<close> of the header: its fields in order, little-endian, without padding.\<close>

definition encode_login_header :: "login_header \<Rightarrow> bytes" where
  "encode_login_header h =
     put_le 4 (unat (lh_Length h)) @ put_le 4 (unat (lh_TDSVersion h)) @ put_le 4 (unat (lh_PacketSize h)) @
     put_le 4 (unat (lh_ClientProgVer h)) @ put_le 4 (unat (lh_ClientPID h)) @ put_le 4 (unat (lh_ConnectionID h)) @
     [lh_OptionFlags1 h, lh_OptionFlags2 h, lh_TypeFlags h, lh_OptionFlags3 h] @
     put_le 4 (unat (lh_ClientTimeZone h)) @ put_le 4 (unat (lh_ClientLCID h)) @
     put_pos (lh_HostName h) @ put_pos (lh_UserName h) @ put_pos (lh_Password h) @ put_pos (lh_AppName h) @
     put_pos (lh_ServerName h) @ put_pos (lh_Extension h) @ put_pos (lh_CtlIntName h) @ put_pos (lh_Language h) @
     put_pos (lh_Database h) @ copy_into 6 (lh_ClientID h) @ put_pos (lh_SSPI h) @ put_pos (lh_AtchDBFile h) @
     put_pos (lh_ChangePassword h) @ put_le 4 (unat (lh_SSPILongLength h))"

abbreviation u16 :: "nat \<Rightarrow> 16 word" where "u16 n \<equiv> word_of_nat n"
abbreviation u32 :: "nat \<Rightarrow> 32 word" where "u32 n \<equiv> word_of_nat n"

text \<open>
  The offsets: \<open>vs\<close> are the lengths of the parts of the variable data in order, \<open>offset\<close> starts
  behind the header.
\<close>

fun advance :: "16 word \<Rightarrow> bytes list \<Rightarrow> 16 word" where
  "advance offset [] = offset"
| "advance offset (v # vs) = advance (offset + u16 (length v)) vs"

definition login_parts :: "login \<Rightarrow> bytes list" where
  "login_parts l =
     [str2ucs2 (lg_HostName l), str2ucs2 (lg_UserName l), manglePassword (lg_Password l),
      str2ucs2 (lg_AppName l), str2ucs2 (lg_ServerName l), str2ucs2 (lg_CtlIntName l),
      str2ucs2 (lg_Language l), str2ucs2 (lg_Database l), lg_SSPI l,
      str2ucs2 (lg_AtchDBFile l), str2ucs2 (lg_ChangePassword l)]"

definition part_offset :: "login \<Rightarrow> nat \<Rightarrow> 16 word" where
  "part_offset l n = advance 94 (take n (login_parts l))"

definition login_hdr :: "login \<Rightarrow> login_header" where
  "login_hdr l =
     (let h = lg_header l; pos = (\<lambda>n s. \<lparr>fp_off = part_offset l n, fp_len = u16 (length s)\<rparr>);
          offset = part_offset l 11; feat = length (lg_FeatureExt l) in
      \<lparr>lh_Length = (if feat > 0 then ucast (offset + 4) else ucast offset) + u32 feat,
       lh_TDSVersion = lh_TDSVersion h, lh_PacketSize = lh_PacketSize h, lh_ClientProgVer = lh_ClientProgVer h,
       lh_ClientPID = lh_ClientPID h, lh_ConnectionID = lh_ConnectionID h,
       lh_OptionFlags1 = lh_OptionFlags1 h, lh_OptionFlags2 = lh_OptionFlags2 h, lh_TypeFlags = lh_TypeFlags h,
       lh_OptionFlags3 = (if feat > 0 then lh_OptionFlags3 h OR fExtension else lh_OptionFlags3 h),
       lh_ClientTimeZone = lh_ClientTimeZone h, lh_ClientLCID = lh_ClientLCID h,
       lh_HostName = pos 0 (lg_HostName l), lh_UserName = pos 1 (lg_UserName l),
       lh_Password = pos 2 (lg_Password l), lh_AppName = pos 3 (lg_AppName l),
       lh_ServerName = pos 4 (lg_ServerName l),
       lh_Extension = (if feat > 0 then \<lparr>fp_off = offset, fp_len = 4\<rparr> else \<lparr>fp_off = 0, fp_len = 0\<rparr>),
       lh_CtlIntName = pos 5 (lg_CtlIntName l), lh_Language = pos 6 (lg_Language l),
       lh_Database = pos 7 (lg_Database l), lh_ClientID = lg_ClientID l,
       lh_SSPI = \<lparr>fp_off = part_offset l 8, fp_len = u16 (length (lg_SSPI l))\<rparr>,
       lh_AtchDBFile = pos 9 (lg_AtchDBFile l), lh_ChangePassword = pos 10 (lg_ChangePassword l),
       lh_SSPILongLength = 0\<rparr>)"

text \<open>Writes into a \<open>bytes.Buffer\<close> do not fail, so the code's error returns are never taken.\<close>

definition EncodeLogin :: "login \<Rightarrow> tds_packet" where
  "EncodeLogin l =
     tds_New PacketLogin7Type
       (encode_login_header (login_hdr l) @ concat (login_parts l) @
        (if length (lg_FeatureExt l) > 0
         then put_le 4 (unat (part_offset l 11 + 4)) @ lg_FeatureExt l else []))"

section \<open>The header\<close>

lemma next32_put [simp]: "next32 (put_le 4 (unat w) @ r) = Some (w, r)"
proof -
  have "unat w < 2 ^ 32" using unsigned_less [of w] by simp
  then show ?thesis by (simp add: next32_def)
qed

lemma next32_put_nil [simp]: "next32 (put_le 4 (unat w)) = Some (w, [])"
  using next32_put [of w "[]"] by simp

lemma next16_put [simp]: "next16 (put_le 2 (unat w) @ r) = Some (w, r)"
proof -
  have "unat w < 2 ^ 16" using unsigned_less [of w] by simp
  then show ?thesis by (simp add: next16_def)
qed

lemma next_pos_put [simp]: "next_pos (put_pos p @ r) = Some (p, r)"
  by (simp add: next_pos_def put_pos_def)

lemma length_put_pos [simp]: "length (put_pos p) = 4"
  by (simp add: put_pos_def)

lemma length_encode_login_header [simp]: "length (encode_login_header h) = 94"
  by (simp add: encode_login_header_def)

lemma decode_encode_header:
  "decode_login_header (encode_login_header h @ v) =
     Some (h\<lparr>lh_ClientTimeZone := 0, lh_ClientID := copy_into 6 (lh_ClientID h)\<rparr>)"
  unfolding decode_login_header_def encode_login_header_def by (simp add: Let_def)

section \<open>The variable part\<close>

definition bmp_rune :: "nat \<Rightarrow> bool" where
  "bmp_rune r \<longleftrightarrow> valid_rune r \<and> r < 0x10000"

lemma bmp_utf16: "(\<forall>r \<in> set s. bmp_rune r) \<Longrightarrow> utf16_Encode s = s"
  by (induction s) (auto simp: utf16_Encode_def utf16_encode_rune_def bmp_rune_def valid_rune_def)

lemma bmp_length: "(\<forall>r \<in> set s. bmp_rune r) \<Longrightarrow> length (str2ucs2 s) = 2 * length s"
  by (simp add: length_str2ucs2 bmp_utf16)

text \<open>What \<open>getOption\<close> finds at the position of a part \<open>v\<close> of \<open>k\<close> units.\<close>

lemma getOption_bytes:
  assumes "length v = 2 * k" "0 < length pre" "length pre + 2 * k < 2 ^ 16"
  shows "getOption (pre @ v @ post) \<lparr>fp_off = u16 (length pre), fp_len = u16 k\<rparr> =
         (if k = 0 then Some [] else or_panic (ucs22str v))"
proof -
  have o: "unat (u16 (length pre)) = length pre" using assms(3) by (simp add: unat_of_nat)
  have l: "unat (u16 k) = k" using assms(3) by (simp add: unat_of_nat)
  have "u16 (length pre) + u16 k * 2 = u16 (length pre + 2 * k)" by simp
  then have e: "unat (u16 (length pre) + u16 k * 2) = length pre + 2 * k"
    using assms(3) unat_of_nat [of "length pre + 2 * k", where 'a = 16] by (simp del: of_nat_add)
  have "u16 (length pre) \<noteq> 0" using o assms(2) by fastforce
  moreover have "u16 k = 0 \<longleftrightarrow> k = 0" using l by fastforce
  moreover have "or_panic (slice (length pre) (length pre + 2 * k) (pre @ v @ post) []) = Some v"
    by (simp add: slice_def or_panic_def assms(1))
  ultimately show ?thesis by (simp add: getOption_def o e)
qed

lemma getOption_at:
  assumes "\<forall>r \<in> set s. bmp_rune r" "0 < length pre" "length pre + 2 * length s < 2 ^ 16"
  shows "getOption (pre @ str2ucs2 s @ post) \<lparr>fp_off = u16 (length pre), fp_len = u16 (length s)\<rparr> = Some s"
  using getOption_bytes [OF bmp_length [OF assms(1)] assms(2,3)] ucs22str_str2ucs2 [of s] assms(1)
  by (auto simp: or_panic_def bmp_rune_def)

lemma advance_word: "advance w vs = w + u16 (length (concat vs))"
  by (induction vs arbitrary: w) (simp_all add: add.assoc)

lemma part_offset_eq: "part_offset l n = u16 (94 + length (concat (take n (login_parts l))))"
  by (simp add: part_offset_def advance_word)

lemma login_part_at:
  assumes "n < 11"
  shows "h @ concat (login_parts l) @ t =
    (h @ concat (take n (login_parts l))) @ login_parts l ! n @ (concat (drop (Suc n) (login_parts l)) @ t)"
proof -
  have n: "n < length (login_parts l)" using assms by (simp add: login_parts_def)
  have "concat (login_parts l) =
        concat (take n (login_parts l)) @ login_parts l ! n @ concat (drop (Suc n) (login_parts l))"
    by (subst id_take_nth_drop [OF n]) simp
  then show ?thesis by simp
qed

text \<open>The sizes that 16-bit offsets can address.\<close>

definition login_fits :: "login \<Rightarrow> bool" where
  "login_fits l \<longleftrightarrow>
     (\<forall>s \<in> {lg_HostName l, lg_UserName l, lg_Password l, lg_AppName l, lg_ServerName l, lg_CtlIntName l,
             lg_Language l, lg_Database l, lg_AtchDBFile l, lg_ChangePassword l}. \<forall>r \<in> set s. bmp_rune r) \<and>
     94 + length (concat (login_parts l)) + 4 < 2 ^ 16"

lemma login_prefix_bound:
  assumes "login_fits l" "n < 11"
  shows "94 + length (concat (take n (login_parts l))) + length (login_parts l ! n) < 2 ^ 16"
proof -
  have "length (concat (login_parts l)) =
        length (concat (take n (login_parts l))) + (length (login_parts l ! n) + length (concat (drop (Suc n) (login_parts l))))"
    using arg_cong [OF login_part_at [OF assms(2), of "[]" l "[]"], of length] by (simp only: append_Nil append_Nil2 length_append)
  with assms(1) show ?thesis by (simp add: login_fits_def)
qed

lemma getOption_part:
  assumes "login_fits l" "n < 11" "login_parts l ! n = str2ucs2 s" "\<forall>r \<in> set s. bmp_rune r" "length h = 94"
  shows "getOption (h @ concat (login_parts l) @ t) \<lparr>fp_off = part_offset l n, fp_len = u16 (length s)\<rparr> = Some s"
  using getOption_at [OF assms(4), of "h @ concat (take n (login_parts l))" "concat (drop (Suc n) (login_parts l)) @ t"]
    login_prefix_bound [OF assms(1,2)] assms(3,5) bmp_length [OF assms(4)]
  by (simp add: login_part_at [OF assms(2)] part_offset_eq del: of_nat_add concat_append)

lemma ucs2_units_even: "even (length bs) \<Longrightarrow> \<exists>us. ucs2_units bs = Some us"
  by (induction bs rule: ucs2_units.induct) auto

text \<open>The password field is read without undoing the mangling.\<close>

lemma getOption_password:
  assumes "login_fits l" "length h = 94"
  shows "\<exists>pw. ucs22str (manglePassword (lg_Password l)) = Ret pw \<and>
    getOption (h @ concat (login_parts l) @ t)
      \<lparr>fp_off = part_offset l 2, fp_len = u16 (length (lg_Password l))\<rparr> = Some (if lg_Password l = [] then [] else pw)"
proof -
  let ?p = "lg_Password l" and ?pre = "h @ concat (take 2 (login_parts l))"
  have bmp: "\<forall>r \<in> set ?p. bmp_rune r" using assms(1) by (auto simp: login_fits_def)
  have len: "length (manglePassword ?p) = 2 * length ?p" by (simp add: manglePassword_def bmp_length [OF bmp])
  then obtain us where us: "ucs2_units (manglePassword ?p) = Some us" using ucs2_units_even by fastforce
  have part: "login_parts l ! 2 = manglePassword ?p" by (simp add: login_parts_def)
  have b: "length ?pre + 2 * length ?p < 2 ^ 16"
    using login_prefix_bound [OF assms(1), of 2] assms(2) by (simp add: part len)
  have o: "part_offset l 2 = u16 (length ?pre)" using assms(2) by (simp add: part_offset_eq)
  have "getOption (?pre @ manglePassword ?p @ (concat (drop 3 (login_parts l)) @ t))
      \<lparr>fp_off = u16 (length ?pre), fp_len = u16 (length ?p)\<rparr> = Some (if ?p = [] then [] else utf16_Decode us)"
    using getOption_bytes [OF len _ b] assms(2) by (simp add: or_panic_def ucs22str_def us)
  moreover have "h @ concat (login_parts l) @ t = ?pre @ manglePassword ?p @ (concat (drop 3 (login_parts l)) @ t)"
    using login_part_at [of 2 h l t] unfolding part by simp
  ultimately show ?thesis by (simp only: o ucs22str_def us option.case outcome.inject ex_simps simp_thms)
qed

lemma decode_feature_ext_at:
  assumes "length pre + 4 < 2 ^ 16" "0 < length pre"
  shows "decode_feature_ext (pre @ put_le 4 (unat (u16 (length pre) + 4)) @ feat) \<lparr>fp_off = u16 (length pre), fp_len = 4\<rparr> = Some feat"
proof -
  have o: "unat (u16 (length pre)) = length pre" using assms(1) by (simp add: unat_of_nat)
  have "u16 (length pre) + 4 = u16 (length pre + 4)" by simp
  then have e: "unat (u16 (length pre) + 4) = length pre + 4"
    using assms(1) unat_of_nat [of "length pre + 4", where 'a = 16] by (simp del: of_nat_add)
  let ?w = "u32 (length pre + 4)"
  have w: "unat ?w = length pre + 4"
    using assms(1) unat_of_nat [of "length pre + 4", where 'a = 32] by (simp del: of_nat_add)
  have "u16 (length pre) \<noteq> 0" using o assms(2) by fastforce
  then have nz: "u16 (length pre) > 0" by (simp only: word_gt_0)
  have n: "next32 (put_le 4 (length pre + 4)) = Some (?w, [])"
    using next32_put_nil [of ?w] unfolding w .
  show ?thesis
    using nz n w by (simp add: decode_feature_ext_def o e slice_def or_panic_def del: of_nat_add)
qed

lemma decode_feature_ext_login:
  assumes "login_fits l" "length h = 94"
  shows "decode_feature_ext (h @ concat (login_parts l) @
      (if length (lg_FeatureExt l) > 0 then put_le 4 (unat (part_offset l 11 + 4)) @ lg_FeatureExt l else []))
      (lh_Extension (login_hdr l)) = Some (lg_FeatureExt l)"
proof (cases "lg_FeatureExt l = []")
  case True
  then show ?thesis by (simp add: login_hdr_def Let_def decode_feature_ext_def)
next
  case False
  let ?pre = "h @ concat (login_parts l)"
  have "take 11 (login_parts l) = login_parts l" by (simp add: login_parts_def)
  then have o: "part_offset l 11 = u16 (length ?pre)" using assms(2) by (simp add: part_offset_eq)
  have b: "length ?pre + 4 < 2 ^ 16" "0 < length ?pre" using assms by (simp_all add: login_fits_def)
  have x: "lh_Extension (login_hdr l) = \<lparr>fp_off = u16 (length ?pre), fp_len = 4\<rparr>"
    using False o by (simp add: login_hdr_def Let_def)
  show ?thesis
    using decode_feature_ext_at [OF b, of "lg_FeatureExt l"] False unfolding x o by simp
qed

text \<open>The text fields of the header that \<open>EncodeLogin\<close> writes.\<close>

lemma login_hdr_pos:
  "lh_HostName (login_hdr l) = \<lparr>fp_off = part_offset l 0, fp_len = u16 (length (lg_HostName l))\<rparr>"
  "lh_UserName (login_hdr l) = \<lparr>fp_off = part_offset l 1, fp_len = u16 (length (lg_UserName l))\<rparr>"
  "lh_Password (login_hdr l) = \<lparr>fp_off = part_offset l 2, fp_len = u16 (length (lg_Password l))\<rparr>"
  "lh_AppName (login_hdr l) = \<lparr>fp_off = part_offset l 3, fp_len = u16 (length (lg_AppName l))\<rparr>"
  "lh_ServerName (login_hdr l) = \<lparr>fp_off = part_offset l 4, fp_len = u16 (length (lg_ServerName l))\<rparr>"
  "lh_CtlIntName (login_hdr l) = \<lparr>fp_off = part_offset l 5, fp_len = u16 (length (lg_CtlIntName l))\<rparr>"
  "lh_Language (login_hdr l) = \<lparr>fp_off = part_offset l 6, fp_len = u16 (length (lg_Language l))\<rparr>"
  "lh_Database (login_hdr l) = \<lparr>fp_off = part_offset l 7, fp_len = u16 (length (lg_Database l))\<rparr>"
  "lh_AtchDBFile (login_hdr l) = \<lparr>fp_off = part_offset l 9, fp_len = u16 (length (lg_AtchDBFile l))\<rparr>"
  "lh_ChangePassword (login_hdr l) = \<lparr>fp_off = part_offset l 10, fp_len = u16 (length (lg_ChangePassword l))\<rparr>"
  by (simp_all add: login_hdr_def Let_def)

lemma login_text_fields:
  assumes "login_fits l" "length h = 94"
  shows "getOption (h @ concat (login_parts l) @ t) (lh_HostName (login_hdr l)) = Some (lg_HostName l)"
    and "getOption (h @ concat (login_parts l) @ t) (lh_UserName (login_hdr l)) = Some (lg_UserName l)"
    and "getOption (h @ concat (login_parts l) @ t) (lh_AppName (login_hdr l)) = Some (lg_AppName l)"
    and "getOption (h @ concat (login_parts l) @ t) (lh_ServerName (login_hdr l)) = Some (lg_ServerName l)"
    and "getOption (h @ concat (login_parts l) @ t) (lh_CtlIntName (login_hdr l)) = Some (lg_CtlIntName l)"
    and "getOption (h @ concat (login_parts l) @ t) (lh_Language (login_hdr l)) = Some (lg_Language l)"
    and "getOption (h @ concat (login_parts l) @ t) (lh_Database (login_hdr l)) = Some (lg_Database l)"
    and "getOption (h @ concat (login_parts l) @ t) (lh_AtchDBFile (login_hdr l)) = Some (lg_AtchDBFile l)"
    and "getOption (h @ concat (login_parts l) @ t) (lh_ChangePassword (login_hdr l)) = Some (lg_ChangePassword l)"
proof -
  have parts: "login_parts l ! 0 = str2ucs2 (lg_HostName l)" "login_parts l ! 1 = str2ucs2 (lg_UserName l)"
    "login_parts l ! 3 = str2ucs2 (lg_AppName l)" "login_parts l ! 4 = str2ucs2 (lg_ServerName l)"
    "login_parts l ! 5 = str2ucs2 (lg_CtlIntName l)" "login_parts l ! 6 = str2ucs2 (lg_Language l)"
    "login_parts l ! 7 = str2ucs2 (lg_Database l)" "login_parts l ! 9 = str2ucs2 (lg_AtchDBFile l)"
    "login_parts l ! 10 = str2ucs2 (lg_ChangePassword l)"
    by (simp_all add: login_parts_def)
  have bmp: "\<forall>s \<in> {lg_HostName l, lg_UserName l, lg_AppName l, lg_ServerName l, lg_CtlIntName l,
      lg_Language l, lg_Database l, lg_AtchDBFile l, lg_ChangePassword l}. \<forall>r \<in> set s. bmp_rune r"
    using assms(1) by (simp add: login_fits_def)
  note field = getOption_part [OF assms(1) _ _ _ assms(2)]
  show "getOption (h @ concat (login_parts l) @ t) (lh_HostName (login_hdr l)) = Some (lg_HostName l)"
    using field [OF _ parts(1)] bmp unfolding login_hdr_pos by simp
  show "getOption (h @ concat (login_parts l) @ t) (lh_UserName (login_hdr l)) = Some (lg_UserName l)"
    using field [OF _ parts(2)] bmp unfolding login_hdr_pos by simp
  show "getOption (h @ concat (login_parts l) @ t) (lh_AppName (login_hdr l)) = Some (lg_AppName l)"
    using field [OF _ parts(3)] bmp unfolding login_hdr_pos by simp
  show "getOption (h @ concat (login_parts l) @ t) (lh_ServerName (login_hdr l)) = Some (lg_ServerName l)"
    using field [OF _ parts(4)] bmp unfolding login_hdr_pos by simp
  show "getOption (h @ concat (login_parts l) @ t) (lh_CtlIntName (login_hdr l)) = Some (lg_CtlIntName l)"
    using field [OF _ parts(5)] bmp unfolding login_hdr_pos by simp
  show "getOption (h @ concat (login_parts l) @ t) (lh_Language (login_hdr l)) = Some (lg_Language l)"
    using field [OF _ parts(6)] bmp unfolding login_hdr_pos by simp
  show "getOption (h @ concat (login_parts l) @ t) (lh_Database (login_hdr l)) = Some (lg_Database l)"
    using field [OF _ parts(7)] bmp unfolding login_hdr_pos by simp
  show "getOption (h @ concat (login_parts l) @ t) (lh_AtchDBFile (login_hdr l)) = Some (lg_AtchDBFile l)"
    using field [OF _ parts(8)] bmp unfolding login_hdr_pos by simp
  show "getOption (h @ concat (login_parts l) @ t) (lh_ChangePassword (login_hdr l)) = Some (lg_ChangePassword l)"
    using field [OF _ parts(9)] bmp unfolding login_hdr_pos by simp
qed

text \<open>
  C36: a login packet is read back: for text in the basic multilingual plane that 16-bit offsets can
  address, decoding the frame that \<open>EncodeLogin\<close> writes gives every text field, the feature
  extension and the header it wrote; the password comes back as the text of its mangled bytes, and
  \<open>SSPI\<close>, the client id and the time zone are dropped.
\<close>

theorem login_roundtrip:
  assumes "login_fits l"
  shows "\<exists>pw. ucs22str (manglePassword (lg_Password l)) = Ret pw \<and>
    DecodeLogin (tds_Frame (EncodeLogin l)) =
      Ret (l\<lparr>lg_Password := (if lg_Password l = [] then [] else pw), lg_ClientID := replicate 6 0, lg_SSPI := [],
             lg_header := (login_hdr l)\<lparr>lh_ClientTimeZone := 0, lh_ClientID := copy_into 6 (lg_ClientID l)\<rparr>\<rparr>)"
proof -
  let ?h = "encode_login_header (login_hdr l)"
  let ?t = "if length (lg_FeatureExt l) > 0 then put_le 4 (unat (part_offset l 11 + 4)) @ lg_FeatureExt l else []"
  obtain pw where pw: "ucs22str (manglePassword (lg_Password l)) = Ret pw"
    "getOption (?h @ concat (login_parts l) @ ?t) (lh_Password (login_hdr l)) = Some (if lg_Password l = [] then [] else pw)"
    using getOption_password [OF assms length_encode_login_header, of "login_hdr l" ?t] unfolding login_hdr_pos by blast
  have frame: "tds_Frame (EncodeLogin l) = ?h @ concat (login_parts l) @ ?t"
    by (simp add: EncodeLogin_def tds_New_def)
  have cid: "lh_ClientID (login_hdr l) = lg_ClientID l" by (simp add: login_hdr_def Let_def)
  show ?thesis
    using pw login_text_fields [OF assms length_encode_login_header, of "login_hdr l" ?t]
      decode_feature_ext_login [OF assms length_encode_login_header, of "login_hdr l"]
    by (intro exI [of _ pw]) (simp add: DecodeLogin_def frame decode_encode_header cid)
qed

definition demo_login :: login where
  "demo_login = \<lparr>lg_HostName = [104, 0xE9], lg_UserName = [115, 97], lg_Password = [112, 119],
     lg_AppName = [], lg_ServerName = [100, 98], lg_CtlIntName = [], lg_Language = [], lg_Database = [109],
     lg_ClientID = [1, 2, 3, 4, 5, 6], lg_SSPI = [7], lg_AtchDBFile = [], lg_ChangePassword = [],
     lg_FeatureExt = [255],
     lg_header = \<lparr>lh_Length = 0, lh_TDSVersion = 0x74000004, lh_PacketSize = 4096, lh_ClientProgVer = 7,
       lh_ClientPID = 42, lh_ConnectionID = 0, lh_OptionFlags1 = 0xE0, lh_OptionFlags2 = 3, lh_TypeFlags = 0,
       lh_OptionFlags3 = 1, lh_ClientTimeZone = 0, lh_ClientLCID = 0x409,
       lh_HostName = \<lparr>fp_off = 0, fp_len = 0\<rparr>, lh_UserName = \<lparr>fp_off = 0, fp_len = 0\<rparr>,
       lh_Password = \<lparr>fp_off = 0, fp_len = 0\<rparr>, lh_AppName = \<lparr>fp_off = 0, fp_len = 0\<rparr>,
       lh_ServerName = \<lparr>fp_off = 0, fp_len = 0\<rparr>, lh_Extension = \<lparr>fp_off = 0, fp_len = 0\<rparr>,
       lh_CtlIntName = \<lparr>fp_off = 0, fp_len = 0\<rparr>, lh_Language = \<lparr>fp_off = 0, fp_len = 0\<rparr>,
       lh_Database = \<lparr>fp_off = 0, fp_len = 0\<rparr>, lh_ClientID = [], lh_SSPI = \<lparr>fp_off = 0, fp_len = 0\<rparr>,
       lh_AtchDBFile = \<lparr>fp_off = 0, fp_len = 0\<rparr>, lh_ChangePassword = \<lparr>fp_off = 0, fp_len = 0\<rparr>,
       lh_SSPILongLength = 0\<rparr>\<rparr>"

theorem login_roundtrip_witness:
  "\<exists>pw. DecodeLogin (tds_Frame (EncodeLogin demo_login)) =
     Ret (demo_login\<lparr>lg_Password := pw, lg_ClientID := replicate 6 0, lg_SSPI := [],
       lg_header := (login_hdr demo_login)\<lparr>lh_ClientTimeZone := 0, lh_ClientID := copy_into 6 (lg_ClientID demo_login)\<rparr>\<rparr>)"
proof -
  have "login_fits demo_login"
    by (simp add: login_fits_def demo_login_def login_parts_def manglePassword_def length_str2ucs2
        utf16_Encode_def utf16_encode_rune_def bmp_rune_def valid_rune_def)
  from login_roundtrip [OF this] show ?thesis by blast
qed

text \<open>Password changes: the flag is cleared, everything else is kept.\<close>

lemma DisablePasswordChange_flag:
  "lh_OptionFlags3 (lg_header (DisablePasswordChange l)) = lh_OptionFlags3 (lg_header l) AND NOT fChangePassword"
proof -
  have "f AND NOT 1 = f" if "\<not> f AND 1 > 0" for f :: "8 word"
  proof -
    have "f AND 1 = 0" using that by (simp add: word_gt_0)
    then have "f = (f AND NOT 1) OR (f AND 1)" "(f AND NOT 1) OR (f AND 1) = f AND NOT 1"
      by (auto simp: bit_eq_iff bit_simps)
    then show ?thesis by simp
  qed
  then show ?thesis by (auto simp: DisablePasswordChange_def Let_def)
qed

end
