(* ===== verification/Proto.thy ===== *)
theory Proto
  imports Prelude
begin

text \<open>
  The message vocabulary shared by the API server, the gateway and the agent: the packet of
  \<open>src/common/proto/transport.pb.go\<close>, the constants of \<open>src/common/proto\<close> and its packages
  \<open>agent\<close>, \<open>client\<close>, \<open>gateway\<close> and \<open>system\<close>, and the helpers of \<open>types.go\<close>.

  \<open>Spec\<close> is a Go map that may be nil (\<open>None\<close>): reading a nil map gives the zero value, writing
  to it would panic.  \<open>Payload\<close> keeps nil apart from the empty slice, because the agent tests
  for it.
\<close>

record packet =
  pkt_Type :: string
  pkt_Spec :: "string gomap option"
  pkt_Payload :: "string option"

text \<open>\<open>pkt.Spec[key]\<close> and \<open>string(pkt.Payload)\<close>.\<close>

definition spec_get :: "packet \<Rightarrow> string \<Rightarrow> string" where
  "spec_get pkt key = (case pkt_Spec pkt of None \<Rightarrow> '''' | Some m \<Rightarrow> gm_str m key)"

definition spec_has :: "packet \<Rightarrow> string \<Rightarrow> bool" where
  "spec_has pkt key = (case pkt_Spec pkt of None \<Rightarrow> False | Some m \<Rightarrow> gm_get m key \<noteq> None)"

definition payload_str :: "packet \<Rightarrow> string" where
  "payload_str pkt = (case pkt_Payload pkt of None \<Rightarrow> '''' | Some p \<Rightarrow> p)"

section \<open>Constants\<close>

abbreviation SpecGatewaySessionID :: string where "SpecGatewaySessionID \<equiv> ''gateway.session_id''"
abbreviation SpecConnectionType :: string where "SpecConnectionType \<equiv> ''gateway.connection_type''"
abbreviation SpecClientConnectionID :: string where "SpecClientConnectionID \<equiv> ''client.connection_id''"
abbreviation SpecClientExitCodeKey :: string where "SpecClientExitCodeKey \<equiv> ''client.exit_code''"
abbreviation SpecClientRequestPort :: string where "SpecClientRequestPort \<equiv> ''client.request_port''"
abbreviation SpecClientExecCommandKey :: string where "SpecClientExecCommandKey \<equiv> ''client.command''"
abbreviation SpecClientExecEnvVar :: string where "SpecClientExecEnvVar \<equiv> ''terminal.envvars''"
abbreviation SpecAgentConnectionParamsKey :: string where "SpecAgentConnectionParamsKey \<equiv> ''agent.connection_params''"
abbreviation SpecTCPServerConnectKey :: string where "SpecTCPServerConnectKey \<equiv> ''tcp.server_connect''"

abbreviation ConnectionTypeCommandLine :: string where "ConnectionTypeCommandLine \<equiv> ''command-line''"
abbreviation ConnectionTypeDynamoDB :: string where "ConnectionTypeDynamoDB \<equiv> ''dynamodb''"
abbreviation ConnectionTypeCloudWatch :: string where "ConnectionTypeCloudWatch \<equiv> ''cloudwatch''"
abbreviation ConnectionTypePostgres :: string where "ConnectionTypePostgres \<equiv> ''postgres''"
abbreviation ConnectionTypeMySQL :: string where "ConnectionTypeMySQL \<equiv> ''mysql''"
abbreviation ConnectionTypeMSSQL :: string where "ConnectionTypeMSSQL \<equiv> ''mssql''"
abbreviation ConnectionTypeMongoDB :: string where "ConnectionTypeMongoDB \<equiv> ''mongodb''"
abbreviation ConnectionTypeOracleDB :: string where "ConnectionTypeOracleDB \<equiv> ''oracledb''"
abbreviation ConnectionTypeTCP :: string where "ConnectionTypeTCP \<equiv> ''tcp''"
abbreviation ConnectionTypeHttpProxy :: string where "ConnectionTypeHttpProxy \<equiv> ''httpproxy''"
abbreviation ConnectionTypeSSH :: string where "ConnectionTypeSSH \<equiv> ''ssh''"
abbreviation ConnectionTypeRDP :: string where "ConnectionTypeRDP \<equiv> ''rdp''"

abbreviation ConnectionOriginAgent :: string where "ConnectionOriginAgent \<equiv> ''agent''"
abbreviation ConnectionOriginClientAPI :: string where "ConnectionOriginClientAPI \<equiv> ''client-api''"
abbreviation SystemAgentEnvs :: string where "SystemAgentEnvs \<equiv> ''system.agent.envs''"
abbreviation ClientVerbExec :: string where "ClientVerbExec \<equiv> ''exec''"
abbreviation AgentModeEmbeddedType :: string where "AgentModeEmbeddedType \<equiv> ''embedded''"
abbreviation AgentModeStandardType :: string where "AgentModeStandardType \<equiv> ''standard''"
abbreviation PreConnectStatusConnectType :: string where "PreConnectStatusConnectType \<equiv> ''CONNECT''"
abbreviation PreConnectStatusBackoffType :: string where "PreConnectStatusBackoffType \<equiv> ''BACKOFF''"

text \<open>Packet types handled by the agent (package \<open>pbagent\<close>).\<close>

abbreviation agent_GatewayConnectOK :: string where "agent_GatewayConnectOK \<equiv> ''AgentGatewayConnectOK''"
abbreviation agent_SessionOpen :: string where "agent_SessionOpen \<equiv> ''AgentSessionOpen''"
abbreviation agent_SessionClose :: string where "agent_SessionClose \<equiv> ''AgentSessionClose''"
abbreviation agent_ExecWriteStdin :: string where "agent_ExecWriteStdin \<equiv> ''AgentExecWriteStdin''"
abbreviation agent_TerminalWriteStdin :: string where "agent_TerminalWriteStdin \<equiv> ''AgentTerminalWriteStdin''"
abbreviation agent_TerminalResizeTTY :: string where "agent_TerminalResizeTTY \<equiv> ''AgentTerminalResizeTTY''"
abbreviation agent_TCPConnectionClose :: string where "agent_TCPConnectionClose \<equiv> ''AgentCloseTCPConnection''"
abbreviation agent_TCPConnectionWrite :: string where "agent_TCPConnectionWrite \<equiv> ''AgentTCPConnectionWrite''"
abbreviation agent_PGConnectionWrite :: string where "agent_PGConnectionWrite \<equiv> ''AgentPGConnectionWrite''"
abbreviation agent_MySQLConnectionWrite :: string where "agent_MySQLConnectionWrite \<equiv> ''AgentMySQLConnectionWrite''"
abbreviation agent_MSSQLConnectionWrite :: string where "agent_MSSQLConnectionWrite \<equiv> ''AgentMSSQLConnectionWrite''"
abbreviation agent_MongoDBConnectionWrite :: string where "agent_MongoDBConnectionWrite \<equiv> ''AgentMongoDBConnectionWrite''"
abbreviation agent_SSHConnectionWrite :: string where "agent_SSHConnectionWrite \<equiv> ''AgentSSHConnectionWrite''"
abbreviation agent_HttpProxyConnectionWrite :: string where "agent_HttpProxyConnectionWrite \<equiv> ''AgentHttpProxyConnectionWrite''"

text \<open>Packet types handled by a client (package \<open>pbclient\<close>), the keep-alive, and the system requests.\<close>

abbreviation client_SessionOpenOK :: string where "client_SessionOpenOK \<equiv> ''ClientSessionOpenOK''"
abbreviation client_SessionClose :: string where "client_SessionClose \<equiv> ''ClientSessionClose''"
abbreviation client_TCPConnectionClose :: string where "client_TCPConnectionClose \<equiv> ''ClientTCPConnectionClose''"
abbreviation client_TCPConnectionWrite :: string where "client_TCPConnectionWrite \<equiv> ''ClientTCPConnectionWrite''"
abbreviation client_PGConnectionWrite :: string where "client_PGConnectionWrite \<equiv> ''ClientPGConnectionWrite''"
abbreviation client_MySQLConnectionWrite :: string where "client_MySQLConnectionWrite \<equiv> ''ClientMySQLConnectionWrite''"
abbreviation client_MSSQLConnectionWrite :: string where "client_MSSQLConnectionWrite \<equiv> ''ClientMSSQLConnectionWrite''"
abbreviation client_MongoDBConnectionWrite :: string where "client_MongoDBConnectionWrite \<equiv> ''ClientMongoDBConnectionWrite''"
abbreviation client_SSHConnectionWrite :: string where "client_SSHConnectionWrite \<equiv> ''ClientSSHConnectionWrite''"
abbreviation client_WriteStdout :: string where "client_WriteStdout \<equiv> ''ClientWriteStdout''"
abbreviation client_WriteStderr :: string where "client_WriteStderr \<equiv> ''ClientWriteStderr''"
abbreviation client_HttpProxyConnectionWrite :: string where "client_HttpProxyConnectionWrite \<equiv> ''ClientHttpProxyConnectionWrite''"
abbreviation gateway_KeepAlive :: string where "gateway_KeepAlive \<equiv> ''GatewayKeepAlive''"
abbreviation system_ProvisionDBRolesRequest :: string where "system_ProvisionDBRolesRequest \<equiv> ''SysProvisionDBRolesRequest''"
abbreviation system_ProvisionDBRolesResponse :: string where "system_ProvisionDBRolesResponse \<equiv> ''SysProvisionDBRolesResponse''"
abbreviation system_RunbookHookRequestType :: string where "system_RunbookHookRequestType \<equiv> ''SysRunbookHookRequestType''"
abbreviation system_RunbookHookResponseType :: string where "system_RunbookHookResponseType \<equiv> ''SysRunbookHookResponseType''"

section \<open>Connection parameters\<close>

text \<open>
  The values of \<open>EnvVars\<close> are Go \<open>any\<close>: a string, or a value of another type, given by its
  type name and by what \<open>fmt.Sprintf("%v", v)\<close> prints for it.
\<close>

datatype env_val = EnvStr string | EnvOther string string

definition env_show :: "env_val \<Rightarrow> string" where
  "env_show v = (case v of EnvStr s \<Rightarrow> s | EnvOther _ s \<Rightarrow> s)"

record agent_connection_params =
  ConnectionName :: string
  ConnectionType :: string
  UserID :: string
  UserEmail :: string
  EnvVars :: "env_val gomap"
  CmdList :: "string list"
  ClientArgs :: "string list"
  ClientVerb :: string
  ClientOrigin :: string
  DlpProvider :: string
  DlpMode :: string
  DLPInfoTypes :: "string list"
  DlpGcpRawCredentialsJSON :: string
  DlpPresidioAnalyzerURL :: string
  DlpPresidioAnonymizerURL :: string
  DataMaskingEntityTypesData :: "string option"
  GuardRailRules :: "string option"

section \<open>Helpers of types.go\<close>

text \<open>
  \<open>GobDecodeInto\<close> refuses an empty input and otherwise hands it to the gob decoder, which is
  a parameter.
\<close>

definition GobDecodeInto :: "(string \<Rightarrow> 'a result) \<Rightarrow> string \<Rightarrow> 'a result" where
  "GobDecodeInto gob_decode data = (if data = '''' then Inl ''nothing to decode'' else gob_decode data)"

fun IsInList :: "string \<Rightarrow> string list \<Rightarrow> bool" where
  "IsInList item [] = False"
| "IsInList item (i # items) = (if i = item then True else IsInList item items)"

definition ToConnectionType :: "string \<Rightarrow> string \<Rightarrow> string" where
  "ToConnectionType connectionType subtype =
     (if connectionType = ''application'' then
        (if subtype = ''tcp'' then ConnectionTypeTCP
         else if subtype = ''httpproxy'' then ConnectionTypeHttpProxy
         else if subtype = ''ssh'' then ConnectionTypeSSH
         else if subtype = ''rdp'' then ConnectionTypeRDP
         else ConnectionTypeCommandLine)
      else if connectionType = ''custom'' then
        (if subtype = ''dynamodb'' then ConnectionTypeDynamoDB
         else if subtype = ''cloudwatch'' then ConnectionTypeCloudWatch
         else ConnectionTypeCommandLine)
      else if connectionType = ''database'' then
        (if subtype = ''postgres'' then ConnectionTypePostgres
         else if subtype = ''mysql'' then ConnectionTypeMySQL
         else if subtype = ''mongodb'' then ConnectionTypeMongoDB
         else if subtype = ''mssql'' then ConnectionTypeMSSQL
         else if subtype = ''oracledb'' then ConnectionTypeOracleDB
         else connectionType)
      else connectionType)"

section \<open>Lemmas\<close>

lemma IsInList_iff [simp]: "IsInList item items \<longleftrightarrow> item \<in> set items"
  by (induction items) auto

lemma spec_get_Some [simp]: "spec_get \<lparr>pkt_Type = t, pkt_Spec = Some m, pkt_Payload = p\<rparr> k = gm_str m k"
  by (simp add: spec_get_def)

lemma ToConnectionType_known:
  "ToConnectionType ct st \<in>
     {ConnectionTypeTCP, ConnectionTypeHttpProxy, ConnectionTypeSSH, ConnectionTypeRDP,
      ConnectionTypeCommandLine, ConnectionTypeDynamoDB, ConnectionTypeCloudWatch,
      ConnectionTypePostgres, ConnectionTypeMySQL, ConnectionTypeMongoDB, ConnectionTypeMSSQL,
      ConnectionTypeOracleDB, ct}"
  by (simp add: ToConnectionType_def)

end
