(* ===== verification/Transition.thy ===== *)
theory Transition
  imports Main
begin

text \<open>
  Interleavings as a transition system: a set of initial states and a step relation, the
  reachable states, and the two ways the development uses them: an invariant holds in every
  reachable state, and a quantity that no step changes keeps its value along every run.
\<close>

locale transition_system =
  fixes init :: "'s \<Rightarrow> bool"
    and step :: "'s \<Rightarrow> 's \<Rightarrow> bool"
begin

inductive reach :: "'s \<Rightarrow> bool" where
  start: "init s \<Longrightarrow> reach s"
| next_state: "reach s \<Longrightarrow> step s s' \<Longrightarrow> reach s'"

lemma invariant:
  assumes "reach s" and "\<And>s. init s \<Longrightarrow> I s" and "\<And>s s'. I s \<Longrightarrow> step s s' \<Longrightarrow> I s'"
  shows "I s"
  using assms(1) by (induction rule: reach.induct) (auto intro: assms(2,3))

text \<open>An invariant that is proved with the help of another one.\<close>

lemma invariant_with:
  assumes "reach s" and J: "\<And>s. reach s \<Longrightarrow> J s"
    and "\<And>s. init s \<Longrightarrow> I s" and "\<And>s s'. I s \<Longrightarrow> J s \<Longrightarrow> J s' \<Longrightarrow> step s s' \<Longrightarrow> I s'"
  shows "I s"
  using assms(1)
proof (induction rule: reach.induct)
  case (start s)
  then show ?case by (rule assms(3))
next
  case (next_state s s')
  moreover have "reach s'" using next_state.hyps by (rule reach.next_state)
  ultimately show ?case using J assms(4) by blast
qed

lemma reach_steps: "reach s \<Longrightarrow> step\<^sup>*\<^sup>* s s' \<Longrightarrow> reach s'"
  by (rotate_tac, induction rule: rtranclp_induct) (auto intro: next_state)

text \<open>
  A condition that is stable along a run, together with a quantity that does not change as
  long as it holds.
\<close>

lemma stable_run:
  assumes "step\<^sup>*\<^sup>* s s'" "I s" "P s"
    and "\<And>s s'. I s \<Longrightarrow> step s s' \<Longrightarrow> I s'"
    and "\<And>s s'. I s \<Longrightarrow> P s \<Longrightarrow> step s s' \<Longrightarrow> P s' \<and> f s' = f s"
  shows "P s' \<and> f s' = f s"
proof -
  have "I s' \<and> P s' \<and> f s' = f s"
    using assms(1)
  proof (induction rule: rtranclp_induct)
    case base
    then show ?case using assms(2,3) by simp
  next
    case (step y z)
    then show ?case using assms(4,5) [of y z] by auto
  qed
  then show ?thesis by simp
qed

end

end
