(* ===== verification/Gateway.thy ===== *)
theory Gateway
  imports Proto Transition
begin

text \<open>
  The gateway of \<open>src/gateway/main.go\<close>.  It accepts streams from agents and from clients,
  registers the agents, opens one session per client and relays packets in both directions.

  Every accepted stream is served by its own goroutine.  The model keeps the program point of
  every such handler, the two \<open>sync.Map\<close>s of the broker, the heap of \<open>Session\<close> objects (a
  handler may hold a pointer to a session that has left the map), and two logs: the packets
  received from and sent to each stream.  One step is one access to shared state: a \<open>sync.Map\<close>
  operation, a \<open>Session\<close> method under its mutex, or a send.  When a receive or a send fails is
  left to the environment.
\<close>

abbreviation ValidToken :: string where "ValidToken \<equiv> ''test-token-123''"

section \<open>Authentication\<close>

text \<open>
  Incoming metadata: each key has a list of values; \<open>None\<close> when the context carries none.
  All keys the program asks for are lower case, as \<open>md.Get\<close> wants them.
\<close>

type_synonym metadata = "string list gomap"

definition getMetadataValue :: "metadata \<Rightarrow> string \<Rightarrow> string" where
  "getMetadataValue md key =
     (case gm_get md (to_lower key) of Some (v # _) \<Rightarrow> v | _ \<Rightarrow> '''')"

text \<open>The token of an authorization header, taken out of a DSN if it looks like one.\<close>

definition auth_token :: "string \<Rightarrow> string" where
  "auth_token authHeader =
     (let token = trim_prefix authHeader ''Bearer '' in
      if str_contains token ''://'' \<and> str_contains token ''@'' then
        (let parts = str_split ''://'' token in
         if length parts = 2 then
           (let userInfo = hd (str_split ''@'' (parts ! 1)) in
            if str_contains userInfo '':'' then str_split '':'' userInfo ! 1 else token)
         else token)
      else token)"

definition validateAuth :: "metadata option \<Rightarrow> unit result" where
  "validateAuth ctx =
     (case ctx of None \<Rightarrow> Inl ''missing metadata''
      | Some md \<Rightarrow>
         let authHeader = getMetadataValue md ''authorization'' in
         if authHeader = '''' then Inl ''missing authorization header''
         else if \<not> has_prefix authHeader ''Bearer '' then Inl ''invalid authorization format''
         else let token = auth_token authHeader in
           if token \<noteq> ValidToken \<and> length token \<noteq> 64 \<and> \<not> str_contains token ''test-token''
           then Inl ''invalid token'' else Inr ())"

record preconnect_response =
  pr_Status :: string
  pr_Message :: string

definition PreConnect :: "metadata option \<Rightarrow> preconnect_response" where
  "PreConnect ctx =
     (case validateAuth ctx of
        Inl _ \<Rightarrow> \<lparr>pr_Status = ''backoff'', pr_Message = ''unauthorized''\<rparr>
      | Inr _ \<Rightarrow> \<lparr>pr_Status = ''connect'', pr_Message = ''authorized''\<rparr>)"

definition HealthCheck :: string where
  "HealthCheck = ''healthy''"

section \<open>State\<close>

text \<open>Streams are named by numbers, sessions by their index in the heap.\<close>

type_synonym stream = nat
type_synonym session_ptr = nat

record agent_connection =
  ac_stream :: stream
  ac_agentID :: string
  ac_origin :: string
  ac_metadata :: "string gomap"

record session =
  ses_sessionID :: string
  ses_agent :: agent_connection
  ses_clientStream :: stream
  ses_closed :: bool
  ses_cancelled :: bool

text \<open>Where a handler is, with its local variables.\<close>

datatype handler =
    AgentHello agent_connection
  | AgentLoop agent_connection
  | AgentDeliver agent_connection session_ptr packet
  | AgentDefer agent_connection error
  | ClientLookup agent_connection
  | ClientLoop session_ptr
  | ClientForward session_ptr packet
  | ClientClosing session_ptr error
  | ClientDelete session_ptr error
  | Finished error

record gateway =
  gw_agents :: "agent_connection gomap"
  gw_sessions :: "session_ptr gomap"
  gw_heap :: "session list"
  gw_ctx :: "stream \<Rightarrow> metadata option option"
  gw_threads :: "stream \<Rightarrow> handler option"
  gw_rcvd :: "(stream \<times> packet) list"
  gw_sent :: "(stream \<times> packet) list"

definition gw_init :: gateway where
  "gw_init = \<lparr>gw_agents = [], gw_sessions = [], gw_heap = [], gw_ctx = (\<lambda>_. None),
     gw_threads = (\<lambda>_. None), gw_rcvd = [], gw_sent = []\<rparr>"

definition goto :: "stream \<Rightarrow> handler \<Rightarrow> gateway \<Rightarrow> gateway" where
  "goto st h s = s\<lparr>gw_threads := (gw_threads s)(st \<mapsto> h)\<rparr>"

text \<open>\<open>stream.Send\<close>: a send that succeeds puts the packet on the stream.\<close>

definition stream_Send :: "error option \<Rightarrow> stream \<Rightarrow> packet \<Rightarrow> gateway \<Rightarrow> error option \<times> gateway" where
  "stream_Send r st pkt s =
     (case r of None \<Rightarrow> (None, s\<lparr>gw_sent := gw_sent s @ [(st, pkt)]\<rparr>) | Some e \<Rightarrow> (Some e, s))"

section \<open>Session and Broker methods\<close>

definition SendToClient :: "error option \<Rightarrow> session_ptr \<Rightarrow> packet \<Rightarrow> gateway \<Rightarrow> error option \<times> gateway" where
  "SendToClient r p pkt s =
     (if ses_closed (gw_heap s ! p) then (Some ''session closed'', s)
      else stream_Send r (ses_clientStream (gw_heap s ! p)) pkt s)"

definition Session_Close :: "session_ptr \<Rightarrow> gateway \<Rightarrow> gateway" where
  "Session_Close p s =
     (if ses_closed (gw_heap s ! p) then s
      else s\<lparr>gw_heap := (gw_heap s)[p := (gw_heap s ! p)\<lparr>ses_closed := True, ses_cancelled := True\<rparr>]\<rparr>)"

definition GetSession :: "string \<Rightarrow> gateway \<Rightarrow> session_ptr option" where
  "GetSession sessionID s = gm_get (gw_sessions s) sessionID"

definition GetActiveAgents :: "gateway \<Rightarrow> string list" where
  "GetActiveAgents s = map fst (gw_agents s)"

text \<open>The body of the HTTP endpoint \<open>/agents\<close>: the list and its length.\<close>

definition http_agents :: "gateway \<Rightarrow> string list \<times> nat" where
  "http_agents s = (let agents = GetActiveAgents s in (agents, length agents))"

section \<open>handleAgentConnection\<close>

definition hello_packet :: packet where
  "hello_packet = \<lparr>pkt_Type = agent_GatewayConnectOK, pkt_Spec = None, pkt_Payload = Some ''connected''\<rparr>"

definition agent_id :: "string \<Rightarrow> string" where
  "agent_id connectionName = (if connectionName \<noteq> '''' then ''agent-'' @ connectionName else ''agent-default'')"

definition handleAgentConnection :: "stream \<Rightarrow> metadata \<Rightarrow> gateway \<Rightarrow> gateway" where
  "handleAgentConnection st md s =
     (let connectionName = getMetadataValue md ''connection-name'';
          agentID = agent_id connectionName;
          agent = \<lparr>ac_stream = st, ac_agentID = agentID, ac_origin = ''agent'',
                   ac_metadata = [(''connection-name'', connectionName)]\<rparr>
      in goto st (AgentHello agent) (s\<lparr>gw_agents := gm_set agentID agent (gw_agents s)\<rparr>))"

definition agent_hello :: "error option \<Rightarrow> agent_connection \<Rightarrow> gateway \<Rightarrow> gateway" where
  "agent_hello r agent s =
     (case stream_Send r (ac_stream agent) hello_packet s of
        (Some e, s) \<Rightarrow> goto (ac_stream agent) (AgentDefer agent e) s
      | (None, s) \<Rightarrow> goto (ac_stream agent) (AgentLoop agent) s)"

definition agent_recv :: "packet result \<Rightarrow> agent_connection \<Rightarrow> gateway \<Rightarrow> gateway" where
  "agent_recv r agent s =
     (case r of
        Inl e \<Rightarrow> goto (ac_stream agent) (AgentDefer agent e) s
      | Inr pkt \<Rightarrow>
          (let s = s\<lparr>gw_rcvd := gw_rcvd s @ [(ac_stream agent, pkt)]\<rparr>;
               sessionID = spec_get pkt SpecGatewaySessionID
           in if sessionID \<noteq> '''' then
                (case GetSession sessionID s of
                   Some sess \<Rightarrow> goto (ac_stream agent) (AgentDeliver agent sess pkt) s
                 | None \<Rightarrow> s)
              else s))"

text \<open>An error of \<open>SendToClient\<close> is logged and the loop goes on.\<close>

definition agent_deliver :: "error option \<Rightarrow> agent_connection \<Rightarrow> session_ptr \<Rightarrow> packet \<Rightarrow> gateway \<Rightarrow> gateway" where
  "agent_deliver r agent sess pkt s =
     goto (ac_stream agent) (AgentLoop agent) (snd (SendToClient r sess pkt s))"

definition agent_defer :: "agent_connection \<Rightarrow> error \<Rightarrow> gateway \<Rightarrow> gateway" where
  "agent_defer agent e s =
     goto (ac_stream agent) (Finished e) (s\<lparr>gw_agents := gm_del (ac_agentID agent) (gw_agents s)\<rparr>)"

section \<open>handleClientConnection\<close>

definition status_error :: "string \<Rightarrow> string \<Rightarrow> error" where
  "status_error code msg = ''rpc error: code = '' @ code @ '' desc = '' @ msg"

text \<open>
  Without a requested agent the handler takes the first entry \<open>Range\<close> visits; which one that is
  is not specified, so \<open>pick\<close> chooses it.
\<close>

definition first_available :: "nat \<Rightarrow> agent_connection gomap \<Rightarrow> agent_connection option" where
  "first_available pick agents =
     (if agents = [] then None else Some (snd (agents ! (pick mod length agents))))"

definition select_agent :: "nat \<Rightarrow> string \<Rightarrow> agent_connection gomap \<Rightarrow> agent_connection result" where
  "select_agent pick requestedAgentID agents =
     (if requestedAgentID \<noteq> '''' then
        (case gm_get agents requestedAgentID of
           Some agent \<Rightarrow> Inr agent
         | None \<Rightarrow> Inl (status_error ''Unavailable''
                     (''requested agent '' @ [CHR 39] @ requestedAgentID @ [CHR 39] @ '' is not connected'')))
      else (case first_available pick agents of
           Some agent \<Rightarrow> Inr agent
         | None \<Rightarrow> Inl (status_error ''Unavailable'' ''no agents available'')))"

definition handleClientConnection :: "nat \<Rightarrow> stream \<Rightarrow> metadata \<Rightarrow> gateway \<Rightarrow> gateway" where
  "handleClientConnection pick st md s =
     (case select_agent pick (getMetadataValue md ''agent-id'') (gw_agents s) of
        Inl e \<Rightarrow> goto st (Finished e) s
      | Inr agent \<Rightarrow> goto st (ClientLookup agent) s)"

definition client_create :: "string \<Rightarrow> stream \<Rightarrow> agent_connection \<Rightarrow> gateway \<Rightarrow> gateway" where
  "client_create sessionID st agent s =
     (let p = length (gw_heap s);
          session = \<lparr>ses_sessionID = sessionID, ses_agent = agent, ses_clientStream = st,
                     ses_closed = False, ses_cancelled = False\<rparr>
      in goto st (ClientLoop p)
           (s\<lparr>gw_heap := gw_heap s @ [session], gw_sessions := gm_set sessionID p (gw_sessions s)\<rparr>))"

text \<open>Both branches of the code's \<open>switch\<close> set the session id and keep the other fields.\<close>

definition stamp :: "string \<Rightarrow> packet \<Rightarrow> packet" where
  "stamp sessionID pkt =
     (let spec = (case pkt_Spec pkt of None \<Rightarrow> [] | Some m \<Rightarrow> m)
      in pkt\<lparr>pkt_Spec := Some (gm_set SpecGatewaySessionID sessionID spec)\<rparr>)"

definition client_recv :: "packet result \<Rightarrow> stream \<Rightarrow> session_ptr \<Rightarrow> gateway \<Rightarrow> gateway" where
  "client_recv r st p s =
     (case r of
        Inl e \<Rightarrow> goto st (ClientClosing p e) s
      | Inr pkt \<Rightarrow>
          goto st (ClientForward p (stamp (ses_sessionID (gw_heap s ! p)) pkt))
            (s\<lparr>gw_rcvd := gw_rcvd s @ [(st, pkt)]\<rparr>))"

definition client_forward :: "error option \<Rightarrow> stream \<Rightarrow> session_ptr \<Rightarrow> packet \<Rightarrow> gateway \<Rightarrow> gateway" where
  "client_forward r st p pkt s =
     (case stream_Send r (ac_stream (ses_agent (gw_heap s ! p))) pkt s of
        (Some e, s) \<Rightarrow> goto st (ClientClosing p e) s
      | (None, s) \<Rightarrow> goto st (ClientLoop p) s)"

definition client_close :: "stream \<Rightarrow> session_ptr \<Rightarrow> error \<Rightarrow> gateway \<Rightarrow> gateway" where
  "client_close st p e s = goto st (ClientDelete p e) (Session_Close p s)"

definition client_delete :: "stream \<Rightarrow> session_ptr \<Rightarrow> error \<Rightarrow> gateway \<Rightarrow> gateway" where
  "client_delete st p e s =
     goto st (Finished e) (s\<lparr>gw_sessions := gm_del (ses_sessionID (gw_heap s ! p)) (gw_sessions s)\<rparr>)"

section \<open>Connect, and the interleaving of the handlers\<close>

definition gw_Connect :: "nat \<Rightarrow> stream \<Rightarrow> metadata option \<Rightarrow> gateway \<Rightarrow> gateway" where
  "gw_Connect pick st ctx s =
     (let s = s\<lparr>gw_ctx := (gw_ctx s)(st \<mapsto> ctx)\<rparr>;
          md = (case ctx of None \<Rightarrow> [] | Some md \<Rightarrow> md)
      in case validateAuth ctx of
           Inl _ \<Rightarrow> goto st (Finished (status_error ''Unauthenticated'' ''unauthorized'')) s
         | Inr _ \<Rightarrow>
             if getMetadataValue md ''origin'' = ''agent'' then handleAgentConnection st md s
             else handleClientConnection pick st md s)"

text \<open>
  The id of a new session comes from \<open>uuid.NewString\<close>, which the code takes to be unique and at
  least eight characters long (it logs \<open>sessionID[:8]\<close>).
\<close>

definition fresh_session_id :: "string \<Rightarrow> gateway \<Rightarrow> bool" where
  "fresh_session_id sid s \<longleftrightarrow> 8 \<le> length sid \<and> sid \<notin> ses_sessionID ` set (gw_heap s)"

inductive gw_step :: "gateway \<Rightarrow> gateway \<Rightarrow> bool" where
  connect: "gw_ctx s st = None \<Longrightarrow> gw_step s (gw_Connect pick st ctx s)"
| hello: "gw_threads s (ac_stream a) = Some (AgentHello a) \<Longrightarrow> gw_step s (agent_hello r a s)"
| agent_receive: "gw_threads s (ac_stream a) = Some (AgentLoop a) \<Longrightarrow> gw_step s (agent_recv m a s)"
| deliver: "gw_threads s (ac_stream a) = Some (AgentDeliver a p pkt) \<Longrightarrow> gw_step s (agent_deliver r a p pkt s)"
| agent_exit: "gw_threads s (ac_stream a) = Some (AgentDefer a e) \<Longrightarrow> gw_step s (agent_defer a e s)"
| create: "gw_threads s st = Some (ClientLookup a) \<Longrightarrow> fresh_session_id sid s \<Longrightarrow>
    gw_step s (client_create sid st a s)"
| client_receive: "gw_threads s st = Some (ClientLoop p) \<Longrightarrow> gw_step s (client_recv m st p s)"
| forward: "gw_threads s st = Some (ClientForward p pkt) \<Longrightarrow> gw_step s (client_forward r st p pkt s)"
| closing: "gw_threads s st = Some (ClientClosing p e) \<Longrightarrow> gw_step s (client_close st p e s)"
| delete: "gw_threads s st = Some (ClientDelete p e) \<Longrightarrow> gw_step s (client_delete st p e s)"

inductive_cases gw_step_cases: "gw_step s s'"

interpretation gws: transition_system "\<lambda>s. s = gw_init" gw_step .

end
