(* ===== verification/Config.thy ===== *)
theory Config
  imports Proto Base64
begin

text \<open>
  How an agent finds its gateway: the environment loader (\<open>src/common/envloader\<close>), the DSN keys
  (\<open>src/common/dsnkeys\<close>), the agent's configuration (\<open>src/agent/config\<close>), and the address and
  metadata helpers of \<open>src/common/grpc\<close> and \<open>src/common/apiutils\<close>.

  The operating system and the packages \<open>net/url\<close> and \<open>crypto/sha256\<close> are parameters.
\<close>

section \<open>The operating system\<close>

record os_env =
  os_LookupEnv :: "string \<Rightarrow> string option"
  os_Environ :: "string list"
  os_Getwd :: "string result"
  os_ReadFile :: "string \<Rightarrow> string result"
  path_Join :: "string \<Rightarrow> string \<Rightarrow> string"

definition os_Getenv :: "os_env \<Rightarrow> string \<Rightarrow> string" where
  "os_Getenv os key = (case os_LookupEnv os key of None \<Rightarrow> '''' | Some v \<Rightarrow> v)"

section \<open>envloader\<close>

abbreviation base64EnvLoader :: string where "base64EnvLoader \<equiv> ''base64://''"
abbreviation fileEnvLoader :: string where "fileEnvLoader \<equiv> ''file://''"

definition GetEnv :: "os_env \<Rightarrow> string \<Rightarrow> string result" where
  "GetEnv os key =
     (let v = os_Getenv os key in
      if has_prefix v base64EnvLoader then b64_decode_string (trim_prefix v base64EnvLoader)
      else if has_prefix v fileEnvLoader then
        (let filePath = trim_prefix v fileEnvLoader in
         if has_prefix filePath ''/'' then os_ReadFile os filePath
         else bind_result (os_Getwd os) (\<lambda>pwdDir. os_ReadFile os (path_Join os pwdDir filePath)))
      else Inr v)"

section \<open>dsnkeys\<close>

text \<open>
  A parsed URL: the fields and methods of \<open>url.URL\<close> that the program uses.  \<open>url_Password\<close> is
  \<open>None\<close> when the URL has no user info or no password.
\<close>

record url =
  url_Scheme :: string
  url_Host :: string
  url_Path :: string
  url_Hostname :: string
  url_Port :: string
  url_Username :: string
  url_Password :: "string option"
  url_QueryGet :: "string \<Rightarrow> string"

record dsn =
  dsn_Scheme :: string
  dsn_Address :: string
  dsn_AgentMode :: string
  dsn_Name :: string
  dsn_SecretKeyHash :: string
  dsn_key :: string

text \<open>The libraries: \<open>url.Parse\<close> and the hexadecimal SHA-256 of \<open>hash256Key\<close>, which cannot fail.\<close>

record dsn_libs =
  lib_urlParse :: "string \<Rightarrow> url result"
  lib_sha256 :: "string \<Rightarrow> string"

abbreviation ErrEmpty :: error where "ErrEmpty \<equiv> ''dsn is empty''"
abbreviation ErrSecretKeyNotFound :: error where "ErrSecretKeyNotFound \<equiv> ''secret key not found in dsn''"

definition hash256Key :: "dsn_libs \<Rightarrow> string \<Rightarrow> string result" where
  "hash256Key L secretKey = Inr (lib_sha256 L secretKey)"

definition dsn_Parse :: "dsn_libs \<Rightarrow> string \<Rightarrow> dsn result" where
  "dsn_Parse L keyDsn =
     (if keyDsn = '''' then Inl ErrEmpty
      else bind_result (lib_urlParse L keyDsn) (\<lambda>u.
        if length (url_Path u) = 65 then
          bind_result (hash256Key L keyDsn) (\<lambda>h.
            Inr \<lparr>dsn_Scheme = url_Scheme u, dsn_Address = url_Host u, dsn_AgentMode = AgentModeEmbeddedType,
                 dsn_Name = '''', dsn_SecretKeyHash = h, dsn_key = keyDsn\<rparr>)
        else
          (let agentMode = url_QueryGet u ''mode'';
               secretKey = (case url_Password u of None \<Rightarrow> '''' | Some p \<Rightarrow> p)
           in if secretKey = '''' then Inl ErrSecretKeyNotFound
              else bind_result (hash256Key L secretKey) (\<lambda>h.
                Inr \<lparr>dsn_Scheme = url_Scheme u, dsn_Address = url_Host u, dsn_AgentMode = agentMode,
                     dsn_Name = url_Username u, dsn_SecretKeyHash = h, dsn_key = keyDsn\<rparr>))))"

text \<open>
  \<open>NewString\<close> and \<open>New\<close> return the string they built even when parsing it back fails: the pair
  of the string and the error.
\<close>

definition dsn_validated :: "dsn_libs \<Rightarrow> string \<Rightarrow> string \<times> error option" where
  "dsn_validated L d = (case dsn_Parse L d of Inl e \<Rightarrow> (d, Some e) | Inr _ \<Rightarrow> (d, None))"

definition dsn_NewString :: "dsn_libs \<Rightarrow> string \<Rightarrow> string \<Rightarrow> string \<Rightarrow> string \<Rightarrow> string \<times> error option" where
  "dsn_NewString L targetURL name secretKey agentMode =
     (case lib_urlParse L targetURL of
        Inl e \<Rightarrow> ('''', Some (''failed parsing target url, reason='' @ e))
      | Inr u \<Rightarrow> dsn_validated L
          (url_Scheme u @ ''://'' @ name @ '':'' @ secretKey @ ''@'' @ url_Hostname u @ '':'' @ url_Port u
            @ ''?mode='' @ agentMode))"

definition dsn_New :: "dsn_libs \<Rightarrow> string \<Rightarrow> string \<Rightarrow> string \<Rightarrow> string \<times> error option" where
  "dsn_New L targetURL name secretKey =
     (case lib_urlParse L targetURL of
        Inl e \<Rightarrow> ('''', Some (''failed parsing target url, reason='' @ e))
      | Inr u \<Rightarrow> dsn_validated L
          (url_Scheme u @ ''://'' @ name @ '':'' @ secretKey @ ''@'' @ url_Hostname u @ '':'' @ url_Port u))"

section \<open>The agent's configuration\<close>

abbreviation ModeDsn :: string where "ModeDsn \<equiv> ''dsn''"
abbreviation ModeEnv :: string where "ModeEnv \<equiv> ''env''"
abbreviation LocalhostAddr :: string where "LocalhostAddr \<equiv> ''127.0.0.1:8010''"

record agent_config =
  cfg_Token :: string
  cfg_URL :: string
  cfg_Name :: string
  cfg_Type :: string
  cfg_AgentMode :: string
  cfg_insecure :: bool
  cfg_tlsCA :: string

definition getEnvCredentials :: "os_env \<Rightarrow> bool \<times> string" where
  "getEnvCredentials os =
     (let v = os_Getenv os ''BIFROST_KEY'' in
      if v \<noteq> '''' then (False, v) else (True, os_Getenv os ''BIFROST_DSN''))"

definition getLegacyHoopTokenCredentials :: "os_env \<Rightarrow> string" where
  "getLegacyHoopTokenCredentials os =
     (let token = os_Getenv os ''TOKEN'' in if token \<noteq> '''' then token else os_Getenv os ''BIFROST_TOKEN'')"

text \<open>The part of \<open>Load\<close> for agents without a DSN.\<close>

definition load_legacy :: "os_env \<Rightarrow> agent_config result" where
  "load_legacy os =
     (let legacyToken = getLegacyHoopTokenCredentials os; grpcURL = os_Getenv os ''BIFROST_GRPCURL'' in
      if legacyToken \<noteq> '''' \<and> grpcURL \<noteq> '''' then
        Inr \<lparr>cfg_Token = legacyToken, cfg_URL = grpcURL, cfg_Name = '''', cfg_Type = ModeEnv,
             cfg_AgentMode = AgentModeStandardType, cfg_insecure = (grpcURL = LocalhostAddr), cfg_tlsCA = ''''\<rparr>
      else Inl ''missing BIFROST_KEY environment variable'')"

text \<open>
  \<open>Load\<close> compares the error with the value \<open>ErrEmpty\<close>, which \<open>Parse\<close> returns exactly for the
  empty key.
\<close>

definition config_Load :: "dsn_libs \<Rightarrow> os_env \<Rightarrow> agent_config result" where
  "config_Load L os =
     (let (isLegacy, key) = getEnvCredentials os in
      case dsn_Parse L key of
        Inl err \<Rightarrow>
          if key \<noteq> '''' then
            Inl ((if isLegacy then ''BIFROST_DSN (deprecated) is in wrong format, reason=''
                  else ''BIFROST_KEY is in wrong format, reason='') @ err)
          else load_legacy os
      | Inr d \<Rightarrow>
          bind_result (GetEnv os ''BIFROST_TLSCA'') (\<lambda>tlsCA.
            Inr \<lparr>cfg_Token = dsn_key d, cfg_URL = dsn_Address d, cfg_Name = dsn_Name d, cfg_Type = ModeDsn,
                 cfg_AgentMode = dsn_AgentMode d,
                 cfg_insecure = (dsn_Scheme d = ''http'' \<or> dsn_Scheme d = ''grpc''), cfg_tlsCA = tlsCA\<rparr>))"

definition HasTlsCA :: "agent_config \<Rightarrow> bool" where
  "HasTlsCA c = (cfg_tlsCA c \<noteq> '''')"

definition IsValid :: "agent_config \<Rightarrow> bool" where
  "IsValid c = (cfg_Token c \<noteq> '''' \<and> cfg_URL c \<noteq> '''')"

section \<open>grpc helpers\<close>

record client_config =
  cc_ServerAddress :: string
  cc_Token :: string
  cc_UserAgent :: string
  cc_Insecure :: bool
  cc_TLSCA :: string
  cc_TLSServerName :: string

definition ParseServerAddress :: "dsn_libs \<Rightarrow> string \<Rightarrow> string result" where
  "ParseServerAddress L addr =
     (let srvAddr = (case lib_urlParse L addr of Inl _ \<Rightarrow> '''' | Inr u \<Rightarrow> url_Host u) in
      if srvAddr = '''' then
        (case str_cut '':'' addr of
           None \<Rightarrow> Inl ''server address is in wrong format''
         | Some (host, port) \<Rightarrow>
             if host = '''' then Inl ''server address is in wrong format'' else Inr (host @ '':'' @ port))
      else Inr srvAddr)"

text \<open>The configuration is returned together with the error.\<close>

definition GrpcClientConfig :: "dsn_libs \<Rightarrow> os_env \<Rightarrow> agent_config \<Rightarrow> client_config \<times> error option" where
  "GrpcClientConfig L os c =
     (let (srvAddr, err) = (case ParseServerAddress L (cfg_URL c) of Inl e \<Rightarrow> ('''', Some e) | Inr a \<Rightarrow> (a, None))
      in (\<lparr>cc_ServerAddress = srvAddr, cc_Token = cfg_Token c, cc_UserAgent = '''', cc_Insecure = cfg_insecure c,
           cc_TLSCA = cfg_tlsCA c, cc_TLSServerName = os_Getenv os ''BIFROST_TLSSERVERNAME''\<rparr>, err))"

text \<open>\<open>md.Get\<close> lowers its key; incoming metadata has lower-case keys.\<close>

definition md_Get :: "string list gomap \<Rightarrow> string \<Rightarrow> string list" where
  "md_Get md k = (case gm_get md (to_lower k) of None \<Rightarrow> [] | Some vs \<Rightarrow> vs)"

definition replace_char :: "char \<Rightarrow> char \<Rightarrow> string \<Rightarrow> string" where
  "replace_char a b s = map (\<lambda>c. if c = a then b else c) s"

definition MetaGet :: "string list gomap \<Rightarrow> string \<Rightarrow> string" where
  "MetaGet md metaName =
     (case md_Get md metaName of
        d # _ \<Rightarrow> d
      | [] \<Rightarrow> (case md_Get md (replace_char (CHR ''-'') (CHR ''_'') metaName) of [] \<Rightarrow> '''' | d # _ \<Rightarrow> d))"

definition ShouldDebugGrpc :: "os_env \<Rightarrow> bool" where
  "ShouldDebugGrpc os = (os_Getenv os ''LOG_GRPC'' = ''1'' \<or> os_Getenv os ''LOG_GRPC'' = ''2'')"

text \<open>The metadata an agent sends when it connects (\<open>connectRPC\<close> appends the options last).\<close>

definition connect_metadata :: "(string \<times> string) list \<Rightarrow> (string \<times> string) list \<Rightarrow> string list gomap" where
  "connect_metadata base opts =
     fold (\<lambda>(k, v) md. gm_set (to_lower k) (md_Get md k @ [v]) md) (base @ opts) []"

definition connect_options :: "client_config \<Rightarrow> (string \<times> string) list \<Rightarrow> (string \<times> string) list" where
  "connect_options cc opts =
     (if cc_Insecure cc then opts @ [(''authorization'', ''Bearer '' @ cc_Token cc)] else opts)"

definition agent_options :: "string \<Rightarrow> (string \<times> string) list" where
  "agent_options name =
     [(''origin'', ConnectionOriginAgent)] @ (if name \<noteq> '''' then [(''connection-name'', name)] else [])"

section \<open>apiutils\<close>

definition normalizeUserAgent :: "(string \<Rightarrow> string list) \<Rightarrow> string" where
  "normalizeUserAgent headerGetterFn =
     (case headerGetterFn ''User-Client'' of
        d # _ \<Rightarrow> d
      | [] \<Rightarrow> (case headerGetterFn ''User-Agent'' of d # _ \<Rightarrow> d | [] \<Rightarrow> ''''))"

definition NormalizeUserAgent :: "(string \<Rightarrow> string list) \<Rightarrow> string" where
  "NormalizeUserAgent headerGetterFn =
     (let ua = normalizeUserAgent headerGetterFn in
      if ua \<noteq> '''' then
        (let parts = str_split '' '' ua; ua = (if length parts > 1 then parts ! 0 else ua)
         in str_split ''/'' ua ! 0)
      else '''')"

section \<open>Properties\<close>

lemma GetEnv_base64:
  assumes "os_Getenv os key = base64EnvLoader @ b64_encode v"
  shows "GetEnv os key = Inr v"
  using assms trim_prefix_append [of base64EnvLoader "b64_encode v"]
  by (simp add: GetEnv_def has_prefix_def b64_decode_string_encode)

text \<open>
  What \<open>url.Parse\<close> documents for the URLs that \<open>NewString\<close> is meant for: a scheme in lower case, and names, keys, hosts
  and modes of characters that need no escape.
\<close>

definition lower_char :: "char \<Rightarrow> bool" where
  "lower_char c \<longleftrightarrow> c \<in> set ''abcdefghijklmnopqrstuvwxyz''"

definition plain_char :: "char \<Rightarrow> bool" where
  "plain_char c \<longleftrightarrow> lower_char c \<or> c \<in> set ''ABCDEFGHIJKLMNOPQRSTUVWXYZ0123456789-._~''"

definition plain :: "string \<Rightarrow> bool" where
  "plain s = list_all plain_char s"

definition plain_scheme :: "string \<Rightarrow> bool" where
  "plain_scheme s = (s \<noteq> '''' \<and> list_all lower_char s)"

definition plain_port :: "string \<Rightarrow> bool" where
  "plain_port s = (s \<noteq> '''' \<and> list_all (\<lambda>c. digit_val c \<noteq> None) s)"

definition url_Parse_plain :: "dsn_libs \<Rightarrow> bool" where
  "url_Parse_plain L \<longleftrightarrow>
     (\<forall>scheme host port. plain_scheme scheme \<and> plain host \<and> host \<noteq> '''' \<and> plain_port port \<longrightarrow>
        (\<exists>u. lib_urlParse L (scheme @ ''://'' @ host @ '':'' @ port) = Inr u \<and>
           url_Scheme u = scheme \<and> url_Hostname u = host \<and> url_Port u = port) \<and>
        (\<forall>name key mode. plain name \<and> plain key \<and> plain mode \<longrightarrow>
          (\<exists>u. lib_urlParse L (scheme @ ''://'' @ name @ '':'' @ key @ ''@'' @ host @ '':'' @ port @ ''?mode='' @ mode) = Inr u \<and>
             url_Scheme u = scheme \<and> url_Host u = host @ '':'' @ port \<and> url_Path u = '''' \<and>
             url_Username u = name \<and> url_Password u = Some key \<and> url_QueryGet u ''mode'' = mode)))"

text \<open>
  C27: a DSN that \<open>NewString\<close> makes for a gateway at \<open>scheme://host:port\<close> is loaded back by an agent that finds it in
  \<open>BIFROST_KEY\<close>: the address is the host and the port of the gateway, name, mode and token are those it was built
  from, and the connection is insecure exactly for the schemes \<open>http\<close> and \<open>grpc\<close>.  The CA is what \<open>GetEnv\<close> finds in
  \<open>BIFROST_TLSCA\<close>, empty when that is not set and decoded when it is given in base64; if it cannot be read, that is the
  error of \<open>Load\<close>.  The scheme is in lower case, the port a number, the key not empty, and name, key, host and mode
  are made of letters, digits and the characters \<open>-._~\<close> (so the host is no IPv6 address); for such URLs
  \<open>url.Parse\<close> is assumed to answer as it documents.
\<close>

theorem dsn_new_then_load:
  assumes "url_Parse_plain L" "plain_scheme scheme" "plain host" "host \<noteq> ''''" "plain_port port"
    "plain name" "plain key" "key \<noteq> ''''" "plain mode"
    "dsn_NewString L (scheme @ ''://'' @ host @ '':'' @ port) name key mode = (d, err)"
    "os_Getenv os ''BIFROST_KEY'' = d"
  shows "err = None \<and>
     config_Load L os = (case GetEnv os ''BIFROST_TLSCA'' of
         Inl e \<Rightarrow> Inl e
       | Inr ca \<Rightarrow> Inr \<lparr>cfg_Token = d, cfg_URL = host @ '':'' @ port, cfg_Name = name, cfg_Type = ModeDsn, cfg_AgentMode = mode,
            cfg_insecure = (scheme = ''http'' \<or> scheme = ''grpc''), cfg_tlsCA = ca\<rparr>) \<and>
     (os_LookupEnv os ''BIFROST_TLSCA'' = None \<longrightarrow> GetEnv os ''BIFROST_TLSCA'' = Inr '''') \<and>
     (os_Getenv os ''BIFROST_TLSCA'' = base64EnvLoader @ b64_encode ca \<longrightarrow> GetEnv os ''BIFROST_TLSCA'' = Inr ca)"
proof -
  let ?target = "scheme @ ''://'' @ host @ '':'' @ port"
  let ?d = "scheme @ ''://'' @ name @ '':'' @ key @ ''@'' @ host @ '':'' @ port @ ''?mode='' @ mode"
  note law = assms(1) [unfolded url_Parse_plain_def, rule_format, of scheme host port]
  from law(1) assms(2-5) obtain t where t: "lib_urlParse L ?target = Inr t" "url_Scheme t = scheme" "url_Hostname t = host" "url_Port t = port"
    by blast
  from law assms(2-9) obtain u where u: "lib_urlParse L ?d = Inr u" "url_Scheme u = scheme" "url_Host u = host @ '':'' @ port"
      "url_Path u = ''''" "url_Username u = name" "url_Password u = Some key" "url_QueryGet u ''mode'' = mode"
    by blast
  have p: "dsn_Parse L ?d = Inr \<lparr>dsn_Scheme = scheme, dsn_Address = host @ '':'' @ port, dsn_AgentMode = mode,
      dsn_Name = name, dsn_SecretKeyHash = lib_sha256 L key, dsn_key = ?d\<rparr>"
    using u assms(8) by (simp add: dsn_Parse_def hash256Key_def)
  then have "dsn_NewString L ?target name key mode = (?d, None)"
    using t by (simp add: dsn_NewString_def dsn_validated_def)
  then have d: "d = ?d" "err = None" using assms(10) by simp_all
  have pd: "dsn_Parse L d = Inr \<lparr>dsn_Scheme = scheme, dsn_Address = host @ '':'' @ port, dsn_AgentMode = mode,
      dsn_Name = name, dsn_SecretKeyHash = lib_sha256 L key, dsn_key = d\<rparr>"
    unfolding d(1) by (rule p)
  have ne: "d \<noteq> ''''" using d(1) by simp
  have "config_Load L os = (case GetEnv os ''BIFROST_TLSCA'' of
         Inl e \<Rightarrow> Inl e
       | Inr ca \<Rightarrow> Inr \<lparr>cfg_Token = d, cfg_URL = host @ '':'' @ port, cfg_Name = name, cfg_Type = ModeDsn, cfg_AgentMode = mode,
            cfg_insecure = (scheme = ''http'' \<or> scheme = ''grpc''), cfg_tlsCA = ca\<rparr>)"
    by (simp add: config_Load_def getEnvCredentials_def assms(11) pd ne bind_result_def split: sum.split)
  moreover have "GetEnv os ''BIFROST_TLSCA'' = Inr ''''" if "os_LookupEnv os ''BIFROST_TLSCA'' = None"
    using that by (simp add: GetEnv_def os_Getenv_def has_prefix_def)
  ultimately show ?thesis using d(2) GetEnv_base64 [of os "''BIFROST_TLSCA''" ca] by blast
qed

text \<open>A parser for these URLs.\<close>

definition until_char :: "char \<Rightarrow> string \<Rightarrow> string" where
  "until_char c s = takeWhile (\<lambda>x. x \<noteq> c) s"

definition after_char :: "char \<Rightarrow> string \<Rightarrow> string" where
  "after_char c s = drop 1 (dropWhile (\<lambda>x. x \<noteq> c) s)"

definition plain_url :: "string \<Rightarrow> url" where
  "plain_url s =
     (let rest = drop 2 (after_char (CHR '':'') s);
          authority = until_char (CHR ''?'') rest; query = after_char (CHR ''?'') rest;
          user = (if CHR ''@'' \<in> set authority then until_char (CHR ''@'') authority else '''');
          hostport = (if CHR ''@'' \<in> set authority then after_char (CHR ''@'') authority else authority) in
      \<lparr>url_Scheme = until_char (CHR '':'') s, url_Host = hostport, url_Path = '''',
       url_Hostname = until_char (CHR '':'') hostport, url_Port = after_char (CHR '':'') hostport,
       url_Username = until_char (CHR '':'') user,
       url_Password = (if CHR '':'' \<in> set user then Some (after_char (CHR '':'') user) else None),
       url_QueryGet = (\<lambda>q. if q = until_char (CHR ''='') query then after_char (CHR ''='') query else '''')\<rparr>)"

lemma split_char [simp]:
  "c \<notin> set xs \<Longrightarrow> until_char c (xs @ c # ys) = xs" "c \<notin> set xs \<Longrightarrow> after_char c (xs @ c # ys) = ys"
  "c \<notin> set xs \<Longrightarrow> until_char c xs = xs" "c \<notin> set xs \<Longrightarrow> after_char c xs = ''''"
  by (induction xs) (auto simp: until_char_def after_char_def)

lemma plain_no_special:
  assumes "c \<in> {CHR '':'', CHR ''/'', CHR ''@'', CHR ''?'', CHR ''=''}"
  shows "plain s \<Longrightarrow> c \<notin> set s" "plain_scheme s \<Longrightarrow> c \<notin> set s" "plain_port s \<Longrightarrow> c \<notin> set s"
proof -
  have "list_all (\<lambda>c. \<not> plain_char c \<and> digit_val c = None) [CHR '':'', CHR ''/'', CHR ''@'', CHR ''?'', CHR ''='']" by code_simp
  then have c: "\<not> plain_char c" "digit_val c = None" using assms by auto
  have lower: "\<not> lower_char c" using c(1) unfolding plain_char_def by blast
  show "plain s \<Longrightarrow> c \<notin> set s" using c(1) unfolding plain_def list_all_iff by blast
  show "plain_scheme s \<Longrightarrow> c \<notin> set s" using lower unfolding plain_scheme_def list_all_iff by blast
  show "plain_port s \<Longrightarrow> c \<notin> set s" using c(2) unfolding plain_port_def list_all_iff by blast
qed

definition demo_libs :: dsn_libs where
  "demo_libs = \<lparr>lib_urlParse = (\<lambda>s. Inr (plain_url s)), lib_sha256 = (\<lambda>s. s)\<rparr>"

lemma demo_libs_plain: "url_Parse_plain demo_libs"
  unfolding url_Parse_plain_def
proof (intro allI impI conjI)
  fix scheme host port
  assume h: "plain_scheme scheme \<and> plain host \<and> host \<noteq> '''' \<and> plain_port port"
  then have s: "CHR '':'' \<notin> set scheme" "CHR '':'' \<notin> set host" "CHR ''@'' \<notin> set host" "CHR ''?'' \<notin> set host"
      "CHR '':'' \<notin> set port" "CHR ''@'' \<notin> set port" "CHR ''?'' \<notin> set port"
    using plain_no_special by simp_all
  then show "\<exists>u. lib_urlParse demo_libs (scheme @ ''://'' @ host @ '':'' @ port) = Inr u \<and>
      url_Scheme u = scheme \<and> url_Hostname u = host \<and> url_Port u = port"
    using split_char(3,4) [of "CHR ''?''" "host @ '':'' @ port"] by (simp add: demo_libs_def plain_url_def Let_def)
  fix name key mode
  assume n: "plain name \<and> plain key \<and> plain mode"
  then have m: "CHR '':'' \<notin> set name" "CHR ''@'' \<notin> set name" "CHR ''?'' \<notin> set name" "CHR '':'' \<notin> set key" "CHR ''@'' \<notin> set key" "CHR ''?'' \<notin> set key"
    using plain_no_special by simp_all
  have "until_char (CHR ''?'') (name @ '':'' @ key @ ''@'' @ host @ '':'' @ port @ ''?mode='' @ mode) = name @ '':'' @ key @ ''@'' @ host @ '':'' @ port"
      "after_char (CHR ''?'') (name @ '':'' @ key @ ''@'' @ host @ '':'' @ port @ ''?mode='' @ mode) = ''mode='' @ mode"
    using s m split_char(1,2) [of "CHR ''?''" "name @ '':'' @ key @ ''@'' @ host @ '':'' @ port" "''mode='' @ mode"] by simp_all
  moreover have "until_char (CHR ''@'') (name @ '':'' @ key @ ''@'' @ host @ '':'' @ port) = name @ '':'' @ key"
      "after_char (CHR ''@'') (name @ '':'' @ key @ ''@'' @ host @ '':'' @ port) = host @ '':'' @ port"
    using m split_char(1,2) [of "CHR ''@''" "name @ '':'' @ key" "host @ '':'' @ port"] by simp_all
  moreover have "until_char (CHR ''='') (''mode='' @ mode) = ''mode''" "after_char (CHR ''='') (''mode='' @ mode) = mode"
    by (simp_all add: until_char_def after_char_def)
  ultimately show "\<exists>u. lib_urlParse demo_libs (scheme @ ''://'' @ name @ '':'' @ key @ ''@'' @ host @ '':'' @ port @ ''?mode='' @ mode) = Inr u \<and>
      url_Scheme u = scheme \<and> url_Host u = host @ '':'' @ port \<and> url_Path u = '''' \<and>
      url_Username u = name \<and> url_Password u = Some key \<and> url_QueryGet u ''mode'' = mode"
    using s m by (simp add: demo_libs_def plain_url_def Let_def)
qed

definition demo_os :: os_env where
  "demo_os = \<lparr>os_LookupEnv = (\<lambda>k. if k = ''BIFROST_KEY'' then Some ''grpc://a:k@gw:8010?mode=embedded'' else None),
     os_Environ = [], os_Getwd = Inr ''/'', os_ReadFile = (\<lambda>_. Inl ''no file''), path_Join = (\<lambda>a b. a @ b)\<rparr>"

theorem dsn_new_then_load_witness:
  "\<exists>c. config_Load demo_libs demo_os = Inr c \<and> cfg_URL c = ''gw:8010'' \<and> cfg_Name c = ''a'' \<and> cfg_AgentMode c = ''embedded'' \<and>
     cfg_insecure c \<and> cfg_tlsCA c = ''''"
proof -
  have new: "dsn_NewString demo_libs (''grpc'' @ ''://'' @ ''gw'' @ '':'' @ ''8010'') ''a'' ''k'' ''embedded'' =
      (''grpc://a:k@gw:8010?mode=embedded'', None)"
    by code_simp
  have key: "os_Getenv demo_os ''BIFROST_KEY'' = ''grpc://a:k@gw:8010?mode=embedded''" by (simp add: demo_os_def os_Getenv_def)
  have pl: "plain_scheme ''grpc''" "plain ''gw''" "plain_port ''8010''" "plain ''a''" "plain ''k''" "plain ''embedded''"
    by code_simp+
  have "os_LookupEnv demo_os ''BIFROST_TLSCA'' = None" by (simp add: demo_os_def)
  with dsn_new_then_load [OF demo_libs_plain pl(1,2) _ pl(3,4,5) _ pl(6) new key]
  obtain ca where "config_Load demo_libs demo_os = Inr \<lparr>cfg_Token = ''grpc://a:k@gw:8010?mode=embedded'', cfg_URL = ''gw'' @ '':'' @ ''8010'',
      cfg_Name = ''a'', cfg_Type = ModeDsn, cfg_AgentMode = ''embedded'', cfg_insecure = (''grpc'' = ''http'' \<or> ''grpc'' = ''grpc''), cfg_tlsCA = ca\<rparr>"
    "ca = ''''" by simp
  then show ?thesis by simp
qed

end
