(* ===== verification/Reconnect.thy ===== *)
theory Reconnect
  imports Config
begin

text \<open>
  The reconnect loops of an agent: \<open>Exponential2x\<close> of \<open>src/common/backoff/exponential.go\<close>, the
  function that the standard mode runs under it, and the decision the embedded mode takes on a
  pre-connect response (both \<open>src/agent/main.go\<close>).

  What \<open>fn\<close> returns in each round is given as a list; the loop is the walk over that list, and
  \<open>None\<close> as its last component means that it is still running when the list ends.  Durations are
  nanoseconds; they stay far below \<open>2\<^sup>6\<^sup>3\<close> by the bound proved below.
\<close>

section \<open>Exponential2x\<close>

datatype fn_err = BackoffErr string | NilErr | OtherErr error

abbreviation defaulMaxBackoff :: int where "defaulMaxBackoff \<equiv> 9"
abbreviation second :: int where "second \<equiv> 1000000000"

record backoff_state =
  bo_attempt :: int
  bo_duration :: int
  bo_backoff :: int

definition backoff_reset :: backoff_state where
  "backoff_reset = \<lparr>bo_attempt = 1, bo_duration = 1, bo_backoff = second * 1\<rparr>"

text \<open>One failed round: the new state; the loop then sleeps for its \<open>bo_backoff\<close>.\<close>

definition backoff_failed :: "backoff_state \<Rightarrow> backoff_state" where
  "backoff_failed s =
     (let attempt = bo_attempt s + 1;
          duration = (if attempt \<le> defaulMaxBackoff then bo_duration s * 2 else bo_duration s)
      in \<lparr>bo_attempt = attempt, bo_duration = duration, bo_backoff = second * duration\<rparr>)"

fun exponential2x_loop :: "backoff_state \<Rightarrow> fn_err list \<Rightarrow> int list \<times> int list \<times> error option" where
  "exponential2x_loop s [] = ([], [], None)"
| "exponential2x_loop s (err # errs) =
     (let (args, sleeps, ret) =
        (case err of
           BackoffErr _ \<Rightarrow> (let s' = backoff_failed s; (a, sl, r) = exponential2x_loop s' errs
                            in (a, bo_backoff s' # sl, r))
         | NilErr \<Rightarrow> exponential2x_loop backoff_reset errs
         | OtherErr e \<Rightarrow> ([], [], Some e))
      in (bo_backoff s # args, sleeps, ret))"

definition Exponential2x :: "fn_err list \<Rightarrow> int list \<times> int list \<times> error option" where
  "Exponential2x errs = exponential2x_loop backoff_reset errs"

section \<open>The standard mode\<close>

text \<open>
  One round of \<open>runDefaultMode\<close>: \<open>None\<close> when the connection could not be made, otherwise the
  seconds it lasted and the gRPC status code of the controller's error, 99 if it has none.
\<close>

abbreviation code_Canceled :: nat where "code_Canceled \<equiv> 1"
abbreviation code_Unauthenticated :: nat where "code_Unauthenticated \<equiv> 16"

definition default_round :: "(int \<times> nat option) option \<Rightarrow> fn_err" where
  "default_round r =
     (case r of
        None \<Rightarrow> BackoffErr ''''
      | Some (elapsed, status) \<Rightarrow>
          (let backoffErr = (if elapsed > 60 then NilErr else BackoffErr '''');
               code = (case status of Some c \<Rightarrow> c | None \<Rightarrow> 99)
           in if code = code_Canceled then NilErr
              else if code = code_Unauthenticated then backoffErr
              else backoffErr))"

definition runDefaultMode :: "(int \<times> nat option) option list \<Rightarrow> int list \<times> int list \<times> error option" where
  "runDefaultMode rounds = Exponential2x (map default_round rounds)"

section \<open>The embedded mode\<close>

datatype preconnect_action = RunAgent | WaitBackoff | NotImplemented

definition preconnect_dispatch :: "string \<Rightarrow> preconnect_action" where
  "preconnect_dispatch status =
     (if status = PreConnectStatusConnectType then RunAgent
      else if status = PreConnectStatusBackoffType then WaitBackoff
      else NotImplemented)"

section \<open>Properties\<close>

text \<open>The state after \<open>k\<close> failed rounds in a row.\<close>

definition after_failures :: "nat \<Rightarrow> backoff_state" where
  "after_failures k = \<lparr>bo_attempt = int k + 1, bo_duration = 2 ^ min k 8, bo_backoff = second * 2 ^ min k 8\<rparr>"

lemma after_failures_0: "backoff_reset = after_failures 0"
  by (simp add: backoff_reset_def after_failures_def)

lemma backoff_failed_after: "backoff_failed (after_failures k) = after_failures (Suc k)"
proof (cases "k < 8")
  case True
  then show ?thesis by (simp add: backoff_failed_def after_failures_def min_def Let_def)
next
  case False
  then have "min k 8 = 8" "min (Suc k) 8 = 8" by auto
  with False show ?thesis by (simp add: backoff_failed_def after_failures_def Let_def)
qed

text \<open>The delays of a sequence of results, straight from the number of failures in a row.\<close>

fun delays :: "nat \<Rightarrow> fn_err list \<Rightarrow> int list" where
  "delays k [] = []"
| "delays k (BackoffErr _ # errs) = second * 2 ^ min (Suc k) 8 # delays (Suc k) errs"
| "delays k (NilErr # errs) = delays 0 errs"
| "delays k (OtherErr _ # errs) = []"

fun first_other :: "fn_err list \<Rightarrow> error option" where
  "first_other [] = None"
| "first_other (OtherErr e # errs) = Some e"
| "first_other (_ # errs) = first_other errs"

lemma exponential2x_loop_spec:
  "fst (snd (exponential2x_loop (after_failures k) errs)) = delays k errs \<and>
   snd (snd (exponential2x_loop (after_failures k) errs)) = first_other errs"
proof (induction errs arbitrary: k)
  case Nil
  then show ?case by simp
next
  case (Cons err errs)
  have b: "bo_backoff (after_failures (Suc k)) = second * 2 ^ min (Suc k) 8"
    by (simp add: after_failures_def)
  show ?case
    using Cons.IH [of "Suc k"] Cons.IH [of 0]
    by (cases err) (simp_all add: backoff_failed_after b after_failures_0 case_prod_beta)
qed

lemma delays_bounded: "d \<in> set (delays k errs) \<Longrightarrow> 2 * second \<le> d \<and> d \<le> 256 * second"
proof (induction k errs rule: delays.induct)
  case (2 k m errs)
  have "(2::int) ^ 1 \<le> 2 ^ min (Suc k) 8" "(2::int) ^ min (Suc k) 8 \<le> 2 ^ 8"
    by (rule power_increasing; simp)+
  with 2 show ?case by auto
qed simp_all

text \<open>
  C23: \<open>Exponential2x\<close> sleeps after every backoff error for \<open>2\<^sup>n\<close> seconds, where \<open>n\<close> is the number of
  backoff errors since the last success but at most 8, never for less than two or more than 256
  seconds; a success starts the count again, and the loop returns exactly when \<open>fn\<close> returns
  another error, with that error.
\<close>

theorem exponential2x_delays:
  "fst (snd (Exponential2x errs)) = delays 0 errs \<and>
   snd (snd (Exponential2x errs)) = first_other errs \<and>
   (\<forall>d. d \<in> set (delays 0 errs) \<longrightarrow> 2 * second \<le> d \<and> d \<le> 256 * second)"
  using exponential2x_loop_spec [of 0 errs] delays_bounded [of _ 0 errs]
  by (simp add: Exponential2x_def after_failures_0)

theorem exponential2x_delays_witness:
  "fst (snd (Exponential2x [BackoffErr '''', BackoffErr '''', NilErr, BackoffErr '''', OtherErr ''x'']))
     = [2 * second, 4 * second, 2 * second] \<and>
   snd (snd (Exponential2x [BackoffErr '''', BackoffErr '''', NilErr, BackoffErr '''', OtherErr ''x''])) = Some ''x'' \<and>
   2 * second \<le> 4 * second"
  using exponential2x_delays [of "[BackoffErr '''', BackoffErr '''', NilErr, BackoffErr '''', OtherErr ''x'']"]
  by simp

lemma first_other_default: "first_other (map default_round rounds) = None"
proof (induction rounds)
  case Nil
  then show ?case by simp
next
  case (Cons r rounds)
  have "default_round r = NilErr \<or> default_round r = BackoffErr ''''"
    by (auto simp: default_round_def Let_def split: option.split)
  with Cons show ?case by auto
qed

text \<open>
  C24: an agent in standard mode never gives up: whatever the connections do, the loop of
  \<open>runDefaultMode\<close> does not return, and it calls the gateway again once per round.
\<close>

theorem default_mode_never_returns:
  "snd (snd (runDefaultMode rounds)) = None \<and> length (fst (runDefaultMode rounds)) = length rounds"
proof -
  have "length (fst (exponential2x_loop s errs)) = length errs" if "first_other errs = None" for s errs
    using that
    by (induction errs arbitrary: s) (auto split: fn_err.splits simp: Let_def case_prod_beta)
  from this [OF first_other_default] exponential2x_loop_spec [of 0] first_other_default [of rounds]
  show ?thesis by (simp add: runDefaultMode_def Exponential2x_def after_failures_0)
qed

end
