(* ===== verification/EnvVar.thy ===== *)
theory EnvVar
  imports Proto Base64
begin

text \<open>
  The environment variables of a connection, \<open>src/agent/terminal/envvar.go\<close>: raw variables
  \<open>type:key\<close> with base64 values become a store of decoded ones.  A variable of type
  \<open>filesystem\<close> is given by the path of a temporary file; its hooks, which create and remove that
  file, are kept as the path and the content.
\<close>

record env_var =
  ev_Key :: string
  ev_Type :: string
  ev_Val :: string
  ev_Hooks :: "(string \<times> string) option"

type_synonym env_var_store = "env_var gomap"

definition GetDecodedVal :: "env_var \<Rightarrow> string result" where
  "GetDecodedVal e = b64_decode_string (ev_Val e)"

definition evs_Getenv :: "env_var_store \<Rightarrow> string \<Rightarrow> string" where
  "evs_Getenv s key = (case gm_get s key of None \<Rightarrow> '''' | Some env \<Rightarrow> ev_Val env)"

definition evs_Add :: "env_var \<Rightarrow> env_var_store \<Rightarrow> env_var_store" where
  "evs_Add env s = gm_set (ev_Key env) env s"

definition evs_Search :: "(string \<Rightarrow> bool) \<Rightarrow> env_var_store \<Rightarrow> string gomap" where
  "evs_Search lookupFn s =
     fold (\<lambda>(key, env) result. if \<not> lookupFn key then result else gm_set key (ev_Val env) result) s []"

text \<open>One round of the loop of \<open>NewEnvVarStore\<close>; \<open>uuid\<close> is the name of the next temporary file.\<close>

definition new_env_var :: "string \<Rightarrow> string \<Rightarrow> env_val \<Rightarrow> env_var result" where
  "new_env_var uuid key objVal =
     (let keyType = str_split '':'' key in
      if length keyType \<noteq> 2 then
        Inl (''environment variable key type in unknown format, want=[keytype:key], got='' @ key)
      else case objVal of
        EnvOther ty _ \<Rightarrow> Inl (''decoding env var error, expected string, found='' @ ty)
      | EnvStr encVal \<Rightarrow>
          (let env = \<lparr>ev_Key = keyType ! 1, ev_Type = keyType ! 0, ev_Val = encVal, ev_Hooks = None\<rparr> in
           if ev_Type env = ''filesystem'' then
             (case GetDecodedVal env of
                Inl err \<Rightarrow> Inl (''failed decoding env var '' @ go_quote (ev_Key env) @ '', err='' @ err)
              | Inr val \<Rightarrow>
                  let filePath = ''/tmp/'' @ uuid @ ''.envfs''
                  in Inr (env\<lparr>ev_Val := filePath, ev_Hooks := Some (filePath, val)\<rparr>))
           else if ev_Type env = ''envvar'' then
             (case GetDecodedVal env of
                Inl err \<Rightarrow> Inl (''failed decoding env var '' @ go_quote (ev_Key env) @ '', err='' @ err)
              | Inr val \<Rightarrow> Inr (env\<lparr>ev_Val := val\<rparr>))
           else Inl (''unknow environment variable type '' @ go_quote (keyType ! 0)
                       @ '', accepted: '' @ [CHR 34] @ ''filesystem'' @ [CHR 34] @ '', '' @ [CHR 34] @ ''envvar'' @ [CHR 34])))"

text \<open>The raw variables in the order in which the loop visits them.\<close>

fun new_env_vars :: "(nat \<Rightarrow> string) \<Rightarrow> nat \<Rightarrow> env_val gomap \<Rightarrow> env_var_store \<Rightarrow> env_var_store result" where
  "new_env_vars uuids n [] store = Inr store"
| "new_env_vars uuids n ((key, objVal) # rest) store =
     bind_result (new_env_var (uuids n) key objVal) (\<lambda>env. new_env_vars uuids (Suc n) rest (evs_Add env store))"

definition NewEnvVarStore :: "(nat \<Rightarrow> string) \<Rightarrow> env_val gomap \<Rightarrow> env_var_store result" where
  "NewEnvVarStore uuids rawEnvVarList = new_env_vars uuids 0 rawEnvVarList []"

section \<open>Lemmas\<close>

lemma new_env_var_key:
  assumes "new_env_var u key v = Inr e"
  shows "key = ev_Type e @ '':'' @ ev_Key e"
proof -
  have two: "\<exists>a b. xs = [a, b]" if "length xs = 2" for xs :: "string list"
    using that by (auto simp: numeral_2_eq_2 length_Suc_conv)
  have "length (str_split '':'' key) = 2"
    using assms by (auto simp: new_env_var_def Let_def split: if_splits)
  then obtain a b where s: "str_split '':'' key = [a, b]" using two by blast
  then have "key = a @ '':'' @ b" using str_join_split [of "'':''" key] by simp
  with assms s show ?thesis
    by (auto simp: new_env_var_def Let_def split: if_splits env_val.splits sum.splits)
qed

lemma new_env_vars_wf: "gm_wf acc \<Longrightarrow> new_env_vars u n raw acc = Inr store \<Longrightarrow> gm_wf store"
proof (induction raw arbitrary: n acc)
  case Nil
  then show ?case by simp
next
  case (Cons kv raw)
  obtain k v where kv: "kv = (k, v)" by (cases kv)
  with Cons.prems(2) obtain e where e: "new_env_var (u n) k v = Inr e"
      "new_env_vars u (Suc n) raw (evs_Add e acc) = Inr store"
    by (cases "new_env_var (u n) k v") auto
  have "gm_wf (evs_Add e acc)" using Cons.prems(1) by (simp add: evs_Add_def)
  from Cons.IH [OF this e(2)] show ?case .
qed

text \<open>Every entry comes from a raw variable of its type and key.\<close>

lemma new_env_vars_origin:
  assumes "new_env_vars u n raw acc = Inr store" "gm_get store key = Some e"
  shows "gm_get acc key = Some e \<or> (\<exists>k v m. (k, v) \<in> set raw \<and> new_env_var (u m) k v = Inr e \<and> ev_Key e = key)"
  using assms
proof (induction raw arbitrary: n acc)
  case Nil
  then show ?case by simp
next
  case (Cons kv raw)
  obtain k v where kv: "kv = (k, v)" by (cases kv)
  with Cons.prems(1) obtain e' where e': "new_env_var (u n) k v = Inr e'"
      "new_env_vars u (Suc n) raw (evs_Add e' acc) = Inr store"
    by (cases "new_env_var (u n) k v") auto
  from Cons.IH [OF e'(2) Cons.prems(2)] show ?case
  proof
    assume "gm_get (evs_Add e' acc) key = Some e"
    then show ?thesis using e'(1) kv by (auto simp: evs_Add_def split: if_splits)
  next
    assume "\<exists>k v m. (k, v) \<in> set raw \<and> new_env_var (u m) k v = Inr e \<and> ev_Key e = key"
    then show ?thesis by auto
  qed
qed

lemma new_env_vars_keep:
  assumes "new_env_vars u n raw acc = Inr store" "\<forall>(k, v) \<in> set raw. \<forall>m e. new_env_var (u m) k v = Inr e \<longrightarrow> ev_Key e \<noteq> key"
  shows "gm_get store key = gm_get acc key"
  using assms
proof (induction raw arbitrary: n acc)
  case Nil
  then show ?case by simp
next
  case (Cons kv raw)
  obtain k v where kv: "kv = (k, v)" by (cases kv)
  with Cons.prems(1) obtain e where e: "new_env_var (u n) k v = Inr e"
      "new_env_vars u (Suc n) raw (evs_Add e acc) = Inr store"
    by (cases "new_env_var (u n) k v") auto
  have "ev_Key e \<noteq> key" using Cons.prems(2) kv e(1) by auto
  with Cons.IH [OF e(2)] Cons.prems(2) show ?case by (auto simp: evs_Add_def)
qed

lemma env_key_split [simp]:
  "CHR '':'' \<notin> set t \<Longrightarrow> CHR '':'' \<notin> set k \<Longrightarrow> str_split '':'' (t @ CHR '':'' # k) = [t, k]"
  by (simp add: str_split_char str_split_char_none)

lemma new_env_var_envvar:
  assumes "CHR '':'' \<notin> set key"
  shows "new_env_var u (''envvar:'' @ key) (EnvStr (b64_encode v)) =
     Inr \<lparr>ev_Key = key, ev_Type = ''envvar'', ev_Val = v, ev_Hooks = None\<rparr>"
  using env_key_split [of "''envvar''" key] assms
  by (simp add: new_env_var_def Let_def GetDecodedVal_def b64_decode_string_encode)

lemma new_env_var_type:
  "new_env_var u k v = Inr e \<Longrightarrow> ev_Type e = ''envvar'' \<or> ev_Type e = ''filesystem''"
  by (auto simp: new_env_var_def Let_def split: if_splits env_val.splits sum.splits)

lemma new_env_vars_envvar:
  assumes "new_env_vars u n raw acc = Inr store" "gm_wf raw" "CHR '':'' \<notin> set key"
    and "gm_get raw (''envvar:'' @ key) = Some (EnvStr (b64_encode v))"
    and "gm_get raw (''filesystem:'' @ key) = None"
  shows "gm_get store key = Some \<lparr>ev_Key = key, ev_Type = ''envvar'', ev_Val = v, ev_Hooks = None\<rparr>"
  using assms
proof (induction raw arbitrary: n acc)
  case Nil
  then show ?case by simp
next
  case (Cons kv rest)
  obtain k ov where kv: "kv = (k, ov)" by (cases kv)
  with Cons.prems(1) obtain e where e: "new_env_var (u n) k ov = Inr e"
      "new_env_vars u (Suc n) rest (evs_Add e acc) = Inr store"
    by (cases "new_env_var (u n) k ov") auto
  have rest: "gm_wf rest" "k \<notin> fst ` set rest"
    using Cons.prems(2) kv by (auto simp: gm_wf_def)
  have nofile: "gm_get rest (''filesystem:'' @ key) = None"
    using Cons.prems(5) kv by (simp add: gm_get_Cons split: if_splits)
  show ?case
  proof (cases "k = ''envvar:'' @ key")
    case True
    with Cons.prems(4) have ov: "ov = EnvStr (b64_encode v)" by (simp add: kv gm_get_Cons)
    have e': "e = \<lparr>ev_Key = key, ev_Type = ''envvar'', ev_Val = v, ev_Hooks = None\<rparr>"
      using e(1) new_env_var_envvar [OF Cons.prems(3)] by (simp add: True ov)
    have "ev_Key e1 \<noteq> key" if "(k1, v1) \<in> set rest" "new_env_var (u m) k1 v1 = Inr e1" for k1 v1 m e1
    proof
      assume "ev_Key e1 = key"
      with new_env_var_key [OF that(2)] new_env_var_type [OF that(2)]
      have "k1 = k \<or> k1 = ''filesystem:'' @ key" using True by auto
      then show False using that(1) rest(2) nofile gm_get_dom [of k1 rest] by force
    qed
    then have "gm_get store key = gm_get (evs_Add e acc) key"
      by (intro new_env_vars_keep [OF e(2)]) auto
    then show ?thesis by (simp add: e' evs_Add_def)
  next
    case False
    then have "gm_get rest (''envvar:'' @ key) = Some (EnvStr (b64_encode v))"
      using Cons.prems(4) by (simp add: kv gm_get_Cons)
    then show ?thesis by (rule Cons.IH [OF e(2) rest(1) Cons.prems(3) _ nofile])
  qed
qed

text \<open>
  A variable \<open>envvar:key\<close> that no \<open>filesystem\<close> variable shadows is read back decoded, whatever
  else the raw list holds and in whatever order it is visited.
\<close>

lemma NewEnvVarStore_envvar:
  assumes "NewEnvVarStore u raw = Inr store" "gm_wf raw" "CHR '':'' \<notin> set key"
    and "gm_get raw (''envvar:'' @ key) = Some (EnvStr (b64_encode v))"
    and "gm_get raw (''filesystem:'' @ key) = None"
  shows "evs_Getenv store key = v"
  using new_env_vars_envvar [OF assms(1) [unfolded NewEnvVarStore_def] assms(2-5)]
  by (simp add: evs_Getenv_def)

end
