(* ===== verification/ConnEnv.thy ===== *)
theory ConnEnv
  imports EnvVar Config
begin

text \<open>
  The connection settings of a session: \<open>connEnv\<close>, \<open>parseConnectionEnvVars\<close> and
  \<open>parseMongoDbUriHost\<close> of \<open>src/agent/controller/agent.go\<close>.

  The MongoDB driver's \<open>connstring.ParseAndValidate\<close> is a parameter that answers the list of hosts,
  which its documentation says is not empty; \<open>url.Parse\<close> is the one of the configuration.
\<close>

record conn_env =
  ce_scheme :: string
  ce_host :: string
  ce_address :: string
  ce_user :: string
  ce_pass :: string
  ce_port :: string
  ce_authorizedSSHKeys :: string
  ce_dbname :: string
  ce_insecure :: bool
  ce_options :: string
  ce_postgresSSLMode :: string
  ce_connectionString :: string
  ce_httpProxyRemoteURL :: string
  ce_httpProxyHeaders :: "string gomap"

definition ce_Address :: "conn_env \<Rightarrow> string" where
  "ce_Address e = (if ce_address e \<noteq> '''' then ce_address e else ce_host e @ '':'' @ ce_port e)"

text \<open>\<open>Get\<close>, which nothing calls; \<open>url.ParseQuery\<close> gives the first value of each key, or nil values.\<close>

definition ce_Get :: "(string \<Rightarrow> string gomap option) \<Rightarrow> conn_env \<Rightarrow> string \<Rightarrow> string" where
  "ce_Get parseQuery e key =
     (case parseQuery (ce_options e) of None \<Rightarrow> '''' | Some values \<Rightarrow> gm_str values key)"

record conn_libs =
  cl_uuids :: "nat \<Rightarrow> string"
  cl_urlParse :: "string \<Rightarrow> url result"
  cl_connstring :: "string \<Rightarrow> string list result"

definition parseMongoDbUriHost :: "conn_libs \<Rightarrow> conn_env \<Rightarrow> (string \<times> string) result" where
  "parseMongoDbUriHost L env =
     (let uri = (if ce_scheme env = ''mongodb+srv'' then
                   ce_scheme env @ ''://'' @ ce_user env @ '':'' @ ce_pass env @ ''@'' @ ce_host env @ ''/''
                 else ce_scheme env @ ''://'' @ ce_user env @ '':'' @ ce_pass env @ ''@'' @ ce_host env @ '':''
                        @ ce_port env @ ''/'')
      in bind_result (cl_connstring L uri) (\<lambda>hosts.
           let parts = str_split '':'' (hd hosts)
           in if length parts > 1 then Inr (parts ! 0, parts ! 1) else Inr (hd hosts, ''27017'')))"

definition default_port :: "string \<Rightarrow> conn_env \<Rightarrow> conn_env" where
  "default_port p env = (if ce_port env = '''' then env\<lparr>ce_port := p\<rparr> else env)"

definition missing_credentials :: "conn_env \<Rightarrow> bool" where
  "missing_credentials env \<longleftrightarrow> ce_host env = '''' \<or> ce_pass env = '''' \<or> ce_user env = ''''"

definition parse_postgres :: "conn_env \<Rightarrow> conn_env result" where
  "parse_postgres env =
     (let env = default_port ''5432'' env in
      if missing_credentials env then
        Inl ''missing required secrets for postgres connection [HOST, USER, PASS]''
      else let mode = (if ce_postgresSSLMode env = '''' then ''prefer'' else ce_postgresSSLMode env) in
        if mode \<noteq> ''require'' \<and> mode \<noteq> ''verify-full'' \<and> mode \<noteq> ''prefer'' \<and> mode \<noteq> ''disable'' then
          Inl (''wrong option ('' @ go_quote mode @ '') for SSLMODE, accept only: ''
                 @ go_show_list [''disable'', ''prefer'', ''require'', ''verify-full''])
        else Inr env)"

definition empty_conn_env :: conn_env where
  "empty_conn_env = \<lparr>ce_scheme = '''', ce_host = '''', ce_address = '''', ce_user = '''', ce_pass = '''', ce_port = '''',
     ce_authorizedSSHKeys = '''', ce_dbname = '''', ce_insecure = False, ce_options = '''', ce_postgresSSLMode = '''',
     ce_connectionString = '''', ce_httpProxyRemoteURL = '''', ce_httpProxyHeaders = []\<rparr>"

definition parse_mongodb :: "conn_libs \<Rightarrow> conn_env \<Rightarrow> conn_env result" where
  "parse_mongodb L env =
     (if ce_connectionString env \<noteq> '''' then
        (case cl_connstring L (ce_connectionString env) of
           Inl _ \<Rightarrow> Inl ''failed parsing mongodb connection string''
         | Inr hosts \<Rightarrow>
             Inr (empty_conn_env\<lparr>ce_connectionString := ce_connectionString env, ce_address := hd hosts\<rparr>))
      else
        (let env = default_port ''27017'' env;
             env = (if ce_scheme env = '''' then env\<lparr>ce_scheme := ''mongodb''\<rparr> else env)
         in bind_result (parseMongoDbUriHost L env) (\<lambda>(host, port).
              let env = env\<lparr>ce_host := host, ce_port := port\<rparr> in
              if missing_credentials env then
                Inl ''missing required secrets for mongodb connection [HOST, USER, PASS]''
              else Inr env)))"

text \<open>A map that is nil (\<open>None\<close>) is refused.\<close>

definition conn_env_of :: "env_var_store \<Rightarrow> conn_env" where
  "conn_env_of s =
     \<lparr>ce_scheme = evs_Getenv s ''SCHEME'', ce_host = evs_Getenv s ''HOST'', ce_address = '''',
      ce_user = evs_Getenv s ''USER'', ce_pass = evs_Getenv s ''PASS'', ce_port = evs_Getenv s ''PORT'',
      ce_authorizedSSHKeys = evs_Getenv s ''AUTHORIZED_SERVER_KEYS'', ce_dbname = evs_Getenv s ''DB'',
      ce_insecure = (evs_Getenv s ''INSECURE'' = ''true''), ce_options = evs_Getenv s ''OPTIONS'',
      ce_postgresSSLMode = evs_Getenv s ''SSLMODE'', ce_connectionString = evs_Getenv s ''CONNECTION_STRING'',
      ce_httpProxyRemoteURL = evs_Getenv s ''REMOTE_URL'',
      ce_httpProxyHeaders = evs_Search (\<lambda>key. has_prefix (to_lower key) ''header_'') s\<rparr>"

definition check_conn_env :: "conn_libs \<Rightarrow> string \<Rightarrow> conn_env \<Rightarrow> conn_env result" where
  "check_conn_env L connType env =
     (if connType = ConnectionTypePostgres then parse_postgres env
      else if connType = ConnectionTypeMySQL then
        (let env = default_port ''3306'' env in
         if missing_credentials env then Inl ''missing required secrets for mysql connection [HOST, USER, PASS]''
         else Inr env)
      else if connType = ConnectionTypeMSSQL then
        (let env = default_port ''1433'' env in
         if missing_credentials env then Inl ''missing required secrets for mssql connection [HOST, USER, PASS]''
         else Inr env)
      else if connType = ConnectionTypeMongoDB then parse_mongodb L env
      else if connType = ConnectionTypeSSH then
        (let env = default_port ''22'' env in
         if ce_host env = '''' \<or> (ce_pass env = '''' \<and> ce_authorizedSSHKeys env = '''') \<or> ce_user env = '''' then
           Inl ''missing required secrets for ssh connection [HOST, USER, PASS or AUTHORIZED_SERVER_KEYS]''
         else Inr env)
      else if connType = ConnectionTypeTCP then
        (if ce_host env = '''' \<or> ce_port env = '''' then
           Inl ''missing required environment for connection [HOST, PORT]''
         else Inr env)
      else if connType = ConnectionTypeHttpProxy then
        (if ce_httpProxyRemoteURL env = '''' then Inl ''missing required environment for connection [REMOTE_URL]''
         else (case cl_urlParse L (ce_httpProxyRemoteURL env) of
                 Inl err \<Rightarrow> Inl (''failed parsing REMOTE_URL env, reason='' @ err)
               | Inr _ \<Rightarrow> Inr env))
      else Inr env)"

definition parseConnectionEnvVars :: "conn_libs \<Rightarrow> env_val gomap option \<Rightarrow> string \<Rightarrow> conn_env result" where
  "parseConnectionEnvVars L envVars connType =
     (case envVars of
        None \<Rightarrow> Inl ''empty env vars''
      | Some vars \<Rightarrow>
          bind_result (NewEnvVarStore (cl_uuids L) vars) (\<lambda>envVarS. check_conn_env L connType (conn_env_of envVarS)))"

section \<open>Properties\<close>

lemma check_conn_env_sound:
  assumes "check_conn_env L t env = Inr e"
    "t \<in> {ConnectionTypePostgres, ConnectionTypeMySQL, ConnectionTypeMSSQL, ConnectionTypeTCP, ConnectionTypeSSH}"
  shows "ce_host e \<noteq> '''' \<and> ce_port e \<noteq> '''' \<and>
     (t \<in> {ConnectionTypePostgres, ConnectionTypeMySQL, ConnectionTypeMSSQL} \<longrightarrow> ce_user e \<noteq> '''' \<and> ce_pass e \<noteq> '''')"
  using assms
  by (auto simp: check_conn_env_def parse_postgres_def default_port_def missing_credentials_def Let_def split: if_splits)

text \<open>
  Connection settings that are accepted for a PostgreSQL, MySQL, SQL Server, SSH or raw TCP
  connection have a host and a port, so the agent never dials an empty address, and for the
  three databases also a user and a password.
\<close>

theorem conn_env_complete:
  assumes "parseConnectionEnvVars L vars t = Inr e"
    "t \<in> {ConnectionTypePostgres, ConnectionTypeMySQL, ConnectionTypeMSSQL, ConnectionTypeTCP, ConnectionTypeSSH}"
  shows "ce_host e \<noteq> '''' \<and> ce_port e \<noteq> '''' \<and>
     (t \<in> {ConnectionTypePostgres, ConnectionTypeMySQL, ConnectionTypeMSSQL} \<longrightarrow> ce_user e \<noteq> '''' \<and> ce_pass e \<noteq> '''')"
proof -
  obtain s where "check_conn_env L t (conn_env_of s) = Inr e"
    using assms(1) by (auto simp: parseConnectionEnvVars_def bind_result_def split: option.splits sum.splits)
  from check_conn_env_sound [OF this assms(2)] show ?thesis .
qed

definition demo_conn_libs :: conn_libs where
  "demo_conn_libs = \<lparr>cl_uuids = (\<lambda>_. ''0''), cl_urlParse = (\<lambda>_. Inl ''bad url''), cl_connstring = (\<lambda>_. Inl ''bad uri'')\<rparr>"

definition demo_conn_vars :: "env_val gomap" where
  "demo_conn_vars = [(''envvar:HOST'', EnvStr (b64_encode ''db'')), (''envvar:USER'', EnvStr (b64_encode ''root'')),
     (''envvar:PASS'', EnvStr (b64_encode ''secret''))]"

lemma demo_conn_parse:
  "\<exists>e. parseConnectionEnvVars demo_conn_libs (Some demo_conn_vars) ConnectionTypeMySQL = Inr e \<and>
     ce_host e = ''db'' \<and> ce_port e = ''3306'' \<and> ce_user e = ''root''"
proof -
  have k: "new_env_var u (''envvar:'' @ x) (EnvStr (b64_encode v)) =
      Inr \<lparr>ev_Key = x, ev_Type = ''envvar'', ev_Val = v, ev_Hooks = None\<rparr>"
    if "x \<in> {''HOST'', ''USER'', ''PASS''}" for u x v
    using that by (intro new_env_var_envvar) auto
  show ?thesis
    using k [of "''HOST''" _ "''db''"] k [of "''USER''" _ "''root''"] k [of "''PASS''" _ "''secret''"]
    by (simp add: parseConnectionEnvVars_def NewEnvVarStore_def demo_conn_vars_def evs_Add_def conn_env_of_def
        evs_Getenv_def check_conn_env_def default_port_def missing_credentials_def)
qed

theorem conn_env_complete_witness:
  "\<exists>e. parseConnectionEnvVars demo_conn_libs (Some demo_conn_vars) ConnectionTypeMySQL = Inr e \<and>
     ce_host e \<noteq> '''' \<and> ce_port e \<noteq> '''' \<and> ce_user e \<noteq> '''' \<and> ce_pass e \<noteq> ''''"
proof -
  obtain e where e: "parseConnectionEnvVars demo_conn_libs (Some demo_conn_vars) ConnectionTypeMySQL = Inr e"
    using demo_conn_parse by blast
  from conn_env_complete [OF this] e show ?thesis by simp
qed

end
