(* ===== verification/Secrets.thy ===== *)
theory Secrets
  imports Config Memory
begin

text \<open>
  The secret providers of the agent, \<open>src/agent/secretsmanager\<close>: \<open>Decode\<close> replaces the values
  of a connection's environment variables that name a secret, \<open>_provider:id:key\<close>, by the secret
  fetched from AWS Secrets Manager, from a JSON environment variable or from Vault, with a cache
  per provider.

  The services and the JSON decoders are parameters (\<open>secret_libs\<close>).  A response of Vault is a
  function of the request, so a statement is about one state of the server.
\<close>

abbreviation secretProviderAWSSecretsManagerType :: string where "secretProviderAWSSecretsManagerType \<equiv> ''_aws''"
abbreviation secretProviderEnvJSONType :: string where "secretProviderEnvJSONType \<equiv> ''_envjson''"
abbreviation secretProviderVaultKv1Type :: string where "secretProviderVaultKv1Type \<equiv> ''_vaultkv1''"
abbreviation secretProviderVaultKv2Type :: string where "secretProviderVaultKv2Type \<equiv> ''_vaultkv2''"
abbreviation defaultKV2Path :: string where "defaultKV2Path \<equiv> ''secret/data/''"

section \<open>Parameters\<close>

record http_request =
  rq_Method :: string
  rq_URL :: string
  rq_Header :: "(string \<times> string) list"
  rq_Body :: string

record http_response =
  rs_StatusCode :: int
  rs_ContentLength :: int
  rs_Body :: string

text \<open>
  The responses of Vault, as JSON decodes them: the data may be null, and the values of \<open>auth\<close> and of the
  metadata are of any type.
\<close>

record login_response =
  ar_RequestID :: string
  ar_Auth :: "env_val gomap"

record kv_meta =
  km_RequestID :: string
  km_LeaseID :: string
  km_LeaseDuration :: int
  km_Renewable :: bool
  km_MountType :: string

record kv_v1 =
  k1_Meta :: kv_meta
  k1_Data :: "string gomap option"

record kv_data =
  kd_Data :: "string gomap option"
  kd_Metadata :: "env_val gomap"

record kv_v2 =
  k2_Meta :: kv_meta
  k2_Data :: kv_data

datatype kv_getter = KeyValV1 kv_v1 | KeyValV2 kv_v2

text \<open>
  \<open>GetSecretValue\<close> answers a secret string, which is nil for a binary secret.  The JSON decoders
  answer the decoded value.
\<close>

record secret_libs =
  sl_os :: os_env
  sl_aws_config :: "unit result"
  sl_aws_GetSecretValue :: "string \<Rightarrow> string option result"
  sl_newRequest :: "string \<Rightarrow> string \<Rightarrow> unit result"
  sl_httpDo :: "string \<Rightarrow> http_request \<Rightarrow> http_response result"
  sl_json_strmap :: "string \<Rightarrow> string gomap result"
  sl_json_anymap :: "string \<Rightarrow> env_val gomap result"
  sl_json_kv1 :: "string \<Rightarrow> kv_v1 result"
  sl_json_kv2 :: "string \<Rightarrow> kv_v2 result"
  sl_json_login :: "string \<Rightarrow> login_response result"
  sl_json_errors :: "string \<Rightarrow> string list result"
  sl_json_marshal_strmap :: "string gomap \<Rightarrow> string"

section \<open>The provider for JSON environment variables\<close>

definition envjson_GetKey :: "secret_libs \<Rightarrow> string \<Rightarrow> string \<Rightarrow> string result" where
  "envjson_GetKey L secretID secretKey =
     (let envJson = os_Getenv (sl_os L) secretID in
      if envJson = '''' then Inl (''environment variable '' @ go_quote secretID @ '' not found'')
      else case sl_json_strmap L envJson of
             Inl err \<Rightarrow> Inl (''failed decoding environment variable '' @ go_quote secretID @ '' to json, err='' @ err)
           | Inr envMap \<Rightarrow>
               (case gm_get envMap secretKey of
                  None \<Rightarrow> Inl (''secret key '' @ go_quote secretKey @ '' not found'')
                | Some val \<Rightarrow> Inr val))"

section \<open>The provider for AWS\<close>

type_synonym aws_provider = "env_val gomap store"

definition newAwsProvider :: "secret_libs \<Rightarrow> aws_provider result" where
  "newAwsProvider L = bind_result (sl_aws_config L) (\<lambda>_. Inr mem_New)"

definition aws_GetKey :: "secret_libs \<Rightarrow> string \<Rightarrow> string \<Rightarrow> aws_provider \<Rightarrow> string result outcome \<times> aws_provider" where
  "aws_GetKey L secretID secretKey p =
     (case mem_Get p secretID of
        Some keyVal \<Rightarrow>
          (case gm_get keyVal secretKey of
             Some v \<Rightarrow> (Ret (Inr (env_show v)), p)
           | None \<Rightarrow> (Ret (Inl (''secret key not found. secret='' @ secretID @ '', key='' @ secretKey)), p))
      | None \<Rightarrow>
          (case sl_aws_GetSecretValue L secretID of
             Inl err \<Rightarrow> (Ret (Inl (''('' @ secretID @ '') '' @ err)), p)
           | Inr None \<Rightarrow> (Panic, p)
           | Inr (Some secretString) \<Rightarrow>
               (case sl_json_anymap L secretString of
                  Inl err \<Rightarrow> (Ret (Inl (''failed deserializing secret key/val, err='' @ err)), p)
                | Inr keyValSecret \<Rightarrow>
                    (case gm_get keyValSecret secretKey of
                       Some v \<Rightarrow> (Ret (Inr (env_show v)), mem_Set secretID (Some keyValSecret) p)
                     | None \<Rightarrow> (Ret (Inl (''secret id '' @ secretID @ '' found, but key '' @ secretKey @ '' was not'')), p)))))"

section \<open>The provider for Vault\<close>

record vault_config =
  vc_serverAddr :: string
  vc_tlsCA :: string
  vc_vaultToken :: string
  vc_appRoleID :: string
  vc_appRoleSecretID :: string

record vault_provider =
  vp_config :: vault_config
  vp_cache :: "string gomap store"
  vp_kvType :: string

definition loadAppRoleCredentials :: "os_env \<Rightarrow> (string \<times> string) result" where
  "loadAppRoleCredentials os =
     (let appRoleID = os_Getenv os ''VAULT_APP_ROLE_ID''; appRoleSecretID = os_Getenv os ''VAULT_APP_ROLE_SECRET_ID'' in
      if appRoleID \<noteq> '''' \<and> appRoleSecretID = '''' then
        Inl ''VAULT_APP_ROLE_ID env is set but VAULT_APP_ROLE_SECRET_ID env is empty''
      else if appRoleSecretID \<noteq> '''' \<and> appRoleID = '''' then
        Inl ''VAULT_APP_ROLE_SECRET_ID env is set but VAULT_APP_ROLE_ID env is empty''
      else if appRoleID \<noteq> '''' \<and> appRoleSecretID \<noteq> '''' then Inr (appRoleID, appRoleSecretID)
      else Inr ('''', ''''))"

definition loadDefaultVaultConfig :: "os_env \<Rightarrow> vault_config result" where
  "loadDefaultVaultConfig os =
     (case GetEnv os ''VAULT_CACERT'' of
        Inl err \<Rightarrow> Inl (''unable to load VAULT_CACERT env, reason='' @ err)
      | Inr tlsCA \<Rightarrow>
          (let srvAddr = os_Getenv os ''VAULT_ADDR'' in
           case GetEnv os ''VAULT_TOKEN'' of
             Inl err \<Rightarrow> Inl (''unable to load VAULT_TOKEN env, reason='' @ err)
           | Inr token \<Rightarrow>
               bind_result (loadAppRoleCredentials os) (\<lambda>(appRoleID, appRoleSecretID).
                 let config = \<lparr>vc_serverAddr = srvAddr, vc_tlsCA = tlsCA, vc_vaultToken = '''',
                               vc_appRoleID = '''', vc_appRoleSecretID = ''''\<rparr> in
                 if appRoleID \<noteq> '''' then
                   Inr (config\<lparr>vc_appRoleID := appRoleID, vc_appRoleSecretID := appRoleSecretID\<rparr>)
                 else if token = '''' \<or> srvAddr = '''' then Inl ''VAULT_TOKEN and/or VAULT_ADDR env not set''
                 else Inr (config\<lparr>vc_vaultToken := token\<rparr>))))"

text \<open>The HTTP client is the one made for the configured CA: \<open>sl_httpDo\<close> takes it as an argument.\<close>

definition newVaultKeyValProvider :: "secret_libs \<Rightarrow> string \<Rightarrow> vault_provider result" where
  "newVaultKeyValProvider L kvType =
     bind_result (loadDefaultVaultConfig (sl_os L)) (\<lambda>config.
       Inr \<lparr>vp_config = config, vp_cache = mem_New, vp_kvType = kvType\<rparr>)"

definition urlPathForProvider :: "string \<Rightarrow> string \<Rightarrow> string \<Rightarrow> string" where
  "urlPathForProvider kvProvider serverAddr secretID =
     (let apiURL = trim_suffix serverAddr ''/'' @ ''/v1/'' in
      if kvProvider = secretProviderVaultKv1Type then apiURL @ trim_prefix secretID ''/''
      else if str_contains secretID ''/'' then apiURL @ trim_prefix secretID ''/''
      else apiURL @ defaultKV2Path @ secretID)"

definition decodeVaultHttpErrorResponseBody :: "secret_libs \<Rightarrow> http_response \<Rightarrow> error option" where
  "decodeVaultHttpErrorResponseBody L resp =
     (if 400 \<le> rs_StatusCode resp \<and> rs_StatusCode resp \<le> 499 then
        (case sl_json_errors L (rs_Body resp) of
           Inl err \<Rightarrow> Some (''failed decoding error response, status='' @ itoa (rs_StatusCode resp) @ '', length=''
                              @ itoa (rs_ContentLength resp) @ '', reason='' @ err)
         | Inr errs \<Rightarrow> Some (''vault error response, status='' @ itoa (rs_StatusCode resp) @ '', errs='' @ str_join ''; '' errs))
      else if rs_StatusCode resp \<noteq> 200 \<and> rs_StatusCode resp \<noteq> 204 then
        Some (''failed performing request, status='' @ itoa (rs_StatusCode resp) @ '', body='' @ rs_Body resp)
      else None)"

text \<open>One HTTP exchange: send the request, refuse a bad status.\<close>

definition vault_exchange :: "secret_libs \<Rightarrow> vault_provider \<Rightarrow> http_request \<Rightarrow> http_response result" where
  "vault_exchange L p req =
     bind_result (sl_httpDo L (vc_tlsCA (vp_config p)) req) (\<lambda>resp.
       case decodeVaultHttpErrorResponseBody L resp of Some err \<Rightarrow> Inl err | None \<Rightarrow> Inr resp)"

text \<open>\<open>%v\<close> on an entry of a map of any values; an entry that is not there is nil.\<close>

definition show_any :: "env_val gomap \<Rightarrow> string \<Rightarrow> string" where
  "show_any m key = (case gm_get m key of Some v \<Rightarrow> env_show v | None \<Rightarrow> ''<nil>'')"

definition getClientToken :: "login_response \<Rightarrow> string" where
  "getClientToken r = (if length (ar_Auth r) > 0 then show_any (ar_Auth r) ''client_token'' else '''')"

definition kv_GetData :: "kv_getter \<Rightarrow> string gomap option" where
  "kv_GetData kv = (case kv of KeyValV1 k \<Rightarrow> k1_Data k | KeyValV2 k \<Rightarrow> kd_Data (k2_Data k))"

definition GetVaultToken :: "secret_libs \<Rightarrow> vault_provider \<Rightarrow> string result" where
  "GetVaultToken L p =
     (if vc_appRoleID (vp_config p) \<noteq> '''' then
        (let uri = trim_suffix (vc_serverAddr (vp_config p)) ''/'' @ ''/v1/auth/approle/login'';
             payload = sl_json_marshal_strmap L
               [(''role_id'', vc_appRoleID (vp_config p)), (''secret_id'', vc_appRoleSecretID (vp_config p))]
         in case sl_newRequest L ''POST'' uri of
              Inl err \<Rightarrow> Inl (''failed creating http request to obtain vault token, err='' @ err)
            | Inr _ \<Rightarrow>
                bind_result (vault_exchange L p
                    \<lparr>rq_Method = ''POST'', rq_URL = uri,
                     rq_Header = [(''Content-Type'', ''application/json''), (''X-Vault-Request'', ''true'')],
                     rq_Body = payload\<rparr>) (\<lambda>resp.
                  case sl_json_login L (rs_Body resp) of
                    Inl err \<Rightarrow> Inl (''failed decoding app role login response, status='' @ itoa (rs_StatusCode resp)
                                     @ '', length='' @ itoa (rs_ContentLength resp) @ '', reason='' @ err)
                  | Inr login \<Rightarrow> Inr (getClientToken login)))
      else Inr (vc_vaultToken (vp_config p)))"

definition keyValGetRequest :: "secret_libs \<Rightarrow> vault_provider \<Rightarrow> string \<Rightarrow> kv_getter result" where
  "keyValGetRequest L p secretID =
     (let apiURL = urlPathForProvider (vp_kvType p) (vc_serverAddr (vp_config p)) secretID in
      case sl_newRequest L ''GET'' apiURL of
        Inl err \<Rightarrow> Inl (''failed creating http request, err='' @ err)
      | Inr _ \<Rightarrow>
          bind_result (GetVaultToken L p) (\<lambda>vaultToken.
            bind_result (vault_exchange L p
                \<lparr>rq_Method = ''GET'', rq_URL = apiURL,
                 rq_Header = [(''X-Vault-Token'', vaultToken), (''X-Vault-Request'', ''true'')], rq_Body = ''''\<rparr>) (\<lambda>resp.
              let fail = (\<lambda>err. ''failed decoding response, status='' @ itoa (rs_StatusCode resp)
                            @ '', length='' @ itoa (rs_ContentLength resp) @ '', reason='' @ err) in
              if vp_kvType p = secretProviderVaultKv1Type then
                (case sl_json_kv1 L (rs_Body resp) of Inl err \<Rightarrow> Inl (fail err) | Inr obj \<Rightarrow> Inr (KeyValV1 obj))
              else if vp_kvType p = secretProviderVaultKv2Type then
                (case sl_json_kv2 L (rs_Body resp) of Inl err \<Rightarrow> Inl (fail err) | Inr obj \<Rightarrow> Inr (KeyValV2 obj))
              else Inl (''unknown secret provider '' @ vp_kvType p))))"

definition vault_GetKey :: "secret_libs \<Rightarrow> string \<Rightarrow> string \<Rightarrow> vault_provider \<Rightarrow> string result \<times> vault_provider" where
  "vault_GetKey L secretID secretKey p =
     (case mem_Get (vp_cache p) secretID of
        Some keyVal \<Rightarrow>
          (case gm_get keyVal secretKey of
             Some v \<Rightarrow> (Inr v, p)
           | None \<Rightarrow> (Inl (''secret key not found. secret='' @ secretID @ '', key='' @ secretKey), p))
      | None \<Rightarrow>
          (case keyValGetRequest L p secretID of
             Inl err \<Rightarrow> (Inl (''('' @ secretID @ '') '' @ err), p)
           | Inr kv \<Rightarrow>
               (case map_option (\<lambda>data. (data, gm_get data secretKey)) (kv_GetData kv) of
                  Some (data, Some v) \<Rightarrow> (Inr v, p\<lparr>vp_cache := mem_Set secretID (Some data) (vp_cache p)\<rparr>)
                | _ \<Rightarrow> (Inl (''secret id '' @ secretID @ '' found, but key '' @ secretKey @ '' was not''), p))))"

text \<open>\<open>SetValue\<close>: the request that it sends and what it answers.\<close>

definition vault_SetValue :: "secret_libs \<Rightarrow> vault_provider \<Rightarrow> string \<Rightarrow> string gomap \<Rightarrow> (string gomap \<Rightarrow> string) \<Rightarrow> error option" where
  "vault_SetValue L p secretID secretsPayload marshal_data =
     (let apiURL = urlPathForProvider '''' (vc_serverAddr (vp_config p)) secretID in
      case sl_newRequest L ''POST'' apiURL of
        Inl err \<Rightarrow> Some (''failed creating http request, err='' @ err)
      | Inr _ \<Rightarrow>
          (case GetVaultToken L p of
             Inl err \<Rightarrow> Some err
           | Inr vaultToken \<Rightarrow>
               (case vault_exchange L p
                   \<lparr>rq_Method = ''POST'', rq_URL = apiURL,
                    rq_Header = [(''X-Vault-Token'', vaultToken), (''X-Vault-Request'', ''true'')],
                    rq_Body = marshal_data secretsPayload\<rparr> of
                  Inl err \<Rightarrow> Some err
                | Inr _ \<Rightarrow> None)))"

section \<open>Decode\<close>

record env_val_attribute =
  at_provider :: string
  at_secretID :: string
  at_secretKey :: string

definition decodeVal :: "env_val \<Rightarrow> env_val_attribute option result" where
  "decodeVal encEnvVal =
     (case b64_decode_string (env_show encEnvVal) of
        Inl err \<Rightarrow> Inl (''failed decoding value, '' @ err)
      | Inr v \<Rightarrow>
          (case str_split '':'' v of
             [a, b, c] \<Rightarrow> Inr (Some \<lparr>at_provider = a, at_secretID = b, at_secretKey = c\<rparr>)
           | _ \<Rightarrow> Inr None))"

text \<open>The provider singletons of one call of \<open>Decode\<close>.\<close>

record providers =
  pv_aws :: "aws_provider option"
  pv_envjson :: bool
  pv_kv1 :: "vault_provider option"
  pv_kv2 :: "vault_provider option"

definition no_providers :: providers where
  "no_providers = \<lparr>pv_aws = None, pv_envjson = False, pv_kv1 = None, pv_kv2 = None\<rparr>"

text \<open>
  What one round of the loop does with a value: keep or replace it, note an error and go on,
  return at once because a provider cannot be made, or panic.
\<close>

datatype decode_round = Entry env_val | EntryError error | Abort error | Crash

definition fetched :: "string result \<Rightarrow> decode_round" where
  "fetched r = (case r of Inl err \<Rightarrow> EntryError err | Inr val \<Rightarrow> Entry (EnvStr (b64_encode val)))"

definition decode_aws :: "secret_libs \<Rightarrow> env_val_attribute \<Rightarrow> providers \<Rightarrow> decode_round \<times> providers" where
  "decode_aws L attr pv =
     (case (case pv_aws pv of Some p \<Rightarrow> Inr p | None \<Rightarrow> newAwsProvider L) of
        Inl err \<Rightarrow> (Abort (''failed initializing aws provider, err='' @ err), pv)
      | Inr p \<Rightarrow>
          (case aws_GetKey L (at_secretID attr) (at_secretKey attr) p of
             (Panic, p') \<Rightarrow> (Crash, pv\<lparr>pv_aws := Some p'\<rparr>)
           | (Ret r, p') \<Rightarrow> (fetched r, pv\<lparr>pv_aws := Some p'\<rparr>)))"

definition decode_envjson :: "secret_libs \<Rightarrow> env_val_attribute \<Rightarrow> providers \<Rightarrow> decode_round \<times> providers" where
  "decode_envjson L attr pv =
     (fetched (envjson_GetKey L (at_secretID attr) (at_secretKey attr)), pv\<lparr>pv_envjson := True\<rparr>)"

definition decode_vault :: "secret_libs \<Rightarrow> env_val_attribute \<Rightarrow> vault_provider option \<Rightarrow> decode_round \<times> vault_provider option" where
  "decode_vault L attr slot =
     (case (case slot of Some p \<Rightarrow> Inr p | None \<Rightarrow> newVaultKeyValProvider L (at_provider attr)) of
        Inl err \<Rightarrow> (Abort (''failed initializing vault provider, err='' @ err), slot)
      | Inr p \<Rightarrow> (case vault_GetKey L (at_secretID attr) (at_secretKey attr) p of (r, p') \<Rightarrow> (fetched r, Some p')))"

definition decode_entry :: "secret_libs \<Rightarrow> env_val \<Rightarrow> providers \<Rightarrow> decode_round \<times> providers" where
  "decode_entry L encEnvVal pv =
     (case decodeVal encEnvVal of
        Inl err \<Rightarrow> (EntryError err, pv)
      | Inr None \<Rightarrow> (Entry encEnvVal, pv)
      | Inr (Some attr) \<Rightarrow>
          if at_provider attr = secretProviderAWSSecretsManagerType then decode_aws L attr pv
          else if at_provider attr = secretProviderEnvJSONType then decode_envjson L attr pv
          else if at_provider attr = secretProviderVaultKv1Type then
            (case decode_vault L attr (pv_kv1 pv) of (r, p) \<Rightarrow> (r, pv\<lparr>pv_kv1 := p\<rparr>))
          else if at_provider attr = secretProviderVaultKv2Type then
            (case decode_vault L attr (pv_kv2 pv) of (r, p) \<Rightarrow> (r, pv\<lparr>pv_kv2 := p\<rparr>))
          else (Entry encEnvVal, pv))"

fun decode_loop :: "secret_libs \<Rightarrow> env_val gomap \<Rightarrow> providers \<Rightarrow> env_val gomap \<Rightarrow> string list
    \<Rightarrow> env_val gomap result outcome" where
  "decode_loop L [] pv decodedEnvVars errors =
     (if length errors > 0 then Ret (Inl (go_quote_list errors)) else Ret (Inr decodedEnvVars))"
| "decode_loop L ((envKey, encEnvVal) # rest) pv decodedEnvVars errors =
     (case decode_entry L encEnvVal pv of
        (Crash, _) \<Rightarrow> Panic
      | (Abort err, _) \<Rightarrow> Ret (Inl err)
      | (EntryError err, pv') \<Rightarrow> decode_loop L rest pv' decodedEnvVars (errors @ [envKey @ '' '' @ err])
      | (Entry v, pv') \<Rightarrow> decode_loop L rest pv' (gm_set envKey v decodedEnvVars) errors)"

definition secrets_Decode :: "secret_libs \<Rightarrow> env_val gomap \<Rightarrow> env_val gomap result outcome" where
  "secrets_Decode L envVars = decode_loop L envVars no_providers [] []"

section \<open>The interface of a provider\<close>

text \<open>
  \<open>secretsGetter\<close>: a provider has a state, which may hold a cache.  As long as the cache is
  coherent with the source of the secrets, \<open>GetKey\<close> answers exactly what the source holds, and the
  cache stays coherent.
\<close>

locale secrets_getter =
  fixes getkey :: "string \<Rightarrow> string \<Rightarrow> 'p \<Rightarrow> string result outcome \<times> 'p"
    and coherent :: "'p \<Rightarrow> bool"
    and source :: "string \<Rightarrow> string \<Rightarrow> string option"
  assumes getkey_coherent: "coherent p \<Longrightarrow> coherent (snd (getkey i k p))"
    and getkey_source: "coherent p \<Longrightarrow> fst (getkey i k p) = Ret (Inr v) \<longleftrightarrow> source i k = Some v"
begin

text \<open>A series of requests gets what the source holds, whatever was cached before.\<close>

fun getkeys :: "(string \<times> string) list \<Rightarrow> 'p \<Rightarrow> string option list" where
  "getkeys [] p = []"
| "getkeys ((i, k) # reqs) p =
     (case getkey i k p of (r, p') \<Rightarrow> (case r of Ret (Inr v) \<Rightarrow> Some v | _ \<Rightarrow> None) # getkeys reqs p')"

lemma getkeys_source: "coherent p \<Longrightarrow> getkeys reqs p = map (\<lambda>(i, k). source i k) reqs"
proof (induction reqs arbitrary: p)
  case Nil
  then show ?case by simp
next
  case (Cons ik reqs)
  obtain i k where ik: "ik = (i, k)" by (cases ik)
  obtain r p' where g: "getkey i k p = (r, p')" by (cases "getkey i k p")
  have "(case r of Ret (Inr v) \<Rightarrow> Some v | _ \<Rightarrow> None) = source i k"
    using getkey_source [OF Cons.prems, of i k] g
    by (cases "source i k") (auto split: outcome.splits sum.splits)
  moreover have "coherent p'" using getkey_coherent [OF Cons.prems, of i k] g by simp
  ultimately show ?case using Cons.IH by (simp add: ik g)
qed

end

definition envjson_source :: "secret_libs \<Rightarrow> string \<Rightarrow> string \<Rightarrow> string option" where
  "envjson_source L i k =
     (let j = os_Getenv (sl_os L) i in
      if j = '''' then None else (case sl_json_strmap L j of Inl _ \<Rightarrow> None | Inr m \<Rightarrow> gm_get m k))"

definition aws_source :: "secret_libs \<Rightarrow> string \<Rightarrow> string \<Rightarrow> string option" where
  "aws_source L i k =
     (case sl_aws_GetSecretValue L i of
        Inr (Some s) \<Rightarrow> (case sl_json_anymap L s of Inl _ \<Rightarrow> None | Inr m \<Rightarrow> map_option env_show (gm_get m k))
      | _ \<Rightarrow> None)"

definition aws_coherent :: "secret_libs \<Rightarrow> aws_provider \<Rightarrow> bool" where
  "aws_coherent L p \<longleftrightarrow>
     (\<forall>i m. mem_Get p i = Some m \<longrightarrow> (\<exists>s. sl_aws_GetSecretValue L i = Inr (Some s) \<and> sl_json_anymap L s = Inr m))"

definition vault_source :: "secret_libs \<Rightarrow> vault_provider \<Rightarrow> string \<Rightarrow> string \<Rightarrow> string option" where
  "vault_source L p i k =
     (case keyValGetRequest L p i of
        Inl _ \<Rightarrow> None
      | Inr kv \<Rightarrow> (case kv_GetData kv of Some m \<Rightarrow> gm_get m k | None \<Rightarrow> None))"

text \<open>The provider that \<open>p\<close> was when it was made.\<close>

definition vault_coherent :: "secret_libs \<Rightarrow> vault_provider \<Rightarrow> vault_provider \<Rightarrow> bool" where
  "vault_coherent L p0 p \<longleftrightarrow> vp_config p = vp_config p0 \<and> vp_kvType p = vp_kvType p0 \<and>
     (\<forall>i m. mem_Get (vp_cache p) i = Some m \<longrightarrow> (\<exists>kv. keyValGetRequest L p0 i = Inr kv \<and> kv_GetData kv = Some m))"

interpretation envjson: secrets_getter "\<lambda>i k (p :: unit). (Ret (envjson_GetKey L i k), p)" "\<lambda>_. True" "envjson_source L" for L
  by unfold_locales (auto simp: envjson_GetKey_def envjson_source_def Let_def split: sum.splits option.splits)

interpretation aws: secrets_getter "aws_GetKey L" "aws_coherent L" "aws_source L" for L
proof unfold_locales
  fix p i k
  assume "aws_coherent L p"
  then show "aws_coherent L (snd (aws_GetKey L i k p))"
    by (auto simp: aws_GetKey_def aws_coherent_def split: option.splits sum.splits)
next
  fix p i k v
  assume c: "aws_coherent L p"
  show "(fst (aws_GetKey L i k p) = Ret (Inr v)) = (aws_source L i k = Some v)"
  proof (cases "mem_Get p i")
    case (Some m)
    with c obtain s where "sl_aws_GetSecretValue L i = Inr (Some s)" "sl_json_anymap L s = Inr m"
      by (auto simp: aws_coherent_def)
    with Some show ?thesis by (auto simp: aws_GetKey_def aws_source_def split: option.splits)
  next
    case None
    then show ?thesis by (auto simp: aws_GetKey_def aws_source_def split: option.splits sum.splits)
  qed
qed

lemma keyValGetRequest_cong:
  assumes "vp_config p = vp_config q" "vp_kvType p = vp_kvType q"
  shows "keyValGetRequest L p i = keyValGetRequest L q i"
proof -
  have e: "vault_exchange L p = vault_exchange L q"
    using assms by (intro ext) (simp add: vault_exchange_def)
  have t: "GetVaultToken L p = GetVaultToken L q"
    by (simp only: GetVaultToken_def e assms)
  show ?thesis by (simp only: keyValGetRequest_def t e assms)
qed

interpretation vault: secrets_getter "\<lambda>i k p. case vault_GetKey L i k p of (r, p') \<Rightarrow> (Ret r, p')" "vault_coherent L p0" "vault_source L p0"
  for L p0
proof unfold_locales
  fix p i k
  assume c: "vault_coherent L p0 p"
  then have "keyValGetRequest L p i = keyValGetRequest L p0 i"
    by (intro keyValGetRequest_cong) (simp_all add: vault_coherent_def)
  with c show "vault_coherent L p0 (snd (case vault_GetKey L i k p of (r, p') \<Rightarrow> (Ret r, p')))"
    by (auto simp: vault_GetKey_def vault_coherent_def split: option.splits sum.splits)
next
  fix p i k v
  assume c: "vault_coherent L p0 p"
  then have kv: "keyValGetRequest L p i = keyValGetRequest L p0 i"
    by (intro keyValGetRequest_cong) (simp_all add: vault_coherent_def)
  show "(fst (case vault_GetKey L i k p of (r, p') \<Rightarrow> (Ret r, p')) = Ret (Inr v)) = (vault_source L p0 i k = Some v)"
  proof (cases "mem_Get (vp_cache p) i")
    case (Some m)
    with c obtain kv where "keyValGetRequest L p0 i = Inr kv" "kv_GetData kv = Some m" by (auto simp: vault_coherent_def)
    with Some show ?thesis by (auto simp: vault_GetKey_def vault_source_def split: option.splits)
  next
    case None
    then show ?thesis
      by (auto simp: vault_GetKey_def vault_source_def kv split: option.splits sum.splits)
  qed
qed

section \<open>Decode against the sources\<close>

text \<open>What a value stands for, straight from the sources and without caches.\<close>

definition resolve :: "secret_libs \<Rightarrow> env_val \<Rightarrow> env_val option" where
  "resolve L v =
     (case decodeVal v of
        Inl _ \<Rightarrow> None
      | Inr None \<Rightarrow> Some v
      | Inr (Some attr) \<Rightarrow>
          (let enc = map_option (\<lambda>x. EnvStr (b64_encode x)); i = at_secretID attr; k = at_secretKey attr in
           if at_provider attr = secretProviderAWSSecretsManagerType then
             (if is_ok (newAwsProvider L) then enc (aws_source L i k) else None)
           else if at_provider attr = secretProviderEnvJSONType then enc (envjson_source L i k)
           else if at_provider attr \<in> {secretProviderVaultKv1Type, secretProviderVaultKv2Type} then
             (case newVaultKeyValProvider L (at_provider attr) of
                Inl _ \<Rightarrow> None | Inr p0 \<Rightarrow> enc (vault_source L p0 i k))
           else Some v))"

definition slot_ok :: "secret_libs \<Rightarrow> string \<Rightarrow> vault_provider option \<Rightarrow> bool" where
  "slot_ok L t slot \<longleftrightarrow>
     (\<forall>p. slot = Some p \<longrightarrow> (\<exists>p0. newVaultKeyValProvider L t = Inr p0 \<and> vault_coherent L p0 p))"

definition providers_ok :: "secret_libs \<Rightarrow> providers \<Rightarrow> bool" where
  "providers_ok L pv \<longleftrightarrow>
     (\<forall>p. pv_aws pv = Some p \<longrightarrow> is_ok (newAwsProvider L) \<and> aws_coherent L p) \<and>
     slot_ok L secretProviderVaultKv1Type (pv_kv1 pv) \<and> slot_ok L secretProviderVaultKv2Type (pv_kv2 pv)"

lemma fetched_Entry [simp]: "fetched r = Entry w \<longleftrightarrow> (\<exists>x. r = Inr x \<and> w = EnvStr (b64_encode x))"
  by (auto simp: fetched_def split: sum.splits)

lemma decode_aws_spec:
  assumes "providers_ok L pv"
  shows "providers_ok L (snd (decode_aws L attr pv)) \<and>
     (fst (decode_aws L attr pv) = Entry w \<longleftrightarrow>
        is_ok (newAwsProvider L) \<and> (\<exists>x. aws_source L (at_secretID attr) (at_secretKey attr) = Some x \<and> w = EnvStr (b64_encode x)))"
proof (cases "case pv_aws pv of Some p \<Rightarrow> Inr p | None \<Rightarrow> newAwsProvider L")
  case (Inl e)
  then have "\<not> is_ok (newAwsProvider L)" by (auto split: option.splits)
  with Inl assms show ?thesis by (simp add: decode_aws_def)
next
  case (Inr p)
  have new: "aws_coherent L mem_New" by (simp add: aws_coherent_def)
  have p: "is_ok (newAwsProvider L)" "aws_coherent L p"
    using Inr assms new by (auto simp: providers_ok_def newAwsProvider_def bind_result_def split: option.splits sum.splits)
  obtain r p' where g: "aws_GetKey L (at_secretID attr) (at_secretKey attr) p = (r, p')"
    by (cases "aws_GetKey L (at_secretID attr) (at_secretKey attr) p")
  have "aws_coherent L p'" using aws.getkey_coherent [OF p(2)] g by (metis snd_conv)
  moreover have "r = Ret (Inr x) \<longleftrightarrow> aws_source L (at_secretID attr) (at_secretKey attr) = Some x" for x
    using aws.getkey_source [OF p(2)] g by (metis fst_conv)
  ultimately show ?thesis
    using Inr g p assms by (cases r) (auto simp: decode_aws_def providers_ok_def)
qed

lemma decode_vault_spec:
  assumes "slot_ok L (at_provider attr) slot"
  shows "slot_ok L (at_provider attr) (snd (decode_vault L attr slot)) \<and>
     (fst (decode_vault L attr slot) = Entry w \<longleftrightarrow>
        (\<exists>p0 x. newVaultKeyValProvider L (at_provider attr) = Inr p0 \<and>
           vault_source L p0 (at_secretID attr) (at_secretKey attr) = Some x \<and> w = EnvStr (b64_encode x)))"
proof (cases "case slot of Some p \<Rightarrow> Inr p | None \<Rightarrow> newVaultKeyValProvider L (at_provider attr)")
  case (Inl e)
  then have "newVaultKeyValProvider L (at_provider attr) = Inl e" by (auto split: option.splits)
  with Inl assms show ?thesis by (simp add: decode_vault_def)
next
  case (Inr p)
  have new: "newVaultKeyValProvider L t = Inr p \<Longrightarrow> vault_coherent L p p" for t
    by (auto simp: newVaultKeyValProvider_def bind_result_def vault_coherent_def split: sum.splits)
  obtain p0 where p0: "newVaultKeyValProvider L (at_provider attr) = Inr p0" "vault_coherent L p0 p"
    using Inr assms new by (auto simp: slot_ok_def split: option.splits)
  obtain r p' where g: "vault_GetKey L (at_secretID attr) (at_secretKey attr) p = (r, p')"
    by (cases "vault_GetKey L (at_secretID attr) (at_secretKey attr) p")
  have "vault_coherent L p0 p'"
    using vault.getkey_coherent [OF p0(2), of "at_secretID attr" "at_secretKey attr"] g by simp
  moreover have "r = Inr x \<longleftrightarrow> vault_source L p0 (at_secretID attr) (at_secretKey attr) = Some x" for x
    using vault.getkey_source [OF p0(2), of "at_secretID attr" "at_secretKey attr" x] g by simp
  ultimately show ?thesis
    using Inr g p0 by (auto simp: decode_vault_def slot_ok_def)
qed

lemma decode_envjson_spec:
  "fst (decode_envjson L attr pv) = Entry w \<longleftrightarrow>
     (\<exists>x. envjson_source L (at_secretID attr) (at_secretKey attr) = Some x \<and> w = EnvStr (b64_encode x))"
  using envjson.getkey_source [where L = L and p = "()"] by (simp add: decode_envjson_def)

lemma decode_entry_spec:
  assumes "providers_ok L pv"
  shows "providers_ok L (snd (decode_entry L v pv)) \<and> (fst (decode_entry L v pv) = Entry w \<longleftrightarrow> resolve L v = Some w)"
proof (cases "decodeVal v")
  case (Inl e)
  with assms show ?thesis by (simp add: decode_entry_def resolve_def)
next
  case (Inr oa)
  show ?thesis
  proof (cases oa)
    case None
    with Inr assms show ?thesis by (auto simp: decode_entry_def resolve_def)
  next
    case (Some attr)
    note kv1 = decode_vault_spec [of L attr "pv_kv1 pv" w] and kv2 = decode_vault_spec [of L attr "pv_kv2 pv" w]
    consider (aws) "at_provider attr = secretProviderAWSSecretsManagerType"
      | (envjson) "at_provider attr = secretProviderEnvJSONType"
      | (kv1) "at_provider attr = secretProviderVaultKv1Type"
      | (kv2) "at_provider attr = secretProviderVaultKv2Type"
      | (other) "at_provider attr \<notin> {secretProviderAWSSecretsManagerType, secretProviderEnvJSONType,
          secretProviderVaultKv1Type, secretProviderVaultKv2Type}" by auto
    then show ?thesis
    proof cases
      case aws
      with decode_aws_spec [OF assms, of attr w] show ?thesis
        by (auto simp: decode_entry_def resolve_def Inr Some)
    next
      case envjson
      have "providers_ok L (snd (decode_envjson L attr pv))"
        using assms by (simp add: decode_envjson_def providers_ok_def)
      with envjson decode_envjson_spec [of L attr pv w] show ?thesis
        by (auto simp: decode_entry_def resolve_def Inr Some)
    next
      case kv1
      with decode_vault_spec [of L attr "pv_kv1 pv" w] assms show ?thesis
        by (auto simp: decode_entry_def resolve_def Inr Some providers_ok_def split: prod.splits sum.splits)
    next
      case kv2
      with decode_vault_spec [of L attr "pv_kv2 pv" w] assms show ?thesis
        by (auto simp: decode_entry_def resolve_def Inr Some providers_ok_def split: prod.splits sum.splits)
    next
      case other
      with assms show ?thesis by (auto simp: decode_entry_def resolve_def Inr Some)
    qed
  qed
qed

lemma decode_loop_spec:
  assumes "providers_ok L pv"
  shows "decode_loop L vars pv dec errs = Ret (Inr m) \<longleftrightarrow>
     errs = [] \<and> (\<forall>(k, v) \<in> set vars. resolve L v \<noteq> None) \<and>
     m = fold (\<lambda>(k, v) acc. gm_set k (the (resolve L v)) acc) vars dec"
  using assms
proof (induction vars arbitrary: pv dec errs)
  case Nil
  then show ?case by auto
next
  case (Cons kv vars)
  obtain k v where kv: "kv = (k, v)" by (cases kv)
  obtain r pv' where e: "decode_entry L v pv = (r, pv')" by (cases "decode_entry L v pv")
  have pv': "providers_ok L pv'" using decode_entry_spec [OF Cons.prems, of v] e by simp
  have r: "r = Entry w \<longleftrightarrow> resolve L v = Some w" for w
    using decode_entry_spec [OF Cons.prems, of v w] e by simp
  show ?case
  proof (cases r)
    case (Entry w)
    with r [of w] have "resolve L v = Some w" by simp
    with Entry e kv Cons.IH [OF pv'] show ?thesis by simp
  next
    case (EntryError err)
    with r have "resolve L v = None" by (cases "resolve L v") auto
    with EntryError e kv Cons.IH [OF pv'] show ?thesis by simp
  next
    case (Abort err)
    with r have "resolve L v = None" by (cases "resolve L v") auto
    with Abort e kv show ?thesis by simp
  next
    case Crash
    with r have "resolve L v = None" by (cases "resolve L v") auto
    with Crash e kv show ?thesis by simp
  qed
qed

lemma gm_get_fold_set:
  "gm_wf vars \<Longrightarrow> gm_get (fold (\<lambda>(k, v) acc. gm_set k (f v) acc) vars acc) key =
     (case gm_get vars key of None \<Rightarrow> gm_get acc key | Some v \<Rightarrow> Some (f v))"
proof (induction vars arbitrary: acc)
  case Nil
  then show ?case by simp
next
  case (Cons kv vars)
  obtain k v where kv: "kv = (k, v)" by (cases kv)
  have wf: "gm_wf vars" "k \<notin> fst ` set vars" using Cons.prems kv by (auto simp: gm_wf_def)
  then have "gm_get vars k = None" using gm_get_dom by blast
  then show ?case by (simp add: kv Cons.IH [OF wf(1)] gm_get_Cons split: option.split)
qed

text \<open>
  C15: \<open>Decode\<close> returns variables exactly when every value is a plain one or names a secret that its
  provider has, and then every key is kept and holds its plain value or the base64 encoding of the
  secret, whatever the order in which the map is visited and whatever the caches held meanwhile.
\<close>

theorem secrets_decode_spec:
  assumes "gm_wf envVars"
  shows "((\<exists>m. secrets_Decode L envVars = Ret (Inr m)) \<longleftrightarrow> (\<forall>k v. gm_get envVars k = Some v \<longrightarrow> resolve L v \<noteq> None)) \<and>
     (\<forall>m. secrets_Decode L envVars = Ret (Inr m) \<longrightarrow>
        (\<forall>k. gm_get m k = (case gm_get envVars k of None \<Rightarrow> None | Some v \<Rightarrow> resolve L v)))"
proof -
  have ok: "providers_ok L no_providers" by (simp add: providers_ok_def no_providers_def slot_ok_def)
  have all: "(\<forall>(k, v) \<in> set envVars. resolve L v \<noteq> None) \<longleftrightarrow> (\<forall>k v. gm_get envVars k = Some v \<longrightarrow> resolve L v \<noteq> None)"
    using gm_get_in_set [OF assms] by fastforce
  have dec: "secrets_Decode L envVars = Ret (Inr m) \<longleftrightarrow>
      (\<forall>k v. gm_get envVars k = Some v \<longrightarrow> resolve L v \<noteq> None) \<and>
      m = fold (\<lambda>(k, v) acc. gm_set k (the (resolve L v)) acc) envVars []" for m
    unfolding secrets_Decode_def decode_loop_spec [OF ok] all by simp
  have get: "gm_get (fold (\<lambda>(k, v) acc. gm_set k (the (resolve L v)) acc) envVars []) k =
      (case gm_get envVars k of None \<Rightarrow> None | Some v \<Rightarrow> resolve L v)"
    if "\<forall>k v. gm_get envVars k = Some v \<longrightarrow> resolve L v \<noteq> None" for k
    using that unfolding gm_get_fold_set [OF assms] by (cases "gm_get envVars k") auto
  show ?thesis using dec get by auto
qed

definition demo_secrets :: secret_libs where
  "demo_secrets = \<lparr>
     sl_os = \<lparr>os_LookupEnv = (\<lambda>k. if k = ''DB'' then Some ''{}'' else None), os_Environ = [], os_Getwd = Inr ''/'',
       os_ReadFile = (\<lambda>_. Inl ''no file''), path_Join = (\<lambda>a b. a @ b)\<rparr>,
     sl_aws_config = Inl ''no region'', sl_aws_GetSecretValue = (\<lambda>_. Inr None),
     sl_newRequest = (\<lambda>_ _. Inr ()), sl_httpDo = (\<lambda>_ _. Inl ''no route''),
     sl_json_strmap = (\<lambda>_. Inr [(''pw'', ''x'')]), sl_json_anymap = (\<lambda>_. Inr []), sl_json_kv1 = (\<lambda>_. Inl ''no data''),
     sl_json_kv2 = (\<lambda>_. Inl ''no data''), sl_json_login = (\<lambda>_. Inl ''no data''), sl_json_errors = (\<lambda>_. Inr []),
     sl_json_marshal_strmap = (\<lambda>_. ''{}'')\<rparr>"

definition demo_vars :: "env_val gomap" where
  "demo_vars = [(''envvar:PASS'', EnvStr (b64_encode ''_envjson:DB:pw'')), (''envvar:USER'', EnvStr (b64_encode ''root''))]"

lemma demo_resolve:
  "resolve demo_secrets (EnvStr (b64_encode ''_envjson:DB:pw'')) = Some (EnvStr (b64_encode ''x''))"
  "resolve demo_secrets (EnvStr (b64_encode ''root'')) = Some (EnvStr (b64_encode ''root''))"
proof -
  have "str_split '':'' ''_envjson:DB:pw'' = [''_envjson'', ''DB'', ''pw'']" "str_split '':'' ''root'' = [''root'']"
    by code_simp+
  then show "resolve demo_secrets (EnvStr (b64_encode ''_envjson:DB:pw'')) = Some (EnvStr (b64_encode ''x''))"
    "resolve demo_secrets (EnvStr (b64_encode ''root'')) = Some (EnvStr (b64_encode ''root''))"
    by (simp_all add: resolve_def decodeVal_def env_show_def b64_decode_string_encode envjson_source_def
        demo_secrets_def os_Getenv_def gm_get_def)
qed

theorem secrets_decode_spec_witness:
  "\<exists>m. secrets_Decode demo_secrets demo_vars = Ret (Inr m) \<and>
     gm_get m ''envvar:PASS'' = Some (EnvStr (b64_encode ''x''))"
proof -
  have wf: "gm_wf demo_vars" by (simp add: demo_vars_def gm_wf_def)
  have "\<forall>k v. gm_get demo_vars k = Some v \<longrightarrow> resolve demo_secrets v \<noteq> None"
    by (auto simp: demo_vars_def gm_get_Cons demo_resolve split: if_splits)
  with secrets_decode_spec [OF wf, of demo_secrets] obtain m where
    "secrets_Decode demo_secrets demo_vars = Ret (Inr m)"
    "gm_get m ''envvar:PASS'' = (case gm_get demo_vars ''envvar:PASS'' of None \<Rightarrow> None | Some v \<Rightarrow> resolve demo_secrets v)"
    by blast
  then show ?thesis by (simp add: demo_vars_def gm_get_Cons demo_resolve)
qed

end
