(* ===== verification/Agent.thy ===== *)
theory Agent
  imports ConnEnv Secrets
begin

text \<open>
  The agent's controller, \<open>src/agent/controller\<close>: the dispatch loop of \<open>agent.go\<close> and one handler
  per packet type, on the stub library \<open>src/agent/libbifrost\<close> that the repository builds with.

  The state of an agent is its connection store, the packets it has sent, what was written to and
  closed of the objects in the store, the goroutines it has started and that have not run
  yet, and the system requests for which the packages under \<open>system\<close> have been asked to start one.  The gob decoders, the network, the shell and the MongoDB driver are parameters
  (\<open>agent_libs\<close>).  Every send of the controller ignores the error of \<open>client.Send\<close>, so a send
  appends the packet to the log.  A panic in a handler ends the process (\<open>ag_crashed\<close>).
\<close>

abbreviation internalExitCode :: string where "internalExitCode \<equiv> ''254''"

definition execStoreKey :: "string \<Rightarrow> string" where "execStoreKey sid = ''exec:'' @ sid"
definition cmdStoreKey :: "string \<Rightarrow> string" where "cmdStoreKey sid = ''cmd:'' @ sid"

section \<open>State\<close>

text \<open>
  The values of the store: the connection parameters of a session, a proxy of \<open>libbifrost\<close> (the
  stub's \<open>noopProxy\<close>, with its connection type), or a TCP connection to an address.
\<close>

datatype store_obj = ConnParams agent_connection_params | NoopProxy string | TCPConn string

definition is_closer :: "store_obj option \<Rightarrow> bool" where
  "is_closer obj = (case obj of Some (NoopProxy _) \<Rightarrow> True | Some (TCPConn _) \<Rightarrow> True | _ \<Rightarrow> False)"

text \<open>What a command run by \<open>sh -c\<close> did: its output and how it ended.\<close>

datatype shell_result = Exited string int | NotRun string

record agent_libs =
  al_secrets :: secret_libs
  al_conn :: conn_libs
  al_gob_params :: "string \<Rightarrow> agent_connection_params result"
  al_gob_envs :: "string \<Rightarrow> string gomap result"
  al_dial :: "string \<Rightarrow> string \<Rightarrow> unit result"
  al_tcp_write :: "string \<Rightarrow> string \<Rightarrow> error option"
  al_shell :: "string \<Rightarrow> shell_result"

datatype task = OpenTask packet agent_connection_params | TCPTask packet string string

record agent =
  ag_config :: agent_config
  ag_runtimeEnvs :: "string gomap"
  ag_connStore :: "store_obj store"
  ag_sent :: "packet list"
  ag_written :: "(string \<times> string) list"
  ag_closed :: "string list"
  ag_tasks :: "task list"
  ag_system :: "packet list"
  ag_crashed :: bool
  ag_shutdown :: "error option"

definition agent_New :: "agent_config \<Rightarrow> string gomap \<Rightarrow> agent" where
  "agent_New cfg runtimeEnvs =
     \<lparr>ag_config = cfg, ag_runtimeEnvs = runtimeEnvs, ag_connStore = mem_New, ag_sent = [], ag_written = [],
      ag_closed = [], ag_tasks = [], ag_system = [], ag_crashed = False, ag_shutdown = None\<rparr>"

definition client_Send :: "packet \<Rightarrow> agent \<Rightarrow> agent" where
  "client_Send pkt a = a\<lparr>ag_sent := ag_sent a @ [pkt]\<rparr>"

definition store_Set :: "string \<Rightarrow> store_obj \<Rightarrow> agent \<Rightarrow> agent" where
  "store_Set key obj a = a\<lparr>ag_connStore := mem_Set key (Some obj) (ag_connStore a)\<rparr>"

definition store_Del :: "string \<Rightarrow> agent \<Rightarrow> agent" where
  "store_Del key a = a\<lparr>ag_connStore := mem_Del key (ag_connStore a)\<rparr>"

definition obj_Close :: "string \<Rightarrow> agent \<Rightarrow> agent" where
  "obj_Close key a = a\<lparr>ag_closed := ag_closed a @ [key]\<rparr>"

section \<open>The stub library\<close>

definition noop_Run_msg :: "string \<Rightarrow> string" where
  "noop_Run_msg connectionType =
     ''missing protocol hoop library for '' @ connectionType @ '', contact your administrator''"

text \<open>\<open>Run\<close> calls its callback at once with exit code 1 and the message.\<close>

definition noop_Run :: "string \<Rightarrow> (int \<Rightarrow> string \<Rightarrow> 's \<Rightarrow> 's) \<Rightarrow> 's \<Rightarrow> 's" where
  "noop_Run connectionType onErr a = onErr 1 (noop_Run_msg connectionType) a"

text \<open>
  \<open>Write\<close> on an object of the store: the stub accepts everything, a TCP connection may fail.
\<close>

definition obj_Write :: "agent_libs \<Rightarrow> string \<Rightarrow> store_obj \<Rightarrow> string \<Rightarrow> agent \<Rightarrow> error option \<times> agent" where
  "obj_Write L key obj payload a =
     (let a' = a\<lparr>ag_written := ag_written a @ [(key, payload)]\<rparr> in
      case obj of
        TCPConn addr \<Rightarrow> (case al_tcp_write L addr payload of None \<Rightarrow> (None, a') | Some e \<Rightarrow> (Some e, a))
      | _ \<Rightarrow> (None, a'))"

definition streamWriter_Write :: "string \<Rightarrow> string gomap option \<Rightarrow> string \<Rightarrow> agent \<Rightarrow> agent" where
  "streamWriter_Write typ spec data a = client_Send \<lparr>pkt_Type = typ, pkt_Spec = spec, pkt_Payload = Some data\<rparr> a"

section \<open>Answers to the client\<close>

definition sendClientSessionCloseWithExitCode :: "string \<Rightarrow> string \<Rightarrow> string \<Rightarrow> agent \<Rightarrow> agent" where
  "sendClientSessionCloseWithExitCode sessionID errMsg exitCode a =
     (if sessionID = '''' then a
      else client_Send
        \<lparr>pkt_Type = client_SessionClose,
         pkt_Spec = Some [(SpecGatewaySessionID, sessionID), (SpecClientExitCodeKey, exitCode)],
         pkt_Payload = (if errMsg \<noteq> '''' then Some errMsg else None)\<rparr> a)"

definition sendClientSessionClose :: "string \<Rightarrow> string \<Rightarrow> agent \<Rightarrow> agent" where
  "sendClientSessionClose sessionID errMsg a =
     sendClientSessionCloseWithExitCode sessionID errMsg (if errMsg \<noteq> '''' then internalExitCode else ''0'') a"

definition sendClientTCPConnectionClose :: "string \<Rightarrow> string \<Rightarrow> agent \<Rightarrow> agent" where
  "sendClientTCPConnectionClose sessionID connectionID a =
     client_Send \<lparr>pkt_Type = client_TCPConnectionClose,
       pkt_Spec = Some [(SpecGatewaySessionID, sessionID), (SpecClientConnectionID, connectionID)],
       pkt_Payload = None\<rparr> a"

definition sendCloseTerm :: "string \<Rightarrow> string \<Rightarrow> string \<Rightarrow> agent \<Rightarrow> agent" where
  "sendCloseTerm sid msg exitCode a =
     sendClientSessionCloseWithExitCode sid msg (if msg \<noteq> '''' \<and> exitCode = '''' then ''1'' else exitCode) a"

text \<open>The close packet that \<open>processSessionOpen\<close> and \<open>decodeConnectionParams\<close> build themselves.\<close>

definition refuse_session :: "string \<Rightarrow> string \<Rightarrow> agent \<Rightarrow> agent" where
  "refuse_session sessionID msg a =
     client_Send \<lparr>pkt_Type = client_SessionClose,
       pkt_Spec = Some [(SpecClientExitCodeKey, internalExitCode), (SpecGatewaySessionID, sessionID)],
       pkt_Payload = Some msg\<rparr> a"

definition connectionParams :: "string \<Rightarrow> agent \<Rightarrow> agent_connection_params option" where
  "connectionParams sessionID a =
     (case mem_Get (ag_connStore a) sessionID of Some (ConnParams p) \<Rightarrow> Some p | _ \<Rightarrow> None)"

definition conn_writer :: "string \<Rightarrow> agent \<Rightarrow> store_obj option" where
  "conn_writer key a =
     (let obj = mem_Get (ag_connStore a) key in if is_closer obj then obj else None)"

definition connection_key :: "string \<Rightarrow> string \<Rightarrow> string" where
  "connection_key sessionID connectionID = sessionID @ '':'' @ connectionID"

section \<open>Opening a session\<close>

definition b64Enc :: "string \<Rightarrow> env_val" where
  "b64Enc src = EnvStr (b64_encode src)"

text \<open>Client variables do not replace those of the connection.\<close>

definition add_client_envs :: "string gomap \<Rightarrow> env_val gomap \<Rightarrow> env_val gomap" where
  "add_client_envs clientEnvVars envVars =
     fold (\<lambda>(key, val) env. if gm_get env key \<noteq> None then env else gm_set key (EnvStr val) env) clientEnvVars envVars"

definition decodeConnectionParams :: "agent_libs \<Rightarrow> packet \<Rightarrow> agent \<Rightarrow> agent_connection_params option \<times> agent" where
  "decodeConnectionParams L pkt a =
     (let sessionID = spec_get pkt SpecGatewaySessionID in
      case GobDecodeInto (al_gob_params L) (spec_get pkt SpecAgentConnectionParamsKey) of
        Inl _ \<Rightarrow> (None, refuse_session sessionID ''internal error, failed decoding connection params'' a)
      | Inr connParams \<Rightarrow>
          (case secrets_Decode (al_secrets L) (EnvVars connParams) of
             Panic \<Rightarrow> (None, a\<lparr>ag_crashed := True\<rparr>)
           | Ret (Inl err) \<Rightarrow>
               (None, refuse_session sessionID (''failed decoding environment variables '' @ err) a)
           | Ret (Inr envVars) \<Rightarrow>
               (let connParams = connParams\<lparr>EnvVars := envVars\<rparr>;
                    clientEnvVarsEnc = spec_get pkt SpecClientExecEnvVar
                in if length clientEnvVarsEnc > 0 then
                     (case GobDecodeInto (al_gob_envs L) clientEnvVarsEnc of
                        Inl _ \<Rightarrow> (None, refuse_session sessionID ''internal error, failed decoding client env vars'' a)
                      | Inr clientEnvVars \<Rightarrow>
                          (Some (connParams\<lparr>EnvVars := add_client_envs clientEnvVars (EnvVars connParams)\<rparr>), a))
                   else (Some connParams, a))))"

text \<open>Values that ask for the agent's own environment are replaced by it where it has them.\<close>

definition upstream_envs :: "os_env \<Rightarrow> env_val gomap \<Rightarrow> env_val gomap" where
  "upstream_envs os envVars =
     fold (\<lambda>(key, b64EncVal) env.
        if \<not> has_prefix key ''envvar:'' then env
        else (let envVal = b64_decode_lenient (env_show b64EncVal) in
              if length envVal > 0 \<and> envVal = SystemAgentEnvs then
                (case os_LookupEnv os (drop 7 key) of
                   Some upstreamEnvVal \<Rightarrow> gm_set (''envvar:'' @ drop 7 key) (b64Enc upstreamEnvVal) env
                 | None \<Rightarrow> env)
              else env)) envVars envVars"

definition password_alias :: "string \<Rightarrow> env_val gomap \<Rightarrow> env_val gomap" where
  "password_alias connType env =
     (case gm_get env ''envvar:PASS'' of
        None \<Rightarrow> env
      | Some b64EncPaswd \<Rightarrow>
          if connType = ConnectionTypePostgres then gm_set ''envvar:PGPASSWORD'' b64EncPaswd env
          else if connType = ConnectionTypeMySQL then gm_set ''envvar:MYSQL_PWD'' b64EncPaswd env
          else if connType = ConnectionTypeMSSQL then gm_set ''envvar:SQLCMDPASSWORD'' b64EncPaswd env
          else env)"

definition add_runtime_envs :: "string gomap \<Rightarrow> env_val gomap \<Rightarrow> env_val gomap" where
  "add_runtime_envs runtimeEnvs env = fold (\<lambda>(key, val) env. gm_set key (EnvStr val) env) runtimeEnvs env"

definition buildConnectionParams :: "agent_libs \<Rightarrow> packet \<Rightarrow> agent \<Rightarrow> agent_connection_params result \<times> agent" where
  "buildConnectionParams L pkt a =
     (let sessionIDKey = spec_get pkt SpecGatewaySessionID in
      case decodeConnectionParams L pkt a of
        (None, a) \<Rightarrow> (Inl (''session '' @ sessionIDKey @ '' failed to decode connection params''), a)
      | (Some connParams, a) \<Rightarrow>
          (let env = add_runtime_envs (ag_runtimeEnvs a) (EnvVars connParams);
               env = upstream_envs (sl_os (al_secrets L)) env;
               env = password_alias (spec_get pkt SpecConnectionType) env
           in (Inr (connParams\<lparr>EnvVars := env\<rparr>), a)))"

definition session_envs :: "string \<Rightarrow> agent_connection_params \<Rightarrow> env_val gomap \<Rightarrow> env_val gomap" where
  "session_envs sessionID p env =
     gm_set ''envvar:HOOP_SESSION_ID'' (b64Enc sessionID)
      (gm_set ''envvar:HOOP_USER_EMAIL'' (b64Enc (UserEmail p))
       (gm_set ''envvar:HOOP_USER_ID'' (b64Enc (UserID p))
        (gm_set ''envvar:HOOP_CLIENT_VERB'' (b64Enc (ClientVerb p))
         (gm_set ''envvar:HOOP_CLIENT_ORIGIN'' (b64Enc (ClientOrigin p))
          (gm_set ''envvar:HOOP_CONNECTION_TYPE'' (b64Enc (ConnectionType p))
           (gm_set ''envvar:HOOP_CONNECTION_NAME'' (b64Enc (ConnectionName p)) env))))))"

text \<open>An embedded agent hands its whole environment to the session, its own key apart.\<close>

definition embedded_envs :: "os_env \<Rightarrow> env_val gomap \<Rightarrow> env_val gomap" where
  "embedded_envs os env =
     fold (\<lambda>envKeyVal env.
        case str_cut ''='' envKeyVal of
          None \<Rightarrow> env
        | Some (envKey, envVal) \<Rightarrow>
            if envKey = ''BIFROST_DSN'' \<or> envKey = ''BIFROST_KEY'' then env
            else gm_set (''envvar:'' @ envKey) (b64Enc envVal) env) (os_Environ os) env"

definition processSessionOpen :: "agent_libs \<Rightarrow> packet \<Rightarrow> agent \<Rightarrow> agent" where
  "processSessionOpen L pkt a =
     (let sessionID = spec_get pkt SpecGatewaySessionID in
      case buildConnectionParams L pkt a of
        (Inl err, a) \<Rightarrow> if ag_crashed a then a else refuse_session sessionID err a
      | (Inr connParams, a) \<Rightarrow>
          (let env = session_envs sessionID connParams (EnvVars connParams);
               env = (if cfg_AgentMode (ag_config a) = AgentModeEmbeddedType
                      then embedded_envs (sl_os (al_secrets L)) env else env);
               connParams = connParams\<lparr>EnvVars := env\<rparr>;
               a = store_Set sessionID (ConnParams connParams) a
           in a\<lparr>ag_tasks := ag_tasks a @ [OpenTask pkt connParams]\<rparr>))"

definition isPortActive :: "agent_libs \<Rightarrow> conn_env \<Rightarrow> error option" where
  "isPortActive L e = (case al_dial L ''tcp'' (ce_Address e) of Inl err \<Rightarrow> Some err | Inr _ \<Rightarrow> None)"

definition checkTCPLiveness :: "agent_libs \<Rightarrow> packet \<Rightarrow> env_val gomap \<Rightarrow> error option" where
  "checkTCPLiveness L pkt envVars =
     (let connType = spec_get pkt SpecConnectionType in
      if connType = ConnectionTypePostgres \<or> connType = ConnectionTypeTCP \<or> connType = ConnectionTypeMySQL \<or>
         connType = ConnectionTypeMSSQL \<or> connType = ConnectionTypeMongoDB then
        (case parseConnectionEnvVars (al_conn L) (Some envVars) connType of
           Inl err \<Rightarrow> Some err
         | Inr connEnvVars \<Rightarrow>
             (case isPortActive L connEnvVars of
                None \<Rightarrow> None
              | Some err \<Rightarrow> Some (''failed connecting to remote host='' @ ce_host connEnvVars @ '', port=''
                                   @ ce_port connEnvVars @ '', reason='' @ err)))
      else None)"

text \<open>The goroutine that \<open>processSessionOpen\<close> starts.\<close>

definition run_open_task :: "agent_libs \<Rightarrow> packet \<Rightarrow> agent_connection_params \<Rightarrow> agent \<Rightarrow> agent" where
  "run_open_task L pkt connParams a =
     (let sessionID = spec_get pkt SpecGatewaySessionID;
          a = (case checkTCPLiveness L pkt (EnvVars connParams) of
                 Some err \<Rightarrow> refuse_session sessionID err a | None \<Rightarrow> a);
          requestCommand = CmdList connParams @ ClientArgs connParams
      in client_Send \<lparr>pkt_Type = client_SessionOpenOK,
           pkt_Spec = Some [(SpecGatewaySessionID, sessionID), (SpecConnectionType, spec_get pkt SpecConnectionType),
             (SpecClientRequestPort, spec_get pkt SpecClientRequestPort),
             (SpecClientExecCommandKey, str_join '' '' requestCommand)],
           pkt_Payload = None\<rparr> a)"

section \<open>Closing\<close>

text \<open>Close and drop the closers among a filtered copy of the store.\<close>

definition drop_closers :: "(string \<Rightarrow> bool) \<Rightarrow> agent \<Rightarrow> agent" where
  "drop_closers filterFn a =
     fold (\<lambda>(key, obj) a. if is_closer obj then store_Del key (obj_Close key a) else a)
       (mem_Filter filterFn (ag_connStore a)) a"

definition processTCPCloseConnection :: "packet \<Rightarrow> agent \<Rightarrow> agent" where
  "processTCPCloseConnection pkt a =
     (let filterKey = spec_get pkt SpecGatewaySessionID @ '':'' @ spec_get pkt SpecClientConnectionID
      in drop_closers (\<lambda>k. has_prefix k filterKey) a)"

definition sessionCleanup :: "string \<Rightarrow> agent \<Rightarrow> agent" where
  "sessionCleanup sessionID a = drop_closers (\<lambda>k. str_contains k sessionID) a"

definition processSessionClose :: "packet \<Rightarrow> agent \<Rightarrow> agent" where
  "processSessionClose pkt a =
     (let sessionID = spec_get pkt SpecGatewaySessionID in
      if sessionID = '''' then a else sessionCleanup sessionID a)"

text \<open>
  \<open>Close\<close> closes what can be closed, leaves the store as it is and cancels the shutdown context
  with the given cause.
\<close>

definition agent_Close :: "error \<Rightarrow> agent \<Rightarrow> agent" where
  "agent_Close cause a =
     (fold (\<lambda>(key, obj) a. if is_closer obj then obj_Close key a else a) (mem_List (ag_connStore a)) a)
       \<lparr>ag_shutdown := (case ag_shutdown a of None \<Rightarrow> Some cause | Some c \<Rightarrow> Some c)\<rparr>"

end
