(* ===== verification/Agent_Handlers.thy ===== *)
theory Agent_Handlers
  imports Agent
begin

text \<open>
  The protocol handlers of the agent (\<open>postgres.go\<close>, \<open>mysql.go\<close>, \<open>mssql.go\<close>, \<open>mongodb.go\<close>,
  \<open>ssh.go\<close>, \<open>tcp.go\<close>, \<open>httpproxy.go\<close>, \<open>terminal.go\<close> and \<open>terminal-exec.go\<close> under
  \<open>src/agent/controller\<close>) and the dispatch of \<open>Run\<close>.
\<close>

section \<open>Shared steps\<close>

abbreviation msg_no_params :: string where
  "msg_no_params \<equiv> ''connection params not found, contact the administrator''"
abbreviation msg_no_conn_id :: string where
  "msg_no_conn_id \<equiv> ''connection id not found, contact the administrator''"
abbreviation msg_no_credentials :: string where
  "msg_no_credentials \<equiv> ''credentials are empty, contact the administrator''"

text \<open>
  Write to the connection that is already open; on failure tell the client and close it.
\<close>

definition write_open_conn :: "agent_libs \<Rightarrow> string \<Rightarrow> string \<Rightarrow> store_obj \<Rightarrow> packet \<Rightarrow> (error \<Rightarrow> string) \<Rightarrow> agent \<Rightarrow> agent" where
  "write_open_conn L sessionID key obj pkt failMsg a =
     (case obj_Write L key obj (payload_str pkt) a of
        (None, a) \<Rightarrow> a
      | (Some err, a) \<Rightarrow> obj_Close key (sendClientSessionClose sessionID (failMsg err) a))"

definition opt_str :: "string option \<Rightarrow> string" where
  "opt_str v = (case v of None \<Rightarrow> '''' | Some s \<Rightarrow> s)"

definition executeMySQLCommand :: "agent_libs \<Rightarrow> string \<Rightarrow> string \<times> int" where
  "executeMySQLCommand L cmd = (case al_shell L cmd of Exited output code \<Rightarrow> (output, code) | NotRun output \<Rightarrow> (output, 1))"

definition executeMongoDBCommand :: "agent_libs \<Rightarrow> string \<Rightarrow> string \<times> int" where
  "executeMongoDBCommand L mongoCmd =
     (case al_shell L mongoCmd of Exited output code \<Rightarrow> (output, code) | NotRun output \<Rightarrow> (output, 1))"

section \<open>PostgreSQL\<close>

definition pg_opts :: "string \<Rightarrow> agent_connection_params \<Rightarrow> conn_env \<Rightarrow> string gomap" where
  "pg_opts sessionID p e =
     [(''sid'', sessionID), (''hostname'', ce_host e), (''port'', ce_port e), (''username'', ce_user e),
      (''password'', ce_pass e), (''sslmode'', ce_postgresSSLMode e), (''dlp_provider'', DlpProvider p),
      (''dlp_mode'', DlpMode p), (''mspresidio_analyzer_url'', DlpPresidioAnalyzerURL p),
      (''mspresidio_anonymizer_url'', DlpPresidioAnonymizerURL p), (''dlp_gcp_credentials'', DlpGcpRawCredentialsJSON p),
      (''dlp_info_types'', str_join '','' (DLPInfoTypes p)), (''dlp_masking_character'', ''#''),
      (''data_masking_entity_data'', opt_str (DataMaskingEntityTypesData p)),
      (''guard_rail_rules'', opt_str (GuardRailRules p))]"

text \<open>\<open>NewDBCore(opts).Postgres()\<close> and the other constructors of the stub ignore their options and never fail.\<close>

definition new_proxy :: "string \<Rightarrow> string gomap \<Rightarrow> store_obj result" where
  "new_proxy connectionType opts = Inr (NoopProxy connectionType)"

text \<open>
  Start a proxy and write the first packet: \<open>Run\<close> with a callback that closes the session, then the
  write, whose result is ignored, then the entry in the store.
\<close>

definition start_db_proxy :: "agent_libs \<Rightarrow> string \<Rightarrow> string \<Rightarrow> string \<Rightarrow> string gomap \<Rightarrow> packet \<Rightarrow> agent \<Rightarrow> agent" where
  "start_db_proxy L connectionType sessionID key opts pkt a =
     (case new_proxy connectionType opts of
        Inl err \<Rightarrow>
          sendClientSessionClose sessionID (''failed connecting with '' @ connectionType @ '' server, err='' @ err) a
      | Inr serverWriter \<Rightarrow>
          (let a = noop_Run connectionType (\<lambda>_ errMsg. sendClientSessionClose sessionID errMsg) a;
               a = snd (obj_Write L key serverWriter (payload_str pkt) a)
           in store_Set key serverWriter a))"

definition processPGProtocol :: "agent_libs \<Rightarrow> packet \<Rightarrow> agent \<Rightarrow> agent" where
  "processPGProtocol L pkt a =
     (let sessionID = spec_get pkt SpecGatewaySessionID in
      case connectionParams sessionID a of
        None \<Rightarrow> sendClientSessionClose sessionID msg_no_params a
      | Some connParams \<Rightarrow>
          (let clientConnectionID = spec_get pkt SpecClientConnectionID in
           if clientConnectionID = '''' then sendClientSessionClose sessionID msg_no_conn_id a
           else let key = connection_key sessionID clientConnectionID in
             case conn_writer key a of
               Some serverWriter \<Rightarrow> write_open_conn L sessionID key serverWriter pkt (\<lambda>_. ''fail to write packet'') a
             | None \<Rightarrow>
                 (case parseConnectionEnvVars (al_conn L) (Some (EnvVars connParams)) ConnectionTypePostgres of
                    Inl _ \<Rightarrow> sendClientSessionClose sessionID msg_no_credentials a
                  | Inr connenv \<Rightarrow>
                      start_db_proxy L ''postgres'' sessionID key (pg_opts sessionID connParams connenv) pkt a)))"

section \<open>SQL Server\<close>

definition show_bool :: "bool \<Rightarrow> string" where
  "show_bool b = (if b then ''true'' else ''false'')"

definition mssql_opts :: "string \<Rightarrow> conn_env \<Rightarrow> string gomap" where
  "mssql_opts sessionID e =
     [(''sid'', sessionID), (''hostname'', ce_host e), (''port'', ce_port e), (''username'', ce_user e),
      (''password'', ce_pass e), (''insecure'', show_bool (ce_insecure e))]"

definition processMSSQLProtocol :: "agent_libs \<Rightarrow> packet \<Rightarrow> agent \<Rightarrow> agent" where
  "processMSSQLProtocol L pkt a =
     (let sessionID = spec_get pkt SpecGatewaySessionID in
      case connectionParams sessionID a of
        None \<Rightarrow> sendClientSessionClose sessionID msg_no_params a
      | Some connParams \<Rightarrow>
          (let clientConnectionID = spec_get pkt SpecClientConnectionID in
           if clientConnectionID = '''' \<and> pkt_Payload pkt \<noteq> None then sendClientSessionClose sessionID msg_no_conn_id a
           else let key = connection_key sessionID clientConnectionID in
             case conn_writer key a of
               Some serverWriter \<Rightarrow> write_open_conn L sessionID key serverWriter pkt (\<lambda>_. ''fail to write packet'') a
             | None \<Rightarrow>
                 (case parseConnectionEnvVars (al_conn L) (Some (EnvVars connParams)) ConnectionTypeMSSQL of
                    Inl _ \<Rightarrow> sendClientSessionClose sessionID msg_no_credentials a
                  | Inr connenv \<Rightarrow> start_db_proxy L ''mssql'' sessionID key (mssql_opts sessionID connenv) pkt a)))"

section \<open>MySQL and MongoDB\<close>

text \<open>Send the output of the command, if any, and close the session with its exit code.\<close>

definition answer_command :: "string \<Rightarrow> string gomap option \<Rightarrow> string \<Rightarrow> string \<times> int \<Rightarrow> agent \<Rightarrow> agent" where
  "answer_command pktType spec sessionID result a =
     (case result of (output, exitCode) \<Rightarrow>
        (let a = (if length output > 0 then streamWriter_Write pktType spec output a else a) in
         if exitCode = 0 then sendClientSessionCloseWithExitCode sessionID '''' ''0'' a
         else sendClientSessionCloseWithExitCode sessionID ''query execution failed'' (itoa exitCode) a))"

definition mysql_command :: "conn_env \<Rightarrow> string \<Rightarrow> string" where
  "mysql_command e query =
     ''mysql --protocol=TCP -h'' @ ce_host e @ '' -P'' @ ce_port e @ '' -u'' @ ce_user e @ '' -p'' @ ce_pass e
       @ '' --skip-ssl -D'' @ ce_dbname e @ '' -e '' @ [CHR 34] @ query @ [CHR 34] @ '' 2>&1''"

definition processMySQLProtocol :: "agent_libs \<Rightarrow> packet \<Rightarrow> agent \<Rightarrow> agent" where
  "processMySQLProtocol L pkt a =
     (let sessionID = spec_get pkt SpecGatewaySessionID in
      case connectionParams sessionID a of
        None \<Rightarrow> sendClientSessionClose sessionID msg_no_params a
      | Some connParams \<Rightarrow>
          (let clientConnectionID = spec_get pkt SpecClientConnectionID in
           if clientConnectionID = '''' \<and> pkt_Payload pkt \<noteq> None then sendClientSessionClose sessionID msg_no_conn_id a
           else let key = connection_key sessionID clientConnectionID in
             case conn_writer key a of
               Some serverWriter \<Rightarrow> write_open_conn L sessionID key serverWriter pkt (\<lambda>_. ''fail to write packet'') a
             | None \<Rightarrow>
                 (case parseConnectionEnvVars (al_conn L) (Some (EnvVars connParams)) ConnectionTypeMySQL of
                    Inl _ \<Rightarrow> sendClientSessionClose sessionID msg_no_credentials a
                  | Inr connenv \<Rightarrow>
                      answer_command client_MySQLConnectionWrite (pkt_Spec pkt) sessionID
                        (executeMySQLCommand L (mysql_command connenv (payload_str pkt))) a)))"

definition mongo_connstring :: "conn_env \<Rightarrow> string" where
  "mongo_connstring e =
     (if ce_connectionString e \<noteq> '''' then ce_connectionString e
      else ''mongodb://'' @ ce_user e @ '':'' @ ce_pass e @ ''@'' @ ce_host e @ '':'' @ ce_port e @ ''/'' @ ce_dbname e
             @ ''?authSource=admin'')"

definition mongo_command :: "string \<Rightarrow> string \<Rightarrow> string" where
  "mongo_command connString query =
     ''mongosh '' @ [CHR 34] @ connString @ [CHR 34] @ '' --quiet --eval '' @ [CHR 39] @ query @ [CHR 39]
       @ '' 2>&1 || mongo '' @ [CHR 34] @ connString @ [CHR 34] @ '' --quiet --eval '' @ [CHR 39] @ query @ [CHR 39] @ '' 2>&1''"

definition processMongoDBProtocol :: "agent_libs \<Rightarrow> packet \<Rightarrow> agent \<Rightarrow> agent" where
  "processMongoDBProtocol L pkt a =
     (let sessionID = spec_get pkt SpecGatewaySessionID in
      case connectionParams sessionID a of
        None \<Rightarrow> sendClientSessionClose sessionID msg_no_params a
      | Some connParams \<Rightarrow>
          (let clientConnectionID = spec_get pkt SpecClientConnectionID in
           if clientConnectionID = '''' \<and> pkt_Payload pkt \<noteq> None then sendClientSessionClose sessionID msg_no_conn_id a
           else let key = connection_key sessionID clientConnectionID in
             case conn_writer key a of
               Some serverWriter \<Rightarrow> write_open_conn L sessionID key serverWriter pkt (\<lambda>_. ''fail to write packet'') a
             | None \<Rightarrow>
                 (case parseConnectionEnvVars (al_conn L) (Some (EnvVars connParams)) ConnectionTypeMongoDB of
                    Inl _ \<Rightarrow> sendClientSessionClose sessionID msg_no_credentials a
                  | Inr connenv \<Rightarrow>
                      answer_command client_MongoDBConnectionWrite (pkt_Spec pkt) sessionID
                        (executeMongoDBCommand L (mongo_command (mongo_connstring connenv) (payload_str pkt))) a)))"

section \<open>SSH\<close>

definition ssh_opts :: "string \<Rightarrow> string \<Rightarrow> conn_env \<Rightarrow> string gomap" where
  "ssh_opts sid clientConnectionID e =
     [(''sid'', sid), (''hostname'', ce_host e), (''port'', ce_port e), (''username'', ce_user e),
      (''password'', ce_pass e), (''authorized_server_keys'', ce_authorizedSSHKeys e),
      (''connection_id'', clientConnectionID)]"

definition start_ssh_proxy :: "agent_libs \<Rightarrow> string \<Rightarrow> string \<Rightarrow> string gomap \<Rightarrow> packet \<Rightarrow> agent \<Rightarrow> agent" where
  "start_ssh_proxy L sid key opts pkt a =
     (case new_proxy ''ssh'' opts of
        Inl err \<Rightarrow> sendClientSessionClose sid (''failed initializing SSH proxy connection, err='' @ err) a
      | Inr serverWriter \<Rightarrow>
          (let a = noop_Run ''ssh'' (\<lambda>_ errMsg a. sendClientSessionClose sid errMsg (store_Del key a)) a in
           case obj_Write L key serverWriter (payload_str pkt) a of
             (Some err, a) \<Rightarrow>
               sendClientSessionClose sid (''unable to connect with remote SSH server, err='' @ err) a
           | (None, a) \<Rightarrow> store_Set key serverWriter a))"

definition processSSHProtocol :: "agent_libs \<Rightarrow> packet \<Rightarrow> agent \<Rightarrow> agent" where
  "processSSHProtocol L pkt a =
     (let sid = spec_get pkt SpecGatewaySessionID in
      case connectionParams sid a of
        None \<Rightarrow> sendClientSessionClose sid msg_no_params a
      | Some connParams \<Rightarrow>
          (let clientConnectionID = spec_get pkt SpecClientConnectionID in
           if clientConnectionID = '''' \<and> pkt_Payload pkt \<noteq> None then sendClientSessionClose sid msg_no_conn_id a
           else let key = connection_key sid clientConnectionID in
             case conn_writer key a of
               Some serverWriter \<Rightarrow> write_open_conn L sid key serverWriter pkt (\<lambda>err. ''unable to write packet: '' @ err) a
             | None \<Rightarrow>
                 (case parseConnectionEnvVars (al_conn L) (Some (EnvVars connParams)) ConnectionTypeSSH of
                    Inl _ \<Rightarrow> sendClientSessionClose sid msg_no_credentials a
                  | Inr connenv \<Rightarrow> start_ssh_proxy L sid key (ssh_opts sid clientConnectionID connenv) pkt a)))"

section \<open>Raw TCP and the HTTP proxy\<close>

text \<open>These two close the connection before they tell the client.\<close>

definition write_tcp_conn :: "agent_libs \<Rightarrow> string \<Rightarrow> string \<Rightarrow> store_obj \<Rightarrow> packet \<Rightarrow> string \<Rightarrow> agent \<Rightarrow> agent" where
  "write_tcp_conn L sessionID key obj pkt what a =
     (case obj_Write L key obj (payload_str pkt) a of
        (None, a) \<Rightarrow> a
      | (Some err, a) \<Rightarrow>
          sendClientSessionClose sessionID (''failed writing to '' @ what @ '' connection, reason='' @ err) (obj_Close key a))"

definition newTCPConn :: "agent_libs \<Rightarrow> conn_env \<Rightarrow> store_obj result" where
  "newTCPConn L c =
     (case al_dial L ''tcp4'' (ce_Address c) of
        Inl err \<Rightarrow> Inl (''failed dialing server: '' @ err)
      | Inr _ \<Rightarrow> Inr (TCPConn (ce_Address c)))"

definition processTCPWriteServer :: "agent_libs \<Rightarrow> packet \<Rightarrow> agent \<Rightarrow> agent" where
  "processTCPWriteServer L pkt a =
     (let sessionID = spec_get pkt SpecGatewaySessionID; clientConnectionID = spec_get pkt SpecClientConnectionID in
      if clientConnectionID = '''' then sendClientSessionClose sessionID ''tcp connection id not found'' a
      else case connectionParams sessionID a of
        None \<Rightarrow> sendClientSessionClose sessionID msg_no_params a
      | Some connParams \<Rightarrow>
          (let key = connection_key sessionID clientConnectionID in
           case conn_writer key a of
             Some tcpServer \<Rightarrow> write_tcp_conn L sessionID key tcpServer pkt ''tcp'' a
           | None \<Rightarrow>
               (case parseConnectionEnvVars (al_conn L) (Some (EnvVars connParams)) ConnectionTypeTCP of
                  Inl _ \<Rightarrow> sendClientSessionClose sessionID msg_no_credentials a
                | Inr connenv \<Rightarrow>
                    (case newTCPConn L connenv of
                       Inl err \<Rightarrow> sendClientSessionClose sessionID (''failed connecting to internal service, reason='' @ err) a
                     | Inr tcpServer \<Rightarrow>
                         (let a = store_Set key tcpServer a
                          in a\<lparr>ag_tasks := ag_tasks a @ [TCPTask pkt key (ce_Address connenv)]\<rparr>)))))"

text \<open>
  The goroutine of a TCP connection: the first packet unless it only asks to connect, then the
  copy of what the server sends (the chunks that arrive and the error that ends the copy, if any);
  the deferred delete runs last.
\<close>

definition run_tcp_task :: "agent_libs \<Rightarrow> packet \<Rightarrow> string \<Rightarrow> string \<Rightarrow> string list \<Rightarrow> error option \<Rightarrow> agent \<Rightarrow> agent" where
  "run_tcp_task L pkt key addr chunks copyErr a =
     (let sessionID = spec_get pkt SpecGatewaySessionID; clientConnectionID = spec_get pkt SpecClientConnectionID;
          (err, a) = (if \<not> spec_has pkt SpecTCPServerConnectKey
                      then obj_Write L key (TCPConn addr) (payload_str pkt) a else (None, a))
      in store_Del key
           (case err of
              Some _ \<Rightarrow> sendClientTCPConnectionClose sessionID clientConnectionID a
            | None \<Rightarrow>
                (let a = fold (streamWriter_Write client_TCPConnectionWrite (pkt_Spec pkt)) chunks a
                 in case copyErr of
                      None \<Rightarrow> a
                    | Some _ \<Rightarrow> sendClientTCPConnectionClose sessionID clientConnectionID a)))"

definition http_opts :: "string \<Rightarrow> string \<Rightarrow> conn_env \<Rightarrow> string gomap" where
  "http_opts sessionID clientConnectionID e =
     gm_set ''insecure'' (show_bool (ce_insecure e)) (gm_set ''sid'' sessionID
       (gm_set ''connection_id'' clientConnectionID (gm_set ''remote_url'' (ce_httpProxyRemoteURL e) (ce_httpProxyHeaders e))))"

definition processHttpProxyWriteServer :: "agent_libs \<Rightarrow> packet \<Rightarrow> agent \<Rightarrow> agent" where
  "processHttpProxyWriteServer L pkt a =
     (let sessionID = spec_get pkt SpecGatewaySessionID; clientConnectionID = spec_get pkt SpecClientConnectionID in
      if clientConnectionID = '''' then sendClientSessionClose sessionID ''http proxy connection id not found'' a
      else case connectionParams sessionID a of
        None \<Rightarrow> sendClientSessionClose sessionID msg_no_params a
      | Some connParams \<Rightarrow>
          (let key = connection_key sessionID clientConnectionID in
           case conn_writer key a of
             Some httpServer \<Rightarrow> write_tcp_conn L sessionID key httpServer pkt ''http proxy'' a
           | None \<Rightarrow>
               (case parseConnectionEnvVars (al_conn L) (Some (EnvVars connParams)) ConnectionTypeHttpProxy of
                  Inl _ \<Rightarrow> sendClientSessionClose sessionID msg_no_credentials a
                | Inr connenv \<Rightarrow>
                    (case new_proxy ''httpproxy'' (http_opts sessionID clientConnectionID connenv) of
                       Inl err \<Rightarrow> sendClientSessionClose sessionID (''failed connecting to internal service, reason='' @ err) a
                     | Inr httpProxy \<Rightarrow>
                         store_Set key httpProxy (snd (obj_Write L key httpProxy (payload_str pkt) a))))))"

section \<open>Terminal\<close>

definition term_opts :: "string \<Rightarrow> agent_connection_params \<Rightarrow> string gomap" where
  "term_opts sid p =
     [(''sid'', sid), (''dlp_provider'', DlpProvider p), (''dlp_mode'', DlpMode p),
      (''mspresidio_analyzer_url'', DlpPresidioAnalyzerURL p), (''mspresidio_anonymizer_url'', DlpPresidioAnonymizerURL p),
      (''dlp_gcp_credentials'', DlpGcpRawCredentialsJSON p), (''dlp_info_types'', str_join '','' (DLPInfoTypes p)),
      (''data_masking_entity_data'', opt_str (DataMaskingEntityTypesData p))]"

text \<open>\<open>libbifrost.Proxy\<close>: of the objects in the store only a proxy of the library has all its methods.\<close>

definition as_proxy :: "store_obj option \<Rightarrow> store_obj option" where
  "as_proxy obj = (case obj of Some (NoopProxy t) \<Rightarrow> Some (NoopProxy t) | _ \<Rightarrow> None)"

definition doTerminalWriteAgentStdin :: "agent_libs \<Rightarrow> packet \<Rightarrow> agent \<Rightarrow> agent" where
  "doTerminalWriteAgentStdin L pkt a =
     (let sid = spec_get pkt SpecGatewaySessionID in
      case connectionParams sid a of
        None \<Rightarrow> sendCloseTerm sid ''internal error, connection params not found'' internalExitCode a
      | Some connParams \<Rightarrow>
          (let key = cmdStoreKey sid in
           case as_proxy (mem_Get (ag_connStore a) key) of
             Some cmd \<Rightarrow>
               (case obj_Write L key cmd (payload_str pkt) a of
                  (Some _, a) \<Rightarrow> sendCloseTerm sid '''' ''0'' a
                | (None, a) \<Rightarrow> a)
           | None \<Rightarrow>
               (case new_proxy ''terminal-console'' (term_opts sid connParams) of
                  Inl err \<Rightarrow> sendCloseTerm sid (''failed executing command, reason='' @ err) internalExitCode a
                | Inr cmd \<Rightarrow>
                    store_Set key cmd
                      (noop_Run ''terminal-console'' (\<lambda>exitCode msg. sendCloseTerm sid msg (itoa exitCode)) a))))"

record win_size =
  ws_Rows :: "16 word"
  ws_Cols :: "16 word"
  ws_X :: "16 word"
  ws_Y :: "16 word"

text \<open>\<open>strconv.Atoi\<close> with the text of its error.\<close>

definition strconv_Atoi :: "string \<Rightarrow> int result" where
  "strconv_Atoi s =
     (case atoi s of
        Some i \<Rightarrow> Inr i
      | None \<Rightarrow>
          Inl (''strconv.Atoi: parsing '' @ go_quote s @ '': '' @
            (if dec_nat (if s \<noteq> [] \<and> hd s \<in> {CHR ''-'', CHR ''+''} then tl s else s) = None
             then ''invalid syntax'' else ''value out of range'')))"

text \<open>The loop that checks the four fields: the first that does not parse is reported.\<close>

fun winsize_check :: "nat \<Rightarrow> string list \<Rightarrow> error option" where
  "winsize_check i [] = None"
| "winsize_check i (s # ss) =
     (case strconv_Atoi s of
        Inl err \<Rightarrow> Some (''failed parsing size ('' @ nat_dec i @ ''), err='' @ err)
      | Inr _ \<Rightarrow> winsize_check (Suc i) ss)"

text \<open>The conversion to \<open>uint16\<close> keeps the low 16 bits.\<close>

definition atoiFn :: "string \<Rightarrow> 16 word" where
  "atoiFn s = (case strconv_Atoi s of Inr v \<Rightarrow> word_of_int v | Inl _ \<Rightarrow> 0)"

definition parsePttyWinSize :: "string \<Rightarrow> win_size result" where
  "parsePttyWinSize winSizeBytes =
     (let winSizeSlice = str_split '','' winSizeBytes in
      if length winSizeSlice \<noteq> 4 then Inl (''winsize doesn'' @ [CHR 39] @ ''t contain required length (4)'')
      else case winsize_check 0 winSizeSlice of
             Some err \<Rightarrow> Inl err
           | None \<Rightarrow>
               Inr \<lparr>ws_Rows = atoiFn (winSizeSlice ! 0), ws_Cols = atoiFn (winSizeSlice ! 1),
                    ws_X = atoiFn (winSizeSlice ! 2), ws_Y = atoiFn (winSizeSlice ! 3)\<rparr>)"

text \<open>
  \<open>doTerminalResizeTTY\<close> acts on objects with a \<open>ResizeTTY\<close> method; nothing that the stub library
  makes has one, so nothing in the store does.
\<close>

definition is_terminal :: "store_obj option \<Rightarrow> bool" where
  "is_terminal obj = False"

definition doTerminalResizeTTY :: "packet \<Rightarrow> agent \<Rightarrow> win_size result option \<times> agent" where
  "doTerminalResizeTTY pkt a =
     (let sid = spec_get pkt SpecGatewaySessionID in
      if is_terminal (mem_Get (ag_connStore a) (cmdStoreKey sid))
      then (Some (parsePttyWinSize (payload_str pkt)), a) else (None, a))"

definition doExec :: "agent_libs \<Rightarrow> packet \<Rightarrow> agent \<Rightarrow> agent" where
  "doExec L pkt a =
     (let sid = spec_get pkt SpecGatewaySessionID in
      case connectionParams sid a of
        None \<Rightarrow> sendClientSessionClose sid ''internal error, connection params not found'' a
      | Some connParams \<Rightarrow>
          (case new_proxy ''terminal-exec'' (term_opts sid connParams) of
             Inl err \<Rightarrow> sendClientSessionClose sid (''failed configuring command, reason='' @ err) a
           | Inr cmd \<Rightarrow>
               (let key = execStoreKey sid; a = store_Set key cmd a
                in noop_Run ''terminal-exec''
                     (\<lambda>exitCode errMsg a.
                        sendClientSessionCloseWithExitCode sid errMsg (itoa exitCode) (store_Del key (obj_Close key a))) a)))"

section \<open>Dispatch\<close>

text \<open>
  The body of the loop of \<open>Run\<close>.  The two system requests only start a goroutine of another package, which
  answers later: the request is kept in \<open>ag_system\<close> until that goroutine runs.  Only a live process gets here;
  \<open>agent_handle\<close> is a packet for any process, and one whose handler has panicked does nothing any more.
\<close>

definition dispatch :: "agent_libs \<Rightarrow> packet \<Rightarrow> agent \<Rightarrow> agent" where
  "dispatch L pkt a =
     (let t = pkt_Type pkt in
      if t = agent_GatewayConnectOK then a
      else if t = agent_SessionOpen then processSessionOpen L pkt a
      else if t = agent_ExecWriteStdin then doExec L pkt a
      else if t = agent_PGConnectionWrite then processPGProtocol L pkt a
      else if t = agent_MySQLConnectionWrite then processMySQLProtocol L pkt a
      else if t = agent_MSSQLConnectionWrite then processMSSQLProtocol L pkt a
      else if t = agent_MongoDBConnectionWrite then processMongoDBProtocol L pkt a
      else if t = agent_TCPConnectionWrite then processTCPWriteServer L pkt a
      else if t = agent_HttpProxyConnectionWrite then processHttpProxyWriteServer L pkt a
      else if t = agent_SSHConnectionWrite then processSSHProtocol L pkt a
      else if t = agent_TerminalWriteStdin then doTerminalWriteAgentStdin L pkt a
      else if t = agent_TerminalResizeTTY then snd (doTerminalResizeTTY pkt a)
      else if t = agent_SessionClose then processSessionClose pkt a
      else if t = agent_TCPConnectionClose then processTCPCloseConnection pkt a
      else if t = system_ProvisionDBRolesRequest \<or> t = system_RunbookHookRequestType
        then a\<lparr>ag_system := ag_system a @ [pkt]\<rparr>
      else a)"

definition agent_handle :: "agent_libs \<Rightarrow> packet \<Rightarrow> agent \<Rightarrow> agent" where
  "agent_handle L pkt a = (if ag_crashed a then a else dispatch L pkt a)"

text \<open>
  \<open>Run\<close>: receive and dispatch until a receive fails or the agent is shut down; the incoming
  results are given as a list, and \<open>None\<close> means that the loop still waits when it ends, or that a handler
  panicked and the process is gone.
\<close>

fun agent_Run :: "agent_libs \<Rightarrow> packet result list \<Rightarrow> agent \<Rightarrow> error option \<times> agent" where
  "agent_Run L msgs a =
     (if ag_crashed a then (None, a)
      else case ag_shutdown a of
        Some cause \<Rightarrow> (Some cause, a)
      | None \<Rightarrow>
          (case msgs of
             [] \<Rightarrow> (None, a)
           | Inl err # _ \<Rightarrow> (Some err, a)
           | Inr pkt # rest \<Rightarrow> agent_Run L rest (dispatch L pkt a)))"

declare agent_Run.simps [simp del]

end
