(* ===== verification/Agent_Safety.thy ===== *)
theory Agent_Safety
  imports Agent_Handlers
begin

text \<open>
  Properties of the agent's controller: a packet of one session only touches that session, the
  exact effect of the cleanup, what a new session's environment holds, and the answers to commands.
\<close>

section \<open>Handlers stay inside their session\<close>

text \<open>
  A step of the agent on behalf of session \<open>sid\<close>: every packet it sends and every goroutine it starts carries
  that id, it passes no system request on, and entries of the store whose key does not contain the id keep their
  values.
\<close>

definition task_local :: "string \<Rightarrow> task \<Rightarrow> bool" where
  "task_local sid t =
     (case t of
        OpenTask pkt _ \<Rightarrow> spec_get pkt SpecGatewaySessionID = sid
      | TCPTask pkt key _ \<Rightarrow> spec_get pkt SpecGatewaySessionID = sid \<and> str_contains key sid)"

definition session_local :: "string \<Rightarrow> agent \<Rightarrow> agent \<Rightarrow> bool" where
  "session_local sid a a' \<longleftrightarrow>
     (\<exists>new. ag_sent a' = ag_sent a @ new \<and> (\<forall>q \<in> set new. spec_get q SpecGatewaySessionID = sid)) \<and>
     (\<exists>new. ag_tasks a' = ag_tasks a @ new \<and> (\<forall>t \<in> set new. task_local sid t)) \<and>
     ag_system a' = ag_system a \<and>
     (mem_wf (ag_connStore a) \<longrightarrow> mem_wf (ag_connStore a') \<and>
        (\<forall>k. \<not> str_contains k sid \<longrightarrow> mem_entry (ag_connStore a') k = mem_entry (ag_connStore a) k))"

lemma session_local_refl [simp, intro]: "session_local sid a a"
  by (simp add: session_local_def)

lemma session_local_trans:
  assumes "session_local sid a b" "session_local sid b c"
  shows "session_local sid a c"
  using assms unfolding session_local_def
  by (auto simp: ball_Un)

locale session_handler =
  fixes handle :: "packet \<Rightarrow> agent \<Rightarrow> agent"
  assumes handle_local: "session_local (spec_get pkt SpecGatewaySessionID) a (handle pkt a)"
begin

text \<open>Whatever a session's packets are, handling them leaves the other sessions alone.\<close>

lemma handle_all_local:
  assumes "\<forall>pkt \<in> set pkts. spec_get pkt SpecGatewaySessionID = sid"
  shows "session_local sid a (fold handle pkts a)"
  using assms
proof (induction pkts arbitrary: a)
  case Nil
  then show ?case by simp
next
  case (Cons pkt pkts)
  then have "session_local sid a (handle pkt a)" using handle_local [of pkt a] by simp
  moreover have "session_local sid (handle pkt a) (fold handle pkts (handle pkt a))" using Cons by simp
  ultimately show ?case by (simp add: session_local_trans)
qed

end

subsection \<open>The building blocks\<close>

named_theorems local_intros \<open>steps that stay inside a session\<close>

lemma local_Send: "spec_get q SpecGatewaySessionID = sid \<Longrightarrow> session_local sid a (client_Send q a)"
  by (simp add: session_local_def client_Send_def)

lemma local_after_Send [local_intros]:
  "session_local sid a b \<Longrightarrow> spec_get q SpecGatewaySessionID = sid \<Longrightarrow> session_local sid a (client_Send q b)"
  by (rule session_local_trans [OF _ local_Send])

lemma local_after_Set [local_intros]:
  "session_local sid a b \<Longrightarrow> str_contains key sid \<Longrightarrow> session_local sid a (store_Set key obj b)"
  by (rule session_local_trans) (auto simp: session_local_def store_Set_def ms.entry_set)

lemma local_after_Del [local_intros]:
  "session_local sid a b \<Longrightarrow> str_contains key sid \<Longrightarrow> session_local sid a (store_Del key b)"
  by (rule session_local_trans) (auto simp: session_local_def store_Del_def ms.entry_del)

lemma local_after_Close [local_intros]: "session_local sid a b \<Longrightarrow> session_local sid a (obj_Close key b)"
  by (rule session_local_trans) (auto simp: session_local_def obj_Close_def)

lemma local_after_task [local_intros]:
  "session_local sid a b \<Longrightarrow> task_local sid t \<Longrightarrow> session_local sid a (b\<lparr>ag_tasks := ag_tasks b @ [t]\<rparr>)"
  by (rule session_local_trans) (auto simp: session_local_def)

lemma local_after_Write [local_intros]:
  "session_local sid a b \<Longrightarrow> session_local sid a (snd (obj_Write L key obj p b))"
  by (rule session_local_trans)
     (auto simp: session_local_def obj_Write_def Let_def split: store_obj.splits option.splits)

lemma local_crash [local_intros]: "session_local sid a (a\<lparr>ag_crashed := True\<rparr>)"
  by (simp add: session_local_def)

lemma local_after_CloseExit [local_intros]:
  "session_local sid a b \<Longrightarrow> session_local sid a (sendClientSessionCloseWithExitCode sid m c b)"
  by (auto simp: sendClientSessionCloseWithExitCode_def local_after_Send gm_str_def gm_get_def)

lemma local_after_SessionClose [local_intros]:
  "session_local sid a b \<Longrightarrow> session_local sid a (sendClientSessionClose sid m b)"
  by (simp add: sendClientSessionClose_def local_after_CloseExit)

lemma local_after_CloseTerm [local_intros]:
  "session_local sid a b \<Longrightarrow> session_local sid a (sendCloseTerm sid m c b)"
  by (simp add: sendCloseTerm_def local_after_CloseExit)

lemma local_after_TCPClose [local_intros]:
  "session_local sid a b \<Longrightarrow> session_local sid a (sendClientTCPConnectionClose sid c b)"
  by (simp add: sendClientTCPConnectionClose_def local_after_Send gm_str_def gm_get_def)

lemma local_after_refuse [local_intros]:
  "session_local sid a b \<Longrightarrow> session_local sid a (refuse_session sid m b)"
  by (simp add: refuse_session_def local_after_Send gm_str_def gm_get_def)

lemma local_after_stream [local_intros]:
  "session_local (spec_get pkt SpecGatewaySessionID) a b \<Longrightarrow>
   session_local (spec_get pkt SpecGatewaySessionID) a (streamWriter_Write t (pkt_Spec pkt) d b)"
  by (simp add: streamWriter_Write_def local_after_Send spec_get_def)

lemma contains_key [simp]:
  "str_contains sid sid" "str_contains (connection_key sid c) sid" "str_contains (execStoreKey sid) sid"
  "str_contains (cmdStoreKey sid) sid"
proof -
  show "str_contains sid sid" by (simp add: str_contains_def)
  show "str_contains (connection_key sid c) sid"
    by (metis append_Nil connection_key_def sublist_append str_contains_def sublist_order.order_refl sublist_appendI)
  show "str_contains (execStoreKey sid) sid" "str_contains (cmdStoreKey sid) sid"
    by (simp_all add: str_contains_def execStoreKey_def cmdStoreKey_def sublist_append_leftI sublist_Cons_right)
qed

subsection \<open>Dropping closers\<close>

lemma drop_closers_fields:
  "ag_sent (fold (\<lambda>(key, obj) a. if is_closer obj then store_Del key (obj_Close key a) else a) m a) = ag_sent a \<and>
   ag_tasks (fold (\<lambda>(key, obj) a. if is_closer obj then store_Del key (obj_Close key a) else a) m a) = ag_tasks a \<and>
   ag_system (fold (\<lambda>(key, obj) a. if is_closer obj then store_Del key (obj_Close key a) else a) m a) = ag_system a \<and>
   ag_connStore (fold (\<lambda>(key, obj) a. if is_closer obj then store_Del key (obj_Close key a) else a) m a) =
     ms.del_matching is_closer m (ag_connStore a)"
  by (induction m arbitrary: a) (auto simp: ms.del_matching_def store_Del_def obj_Close_def)

lemma drop_closers_entry:
  assumes "mem_wf (ag_connStore a)"
  shows "mem_entry (ag_connStore (drop_closers P a)) k =
     (case mem_entry (ag_connStore a) k of
        Some v \<Rightarrow> if P k \<and> is_closer v then None else Some v | None \<Rightarrow> None)"
  using ms.entry_del_matching [OF assms] by (simp add: drop_closers_def drop_closers_fields)

lemma drop_closers_wf: "mem_wf (ag_connStore a) \<Longrightarrow> mem_wf (ag_connStore (drop_closers P a))"
  by (simp add: drop_closers_def drop_closers_fields ms.del_matching_def ms.wf_del_all)

lemma local_drop_closers [local_intros]:
  "(\<And>k. P k \<Longrightarrow> str_contains k sid) \<Longrightarrow> session_local sid a (drop_closers P a)"
  by (auto simp: session_local_def drop_closers_wf drop_closers_entry split: option.splits)
     (simp_all add: drop_closers_def drop_closers_fields)

subsection \<open>The handlers\<close>

lemmas handler_splits = option.splits sum.splits if_splits

lemma write_open_conn_local [local_intros]:
  "session_local sid a b \<Longrightarrow> session_local sid a (write_open_conn L sid key obj pkt f b)"
  by (auto simp: write_open_conn_def case_prod_beta intro!: local_intros split: handler_splits)

lemma write_tcp_conn_local [local_intros]:
  "session_local sid a b \<Longrightarrow> session_local sid a (write_tcp_conn L sid key obj pkt f b)"
  by (auto simp: write_tcp_conn_def case_prod_beta intro!: local_intros split: handler_splits)

lemma start_db_proxy_local:
  "session_local sid a (start_db_proxy L t sid (connection_key sid c) opts pkt a)"
  by (auto simp: start_db_proxy_def new_proxy_def noop_Run_def Let_def intro!: local_intros)

interpretation pg: session_handler "processPGProtocol L" for L
  by unfold_locales
     (auto simp: processPGProtocol_def Let_def intro!: local_intros start_db_proxy_local split: handler_splits)

interpretation mssql: session_handler "processMSSQLProtocol L" for L
  by unfold_locales
     (auto simp: processMSSQLProtocol_def Let_def intro!: local_intros start_db_proxy_local split: handler_splits)

lemma answer_command_local:
  "session_local (spec_get pkt SpecGatewaySessionID) a
     (answer_command t (pkt_Spec pkt) (spec_get pkt SpecGatewaySessionID) r a)"
  by (auto simp: answer_command_def Let_def case_prod_beta intro!: local_intros split: handler_splits)

interpretation mysql: session_handler "processMySQLProtocol L" for L
  by unfold_locales
     (auto simp: processMySQLProtocol_def Let_def intro!: local_intros answer_command_local split: handler_splits)

interpretation mongodb: session_handler "processMongoDBProtocol L" for L
  by unfold_locales
     (auto simp: processMongoDBProtocol_def Let_def intro!: local_intros answer_command_local split: handler_splits)

lemma start_ssh_proxy_local:
  "session_local sid a (start_ssh_proxy L sid (connection_key sid c) opts pkt a)"
  by (auto simp: start_ssh_proxy_def new_proxy_def noop_Run_def Let_def case_prod_beta intro!: local_intros split: handler_splits)

interpretation ssh: session_handler "processSSHProtocol L" for L
  by unfold_locales
     (auto simp: processSSHProtocol_def Let_def intro!: local_intros start_ssh_proxy_local split: handler_splits)

interpretation tcp: session_handler "processTCPWriteServer L" for L
  by unfold_locales
     (auto simp: processTCPWriteServer_def Let_def task_local_def intro!: local_intros split: handler_splits)

interpretation httpproxy: session_handler "processHttpProxyWriteServer L" for L
  by unfold_locales
     (auto simp: processHttpProxyWriteServer_def new_proxy_def Let_def intro!: local_intros split: handler_splits)

interpretation terminal: session_handler "doTerminalWriteAgentStdin L" for L
  by unfold_locales
     (auto simp: doTerminalWriteAgentStdin_def new_proxy_def noop_Run_def Let_def case_prod_beta intro!: local_intros split: handler_splits)

interpretation exec: session_handler "doExec L" for L
  by unfold_locales
     (auto simp: doExec_def new_proxy_def noop_Run_def Let_def intro!: local_intros split: handler_splits)

interpretation session_close: session_handler processSessionClose
  by unfold_locales (auto simp: processSessionClose_def sessionCleanup_def Let_def intro!: local_intros)

lemma prefix_contains: "has_prefix k (sid @ r) \<Longrightarrow> str_contains k sid"
  by (auto simp: has_prefix_def str_contains_def prefix_def)

interpretation tcp_close: session_handler processTCPCloseConnection
  by unfold_locales
     (auto simp: processTCPCloseConnection_def Let_def intro!: local_intros elim: prefix_contains)

lemma decode_local:
  "session_local (spec_get pkt SpecGatewaySessionID) a (snd (decodeConnectionParams L pkt a))"
  by (auto simp: decodeConnectionParams_def Let_def intro!: local_intros split: outcome.splits handler_splits)

lemma build_local:
  "session_local (spec_get pkt SpecGatewaySessionID) a (snd (buildConnectionParams L pkt a))"
  using decode_local [of pkt a L]
  by (auto simp: buildConnectionParams_def Let_def case_prod_beta split: option.splits)

interpretation session_open: session_handler "processSessionOpen L" for L
proof unfold_locales
  fix pkt a
  obtain r b where b: "buildConnectionParams L pkt a = (r, b)" by (cases "buildConnectionParams L pkt a")
  then have l: "session_local (spec_get pkt SpecGatewaySessionID) a b" using build_local [of pkt a L] by simp
  show "session_local (spec_get pkt SpecGatewaySessionID) a (processSessionOpen L pkt a)"
    using l by (auto simp: processSessionOpen_def Let_def b task_local_def intro!: local_intros split: sum.splits)
qed

definition is_system :: "packet \<Rightarrow> bool" where
  "is_system pkt \<longleftrightarrow> pkt_Type pkt = system_ProvisionDBRolesRequest \<or> pkt_Type pkt = system_RunbookHookRequestType"

lemma dispatch_system: "is_system pkt \<Longrightarrow> dispatch L pkt a = a\<lparr>ag_system := ag_system a @ [pkt]\<rparr>"
  by (auto simp: is_system_def dispatch_def)

lemma dispatch_local:
  assumes "\<not> is_system pkt"
  shows "session_local (spec_get pkt SpecGatewaySessionID) a (dispatch L pkt a)"
  using assms
  by (simp add: is_system_def dispatch_def Let_def session_open.handle_local exec.handle_local pg.handle_local mysql.handle_local
      mssql.handle_local mongodb.handle_local tcp.handle_local httpproxy.handle_local ssh.handle_local
      terminal.handle_local session_close.handle_local tcp_close.handle_local doTerminalResizeTTY_def)

text \<open>The goroutines, too: \<open>run_task\<close> runs one with what the server of a TCP connection sends.\<close>

definition run_task :: "agent_libs \<Rightarrow> string list \<Rightarrow> error option \<Rightarrow> task \<Rightarrow> agent \<Rightarrow> agent" where
  "run_task L chunks copyErr t a =
     (case t of OpenTask pkt p \<Rightarrow> run_open_task L pkt p a | TCPTask pkt key addr \<Rightarrow> run_tcp_task L pkt key addr chunks copyErr a)"

lemma local_fold_stream:
  "session_local (spec_get pkt SpecGatewaySessionID) a b \<Longrightarrow>
   session_local (spec_get pkt SpecGatewaySessionID) a (fold (streamWriter_Write t (pkt_Spec pkt)) chunks b)"
  by (induction chunks arbitrary: b) (auto intro: local_after_stream)

lemma task_local_run:
  assumes "task_local sid t"
  shows "session_local sid a (run_task L chunks copyErr t a)"
proof (cases t)
  case (OpenTask pkt p)
  with assms show ?thesis
    by (auto simp: run_task_def run_open_task_def task_local_def Let_def gm_str_def gm_get_def
        intro!: local_intros split: option.splits)
next
  case (TCPTask pkt key addr)
  with assms show ?thesis
    by (auto simp: run_task_def run_tcp_task_def task_local_def Let_def case_prod_beta
        intro!: local_intros local_fold_stream split: option.splits if_splits)
qed

section \<open>Properties\<close>

text \<open>
  C6: handling a packet stays inside its session, whatever its type: every packet that the handler itself sends
  carries the session id of the request, which is what the gateway routes by; every goroutine it starts belongs to
  that session; a request to the provisioner or a runbook hook, and nothing else, is passed on as it is, for a
  goroutine of its own (what that sends later is not part of this); and the store keeps every entry whose key does
  not contain that id.
\<close>

theorem agent_dispatch_stays_in_session:
  assumes "sid = spec_get pkt SpecGatewaySessionID" "mem_wf (ag_connStore a)"
  shows "(\<exists>new. ag_sent (dispatch L pkt a) = ag_sent a @ new \<and>
            (\<forall>q \<in> set new. spec_get q SpecGatewaySessionID = sid)) \<and>
         (\<exists>new. ag_tasks (dispatch L pkt a) = ag_tasks a @ new \<and> (\<forall>t \<in> set new. task_local sid t)) \<and>
         ag_system (dispatch L pkt a) = ag_system a @ (if is_system pkt then [pkt] else []) \<and>
         (\<forall>k. \<not> str_contains k sid \<longrightarrow>
            mem_entry (ag_connStore (dispatch L pkt a)) k = mem_entry (ag_connStore a) k)"
proof (cases "is_system pkt")
  case True
  then show ?thesis by (simp add: dispatch_system)
next
  case False
  from dispatch_local [OF this, of a L] assms False show ?thesis by (simp add: session_local_def)
qed

text \<open>
  The same holds for the goroutines: one that belongs to a session sends only packets with its
  id and leaves the entries of other sessions alone.
\<close>

theorem agent_task_stays_in_session:
  assumes "task_local sid t" "mem_wf (ag_connStore a)"
  shows "(\<exists>new. ag_sent (run_task L chunks copyErr t a) = ag_sent a @ new \<and>
            (\<forall>q \<in> set new. spec_get q SpecGatewaySessionID = sid)) \<and>
         (\<forall>k. \<not> str_contains k sid \<longrightarrow>
            mem_entry (ag_connStore (run_task L chunks copyErr t a)) k = mem_entry (ag_connStore a) k)"
  using task_local_run [OF assms(1), of a L chunks copyErr] assms(2) by (simp add: session_local_def)

text \<open>
  C18: \<open>sessionCleanup\<close> removes exactly the connections whose key contains the session id: proxies and
  TCP connections under such keys go, every other entry stays, the session's connection
  parameters among them.
\<close>

theorem agent_session_cleanup_exact:
  assumes "mem_wf (ag_connStore a)"
  shows "mem_entry (ag_connStore (sessionCleanup sid a)) k =
     (case mem_entry (ag_connStore a) k of
        None \<Rightarrow> None
      | Some obj \<Rightarrow> if str_contains k sid \<and> is_closer obj then None else Some obj) \<and>
     connectionParams sid (sessionCleanup sid a) = connectionParams sid a"
proof -
  have e: "mem_entry (ag_connStore (sessionCleanup sid a)) k' =
     (case mem_entry (ag_connStore a) k' of
        None \<Rightarrow> None
      | Some obj \<Rightarrow> if str_contains k' sid \<and> is_closer obj then None else Some obj)" for k'
    unfolding sessionCleanup_def using drop_closers_entry [OF assms] by (simp split: option.split)
  then have "connectionParams sid (sessionCleanup sid a) = connectionParams sid a"
    by (auto simp: connectionParams_def mem_Get_entry is_closer_def split: option.splits store_obj.splits)
  with e show ?thesis by blast
qed

section \<open>Opening a session\<close>

lemma buildConnectionParams_store:
  "ag_connStore (snd (buildConnectionParams L pkt a)) = ag_connStore a \<and>
   ag_tasks (snd (buildConnectionParams L pkt a)) = ag_tasks a \<and>
   (\<forall>q \<in> set (ag_sent (snd (buildConnectionParams L pkt a))). q \<in> set (ag_sent a) \<or> pkt_Type q = client_SessionClose)"
  by (auto simp: buildConnectionParams_def decodeConnectionParams_def refuse_session_def client_Send_def Let_def
      split: option.splits sum.splits outcome.splits if_splits prod.splits)

text \<open>
  C19: a session is usable before it is announced: when \<open>processSessionOpen\<close> accepts a request, the
  connection parameters are in the store and the announcement is still to come, in the goroutine
  it has started; when it refuses one, the store is as before and nothing is started.  In neither
  case has it sent \<open>SessionOpenOK\<close>.
\<close>

theorem agent_open_stores_before_ok:
  "(case fst (buildConnectionParams L pkt a) of
      Inr _ \<Rightarrow> \<exists>p. connectionParams (spec_get pkt SpecGatewaySessionID) (processSessionOpen L pkt a) = Some p \<and>
                    ag_tasks (processSessionOpen L pkt a) = ag_tasks a @ [OpenTask pkt p]
    | Inl _ \<Rightarrow> ag_connStore (processSessionOpen L pkt a) = ag_connStore a \<and>
               ag_tasks (processSessionOpen L pkt a) = ag_tasks a) \<and>
   (\<forall>q. q \<in> set (ag_sent (processSessionOpen L pkt a)) \<and> q \<notin> set (ag_sent a) \<longrightarrow> pkt_Type q \<noteq> client_SessionOpenOK)"
proof -
  obtain r b where b: "buildConnectionParams L pkt a = (r, b)" by (cases "buildConnectionParams L pkt a")
  have st: "ag_connStore b = ag_connStore a" "ag_tasks b = ag_tasks a"
      "\<forall>q \<in> set (ag_sent b). q \<in> set (ag_sent a) \<or> pkt_Type q = client_SessionClose"
    using buildConnectionParams_store [of L pkt a] b by simp_all
  show ?thesis
  proof (cases r)
    case (Inl e)
    with b st show ?thesis
      by (auto simp: processSessionOpen_def Let_def refuse_session_def client_Send_def)
  next
    case (Inr p)
    with b st show ?thesis
      by (auto simp: processSessionOpen_def Let_def store_Set_def connectionParams_def)
  qed
qed

subsection \<open>The environment of a session\<close>

lemma add_client_envs_keep:
  "gm_get env k \<noteq> None \<Longrightarrow> gm_get (add_client_envs cs env) k = gm_get env k"
proof (induction cs arbitrary: env)
  case Nil
  then show ?case by (simp add: add_client_envs_def)
next
  case (Cons c cs)
  obtain ck cv where c: "c = (ck, cv)" by (cases c)
  define env' where "env' = (if gm_get env ck \<noteq> None then env else gm_set ck (EnvStr cv) env)"
  have "gm_get env' k = gm_get env k" using Cons.prems by (auto simp: env'_def)
  with Cons.IH [of env'] Cons.prems show ?case by (simp add: add_client_envs_def c env'_def)
qed

text \<open>
  C22: the variables that a client sends with its request never replace those of the connection:
  in the parameters that \<open>decodeConnectionParams\<close> returns, every variable of the connection still
  has the value that its secret resolves to.
\<close>

theorem agent_client_envs_cannot_override:
  assumes "decodeConnectionParams L pkt a = (Some p, a')"
    "GobDecodeInto (al_gob_params L) (spec_get pkt SpecAgentConnectionParamsKey) = Inr q"
    "secrets_Decode (al_secrets L) (EnvVars q) = Ret (Inr envs)" "gm_get envs k = Some v"
  shows "gm_get (EnvVars p) k = Some v"
  using assms add_client_envs_keep [of envs k]
  by (auto simp: decodeConnectionParams_def Let_def split: if_splits sum.splits)

lemma embedded_envs_own_key:
  "gm_get (embedded_envs os env) (''envvar:'' @ k) = gm_get env (''envvar:'' @ k)"
  if "k \<in> {''BIFROST_KEY'', ''BIFROST_DSN''}"
proof -
  have "gm_get (fold (\<lambda>envKeyVal env.
        case str_cut ''='' envKeyVal of
          None \<Rightarrow> env
        | Some (envKey, envVal) \<Rightarrow>
            if envKey = ''BIFROST_DSN'' \<or> envKey = ''BIFROST_KEY'' then env
            else gm_set (''envvar:'' @ envKey) (b64Enc envVal) env) xs env) (''envvar:'' @ k) =
      gm_get env (''envvar:'' @ k)" for xs
    using that
  proof (induction xs arbitrary: env)
    case Nil
    then show ?case by simp
  next
    case (Cons x xs)
    show ?case
      using that Cons.IH [OF that] by (auto split: option.splits)
  qed
  then show ?thesis by (simp add: embedded_envs_def)
qed

text \<open>
  C18: an embedded agent, which hands its whole environment to the session, keeps its own
  credentials back: the variables \<open>BIFROST_KEY\<close> and \<open>BIFROST_DSN\<close> of the agent never become
  variables of a session.
\<close>

theorem agent_own_key_not_exposed:
  assumes "k = ''BIFROST_KEY'' \<or> k = ''BIFROST_DSN''"
  shows "gm_get (embedded_envs os (session_envs sid p env)) (''envvar:'' @ k) = gm_get env (''envvar:'' @ k)"
  using assms embedded_envs_own_key [of k os "session_envs sid p env"]
  by (auto simp: session_envs_def)

section \<open>Answers\<close>

definition data_packet_types :: "string list" where
  "data_packet_types =
     [agent_ExecWriteStdin, agent_PGConnectionWrite, agent_MySQLConnectionWrite, agent_MSSQLConnectionWrite,
      agent_MongoDBConnectionWrite, agent_TCPConnectionWrite, agent_HttpProxyConnectionWrite, agent_SSHConnectionWrite,
      agent_TerminalWriteStdin]"

lemma sendClientSessionClose_sent:
  "sid \<noteq> '''' \<Longrightarrow> m \<noteq> '''' \<Longrightarrow> sendClientSessionClose sid m a =
     a\<lparr>ag_sent := ag_sent a @ [\<lparr>pkt_Type = client_SessionClose,
         pkt_Spec = Some [(SpecGatewaySessionID, sid), (SpecClientExitCodeKey, internalExitCode)], pkt_Payload = Some m\<rparr>]\<rparr>"
  by (simp add: sendClientSessionClose_def sendClientSessionCloseWithExitCode_def client_Send_def)

definition refused :: "string \<Rightarrow> agent \<Rightarrow> agent \<Rightarrow> bool" where
  "refused sid a a' \<longleftrightarrow> (\<exists>m. m \<noteq> '''' \<and> a' = sendClientSessionClose sid m a)"

lemma refusedI: "m \<noteq> '''' \<Longrightarrow> refused sid a (sendClientSessionClose sid m a)"
  by (auto simp: refused_def)

lemma refused_handlers:
  assumes none: "connectionParams (spec_get pkt SpecGatewaySessionID) a = None"
  shows "refused (spec_get pkt SpecGatewaySessionID) a (doExec L pkt a)"
  "refused (spec_get pkt SpecGatewaySessionID) a (processPGProtocol L pkt a)"
  "refused (spec_get pkt SpecGatewaySessionID) a (processMySQLProtocol L pkt a)"
  "refused (spec_get pkt SpecGatewaySessionID) a (processMSSQLProtocol L pkt a)"
  "refused (spec_get pkt SpecGatewaySessionID) a (processMongoDBProtocol L pkt a)"
  "refused (spec_get pkt SpecGatewaySessionID) a (processSSHProtocol L pkt a)"
  by (simp_all add: none doExec_def processPGProtocol_def processMySQLProtocol_def processMSSQLProtocol_def
      processMongoDBProtocol_def processSSHProtocol_def Let_def refusedI)

lemma refused_tcp:
  assumes none: "connectionParams (spec_get pkt SpecGatewaySessionID) a = None"
  shows "refused (spec_get pkt SpecGatewaySessionID) a (processTCPWriteServer L pkt a)"
  "refused (spec_get pkt SpecGatewaySessionID) a (processHttpProxyWriteServer L pkt a)"
  by (simp_all add: none processTCPWriteServer_def processHttpProxyWriteServer_def Let_def refusedI)

lemma refused_terminal:
  assumes none: "connectionParams (spec_get pkt SpecGatewaySessionID) a = None"
  shows "refused (spec_get pkt SpecGatewaySessionID) a (doTerminalWriteAgentStdin L pkt a)"
proof -
  have "sendCloseTerm sid m internalExitCode a = sendClientSessionClose sid m a" if "m \<noteq> ''''" for sid m
    using that by (simp add: sendCloseTerm_def sendClientSessionClose_def)
  then show ?thesis by (simp add: none doTerminalWriteAgentStdin_def Let_def refusedI)
qed

lemma refused_dispatch:
  assumes "connectionParams (spec_get pkt SpecGatewaySessionID) a = None" "pkt_Type pkt \<in> set data_packet_types"
  shows "refused (spec_get pkt SpecGatewaySessionID) a (dispatch L pkt a)"
proof -
  note h = refused_handlers [OF assms(1)] refused_tcp [OF assms(1)] refused_terminal [OF assms(1)]
  consider "pkt_Type pkt = agent_ExecWriteStdin" | "pkt_Type pkt = agent_PGConnectionWrite"
    | "pkt_Type pkt = agent_MySQLConnectionWrite" | "pkt_Type pkt = agent_MSSQLConnectionWrite"
    | "pkt_Type pkt = agent_MongoDBConnectionWrite" | "pkt_Type pkt = agent_TCPConnectionWrite"
    | "pkt_Type pkt = agent_HttpProxyConnectionWrite" | "pkt_Type pkt = agent_SSHConnectionWrite"
    | "pkt_Type pkt = agent_TerminalWriteStdin"
    using assms(2) unfolding data_packet_types_def by auto
  then show ?thesis by cases (simp_all add: dispatch_def h)
qed

text \<open>
  C20: data for a session that the agent does not know is answered with exactly one close packet,
  with the internal exit code and a message, and changes nothing else, whatever the protocol.
\<close>

theorem agent_unknown_session_refused:
  assumes "connectionParams sid a = None" "sid = spec_get pkt SpecGatewaySessionID" "sid \<noteq> ''''"
    "pkt_Type pkt \<in> set data_packet_types"
  shows "\<exists>msg. msg \<noteq> '''' \<and> dispatch L pkt a =
     a\<lparr>ag_sent := ag_sent a @ [\<lparr>pkt_Type = client_SessionClose,
         pkt_Spec = Some [(SpecGatewaySessionID, sid), (SpecClientExitCodeKey, internalExitCode)],
         pkt_Payload = Some msg\<rparr>]\<rparr>"
proof -
  have "refused sid a (dispatch L pkt a)"
    using refused_dispatch [of pkt a] assms(1,2,4) by simp
  then show ?thesis using sendClientSessionClose_sent [OF assms(3)] by (metis refused_def)
qed

text \<open>
  C29: a session whose target cannot be reached is refused and announced at the same time: when the
  liveness check fails, the goroutine of \<open>processSessionOpen\<close> sends \<open>SessionClose\<close> and then still
  \<open>SessionOpenOK\<close>.
\<close>

theorem agent_open_ok_after_refusal:
  assumes "checkTCPLiveness L pkt (EnvVars p) = Some err"
  shows "\<exists>close ok. ag_sent (run_open_task L pkt p a) = ag_sent a @ [close, ok] \<and>
     pkt_Type close = client_SessionClose \<and> pkt_Payload close = Some err \<and> pkt_Type ok = client_SessionOpenOK"
  using assms by (simp add: run_open_task_def refuse_session_def client_Send_def Let_def)

text \<open>
  A request whose connection parameters cannot be decoded is refused twice: the session gets two
  \<open>SessionClose\<close> packets.
\<close>

theorem agent_undecodable_request_closed_twice:
  assumes "GobDecodeInto (al_gob_params L) (spec_get pkt SpecAgentConnectionParamsKey) = Inl err" "\<not> ag_crashed a"
  shows "map pkt_Type (ag_sent (processSessionOpen L pkt a)) = map pkt_Type (ag_sent a) @ [client_SessionClose, client_SessionClose]"
  using assms
  by (simp add: processSessionOpen_def buildConnectionParams_def decodeConnectionParams_def refuse_session_def
      client_Send_def Let_def)

section \<open>Concrete cases\<close>

definition demo_cfg :: agent_config where
  "demo_cfg = \<lparr>cfg_Token = ''t'', cfg_URL = ''gw:8010'', cfg_Name = ''a'', cfg_Type = ModeDsn, cfg_AgentMode = AgentModeStandardType,
     cfg_insecure = True, cfg_tlsCA = ''''\<rparr>"

definition demo_params :: agent_connection_params where
  "demo_params = \<lparr>ConnectionName = ''db'', ConnectionType = ConnectionTypeMySQL, UserID = ''u'', UserEmail = ''e'',
     EnvVars = demo_conn_vars, CmdList = [], ClientArgs = [], ClientVerb = ''exec'', ClientOrigin = ''client-api'',
     DlpProvider = '''', DlpMode = '''', DLPInfoTypes = [], DlpGcpRawCredentialsJSON = '''', DlpPresidioAnalyzerURL = '''',
     DlpPresidioAnonymizerURL = '''', DataMaskingEntityTypesData = None, GuardRailRules = None\<rparr>"

definition demo_agent_libs :: agent_libs where
  "demo_agent_libs = \<lparr>al_secrets = demo_secrets, al_conn = demo_conn_libs,
     al_gob_params = (\<lambda>s. if s = ''p'' then Inr (demo_params\<lparr>EnvVars := demo_vars\<rparr>) else Inl ''bad gob''),
     al_gob_envs = (\<lambda>_. Inr [(''envvar:PASS'', ''y'')]), al_dial = (\<lambda>_ _. Inl ''refused''),
     al_tcp_write = (\<lambda>_ _. None), al_shell = (\<lambda>_. Exited ''1'' 0)\<rparr>"

definition demo_request :: packet where
  "demo_request = \<lparr>pkt_Type = agent_MySQLConnectionWrite,
     pkt_Spec = Some [(SpecGatewaySessionID, ''s1''), (SpecClientConnectionID, ''1''), (SpecConnectionType, ConnectionTypeMySQL),
       (SpecAgentConnectionParamsKey, ''p''), (SpecClientExecEnvVar, ''e'')],
     pkt_Payload = Some ''select 1''\<rparr>"

definition demo_ctl :: agent where
  "demo_ctl = agent_New demo_cfg []"

definition demo_session :: agent where
  "demo_session = store_Set ''s1'' (ConnParams demo_params) demo_ctl"

lemma demo_spec [simp]:
  "spec_get demo_request SpecGatewaySessionID = ''s1''" "spec_get demo_request SpecClientConnectionID = ''1''"
  "spec_get demo_request SpecConnectionType = ConnectionTypeMySQL"
  "spec_get demo_request SpecAgentConnectionParamsKey = ''p''" "spec_get demo_request SpecClientExecEnvVar = ''e''"
  "pkt_Type demo_request = agent_MySQLConnectionWrite"
  by (simp_all add: demo_request_def gm_str_def gm_get_def)

lemma demo_libs_simps [simp]:
  "al_conn demo_agent_libs = demo_conn_libs" "al_secrets demo_agent_libs = demo_secrets"
  "al_shell demo_agent_libs c = Exited ''1'' 0" "al_dial demo_agent_libs n d = Inl ''refused''"
  "al_gob_params demo_agent_libs ''p'' = Inr (demo_params\<lparr>EnvVars := demo_vars\<rparr>)"
  "al_gob_envs demo_agent_libs x = Inr [(''envvar:PASS'', ''y'')]" "EnvVars demo_params = demo_conn_vars"
  by (simp_all add: demo_agent_libs_def demo_params_def)

lemma demo_store [simp]:
  "mem_wf (ag_connStore demo_ctl)" "mem_wf (ag_connStore demo_session)"
  "connectionParams ''s1'' demo_ctl = None" "connectionParams ''s1'' demo_session = Some demo_params"
  "conn_writer (connection_key ''s1'' ''1'') demo_session = None" "\<not> ag_crashed demo_ctl" "ag_sent demo_ctl = []"
  by (simp_all add: demo_ctl_def demo_session_def agent_New_def store_Set_def connectionParams_def conn_writer_def
      connection_key_def is_closer_def)

lemma not_contains_s1: "\<not> str_contains ''s2'' ''s1''"
  by (simp add: str_contains_def sublist_Cons_right)

theorem agent_dispatch_stays_in_session_witness:
  "mem_entry (ag_connStore (dispatch demo_agent_libs demo_request demo_session)) ''s2'' =
     mem_entry (ag_connStore demo_session) ''s2''"
  using agent_dispatch_stays_in_session [of "''s1''" demo_request demo_session demo_agent_libs] not_contains_s1
  by simp

theorem agent_task_stays_in_session_witness:
  "mem_entry (ag_connStore (run_task demo_agent_libs [''x''] None (TCPTask demo_request ''s1:1'' ''db:1'') demo_session)) ''s2'' =
     mem_entry (ag_connStore demo_session) ''s2''"
proof -
  have "task_local ''s1'' (TCPTask demo_request ''s1:1'' ''db:1'')"
    by (simp add: task_local_def str_contains_def sublist_Cons_right)
  from agent_task_stays_in_session [OF this, of demo_session demo_agent_libs "[''x'']" None] not_contains_s1
  show ?thesis by simp
qed

theorem agent_session_cleanup_exact_witness:
  "connectionParams ''s1'' (sessionCleanup ''s1'' demo_session) = Some demo_params"
  using agent_session_cleanup_exact [of demo_session "''s1''"] by simp

theorem agent_open_stores_before_ok_witness:
  "ag_tasks (processSessionOpen (demo_agent_libs\<lparr>al_gob_params := (\<lambda>_. Inl ''bad gob'')\<rparr>) demo_request demo_ctl) = ag_tasks demo_ctl"
proof -
  let ?L = "demo_agent_libs\<lparr>al_gob_params := (\<lambda>_. Inl ''bad gob'')\<rparr>"
  have "\<exists>e. fst (buildConnectionParams ?L demo_request demo_ctl) = Inl e"
    by (simp add: buildConnectionParams_def decodeConnectionParams_def GobDecodeInto_def Let_def)
  with agent_open_stores_before_ok [of ?L demo_request demo_ctl] show ?thesis by auto
qed

theorem agent_own_key_not_exposed_witness:
  "gm_get (embedded_envs (demo_os\<lparr>os_Environ := [''BIFROST_KEY=secret'', ''HOME=/'']\<rparr>) (session_envs ''s1'' demo_params []))
     (''envvar:'' @ ''BIFROST_KEY'') = None"
  using agent_own_key_not_exposed [of "''BIFROST_KEY''" "demo_os\<lparr>os_Environ := [''BIFROST_KEY=secret'', ''HOME=/'']\<rparr>" "''s1''" demo_params "[]"]
  by simp

theorem agent_unknown_session_refused_witness:
  "\<exists>msg. msg \<noteq> '''' \<and> dispatch demo_agent_libs demo_request demo_ctl =
     demo_ctl\<lparr>ag_sent := [\<lparr>pkt_Type = client_SessionClose,
         pkt_Spec = Some [(SpecGatewaySessionID, ''s1''), (SpecClientExitCodeKey, internalExitCode)], pkt_Payload = Some msg\<rparr>]\<rparr>"
proof -
  have t: "pkt_Type demo_request \<in> set data_packet_types" by (simp add: data_packet_types_def)
  have ne: "''s1'' \<noteq> []" by simp
  show ?thesis
    using agent_unknown_session_refused [OF demo_store(3) demo_spec(1) [symmetric] ne t, of demo_agent_libs]
    unfolding demo_store(7) append_Nil .
qed

lemma demo_liveness:
  "\<exists>err. checkTCPLiveness demo_agent_libs demo_request demo_conn_vars = Some err"
proof -
  obtain e where "parseConnectionEnvVars demo_conn_libs (Some demo_conn_vars) ConnectionTypeMySQL = Inr e"
    using demo_conn_parse by blast
  then show ?thesis
    unfolding checkTCPLiveness_def Let_def demo_spec demo_libs_simps isPortActive_def by simp
qed

theorem agent_open_ok_after_refusal_witness:
  "\<exists>err close ok. ag_sent (run_open_task demo_agent_libs demo_request demo_params demo_ctl) = [close, ok] \<and>
     pkt_Type close = client_SessionClose \<and> pkt_Payload close = Some err \<and> pkt_Type ok = client_SessionOpenOK"
proof -
  obtain err where "checkTCPLiveness demo_agent_libs demo_request (EnvVars demo_params) = Some err"
    using demo_liveness unfolding demo_libs_simps by blast
  from agent_open_ok_after_refusal [OF this, of demo_ctl] show ?thesis by auto
qed

theorem agent_undecodable_request_closed_twice_witness:
  "map pkt_Type (ag_sent (processSessionOpen (demo_agent_libs\<lparr>al_gob_params := (\<lambda>_. Inl ''bad gob'')\<rparr>) demo_request demo_ctl)) =
     [client_SessionClose, client_SessionClose]"
  using agent_undecodable_request_closed_twice
    [of "demo_agent_libs\<lparr>al_gob_params := (\<lambda>_. Inl ''bad gob'')\<rparr>" demo_request "''bad gob''" demo_ctl]
  by (simp add: GobDecodeInto_def)

theorem agent_client_envs_cannot_override_witness:
  "\<exists>p a'. decodeConnectionParams demo_agent_libs demo_request demo_ctl = (Some p, a') \<and>
     gm_get (EnvVars p) ''envvar:PASS'' = Some (EnvStr (b64_encode ''x''))"
proof -
  have wf: "gm_wf demo_vars" by (simp add: demo_vars_def gm_wf_def)
  have dv: "secrets_Decode demo_secrets demo_vars =
      Ret (Inr [(''envvar:PASS'', EnvStr (b64_encode ''x'')), (''envvar:USER'', EnvStr (b64_encode ''root''))])"
    using decode_loop_spec [of demo_secrets no_providers demo_vars "[]" "[]"]
    by (simp add: secrets_Decode_def providers_ok_def no_providers_def slot_ok_def demo_vars_def demo_resolve gm_set_def)
  have q: "GobDecodeInto (al_gob_params demo_agent_libs) (spec_get demo_request SpecAgentConnectionParamsKey) =
      Inr (demo_params\<lparr>EnvVars := demo_vars\<rparr>)"
    by (simp add: GobDecodeInto_def)
  have "\<exists>p a'. decodeConnectionParams demo_agent_libs demo_request demo_ctl = (Some p, a')"
    using q dv by (simp add: decodeConnectionParams_def Let_def GobDecodeInto_def)
  then obtain p a' where pa: "decodeConnectionParams demo_agent_libs demo_request demo_ctl = (Some p, a')" by blast
  have dv': "secrets_Decode (al_secrets demo_agent_libs) (EnvVars (demo_params\<lparr>EnvVars := demo_vars\<rparr>)) =
      Ret (Inr [(''envvar:PASS'', EnvStr (b64_encode ''x'')), (''envvar:USER'', EnvStr (b64_encode ''root''))])"
    using dv by simp
  have "gm_get (EnvVars p) ''envvar:PASS'' = Some (EnvStr (b64_encode ''x''))"
    by (rule agent_client_envs_cannot_override [OF pa q dv']) (simp add: gm_get_Cons)
  with pa show ?thesis by blast
qed

end
