(* ===== verification/ApiDb.thy ===== *)
theory ApiDb
  imports Prelude
begin

text \<open>
  The database behind the REST API: the tables that \<open>src/migrations/*.sql\<close> declare, with the
  effect of the SQL statements in \<open>src/api-server/users.go\<close>, \<open>agents.go\<close> and \<open>databases.go\<close>.

  A row is a record, a table the list of its rows with its serial counter.  The declared
  constraints (UNIQUE, the foreign key of \<open>databases\<close> with its cascade, the CHECK on the type) are
  part of the statements, as is the trigger that sets \<open>updated_at\<close>.  Whatever else can make a
  statement fail (the network, the server, the driver, a value that the column type refuses) is the
  argument \<open>fault\<close> of each statement.  The wording of the driver's errors is a parameter
  (\<open>violation \<Rightarrow> error\<close>).
\<close>

section \<open>Tables\<close>

type_synonym timestamp = int

record 'r table =
  tb_rows :: "'r list"
  tb_serial :: int

record user =
  u_ID :: int
  u_Username :: string
  u_Email :: string
  u_Teamname :: string
  u_CreatedAt :: timestamp
  u_UpdatedAt :: timestamp

record agent_row =
  ar_ID :: int
  ar_AgentID :: string
  ar_Name :: string
  ar_Description :: string
  ar_CreatedAt :: timestamp
  ar_UpdatedAt :: timestamp

record database_row =
  dr_ID :: int
  dr_DatabaseName :: string
  dr_Type :: string
  dr_AgentID :: string
  dr_Host :: string
  dr_Port :: string
  dr_Username :: string
  dr_Password :: string
  dr_DBName :: string
  dr_Description :: string
  dr_CreatedAt :: timestamp
  dr_UpdatedAt :: timestamp

record api_db =
  db_users :: "user table"
  db_agents :: "agent_row table"
  db_databases :: "database_row table"

text \<open>The constraints by the names PostgreSQL gives them.\<close>

datatype violation = UniqueKey string | ForeignKey string | CheckFailed string

datatype db_error = NoRows | DbError error

definition empty_table :: "'r table" where
  "empty_table = \<lparr>tb_rows = [], tb_serial = 1\<rparr>"

definition empty_db :: api_db where
  "empty_db = \<lparr>db_users = empty_table, db_agents = empty_table, db_databases = empty_table\<rparr>"

definition valid_types :: "string list" where
  "valid_types = [''mysql'', ''postgres'', ''mssql'', ''mongodb'']"

section \<open>Statements on one table\<close>

definition db_query :: "error option \<Rightarrow> 'a \<Rightarrow> 'a result" where
  "db_query fault rows = (case fault of Some e \<Rightarrow> Inl e | None \<Rightarrow> Inr rows)"

text \<open>\<open>ORDER BY created_at DESC\<close>; rows of equal age come in the reverse order of their insertion.\<close>

definition order_desc :: "('r \<Rightarrow> timestamp) \<Rightarrow> 'r list \<Rightarrow> 'r list" where
  "order_desc created rows = rev (sort_key created rows)"

definition db_query_row :: "error option \<Rightarrow> 'a option \<Rightarrow> db_error + 'a" where
  "db_query_row fault row =
     (case fault of Some e \<Rightarrow> Inl (DbError e) | None \<Rightarrow> (case row of None \<Rightarrow> Inl NoRows | Some r \<Rightarrow> Inr r))"

definition find_row :: "('r \<Rightarrow> int) \<Rightarrow> int \<Rightarrow> 'r table \<Rightarrow> 'r option" where
  "find_row rid i t = find (\<lambda>r. rid r = i) (tb_rows t)"

text \<open>
  \<open>INSERT ... RETURNING\<close>: the serial is drawn before the constraints are checked and is not given
  back.  A fault may strike before or after that, so \<open>drawn\<close> says whether it did.
\<close>

definition insert_row :: "error option \<Rightarrow> bool \<Rightarrow> (int \<Rightarrow> 'r) \<Rightarrow> ('r \<Rightarrow> error option) \<Rightarrow> 'r table \<Rightarrow> 'r result \<times> 'r table" where
  "insert_row fault drawn mk check t =
     (let t' = t\<lparr>tb_serial := tb_serial t + 1\<rparr>; r = mk (tb_serial t) in
      case fault of
        Some e \<Rightarrow> (Inl e, if drawn then t' else t)
      | None \<Rightarrow>
          (case check r of
             Some e \<Rightarrow> (Inl e, t')
           | None \<Rightarrow> (Inr r, t'\<lparr>tb_rows := tb_rows t @ [r]\<rparr>)))"

text \<open>\<open>UPDATE ... WHERE id\<close>: the row before and after, checked before it is stored.\<close>

definition update_row :: "error option \<Rightarrow> ('r \<Rightarrow> int) \<Rightarrow> int \<Rightarrow> ('r \<Rightarrow> 'r) \<Rightarrow> ('r \<Rightarrow> 'r \<Rightarrow> error option) \<Rightarrow> 'r table
    \<Rightarrow> (db_error + 'r) \<times> 'r table" where
  "update_row fault rid i f check t =
     (case fault of
        Some e \<Rightarrow> (Inl (DbError e), t)
      | None \<Rightarrow>
          (case find_row rid i t of
             None \<Rightarrow> (Inl NoRows, t)
           | Some r \<Rightarrow>
               (case check r (f r) of
                  Some e \<Rightarrow> (Inl (DbError e), t)
                | None \<Rightarrow> (Inr (f r), t\<lparr>tb_rows := map (\<lambda>x. if rid x = i then f x else x) (tb_rows t)\<rparr>))))"

text \<open>\<open>DELETE ... WHERE id\<close>, with the number of rows affected.\<close>

definition delete_row :: "error option \<Rightarrow> ('r \<Rightarrow> int) \<Rightarrow> int \<Rightarrow> 'r table \<Rightarrow> nat result \<times> 'r table" where
  "delete_row fault rid i t =
     (case fault of
        Some e \<Rightarrow> (Inl e, t)
      | None \<Rightarrow> (Inr (length (filter (\<lambda>r. rid r = i) (tb_rows t))),
                 t\<lparr>tb_rows := filter (\<lambda>r. rid r \<noteq> i) (tb_rows t)\<rparr>))"

section \<open>The declared constraints\<close>

definition check_user :: "(violation \<Rightarrow> error) \<Rightarrow> user table \<Rightarrow> user \<Rightarrow> error option" where
  "check_user msg t r =
     (let others = filter (\<lambda>x. u_ID x \<noteq> u_ID r) (tb_rows t) in
      if list_ex (\<lambda>x. u_Username x = u_Username r) others then Some (msg (UniqueKey ''users_username_key''))
      else if list_ex (\<lambda>x. u_Email x = u_Email r) others then Some (msg (UniqueKey ''users_email_key''))
      else None)"

definition check_agent :: "(violation \<Rightarrow> error) \<Rightarrow> agent_row table \<Rightarrow> agent_row \<Rightarrow> error option" where
  "check_agent msg t r =
     (if list_ex (\<lambda>x. ar_ID x \<noteq> ar_ID r \<and> ar_AgentID x = ar_AgentID r) (tb_rows t)
      then Some (msg (UniqueKey ''agents_agent_id_key'')) else None)"

text \<open>An agent id that databases refer to cannot be changed: the foreign key has no ON UPDATE action.\<close>

definition check_agent_update :: "(violation \<Rightarrow> error) \<Rightarrow> api_db \<Rightarrow> agent_row \<Rightarrow> agent_row \<Rightarrow> error option" where
  "check_agent_update msg d old new =
     (case check_agent msg (db_agents d) new of
        Some e \<Rightarrow> Some e
      | None \<Rightarrow>
          if ar_AgentID new \<noteq> ar_AgentID old \<and> list_ex (\<lambda>x. dr_AgentID x = ar_AgentID old) (tb_rows (db_databases d))
          then Some (msg (ForeignKey ''databases_agent_id_fkey'')) else None)"

definition check_database :: "(violation \<Rightarrow> error) \<Rightarrow> api_db \<Rightarrow> database_row \<Rightarrow> error option" where
  "check_database msg d r =
     (if dr_Type r \<notin> set valid_types then Some (msg (CheckFailed ''databases_type_check''))
      else if list_ex (\<lambda>x. dr_ID x \<noteq> dr_ID r \<and> dr_DatabaseName x = dr_DatabaseName r) (tb_rows (db_databases d))
      then Some (msg (UniqueKey ''databases_database_name_key''))
      else if \<not> list_ex (\<lambda>x. ar_AgentID x = dr_AgentID r) (tb_rows (db_agents d))
      then Some (msg (ForeignKey ''databases_agent_id_fkey''))
      else None)"

text \<open>Deleting an agent deletes its databases (ON DELETE CASCADE).\<close>

definition delete_agent :: "error option \<Rightarrow> int \<Rightarrow> api_db \<Rightarrow> nat result \<times> api_db" where
  "delete_agent fault i d =
     (case delete_row fault ar_ID i (db_agents d) of
        (Inl e, _) \<Rightarrow> (Inl e, d)
      | (Inr n, t) \<Rightarrow>
          (let gone = map ar_AgentID (filter (\<lambda>r. ar_ID r = i) (tb_rows (db_agents d))) in
           (Inr n, d\<lparr>db_agents := t,
              db_databases := (db_databases d)
                \<lparr>tb_rows := filter (\<lambda>x. dr_AgentID x \<notin> set gone) (tb_rows (db_databases d))\<rparr>\<rparr>)))"

end
