(* ===== verification/ApiServer.thy ===== *)
theory ApiServer
  imports ApiDb
begin

text \<open>
  The handlers of the REST API, \<open>src/api-server/users.go\<close>, \<open>agents.go\<close>, \<open>databases.go\<close> and the
  routing of \<open>main.go\<close>.  A handler maps a request and the database to a response and the database.

  The decoding of request bodies by \<open>encoding/json\<close>, the wording of database errors, the gateway's
  HTTP endpoint and the clock are the parameter \<open>api_libs\<close>; every handler runs at most one SQL
  statement, whose fault is the argument \<open>fault\<close>.  A response is its status and its body; bodies
  written by \<open>http.Error\<close> are plain text, all others JSON.
\<close>

section \<open>Requests and responses\<close>

record create_user_request =
  cu_Username :: string
  cu_Email :: string
  cu_Teamname :: string

record create_agent_request =
  ca_AgentID :: string
  ca_Name :: string
  ca_Description :: string

text \<open>An agent with its runtime status, and a database as JSON: times as text.\<close>

record api_agent =
  ag_row :: agent_row
  ag_Status :: string

record database =
  d_ID :: int
  d_DatabaseName :: string
  d_Type :: string
  d_AgentID :: string
  d_Host :: string
  d_Port :: string
  d_Username :: string
  d_Password :: string
  d_DBName :: string
  d_Description :: string
  d_CreatedAt :: string
  d_UpdatedAt :: string

datatype body =
    Plain string
  | ErrorResponse string
  | Message string
  | Users "user list"
  | OneUser user
  | Agents "api_agent list"
  | OneAgent api_agent
  | Databases "database list"
  | OneDatabase database

record response =
  rs_status :: nat
  rs_body :: body

record http_request =
  rq_Method :: string
  rq_Path :: string
  rq_Body :: string

record api_libs =
  ap_json_user :: "string \<Rightarrow> create_user_request result"
  ap_json_agent :: "string \<Rightarrow> create_agent_request result"
  ap_json_database :: "string \<Rightarrow> database result"
  ap_msg :: "violation \<Rightarrow> error"
  ap_gateway_agents :: "string list result"
  ap_now :: timestamp
  ap_time :: "timestamp \<Rightarrow> string"

abbreviation http_Error :: "string \<Rightarrow> nat \<Rightarrow> response" where
  "http_Error m code \<equiv> \<lparr>rs_status = code, rs_body = Plain m\<rparr>"
abbreviation json_Error :: "nat \<Rightarrow> string \<Rightarrow> response" where
  "json_Error code m \<equiv> \<lparr>rs_status = code, rs_body = ErrorResponse m\<rparr>"
abbreviation respond :: "nat \<Rightarrow> body \<Rightarrow> response" where
  "respond code b \<equiv> \<lparr>rs_status = code, rs_body = b\<rparr>"
abbreviation not_allowed :: response where
  "not_allowed \<equiv> http_Error ''Method not allowed'' 405"

text \<open>The id in the path: the fourth part between slashes.\<close>

definition path_id :: "string \<Rightarrow> int option" where
  "path_id path = (let pathParts = str_split ''/'' path in
     if length pathParts < 4 then None else atoi (pathParts ! 3))"

definition contains_duplicate :: "error \<Rightarrow> bool" where
  "contains_duplicate err \<longleftrightarrow> str_contains err ''duplicate key'' \<or> str_contains err ''unique constraint''"

section \<open>Users\<close>

definition handleGetUsers :: "error option \<Rightarrow> http_request \<Rightarrow> api_db \<Rightarrow> response \<times> api_db" where
  "handleGetUsers fault r d =
     (if rq_Method r \<noteq> ''GET'' then (not_allowed, d)
      else case db_query fault (order_desc u_CreatedAt (tb_rows (db_users d))) of
             Inl _ \<Rightarrow> (json_Error 500 ''Failed to fetch users'', d)
           | Inr users \<Rightarrow> (respond 200 (Users users), d))"

definition handleGetUser :: "error option \<Rightarrow> http_request \<Rightarrow> api_db \<Rightarrow> response \<times> api_db" where
  "handleGetUser fault r d =
     (if rq_Method r \<noteq> ''GET'' then (not_allowed, d)
      else case path_id (rq_Path r) of
             None \<Rightarrow> (http_Error ''Invalid user ID'' 400, d)
           | Some i \<Rightarrow>
               (case db_query_row fault (find_row u_ID i (db_users d)) of
                  Inl NoRows \<Rightarrow> (json_Error 404 ''User not found'', d)
                | Inl (DbError _) \<Rightarrow> (json_Error 500 ''Failed to fetch user'', d)
                | Inr user \<Rightarrow> (respond 200 (OneUser user), d)))"

definition user_error :: "string \<Rightarrow> error \<Rightarrow> string" where
  "user_error errorMsg err =
     (if contains_duplicate err then
        (if str_contains err ''username'' then ''Username already exists''
         else if str_contains err ''email'' then ''Email already exists'' else errorMsg)
      else errorMsg)"

text \<open>The row of an INSERT, for the id that the serial gives it.\<close>

definition new_user :: "api_libs \<Rightarrow> create_user_request \<Rightarrow> int \<Rightarrow> user" where
  "new_user L req i = \<lparr>u_ID = i, u_Username = cu_Username req, u_Email = cu_Email req,
     u_Teamname = cu_Teamname req, u_CreatedAt = ap_now L, u_UpdatedAt = ap_now L\<rparr>"

definition handleCreateUser :: "api_libs \<Rightarrow> error option \<Rightarrow> bool \<Rightarrow> http_request \<Rightarrow> api_db \<Rightarrow> response \<times> api_db" where
  "handleCreateUser L fault drawn r d =
     (if rq_Method r \<noteq> ''POST'' then (not_allowed, d)
      else case ap_json_user L (rq_Body r) of
             Inl _ \<Rightarrow> (json_Error 400 ''Invalid request body'', d)
           | Inr req \<Rightarrow>
               if cu_Username req = '''' \<or> cu_Email req = '''' \<or> cu_Teamname req = '''' then
                 (json_Error 400 ''Username, email, and teamname are required'', d)
               else
                 (case insert_row fault drawn (new_user L req) (check_user (ap_msg L) (db_users d)) (db_users d) of
                    (Inl err, t) \<Rightarrow> (json_Error 400 (user_error ''Failed to create user'' err), d\<lparr>db_users := t\<rparr>)
                  | (Inr user, t) \<Rightarrow> (respond 201 (OneUser user), d\<lparr>db_users := t\<rparr>)))"

text \<open>
  The dynamic update: the columns to set with their arguments, in order, and the text of the
  statement with its numbered placeholders; the last placeholder is the id.
\<close>

definition user_updates :: "create_user_request \<Rightarrow> (string \<times> string) list" where
  "user_updates req =
     (if cu_Username req \<noteq> '''' then [(''username'', cu_Username req)] else []) @
     (if cu_Email req \<noteq> '''' then [(''email'', cu_Email req)] else []) @
     (if cu_Teamname req \<noteq> '''' then [(''teamname'', cu_Teamname req)] else [])"

fun placeholders :: "nat \<Rightarrow> string list \<Rightarrow> string list" where
  "placeholders n [] = []"
| "placeholders n (c # cs) = (c @ '' = $'' @ nat_dec n) # placeholders (n + 1) cs"

definition update_text :: "string \<Rightarrow> string \<Rightarrow> string list \<Rightarrow> string" where
  "update_text tab returning cols =
     ''UPDATE '' @ tab @ '' SET '' @ str_join '', '' (placeholders 1 cols) @ '' WHERE id = $'' @ nat_dec (length cols + 1)
       @ '' RETURNING '' @ returning"

definition set_user :: "string \<times> string \<Rightarrow> user \<Rightarrow> user" where
  "set_user cv u =
     (if fst cv = ''username'' then u\<lparr>u_Username := snd cv\<rparr>
      else if fst cv = ''email'' then u\<lparr>u_Email := snd cv\<rparr>
      else if fst cv = ''teamname'' then u\<lparr>u_Teamname := snd cv\<rparr> else u)"

definition handleUpdateUser :: "api_libs \<Rightarrow> error option \<Rightarrow> http_request \<Rightarrow> api_db \<Rightarrow> response \<times> api_db" where
  "handleUpdateUser L fault r d =
     (if rq_Method r \<noteq> ''PUT'' then (not_allowed, d)
      else case path_id (rq_Path r) of
             None \<Rightarrow> (http_Error ''Invalid user ID'' 400, d)
           | Some i \<Rightarrow>
               (case ap_json_user L (rq_Body r) of
                  Inl _ \<Rightarrow> (json_Error 400 ''Invalid request body'', d)
                | Inr req \<Rightarrow>
                    if user_updates req = [] then (json_Error 400 ''No fields to update'', d)
                    else case update_row fault u_ID i
                               (\<lambda>u. (fold set_user (user_updates req) u)\<lparr>u_UpdatedAt := ap_now L\<rparr>)
                               (\<lambda>_. check_user (ap_msg L) (db_users d)) (db_users d) of
                           (Inl NoRows, t) \<Rightarrow> (json_Error 404 ''User not found'', d\<lparr>db_users := t\<rparr>)
                         | (Inl (DbError err), t) \<Rightarrow>
                             (json_Error 400 (user_error ''Failed to update user'' err), d\<lparr>db_users := t\<rparr>)
                         | (Inr user, t) \<Rightarrow> (respond 200 (OneUser user), d\<lparr>db_users := t\<rparr>)))"

definition handleDeleteUser :: "error option \<Rightarrow> http_request \<Rightarrow> api_db \<Rightarrow> response \<times> api_db" where
  "handleDeleteUser fault r d =
     (if rq_Method r \<noteq> ''DELETE'' then (not_allowed, d)
      else case path_id (rq_Path r) of
             None \<Rightarrow> (http_Error ''Invalid user ID'' 400, d)
           | Some i \<Rightarrow>
               (case delete_row fault u_ID i (db_users d) of
                  (Inl _, t) \<Rightarrow> (json_Error 500 ''Failed to delete user'', d\<lparr>db_users := t\<rparr>)
                | (Inr rowsAffected, t) \<Rightarrow>
                    (if rowsAffected = 0 then json_Error 404 ''User not found''
                     else respond 200 (Message ''User deleted successfully''), d\<lparr>db_users := t\<rparr>)))"

section \<open>Agents\<close>

text \<open>The list that the gateway serves under \<open>/agents\<close>; a failure is an empty list.\<close>

definition getActiveAgentsFromGateway :: "api_libs \<Rightarrow> string list" where
  "getActiveAgentsFromGateway L = (case ap_gateway_agents L of Inl _ \<Rightarrow> [] | Inr agents \<Rightarrow> agents)"

definition agent_status :: "api_libs \<Rightarrow> agent_row \<Rightarrow> string" where
  "agent_status L a = (if ar_AgentID a \<in> set (getActiveAgentsFromGateway L) then ''connected'' else ''disconnected'')"

definition handleGetAgents :: "api_libs \<Rightarrow> error option \<Rightarrow> http_request \<Rightarrow> api_db \<Rightarrow> response \<times> api_db" where
  "handleGetAgents L fault r d =
     (if rq_Method r \<noteq> ''GET'' then (not_allowed, d)
      else case db_query fault (order_desc ar_CreatedAt (tb_rows (db_agents d))) of
             Inl _ \<Rightarrow> (json_Error 500 ''Failed to fetch agents'', d)
           | Inr agents \<Rightarrow>
               (respond 200 (Agents (map (\<lambda>a. \<lparr>ag_row = a, ag_Status = agent_status L a\<rparr>) agents)), d))"

definition handleGetAgent :: "api_libs \<Rightarrow> error option \<Rightarrow> http_request \<Rightarrow> api_db \<Rightarrow> response \<times> api_db" where
  "handleGetAgent L fault r d =
     (if rq_Method r \<noteq> ''GET'' then (not_allowed, d)
      else case path_id (rq_Path r) of
             None \<Rightarrow> (http_Error ''Invalid agent ID'' 400, d)
           | Some i \<Rightarrow>
               (case db_query_row fault (find_row ar_ID i (db_agents d)) of
                  Inl NoRows \<Rightarrow> (json_Error 404 ''Agent not found'', d)
                | Inl (DbError _) \<Rightarrow> (json_Error 500 ''Failed to fetch agent'', d)
                | Inr a \<Rightarrow> (respond 200 (OneAgent \<lparr>ag_row = a, ag_Status = agent_status L a\<rparr>), d)))"

definition agent_error :: "string \<Rightarrow> error \<Rightarrow> string" where
  "agent_error errorMsg err = (if contains_duplicate err then ''Agent ID already exists'' else errorMsg)"

definition new_agent :: "api_libs \<Rightarrow> create_agent_request \<Rightarrow> int \<Rightarrow> agent_row" where
  "new_agent L req i = \<lparr>ar_ID = i, ar_AgentID = ca_AgentID req, ar_Name = ca_Name req,
     ar_Description = ca_Description req, ar_CreatedAt = ap_now L, ar_UpdatedAt = ap_now L\<rparr>"

definition handleCreateAgent :: "api_libs \<Rightarrow> error option \<Rightarrow> bool \<Rightarrow> http_request \<Rightarrow> api_db \<Rightarrow> response \<times> api_db" where
  "handleCreateAgent L fault drawn r d =
     (if rq_Method r \<noteq> ''POST'' then (not_allowed, d)
      else case ap_json_agent L (rq_Body r) of
             Inl _ \<Rightarrow> (json_Error 400 ''Invalid request body'', d)
           | Inr req \<Rightarrow>
               if ca_AgentID req = '''' \<or> ca_Name req = '''' then
                 (json_Error 400 ''Agent ID and name are required'', d)
               else
                 (case insert_row fault drawn (new_agent L req) (check_agent (ap_msg L) (db_agents d)) (db_agents d) of
                    (Inl err, t) \<Rightarrow> (json_Error 400 (agent_error ''Failed to create agent'' err), d\<lparr>db_agents := t\<rparr>)
                  | (Inr a, t) \<Rightarrow>
                      (respond 201 (OneAgent \<lparr>ag_row = a, ag_Status = ''disconnected''\<rparr>), d\<lparr>db_agents := t\<rparr>)))"

definition agent_updates :: "create_agent_request \<Rightarrow> (string \<times> string) list" where
  "agent_updates req =
     (if ca_AgentID req \<noteq> '''' then [(''agent_id'', ca_AgentID req)] else []) @
     (if ca_Name req \<noteq> '''' then [(''name'', ca_Name req)] else []) @
     (if ca_Description req \<noteq> '''' then [(''description'', ca_Description req)] else [])"

definition set_agent :: "string \<times> string \<Rightarrow> agent_row \<Rightarrow> agent_row" where
  "set_agent cv a =
     (if fst cv = ''agent_id'' then a\<lparr>ar_AgentID := snd cv\<rparr>
      else if fst cv = ''name'' then a\<lparr>ar_Name := snd cv\<rparr>
      else if fst cv = ''description'' then a\<lparr>ar_Description := snd cv\<rparr> else a)"

definition handleUpdateAgent :: "api_libs \<Rightarrow> error option \<Rightarrow> http_request \<Rightarrow> api_db \<Rightarrow> response \<times> api_db" where
  "handleUpdateAgent L fault r d =
     (if rq_Method r \<noteq> ''PUT'' then (not_allowed, d)
      else case path_id (rq_Path r) of
             None \<Rightarrow> (http_Error ''Invalid agent ID'' 400, d)
           | Some i \<Rightarrow>
               (case ap_json_agent L (rq_Body r) of
                  Inl _ \<Rightarrow> (json_Error 400 ''Invalid request body'', d)
                | Inr req \<Rightarrow>
                    if agent_updates req = [] then (json_Error 400 ''No fields to update'', d)
                    else case update_row fault ar_ID i
                               (\<lambda>a. (fold set_agent (agent_updates req) a)\<lparr>ar_UpdatedAt := ap_now L\<rparr>)
                               (check_agent_update (ap_msg L) d) (db_agents d) of
                           (Inl NoRows, t) \<Rightarrow> (json_Error 404 ''Agent not found'', d\<lparr>db_agents := t\<rparr>)
                         | (Inl (DbError err), t) \<Rightarrow>
                             (json_Error 400 (agent_error ''Failed to update agent'' err), d\<lparr>db_agents := t\<rparr>)
                         | (Inr a, t) \<Rightarrow>
                             (respond 200 (OneAgent \<lparr>ag_row = a, ag_Status = ''''\<rparr>), d\<lparr>db_agents := t\<rparr>)))"

definition handleDeleteAgent :: "error option \<Rightarrow> http_request \<Rightarrow> api_db \<Rightarrow> response \<times> api_db" where
  "handleDeleteAgent fault r d =
     (if rq_Method r \<noteq> ''DELETE'' then (not_allowed, d)
      else case path_id (rq_Path r) of
             None \<Rightarrow> (http_Error ''Invalid agent ID'' 400, d)
           | Some i \<Rightarrow>
               (case delete_agent fault i d of
                  (Inl _, d) \<Rightarrow> (json_Error 500 ''Failed to delete agent'', d)
                | (Inr rowsAffected, d) \<Rightarrow>
                    (if rowsAffected = 0 then json_Error 404 ''Agent not found''
                     else respond 200 (Message ''Agent deleted successfully''), d)))"

section \<open>Databases\<close>

definition database_of :: "api_libs \<Rightarrow> database_row \<Rightarrow> database" where
  "database_of L r =
     \<lparr>d_ID = dr_ID r, d_DatabaseName = dr_DatabaseName r, d_Type = dr_Type r, d_AgentID = dr_AgentID r,
      d_Host = dr_Host r, d_Port = dr_Port r, d_Username = dr_Username r, d_Password = dr_Password r,
      d_DBName = dr_DBName r, d_Description = dr_Description r,
      d_CreatedAt = ap_time L (dr_CreatedAt r), d_UpdatedAt = ap_time L (dr_UpdatedAt r)\<rparr>"

definition handleGetDatabases :: "api_libs \<Rightarrow> error option \<Rightarrow> http_request \<Rightarrow> api_db \<Rightarrow> response \<times> api_db" where
  "handleGetDatabases L fault r d =
     (case db_query fault (order_desc dr_CreatedAt (tb_rows (db_databases d))) of
        Inl err \<Rightarrow> (http_Error err 500, d)
      | Inr rows \<Rightarrow> (respond 200 (Databases (map (database_of L) rows)), d))"

definition database_id :: "string \<Rightarrow> int option" where
  "database_id path = atoi (trim_prefix path ''/api/databases/'')"

text \<open>Every error of the query is reported as a missing row.\<close>

definition handleGetDatabase :: "api_libs \<Rightarrow> error option \<Rightarrow> http_request \<Rightarrow> api_db \<Rightarrow> response \<times> api_db" where
  "handleGetDatabase L fault r d =
     (case database_id (rq_Path r) of
        None \<Rightarrow> (http_Error ''Invalid database ID'' 400, d)
      | Some i \<Rightarrow>
          (case db_query_row fault (find_row dr_ID i (db_databases d)) of
             Inl _ \<Rightarrow> (http_Error ''Database not found'' 404, d)
           | Inr row \<Rightarrow> (respond 200 (OneDatabase (database_of L row)), d)))"

definition invalid_type_msg :: string where
  "invalid_type_msg = ''Invalid database type. Must be one of: mysql, postgres, mssql, mongodb''"

definition new_database :: "api_libs \<Rightarrow> database \<Rightarrow> int \<Rightarrow> database_row" where
  "new_database L q i =
     \<lparr>dr_ID = i, dr_DatabaseName = d_DatabaseName q, dr_Type = d_Type q, dr_AgentID = d_AgentID q,
      dr_Host = d_Host q, dr_Port = d_Port q, dr_Username = d_Username q, dr_Password = d_Password q,
      dr_DBName = d_DBName q, dr_Description = d_Description q,
      dr_CreatedAt = ap_now L, dr_UpdatedAt = ap_now L\<rparr>"

definition handleCreateDatabase :: "api_libs \<Rightarrow> error option \<Rightarrow> bool \<Rightarrow> http_request \<Rightarrow> api_db \<Rightarrow> response \<times> api_db" where
  "handleCreateDatabase L fault drawn r d =
     (case ap_json_database L (rq_Body r) of
        Inl err \<Rightarrow> (http_Error err 400, d)
      | Inr q \<Rightarrow>
          if d_DatabaseName q = '''' \<or> d_Type q = '''' \<or> d_AgentID q = '''' \<or> d_Host q = '''' \<or>
             d_Port q = '''' \<or> d_Username q = '''' \<or> d_DBName q = '''' then
            (http_Error ''Missing required fields'' 400, d)
          else if d_Type q \<notin> set valid_types then (http_Error invalid_type_msg 400, d)
          else
            (case insert_row fault drawn (new_database L q) (check_database (ap_msg L) d) (db_databases d) of
               (Inl err, t) \<Rightarrow>
                 (if str_contains err ''duplicate key'' then http_Error ''Database name already exists'' 409
                  else http_Error err 500, d\<lparr>db_databases := t\<rparr>)
             | (Inr row, t) \<Rightarrow>
                 (respond 201 (OneDatabase (q\<lparr>d_ID := dr_ID row, d_CreatedAt := ap_time L (dr_CreatedAt row),
                    d_UpdatedAt := ap_time L (dr_UpdatedAt row)\<rparr>)), d\<lparr>db_databases := t\<rparr>)))"

text \<open>\<open>Exec\<close> reports no error when no row matches.\<close>

definition set_database :: "api_libs \<Rightarrow> database \<Rightarrow> database_row \<Rightarrow> database_row" where
  "set_database L q x =
     x\<lparr>dr_DatabaseName := d_DatabaseName q, dr_Type := d_Type q, dr_AgentID := d_AgentID q,
       dr_Host := d_Host q, dr_Port := d_Port q, dr_Username := d_Username q,
       dr_Password := d_Password q, dr_DBName := d_DBName q, dr_Description := d_Description q,
       dr_UpdatedAt := ap_now L\<rparr>"

definition handleUpdateDatabase :: "api_libs \<Rightarrow> error option \<Rightarrow> http_request \<Rightarrow> api_db \<Rightarrow> response \<times> api_db" where
  "handleUpdateDatabase L fault r d =
     (case database_id (rq_Path r) of
        None \<Rightarrow> (http_Error ''Invalid database ID'' 400, d)
      | Some i \<Rightarrow>
          (case ap_json_database L (rq_Body r) of
             Inl err \<Rightarrow> (http_Error err 400, d)
           | Inr q \<Rightarrow>
               if d_Type q \<noteq> '''' \<and> d_Type q \<notin> set valid_types then (http_Error invalid_type_msg 400, d)
               else case update_row fault dr_ID i (set_database L q)
                          (\<lambda>_. check_database (ap_msg L) d) (db_databases d) of
                      (Inl (DbError err), t) \<Rightarrow>
                        (if str_contains err ''duplicate key'' then http_Error ''Database name already exists'' 409
                         else http_Error err 500, d\<lparr>db_databases := t\<rparr>)
                    | (_, t) \<Rightarrow> (respond 200 (Message ''Database updated successfully''), d\<lparr>db_databases := t\<rparr>)))"

definition handleDeleteDatabase :: "error option \<Rightarrow> http_request \<Rightarrow> api_db \<Rightarrow> response \<times> api_db" where
  "handleDeleteDatabase fault r d =
     (case database_id (rq_Path r) of
        None \<Rightarrow> (http_Error ''Invalid database ID'' 400, d)
      | Some i \<Rightarrow>
          (case delete_row fault dr_ID i (db_databases d) of
             (Inl err, t) \<Rightarrow> (http_Error err 500, d\<lparr>db_databases := t\<rparr>)
           | (Inr _, t) \<Rightarrow> (respond 200 (Message ''Database deleted successfully''), d\<lparr>db_databases := t\<rparr>)))"

section \<open>Routing\<close>

text \<open>
  The handlers that \<open>main\<close> registers for users, agents and databases, for paths as the multiplexer
  hands them on; \<open>None\<close> stands for the paths of other handlers and for unknown ones.
\<close>

definition api_route :: "api_libs \<Rightarrow> error option \<Rightarrow> bool \<Rightarrow> http_request \<Rightarrow> api_db \<Rightarrow> (response \<times> api_db) option" where
  "api_route L fault drawn r d =
     (let path = rq_Path r; meth = rq_Method r in
      if path = ''/api/users'' then Some
        (if meth = ''GET'' then handleGetUsers fault r d
         else if meth = ''POST'' then handleCreateUser L fault drawn r d else (not_allowed, d))
      else if has_prefix path ''/api/users/'' then Some
        (if meth = ''GET'' then handleGetUser fault r d
         else if meth = ''PUT'' then handleUpdateUser L fault r d
         else if meth = ''DELETE'' then handleDeleteUser fault r d else (not_allowed, d))
      else if path = ''/api/agents'' then Some
        (if meth = ''GET'' then handleGetAgents L fault r d
         else if meth = ''POST'' then handleCreateAgent L fault drawn r d else (not_allowed, d))
      else if has_prefix path ''/api/agents/'' then Some
        (if meth = ''GET'' then handleGetAgent L fault r d
         else if meth = ''PUT'' then handleUpdateAgent L fault r d
         else if meth = ''DELETE'' then handleDeleteAgent fault r d else (not_allowed, d))
      else if path = ''/api/databases'' then Some
        (if meth = ''GET'' then handleGetDatabases L fault r d
         else if meth = ''POST'' then handleCreateDatabase L fault drawn r d else (not_allowed, d))
      else if has_prefix path ''/api/databases/'' then Some
        (if meth = ''GET'' then handleGetDatabase L fault r d
         else if meth = ''PUT'' then handleUpdateDatabase L fault r d
         else if meth = ''DELETE'' then handleDeleteDatabase fault r d else (not_allowed, d))
      else None)"

end
