(* ===== verification/QueryClient.thy ===== *)
theory QueryClient
  imports ApiServer Base64 Gateway
begin

text \<open>
  The query path of the REST API, \<open>executeQuery\<close> and \<open>handleExecuteQuery\<close> of
  \<open>src/api-server/main.go\<close> with the helpers of \<open>helpers.go\<close>: the API server as a client of the
  gateway.

  What the stream delivers is a list of receive results; when the list ends without an end of
  stream, an error or a close packet, the code is still waiting and the loop has no result
  (\<open>None\<close>).  The packets that were sent are returned beside the result.  Dialling, the gob
  encoder, the results of sends and the elapsed time are the parameter \<open>query_libs\<close>.
\<close>

datatype recv = RPkt packet | REOF | RErr error

record query_libs =
  ql_dial :: "error option"
  ql_connect :: "metadata \<Rightarrow> error option"
  ql_gob :: "agent_connection_params \<Rightarrow> string result"
  ql_send :: "nat \<Rightarrow> error option"
  ql_duration :: string

record query_response =
  qr_Results :: string
  qr_ExitCode :: int
  qr_Error :: string
  qr_Duration :: string

text \<open>\<open>base64Encode\<close> and \<open>encodeConnectionParams\<close> of \<open>helpers.go\<close>.\<close>

definition base64Encode :: "string \<Rightarrow> string" where
  "base64Encode s = b64_encode s"

definition encodeConnectionParams :: "query_libs \<Rightarrow> agent_connection_params \<Rightarrow> string result" where
  "encodeConnectionParams Q params = ql_gob Q params"

text \<open>
  \<open>fmt.Sscanf(s, "%d", &v)\<close>: leading blanks, a sign and digits; anything else, or a number that
  does not fit, leaves the variable as it was.
\<close>

definition sscanf_d :: "string \<Rightarrow> int \<Rightarrow> int" where
  "sscanf_d s v =
     (let s = dropWhile (\<lambda>c. c = CHR '' '' \<or> c = CHR 0x09) s;
          sign = (if s \<noteq> [] \<and> hd s \<in> {CHR ''-'', CHR ''+''} then [hd s] else []);
          digits = takeWhile (\<lambda>c. digit_val c \<noteq> None) (drop (length sign) s)
      in case atoi (sign @ digits) of Some n \<Rightarrow> n | None \<Rightarrow> v)"

text \<open>The metadata of the client stream and the parameters of the connection.\<close>

definition query_metadata :: "database_row \<Rightarrow> metadata" where
  "query_metadata c =
     [(''origin'', [''client'']), (''connection-name'', [''web-client'']), (''agent-id'', [dr_AgentID c]),
      (''authorization'', [''Bearer test-token-123''])]"

definition query_params :: "database_row \<Rightarrow> agent_connection_params" where
  "query_params c =
     \<lparr>ConnectionName = dr_DatabaseName c, ConnectionType = dr_Type c, UserID = ''web-user'', UserEmail = ''web@example.com'',
      EnvVars = [(''envvar:HOST'', EnvStr (base64Encode (dr_Host c))), (''envvar:PORT'', EnvStr (base64Encode (dr_Port c))),
        (''envvar:USER'', EnvStr (base64Encode (dr_Username c))), (''envvar:PASS'', EnvStr (base64Encode (dr_Password c))),
        (''envvar:DB'', EnvStr (base64Encode (dr_DBName c)))],
      CmdList = [], ClientArgs = [], ClientVerb = ClientVerbExec, ClientOrigin = ConnectionOriginClientAPI,
      DlpProvider = '''', DlpMode = '''', DLPInfoTypes = [], DlpGcpRawCredentialsJSON = '''', DlpPresidioAnalyzerURL = '''',
      DlpPresidioAnonymizerURL = '''', DataMaskingEntityTypesData = None, GuardRailRules = None\<rparr>"

definition open_packet :: "string \<Rightarrow> database_row \<Rightarrow> string \<Rightarrow> packet" where
  "open_packet query c encodedParams =
     \<lparr>pkt_Type = agent_SessionOpen,
      pkt_Spec = Some [(SpecAgentConnectionParamsKey, encodedParams), (SpecConnectionType, dr_Type c)],
      pkt_Payload = Some query\<rparr>"

definition query_packet :: "string \<Rightarrow> string \<Rightarrow> string \<Rightarrow> packet" where
  "query_packet sendPacketType query sessionID =
     \<lparr>pkt_Type = sendPacketType,
      pkt_Spec = Some [(SpecGatewaySessionID, sessionID), (SpecClientConnectionID, ''web-conn-1'')],
      pkt_Payload = Some query\<rparr>"

text \<open>The packet types for a type of database, to the agent and from it.\<close>

definition packet_types :: "string \<Rightarrow> (string \<times> string) option" where
  "packet_types typ =
     (if typ = ''mysql'' then Some (agent_MySQLConnectionWrite, client_MySQLConnectionWrite)
      else if typ = ''postgres'' then Some (agent_PGConnectionWrite, client_PGConnectionWrite)
      else if typ = ''mssql'' then Some (agent_MSSQLConnectionWrite, client_MSSQLConnectionWrite)
      else if typ = ''mongodb'' then Some (agent_MongoDBConnectionWrite, client_MongoDBConnectionWrite)
      else None)"

definition query_result :: "query_libs \<Rightarrow> string \<Rightarrow> int \<Rightarrow> query_response" where
  "query_result Q results exitCode =
     \<lparr>qr_Results = results, qr_ExitCode = exitCode, qr_Error = '''', qr_Duration = ql_duration Q\<rparr>"

text \<open>The receive loop; \<open>sent\<close> are the packets sent so far.\<close>

fun execute_loop :: "query_libs \<Rightarrow> string \<Rightarrow> string \<Rightarrow> string \<Rightarrow> recv list \<Rightarrow> packet list \<Rightarrow> string \<Rightarrow> int
    \<Rightarrow> (query_response result \<times> packet list) option" where
  "execute_loop Q sendType recvType query [] sent results exitCode = None"
| "execute_loop Q sendType recvType query (REOF # rs) sent results exitCode =
     Some (Inr (query_result Q results exitCode), sent)"
| "execute_loop Q sendType recvType query (RErr e # rs) sent results exitCode = Some (Inl (''stream error: '' @ e), sent)"
| "execute_loop Q sendType recvType query (RPkt pkt # rs) sent results exitCode =
     (if pkt_Type pkt = client_SessionOpenOK then
        (case ql_send Q (length sent) of
           Some e \<Rightarrow> Some (Inl (''failed to send query: '' @ e), sent)
         | None \<Rightarrow> execute_loop Q sendType recvType query rs
                     (sent @ [query_packet sendType query (spec_get pkt SpecGatewaySessionID)]) results exitCode)
      else if pkt_Type pkt = recvType then
        execute_loop Q sendType recvType query rs sent (payload_str pkt) exitCode
      else if pkt_Type pkt = client_SessionClose then
        Some (Inr (query_result Q results (sscanf_d (spec_get pkt SpecClientExitCodeKey) exitCode)), sent)
      else execute_loop Q sendType recvType query rs sent results exitCode)"

definition show_db_error :: "db_error \<Rightarrow> error" where
  "show_db_error e = (case e of NoRows \<Rightarrow> ''sql: no rows in result set'' | DbError e \<Rightarrow> e)"

definition executeQuery :: "query_libs \<Rightarrow> error option \<Rightarrow> string \<Rightarrow> int \<Rightarrow> recv list \<Rightarrow> api_db
    \<Rightarrow> (query_response result \<times> packet list) option" where
  "executeQuery Q fault query databaseID rs d =
     (case db_query_row fault (find_row dr_ID databaseID (db_databases d)) of
        Inl e \<Rightarrow> Some (Inl (''database not found or invalid database_id: '' @ show_db_error e), [])
      | Inr dbConfig \<Rightarrow>
          (case ql_dial Q of
             Some e \<Rightarrow> Some (Inl (''failed to connect to gateway: '' @ e), [])
           | None \<Rightarrow>
          (case ql_connect Q (query_metadata dbConfig) of
             Some e \<Rightarrow> Some (Inl (''failed to create stream: '' @ e), [])
           | None \<Rightarrow>
          (case encodeConnectionParams Q (query_params dbConfig) of
             Inl e \<Rightarrow> Some (Inl (''failed to encode params: '' @ e), [])
           | Inr encodedParams \<Rightarrow>
          (case ql_send Q 0 of
             Some e \<Rightarrow> Some (Inl (''failed to send SessionOpen: '' @ e), [])
           | None \<Rightarrow>
               (let sent = [open_packet query dbConfig encodedParams] in
                case packet_types (dr_Type dbConfig) of
                  None \<Rightarrow> Some (Inl (''unsupported database type: '' @ dr_Type dbConfig), sent)
                | Some (sendType, recvType) \<Rightarrow> execute_loop Q sendType recvType query rs sent '''' 0))))))"

section \<open>The handler\<close>

record query_request =
  qq_Query :: string
  qq_DatabaseID :: int

datatype query_reply = QueryError string nat | QueryReply query_response

text \<open>A failed query is answered with status 200 and the error in the body.\<close>

definition handleExecuteQuery :: "query_libs \<Rightarrow> (string \<Rightarrow> query_request result) \<Rightarrow> error option \<Rightarrow> http_request \<Rightarrow> recv list
    \<Rightarrow> api_db \<Rightarrow> query_reply option" where
  "handleExecuteQuery Q json fault r rs d =
     (if rq_Method r \<noteq> ''POST'' then Some (QueryError ''Method not allowed'' 405)
      else case json (rq_Body r) of
             Inl err \<Rightarrow> Some (QueryError (''Invalid request: '' @ err) 400)
           | Inr req \<Rightarrow>
               if qq_Query req = '''' then Some (QueryError ''Query cannot be empty'' 400)
               else if qq_DatabaseID req = 0 then Some (QueryError ''Database ID is required'' 400)
               else map_option (\<lambda>(res, _). QueryReply (case res of
                      Inr resp \<Rightarrow> resp
                    | Inl err \<Rightarrow> \<lparr>qr_Results = '''', qr_ExitCode = 1, qr_Error = err, qr_Duration = ''''\<rparr>))
                    (executeQuery Q fault (qq_Query req) (qq_DatabaseID req) rs d))"

section \<open>The gateway accepts the API server\<close>

lemma query_metadata_accepted: "validateAuth (Some (query_metadata c)) = Inr ()"
  by (simp add: validateAuth_def getMetadataValue_def query_metadata_def gm_get_def to_lower_def char_lower_def
      has_prefix_def auth_token_def Let_def trim_prefix_def str_contains_def sublist_Cons_right)

text \<open>
  C28: the API server reaches the agent of the database: when this agent is registered, the gateway
  accepts the stream that \<open>executeQuery\<close> opens and selects that agent and no other; when it is not,
  the stream ends with an error and no session is created.
\<close>

theorem query_reaches_database_agent:
  assumes "dr_AgentID c \<noteq> ''''"
  shows "gw_Connect pick st (Some (query_metadata c)) s =
    goto st (case gm_get (gw_agents s) (dr_AgentID c) of
               Some a \<Rightarrow> ClientLookup a
             | None \<Rightarrow> Finished (status_error ''Unavailable''
                         (''requested agent '' @ [CHR 39] @ dr_AgentID c @ [CHR 39] @ '' is not connected'')))
      (s\<lparr>gw_ctx := (gw_ctx s)(st \<mapsto> Some (query_metadata c))\<rparr>)"
proof -
  have "getMetadataValue (query_metadata c) ''origin'' = ''client''"
    "getMetadataValue (query_metadata c) ''agent-id'' = dr_AgentID c"
    by (simp_all add: getMetadataValue_def query_metadata_def gm_get_def to_lower_def char_lower_def)
  with assms show ?thesis
    by (simp add: gw_Connect_def query_metadata_accepted handleClientConnection_def select_agent_def
        split: option.splits)
qed

end
