(* ===== verification/Api_Safety.thy ===== *)
theory Api_Safety
  imports ApiServer
begin

text \<open>
  Correctness of the REST API: every request keeps the schema's constraints, what is created is
  found again, and the errors are reported as the handlers mean them.
\<close>

section \<open>Tables with a unique column\<close>

definition ids_ok :: "('r \<Rightarrow> int) \<Rightarrow> 'r table \<Rightarrow> bool" where
  "ids_ok rid t \<longleftrightarrow> distinct (map rid (tb_rows t)) \<and> (\<forall>r \<in> set (tb_rows t). 0 < rid r \<and> rid r < tb_serial t) \<and>
     0 < tb_serial t"

text \<open>
  A statement's check is sound for a unique column when a row that passes it shares its value with
  no row of another id.
\<close>

definition fresh_in :: "('r \<Rightarrow> int) \<Rightarrow> ('r \<Rightarrow> 'k) \<Rightarrow> 'r table \<Rightarrow> 'r \<Rightarrow> bool" where
  "fresh_in rid key t r \<longleftrightarrow> (\<forall>x \<in> set (tb_rows t). rid x \<noteq> rid r \<longrightarrow> key x \<noteq> key r)"

locale unique_column =
  fixes rid :: "'r \<Rightarrow> int" and key :: "'r \<Rightarrow> 'k" and check :: "'d \<Rightarrow> 'r \<Rightarrow> error option" and tab :: "'d \<Rightarrow> 'r table"
  assumes check_sound: "check d r = None \<Longrightarrow> fresh_in rid key (tab d) r"
begin

definition keys_ok :: "'r table \<Rightarrow> bool" where
  "keys_ok t \<longleftrightarrow> ids_ok rid t \<and> distinct (map key (tb_rows t))"

lemma keys_ok_insert:
  assumes "keys_ok (tab d)" "\<And>i. rid (mk i) = i"
  shows "keys_ok (snd (insert_row fault drawn mk (check d) (tab d)))"
proof -
  let ?t = "tab d" and ?r = "mk (tb_serial (tab d))"
  have old: "\<forall>x \<in> set (tb_rows ?t). rid x < tb_serial ?t" using assms(1) by (simp add: keys_ok_def ids_ok_def)
  then have new: "rid ?r \<notin> rid ` set (tb_rows ?t)" using assms(2) by fastforce
  have "key ?r \<notin> key ` set (tb_rows ?t)" if "check d ?r = None"
  proof
    assume "key ?r \<in> key ` set (tb_rows ?t)"
    then obtain x where x: "x \<in> set (tb_rows ?t)" "key x = key ?r" by (metis imageE)
    with new have "rid x \<noteq> rid ?r" by (metis imageI)
    with check_sound [OF that] x show False by (simp add: fresh_in_def)
  qed
  with new old assms show ?thesis
    by (auto simp: insert_row_def Let_def keys_ok_def ids_ok_def split: option.splits)
qed

lemma keys_ok_map:
  assumes "keys_ok t" "find_row rid i t = Some r" "\<And>x. rid (f x) = rid x" "fresh_in rid key t (f r)"
  shows "keys_ok (t\<lparr>tb_rows := map (\<lambda>x. if rid x = i then f x else x) (tb_rows t)\<rparr>)"
proof -
  have r: "r \<in> set (tb_rows t)" "rid r = i" using assms(2) by (auto simp: find_row_def find_Some_iff)
  have only: "x = r" if "x \<in> set (tb_rows t)" "rid x = i" for x
    using that r assms(1) by (auto simp: keys_ok_def ids_ok_def distinct_map inj_on_def)
  let ?g = "\<lambda>x. if rid x = i then f x else x"
  have ids: "map rid (map ?g (tb_rows t)) = map rid (tb_rows t)" using assms(3) by simp
  have "distinct (tb_rows t)" "inj_on key (set (tb_rows t))"
    using assms(1) by (auto simp: keys_ok_def ids_ok_def distinct_map)
  moreover have "inj_on (\<lambda>x. key (?g x)) (set (tb_rows t))"
  proof (rule inj_onI)
    fix x y assume xy: "x \<in> set (tb_rows t)" "y \<in> set (tb_rows t)" "key (?g x) = key (?g y)"
    have other: "key z \<noteq> key (f r)" if "z \<in> set (tb_rows t)" "rid z \<noteq> i" for z
      using that assms(3,4) r(2) by (simp add: fresh_in_def)
    consider "rid x = i" "rid y = i" | "rid x = i" "rid y \<noteq> i" | "rid x \<noteq> i" "rid y = i" | "rid x \<noteq> i" "rid y \<noteq> i"
      by blast
    then show "x = y"
    proof cases
      case 1
      then show ?thesis using only xy(1,2) by metis
    next
      case 2
      then show ?thesis using only [OF xy(1)] other [OF xy(2)] xy(3) by simp
    next
      case 3
      then show ?thesis using only [OF xy(2)] other [OF xy(1)] xy(3) by simp
    next
      case 4
      then show ?thesis using xy \<open>inj_on key (set (tb_rows t))\<close> by (simp add: inj_on_def)
    qed
  qed
  ultimately have "distinct (map key (map ?g (tb_rows t)))" by (simp add: distinct_map comp_def)
  moreover have "distinct (map rid (map ?g (tb_rows t)))" "\<forall>x \<in> set (map ?g (tb_rows t)). 0 < rid x \<and> rid x < tb_serial t"
    "0 < tb_serial t"
    using assms(1,3) unfolding ids by (auto simp: keys_ok_def ids_ok_def)
  ultimately show ?thesis by (simp add: keys_ok_def ids_ok_def)
qed

lemma keys_ok_update:
  assumes "keys_ok (tab d)" "\<And>x. rid (f x) = rid x" "\<And>r r'. chk r r' = None \<Longrightarrow> check d r' = None"
  shows "keys_ok (snd (update_row fault rid i f chk (tab d)))"
  using assms keys_ok_map [OF assms(1) _ assms(2)] check_sound [OF assms(3)]
  by (auto simp: update_row_def split: option.splits)

lemma keys_ok_filter: "keys_ok t \<Longrightarrow> keys_ok (t\<lparr>tb_rows := filter P (tb_rows t)\<rparr>)"
  by (auto simp: keys_ok_def ids_ok_def distinct_map_filter)

lemma keys_ok_delete: "keys_ok t \<Longrightarrow> keys_ok (snd (delete_row fault rid i t))"
  using keys_ok_filter by (auto simp: delete_row_def split: option.splits)

end

interpretation usernames: unique_column u_ID u_Username "check_user msg" "\<lambda>t. t"
  by unfold_locales (auto simp: check_user_def fresh_in_def list_ex_iff Let_def split: if_splits)

interpretation emails: unique_column u_ID u_Email "check_user msg" "\<lambda>t. t"
  by unfold_locales (auto simp: check_user_def fresh_in_def list_ex_iff Let_def split: if_splits)

interpretation agent_ids: unique_column ar_ID ar_AgentID "\<lambda>d. check_agent msg (db_agents d)" db_agents
  by unfold_locales (auto simp: check_agent_def fresh_in_def list_ex_iff split: if_splits)

interpretation database_names: unique_column dr_ID dr_DatabaseName "check_database msg" db_databases
  by unfold_locales (auto simp: check_database_def fresh_in_def list_ex_iff split: if_splits)

section \<open>The schema\<close>

definition users_ok :: "user table \<Rightarrow> bool" where
  "users_ok t \<longleftrightarrow> ids_ok u_ID t \<and> distinct (map u_Username (tb_rows t)) \<and> distinct (map u_Email (tb_rows t)) \<and>
     (\<forall>u \<in> set (tb_rows t). u_Username u \<noteq> '''' \<and> u_Email u \<noteq> '''' \<and> u_Teamname u \<noteq> '''')"

definition agents_ok :: "agent_row table \<Rightarrow> bool" where
  "agents_ok t \<longleftrightarrow> ids_ok ar_ID t \<and> distinct (map ar_AgentID (tb_rows t)) \<and>
     (\<forall>a \<in> set (tb_rows t). ar_AgentID a \<noteq> '''' \<and> ar_Name a \<noteq> '''')"

definition databases_ok :: "database_row table \<Rightarrow> bool" where
  "databases_ok t \<longleftrightarrow> ids_ok dr_ID t \<and> distinct (map dr_DatabaseName (tb_rows t)) \<and>
     (\<forall>x \<in> set (tb_rows t). dr_Type x \<in> set valid_types)"

definition refers :: "database_row table \<Rightarrow> agent_row table \<Rightarrow> bool" where
  "refers ds as \<longleftrightarrow> dr_AgentID ` set (tb_rows ds) \<subseteq> ar_AgentID ` set (tb_rows as)"

definition schema_ok :: "api_db \<Rightarrow> bool" where
  "schema_ok d \<longleftrightarrow> users_ok (db_users d) \<and> agents_ok (db_agents d) \<and> databases_ok (db_databases d) \<and>
     refers (db_databases d) (db_agents d)"

lemma schema_okI:
  "schema_ok d \<Longrightarrow> users_ok t \<Longrightarrow> schema_ok (d\<lparr>db_users := t\<rparr>)"
  "schema_ok d \<Longrightarrow> agents_ok a \<Longrightarrow> refers (db_databases d) a \<Longrightarrow> schema_ok (d\<lparr>db_agents := a\<rparr>)"
  "schema_ok d \<Longrightarrow> databases_ok b \<Longrightarrow> refers b (db_agents d) \<Longrightarrow> schema_ok (d\<lparr>db_databases := b\<rparr>)"
  by (auto simp: schema_ok_def)

text \<open>The rows after an insert, an update and a delete.\<close>

lemma insert_row_rows:
  "set (tb_rows (snd (insert_row fault drawn mk check t))) \<subseteq> insert (mk (tb_serial t)) (set (tb_rows t))"
  "set (tb_rows t) \<subseteq> set (tb_rows (snd (insert_row fault drawn mk check t)))"
  by (auto simp: insert_row_def Let_def split: option.splits)

lemma update_row_rows:
  "x \<in> set (tb_rows (snd (update_row fault rid i f check t))) \<Longrightarrow>
     x \<in> set (tb_rows t) \<or> (\<exists>y \<in> set (tb_rows t). rid y = i \<and> x = f y)"
  by (auto simp: update_row_def split: option.splits if_splits)

lemma update_row_checked:
  assumes "x \<in> set (tb_rows (snd (update_row fault rid i f check t)))" "distinct (map rid (tb_rows t))"
  shows "x \<in> set (tb_rows t) \<or> (\<exists>y. find_row rid i t = Some y \<and> x = f y \<and> check y x = None)"
proof (cases "find_row rid i t")
  case (Some y)
  then have "z = y" if "z \<in> set (tb_rows t)" "rid z = i" for z
    using that assms(2) by (auto simp: find_row_def find_Some_iff distinct_map inj_on_def)
  with Some assms(1) show ?thesis by (auto simp: update_row_def split: option.splits if_splits)
qed (use assms(1) in \<open>auto simp: update_row_def split: option.splits\<close>)

lemma user_set_fields:
  "u_ID (fold set_user (user_updates q) u) = u_ID u"
  "u_Username u \<noteq> '''' \<Longrightarrow> u_Username (fold set_user (user_updates q) u) \<noteq> ''''"
  "u_Email u \<noteq> '''' \<Longrightarrow> u_Email (fold set_user (user_updates q) u) \<noteq> ''''"
  "u_Teamname u \<noteq> '''' \<Longrightarrow> u_Teamname (fold set_user (user_updates q) u) \<noteq> ''''"
  by (simp_all add: user_updates_def set_user_def)

lemma agent_set_fields:
  "ar_ID (fold set_agent (agent_updates q) a) = ar_ID a"
  "ar_AgentID a \<noteq> '''' \<Longrightarrow> ar_AgentID (fold set_agent (agent_updates q) a) \<noteq> ''''"
  "ar_Name a \<noteq> '''' \<Longrightarrow> ar_Name (fold set_agent (agent_updates q) a) \<noteq> ''''"
  by (simp_all add: agent_updates_def set_agent_def)

lemma users_ok_keys:
  "users_ok t \<longleftrightarrow> usernames.keys_ok t \<and> emails.keys_ok t \<and>
     (\<forall>u \<in> set (tb_rows t). u_Username u \<noteq> '''' \<and> u_Email u \<noteq> '''' \<and> u_Teamname u \<noteq> '''')"
  by (auto simp: users_ok_def usernames.keys_ok_def emails.keys_ok_def)

lemma users_ok_insert:
  assumes "users_ok t" "\<And>i. u_ID (mk i) = i" "\<And>i. u_Username (mk i) \<noteq> '''' \<and> u_Email (mk i) \<noteq> '''' \<and> u_Teamname (mk i) \<noteq> ''''"
  shows "users_ok (snd (insert_row fault drawn mk (check_user msg t) t))"
  unfolding users_ok_keys
  using assms usernames.keys_ok_insert [of t mk fault drawn msg] emails.keys_ok_insert [of t mk fault drawn msg]
    insert_row_rows(1) [of fault drawn mk "check_user msg t" t]
  by (auto simp: users_ok_keys)

lemma users_ok_update:
  assumes "users_ok t"
  shows "users_ok (snd (update_row fault u_ID i (\<lambda>u. (fold set_user (user_updates q) u)\<lparr>u_UpdatedAt := now\<rparr>)
    (\<lambda>_. check_user msg t) t))"
  unfolding users_ok_keys
proof (intro conjI ballI)
  let ?f = "\<lambda>u. (fold set_user (user_updates q) u)\<lparr>u_UpdatedAt := now\<rparr>"
  show "usernames.keys_ok (snd (update_row fault u_ID i ?f (\<lambda>_. check_user msg t) t))"
    using assms by (intro usernames.keys_ok_update) (auto simp: users_ok_keys user_set_fields)
  show "emails.keys_ok (snd (update_row fault u_ID i ?f (\<lambda>_. check_user msg t) t))"
    using assms by (intro emails.keys_ok_update) (auto simp: users_ok_keys user_set_fields)
  fix u assume "u \<in> set (tb_rows (snd (update_row fault u_ID i ?f (\<lambda>_. check_user msg t) t)))"
  with update_row_rows [OF this] assms
  show "u_Username u \<noteq> ''''" "u_Email u \<noteq> ''''" "u_Teamname u \<noteq> ''''"
    by (auto simp: users_ok_keys user_set_fields)
qed

lemma users_ok_delete: "users_ok t \<Longrightarrow> users_ok (snd (delete_row fault u_ID i t))"
  using usernames.keys_ok_delete emails.keys_ok_delete
  by (auto simp: users_ok_keys delete_row_def split: option.splits)

lemma agents_ok_keys:
  "agents_ok t \<longleftrightarrow> agent_ids.keys_ok t \<and> (\<forall>a \<in> set (tb_rows t). ar_AgentID a \<noteq> '''' \<and> ar_Name a \<noteq> '''')"
  by (auto simp: agents_ok_def agent_ids.keys_ok_def)

lemma agents_ok_insert:
  assumes "agents_ok (db_agents d)" "\<And>i. ar_ID (mk i) = i" "\<And>i. ar_AgentID (mk i) \<noteq> '''' \<and> ar_Name (mk i) \<noteq> ''''"
  shows "agents_ok (snd (insert_row fault drawn mk (check_agent msg (db_agents d)) (db_agents d)))"
  unfolding agents_ok_keys
  using assms agent_ids.keys_ok_insert [of d mk fault drawn msg]
    insert_row_rows(1) [of fault drawn mk "check_agent msg (db_agents d)" "db_agents d"]
  by (auto simp: agents_ok_keys)

lemma check_agent_update_None:
  "check_agent_update msg d old new = None \<Longrightarrow>
     check_agent msg (db_agents d) new = None \<and>
     (ar_AgentID new = ar_AgentID old \<or> (\<forall>x \<in> set (tb_rows (db_databases d)). dr_AgentID x \<noteq> ar_AgentID old))"
  by (auto simp: check_agent_update_def list_ex_iff split: option.splits if_splits)

lemma agents_ok_update:
  assumes "schema_ok d"
  and t_def: "t = snd (update_row fault ar_ID i (\<lambda>a. (fold set_agent (agent_updates q) a)\<lparr>ar_UpdatedAt := now\<rparr>)
    (check_agent_update msg d) (db_agents d))"
  shows "agents_ok t \<and> refers (db_databases d) t"
proof -
  let ?f = "\<lambda>a. (fold set_agent (agent_updates q) a)\<lparr>ar_UpdatedAt := now\<rparr>"
  have ok: "agents_ok (db_agents d)" "refers (db_databases d) (db_agents d)" using assms(1) by (auto simp: schema_ok_def)
  have "agent_ids.keys_ok t"
    unfolding t_def using ok(1)
    by (intro agent_ids.keys_ok_update) (auto simp: agents_ok_keys agent_set_fields dest: check_agent_update_None)
  moreover have "ar_AgentID a \<noteq> '''' \<and> ar_Name a \<noteq> ''''" if "a \<in> set (tb_rows t)" for a
    using update_row_rows [OF that [unfolded t_def]] ok(1) by (auto simp: agents_ok_keys agent_set_fields)
  moreover have "refers (db_databases d) t"
    unfolding refers_def
  proof
    fix s assume "s \<in> dr_AgentID ` set (tb_rows (db_databases d))"
    then obtain x where x: "x \<in> set (tb_rows (db_databases d))" "s = dr_AgentID x" by blast
    then obtain a where a: "a \<in> set (tb_rows (db_agents d))" "s = ar_AgentID a" using ok(2) by (auto simp: refers_def)
    show "s \<in> ar_AgentID ` set (tb_rows t)"
    proof (cases "fst (update_row fault ar_ID i ?f (check_agent_update msg d) (db_agents d))")
      case (Inl e)
      then have "t = db_agents d" by (auto simp: t_def update_row_def split: option.splits)
      then show ?thesis using a by simp
    next
      case (Inr r)
      then obtain y where y: "find_row ar_ID i (db_agents d) = Some y" "check_agent_update msg d y (?f y) = None"
        "t = (db_agents d)\<lparr>tb_rows := map (\<lambda>x. if ar_ID x = i then ?f x else x) (tb_rows (db_agents d))\<rparr>"
        by (auto simp: t_def update_row_def split: option.splits)
      have "a = y" if "ar_ID a = i"
        using that a(1) y(1) ok(1) by (auto simp: find_row_def find_Some_iff agents_ok_def ids_ok_def distinct_map inj_on_def)
      then have "ar_AgentID (?f a) = s" if "ar_ID a = i"
        using that check_agent_update_None [OF y(2)] x a(2) by metis
      then have "ar_AgentID (if ar_ID a = i then ?f a else a) = s" using a(2) by simp
      moreover have "(if ar_ID a = i then ?f a else a) \<in> set (tb_rows t)" using a(1) y(3) by simp
      ultimately show ?thesis by (rule rev_image_eqI [rotated, OF sym])
    qed
  qed
  ultimately show ?thesis by (auto simp: agents_ok_keys)
qed

lemma agent_delete_ok:
  assumes "schema_ok d"
  shows "schema_ok (snd (delete_agent fault i d))"
proof (cases fault)
  case (Some e)
  then show ?thesis using assms by (simp add: delete_agent_def delete_row_def)
next
  case None
  have "\<exists>a \<in> set (tb_rows (db_agents d)). ar_ID a \<noteq> i \<and> dr_AgentID x = ar_AgentID a"
    if x: "x \<in> set (tb_rows (db_databases d))" and
      n: "dr_AgentID x \<notin> ar_AgentID ` {r \<in> set (tb_rows (db_agents d)). ar_ID r = i}" for x
  proof -
    obtain a where "a \<in> set (tb_rows (db_agents d))" "dr_AgentID x = ar_AgentID a"
      using assms x by (auto simp: schema_ok_def refers_def)
    with n show ?thesis by blast
  qed
  then have "refers (db_databases (snd (delete_agent fault i d))) (db_agents (snd (delete_agent fault i d)))"
    using None by (auto simp: delete_agent_def delete_row_def refers_def Let_def)
  with assms None show ?thesis
    by (auto simp: delete_agent_def delete_row_def schema_ok_def agents_ok_def databases_ok_def ids_ok_def
        Let_def distinct_map_filter)
qed

lemma databases_ok_keys:
  "databases_ok t \<longleftrightarrow> database_names.keys_ok t \<and> (\<forall>x \<in> set (tb_rows t). dr_Type x \<in> set valid_types)"
  by (auto simp: databases_ok_def database_names.keys_ok_def)

lemma check_database_None:
  "check_database msg d r = None \<Longrightarrow> dr_Type r \<in> set valid_types \<and> dr_AgentID r \<in> ar_AgentID ` set (tb_rows (db_agents d))"
  by (auto simp: check_database_def list_ex_iff image_iff eq_commute [of "dr_AgentID r"] split: if_splits)

lemma databases_ok_rows:
  assumes "schema_ok d" "database_names.keys_ok t"
    "\<And>x. x \<in> set (tb_rows t) \<Longrightarrow> x \<in> set (tb_rows (db_databases d)) \<or> check_database msg d x = None"
  shows "databases_ok t \<and> refers t (db_agents d)"
proof -
  have "dr_Type x \<in> set valid_types \<and> dr_AgentID x \<in> ar_AgentID ` set (tb_rows (db_agents d))"
    if "x \<in> set (tb_rows t)" for x
    using assms(3) [OF that]
  proof
    assume "x \<in> set (tb_rows (db_databases d))"
    then show ?thesis using assms(1) by (auto simp: schema_ok_def databases_ok_def refers_def)
  qed (rule check_database_None)
  with assms(2) show ?thesis by (auto simp: databases_ok_keys refers_def)
qed

lemma databases_ok_insert:
  assumes "schema_ok d" "\<And>i. dr_ID (mk i) = i"
  and t_def: "t = snd (insert_row fault drawn mk (check_database msg d) (db_databases d))"
  shows "databases_ok t \<and> refers t (db_agents d)"
proof -
  have rows: "x \<in> set (tb_rows (db_databases d)) \<or> check_database msg d x = None" if "x \<in> set (tb_rows t)" for x
    using that by (auto simp: t_def insert_row_def Let_def split: option.splits if_splits)
  have "database_names.keys_ok t"
    using assms(1,2) unfolding t_def
    by (intro database_names.keys_ok_insert) (auto simp: schema_ok_def databases_ok_keys)
  from databases_ok_rows [OF assms(1) this rows] show ?thesis .
qed

lemma databases_ok_update:
  assumes "schema_ok d" "\<And>x. dr_ID (f x) = dr_ID x"
  and t_def: "t = snd (update_row fault dr_ID i f (\<lambda>_. check_database msg d) (db_databases d))"
  shows "databases_ok t \<and> refers t (db_agents d)"
proof -
  have ids: "distinct (map dr_ID (tb_rows (db_databases d)))"
    using assms(1) by (simp add: schema_ok_def databases_ok_def ids_ok_def)
  have rows: "x \<in> set (tb_rows (db_databases d)) \<or> check_database msg d x = None" if "x \<in> set (tb_rows t)" for x
    using update_row_checked [OF that [unfolded t_def] ids] by auto
  have "database_names.keys_ok t"
    using assms(1,2) unfolding t_def
    by (intro database_names.keys_ok_update) (auto simp: schema_ok_def databases_ok_keys)
  from databases_ok_rows [OF assms(1) this rows] show ?thesis .
qed

lemma databases_ok_delete:
  "schema_ok d \<Longrightarrow> schema_ok (d\<lparr>db_databases := snd (delete_row fault dr_ID i (db_databases d))\<rparr>)"
  by (auto simp: schema_ok_def databases_ok_def ids_ok_def refers_def delete_row_def distinct_map_filter split: option.splits)

section \<open>Every handler keeps the schema\<close>

lemma new_row_ids [simp]:
  "u_ID (new_user L q i) = i" "ar_ID (new_agent L p i) = i" "dr_ID (new_database L r i) = i"
  "dr_ID (set_database L r x) = dr_ID x"
  by (simp_all add: new_user_def new_agent_def new_database_def set_database_def)

lemma create_user_ok:
  assumes "schema_ok d"
  shows "schema_ok (snd (handleCreateUser L fault drawn r d))"
proof -
  have "users_ok t" if "cu_Username q \<noteq> []" "cu_Email q \<noteq> []" "cu_Teamname q \<noteq> []"
    "insert_row fault drawn (new_user L q) (check_user msg (db_users d)) (db_users d) = (res, t)" for q msg res t
    using users_ok_insert [of "db_users d" "new_user L q" fault drawn msg] assms that
    by (auto simp: schema_ok_def new_user_def)
  with assms show ?thesis
    by (auto simp: handleCreateUser_def intro!: schema_okI split: prod.splits sum.splits)
qed

lemma update_user_ok:
  assumes "schema_ok d"
  shows "schema_ok (snd (handleUpdateUser L fault r d))"
proof -
  have "users_ok (db_users d)" using assms by (simp add: schema_ok_def)
  from users_ok_update [OF this] have "users_ok t"
    if "update_row fault u_ID i (\<lambda>u. (fold set_user (user_updates q) u)\<lparr>u_UpdatedAt := now\<rparr>)
      (\<lambda>_. check_user msg (db_users d)) (db_users d) = (res, t)" for i q now msg res t
    using that by (metis snd_conv)
  with assms show ?thesis
    by (auto simp: handleUpdateUser_def intro!: schema_okI split: option.splits prod.splits sum.splits db_error.splits)
qed

lemma delete_user_ok:
  assumes "schema_ok d"
  shows "schema_ok (snd (handleDeleteUser fault r d))"
proof -
  have "users_ok (db_users d)" using assms by (simp add: schema_ok_def)
  from users_ok_delete [OF this] have "users_ok t" if "delete_row fault u_ID i (db_users d) = (res, t)" for i res t
    using that by (metis snd_conv)
  with assms show ?thesis
    by (auto simp: handleDeleteUser_def intro!: schema_okI split: option.splits prod.splits sum.splits)
qed

lemma create_agent_ok:
  assumes "schema_ok d"
  shows "schema_ok (snd (handleCreateAgent L fault drawn r d))"
proof -
  have "agents_ok t" if "ca_AgentID q \<noteq> []" "ca_Name q \<noteq> []"
    "insert_row fault drawn (new_agent L q) (check_agent msg (db_agents d)) (db_agents d) = (res, t)" for q msg res t
    using agents_ok_insert [of d "new_agent L q" fault drawn msg] assms that by (auto simp: schema_ok_def new_agent_def)
  moreover have "refers (db_databases d) t" if "insert_row fault drawn mk chk (db_agents d) = (res, t)" for mk chk res t
  proof -
    have "refers (db_databases d) (db_agents d)" using assms by (simp add: schema_ok_def)
    moreover have "ar_AgentID ` set (tb_rows (db_agents d)) \<subseteq> ar_AgentID ` set (tb_rows t)"
      using insert_row_rows(2) [of "db_agents d" fault drawn mk chk] that by (intro image_mono) simp
    ultimately show ?thesis unfolding refers_def by (rule subset_trans)
  qed
  ultimately show ?thesis
    using assms by (auto simp: handleCreateAgent_def intro!: schema_okI split: prod.splits sum.splits)
qed

lemma update_agent_ok:
  assumes "schema_ok d"
  shows "schema_ok (snd (handleUpdateAgent L fault r d))"
proof -
  have "agents_ok t \<and> refers (db_databases d) t"
    if "update_row fault ar_ID i (\<lambda>a. (fold set_agent (agent_updates q) a)\<lparr>ar_UpdatedAt := now\<rparr>)
      (check_agent_update msg d) (db_agents d) = (res, t)" for i q now msg res t
    using agents_ok_update [OF assms] that by (metis snd_conv)
  with assms show ?thesis
    by (auto simp: handleUpdateAgent_def intro!: schema_okI split: option.splits prod.splits sum.splits db_error.splits)
qed

lemma delete_agent_ok:
  assumes "schema_ok d"
  shows "schema_ok (snd (handleDeleteAgent fault r d))"
proof -
  have "schema_ok d'" if "delete_agent fault i d = (res, d')" for i res d'
    using agent_delete_ok [OF assms] that by (metis snd_conv)
  with assms show ?thesis
    by (auto simp: handleDeleteAgent_def split: option.splits prod.splits sum.splits)
qed

lemma create_database_ok:
  assumes "schema_ok d"
  shows "schema_ok (snd (handleCreateDatabase L fault drawn r d))"
proof -
  have "databases_ok t \<and> refers t (db_agents d)"
    if "insert_row fault drawn mk (check_database msg d) (db_databases d) = (res, t)" "\<And>i. dr_ID (mk i) = i" for mk msg res t
    using databases_ok_insert [OF assms that(2), of t fault drawn msg] that(1) by simp
  with assms show ?thesis
    by (auto simp: handleCreateDatabase_def intro!: schema_okI split: prod.splits sum.splits)
qed

lemma update_database_ok:
  assumes "schema_ok d"
  shows "schema_ok (snd (handleUpdateDatabase L fault r d))"
proof -
  have "databases_ok t \<and> refers t (db_agents d)"
    if "update_row fault dr_ID i f (\<lambda>_. check_database msg d) (db_databases d) = (res, t)" "\<And>x. dr_ID (f x) = dr_ID x"
    for i f msg res t
    using databases_ok_update [OF assms that(2), of t fault i msg] that(1) by simp
  with assms show ?thesis
    by (auto simp: handleUpdateDatabase_def intro!: schema_okI split: option.splits prod.splits sum.splits db_error.splits)
qed

lemma delete_database_ok:
  assumes "schema_ok d"
  shows "schema_ok (snd (handleDeleteDatabase fault r d))"
proof -
  have "schema_ok (d\<lparr>db_databases := t\<rparr>)" if "delete_row fault dr_ID i (db_databases d) = (res, t)" for i res t
    using databases_ok_delete [OF assms] that by (metis snd_conv)
  with assms show ?thesis
    by (auto simp: handleDeleteDatabase_def split: option.splits prod.splits sum.splits)
qed

lemma get_keeps:
  "snd (handleGetUsers fault r d) = d" "snd (handleGetUser fault r d) = d"
  "snd (handleGetAgents L fault r d) = d" "snd (handleGetAgent L fault r d) = d"
  "snd (handleGetDatabases L fault r d) = d" "snd (handleGetDatabase L fault r d) = d"
  by (auto simp: handleGetUsers_def handleGetUser_def handleGetAgents_def handleGetAgent_def
      handleGetDatabases_def handleGetDatabase_def split: sum.splits option.splits db_error.splits)

lemmas handlers_ok = create_user_ok update_user_ok delete_user_ok create_agent_ok update_agent_ok delete_agent_ok
  create_database_ok update_database_ok delete_database_ok

lemma keeps_if_option: "pred_option Q x \<Longrightarrow> pred_option Q y \<Longrightarrow> pred_option Q (if c then x else y)"
  by simp

lemma keeps_if_pair: "schema_ok (snd x) \<Longrightarrow> schema_ok (snd y) \<Longrightarrow> schema_ok (snd (if c then x else y))"
  by simp

lemma keeps_Some: "schema_ok (snd x) \<Longrightarrow> pred_option (\<lambda>p. schema_ok (snd p)) (Some x)"
  by simp

text \<open>
  C11: every request to the users, agents and databases endpoints keeps the constraints of the schema,
  whatever the request and whatever fault strikes: ids, user names, e-mail addresses, agent ids and
  database names stay unique, the required fields of users and agents stay filled, database types
  stay valid and every database belongs to an existing agent, also after its agent is deleted.
\<close>

theorem api_keeps_schema:
  assumes "schema_ok d" "api_route L fault drawn r d = Some (resp, d')"
  shows "schema_ok d'"
proof -
  have "pred_option (\<lambda>p. schema_ok (snd p)) (api_route L fault drawn r d)"
    unfolding api_route_def Let_def
    by (intro keeps_if_option keeps_if_pair keeps_Some handlers_ok [OF assms(1)]) (simp_all only: get_keeps snd_conv option.pred_inject assms(1))
  with assms(2) show ?thesis by simp
qed

section \<open>What is created is found\<close>

lemma path_id_append:
  assumes "p = ''/api/users/'' \<or> p = ''/api/agents/''" "0 \<le> i" "i < 2 ^ 63"
  shows "path_id (p @ itoa i) = Some i"
proof -
  have "CHR ''/'' \<notin> set (itoa i)"
    using assms(2) nat_dec_digits [of "CHR ''/''" "nat i"] by (auto simp: itoa_def digit_val_def)
  then have "str_split ''/'' (itoa i) = [itoa i]" by (rule str_split_char_none)
  moreover have "str_split ''/'' (''/api/users/'' @ itoa i) = '''' # ''api'' # ''users'' # str_split ''/'' (itoa i)"
    using str_split_char [of "CHR ''/''" "''''" "''api/users/'' @ itoa i"]
      str_split_char [of "CHR ''/''" "''api''" "''users/'' @ itoa i"]
      str_split_char [of "CHR ''/''" "''users''" "itoa i"] by simp
  moreover have "str_split ''/'' (''/api/agents/'' @ itoa i) = '''' # ''api'' # ''agents'' # str_split ''/'' (itoa i)"
    using str_split_char [of "CHR ''/''" "''''" "''api/agents/'' @ itoa i"]
      str_split_char [of "CHR ''/''" "''api''" "''agents/'' @ itoa i"]
      str_split_char [of "CHR ''/''" "''agents''" "itoa i"] by simp
  moreover have "atoi (itoa i) = Some i" using assms(2,3) by (intro atoi_itoa) auto
  ultimately show ?thesis using assms(1) by (auto simp: path_id_def Let_def)
qed

lemma find_append: "find P (xs @ ys) = (case find P xs of None \<Rightarrow> find P ys | Some x \<Rightarrow> Some x)"
  by (induction xs) auto

lemma insert_row_Inr:
  assumes "insert_row fault drawn mk check t = (Inr r, t')" "ids_ok rid t" "\<And>i. rid (mk i) = i"
  shows "r = mk (tb_serial t) \<and> rid r = tb_serial t \<and> find_row rid (tb_serial t) t' = Some r \<and>
    tb_rows t' = tb_rows t @ [r]"
proof -
  have t': "t' = \<lparr>tb_rows = tb_rows t @ [r], tb_serial = tb_serial t + 1\<rparr>" "r = mk (tb_serial t)"
    using assms(1) by (auto simp: insert_row_def Let_def split: option.splits)
  have "find (\<lambda>x. rid x = tb_serial t) (tb_rows t) = None"
    using assms(2) by (auto simp: find_None_iff ids_ok_def)
  then have "find (\<lambda>x. rid x = tb_serial t) (tb_rows t @ [r]) = Some r"
    using assms(3) t'(2) by (simp add: find_append)
  with t' assms(3) show ?thesis by (simp add: find_row_def)
qed

lemma find_row_deleted:
  "find_row rid i (t\<lparr>tb_rows := filter (\<lambda>r. rid r \<noteq> i) (tb_rows t)\<rparr>) = None"
  by (auto simp: find_row_def find_None_iff)

lemma create_user_201:
  assumes "handleCreateUser L fault drawn r d = (resp, d')" "rs_status resp = 201"
  shows "\<exists>q u t. insert_row fault drawn (new_user L q) (check_user (ap_msg L) (db_users d)) (db_users d) = (Inr u, t) \<and>
    resp = respond 201 (OneUser u) \<and> d' = d\<lparr>db_users := t\<rparr>"
proof (cases "ap_json_user L (rq_Body r)")
  case (Inl e)
  with assms show ?thesis by (auto simp: handleCreateUser_def split: if_splits)
next
  case (Inr q)
  obtain res t where i: "insert_row fault drawn (new_user L q) (check_user (ap_msg L) (db_users d)) (db_users d) = (res, t)"
    by fastforce
  with assms Inr show ?thesis by (cases res) (auto simp: handleCreateUser_def split: if_splits intro!: exI [of _ q])
qed

text \<open>
  C29: the life of a user: after a request to create one has been answered with 201, a GET of the path
  with its id returns the same user, a DELETE of this path removes it and says so, and a GET after
  that finds nothing, as long as no statement fails.
\<close>

theorem api_user_life_cycle:
  assumes "schema_ok d" "tb_serial (db_users d) < 2 ^ 31" "handleCreateUser L fault drawn r d = (resp, d')"
    "rs_status resp = 201"
    "get = \<lparr>rq_Method = ''GET'', rq_Path = ''/api/users/'' @ itoa (tb_serial (db_users d)), rq_Body = ''''\<rparr>"
  shows "\<exists>u d''. rs_body resp = OneUser u \<and> u_ID u = tb_serial (db_users d) \<and>
    handleGetUser None get d' = (respond 200 (OneUser u), d') \<and>
    handleDeleteUser None (get\<lparr>rq_Method := ''DELETE''\<rparr>) d' = (respond 200 (Message ''User deleted successfully''), d'') \<and>
    handleGetUser None get d'' = (json_Error 404 ''User not found'', d'')"
proof -
  have ids: "ids_ok u_ID (db_users d)" using assms(1) by (simp add: schema_ok_def users_ok_def)
  obtain q t u where
    ins: "insert_row fault drawn (new_user L q) (check_user (ap_msg L) (db_users d)) (db_users d) = (Inr u, t)"
    and res: "resp = respond 201 (OneUser u)" "d' = d\<lparr>db_users := t\<rparr>"
    using create_user_201 [OF assms(3,4)] by blast
  note u = insert_row_Inr [OF ins ids new_row_ids(1)]
  have i: "path_id (rq_Path get) = Some (tb_serial (db_users d))"
    using path_id_append [of "''/api/users/''"] assms(2,5) ids by (simp add: ids_ok_def)
  have rows: "filter (\<lambda>r. u_ID r = tb_serial (db_users d)) (tb_rows t) \<noteq> []"
    using u by (auto simp: filter_empty_conv)
  have m: "rq_Method get = ''GET''" by (simp add: assms(5))
  let ?d = "d'\<lparr>db_users := t\<lparr>tb_rows := filter (\<lambda>r. u_ID r \<noteq> tb_serial (db_users d)) (tb_rows t)\<rparr>\<rparr>"
  have t: "db_users d' = t" by (simp add: res)
  have "handleGetUser None get d' = (respond 200 (OneUser u), d')"
    using u by (simp add: handleGetUser_def m i t db_query_row_def)
  moreover have "handleDeleteUser None (get\<lparr>rq_Method := ''DELETE''\<rparr>) d' =
      (respond 200 (Message ''User deleted successfully''), ?d)"
    using rows by (simp add: handleDeleteUser_def i t delete_row_def)
  moreover have "handleGetUser None get ?d = (json_Error 404 ''User not found'', ?d)"
    by (simp add: handleGetUser_def m i db_query_row_def find_row_deleted)
  ultimately show ?thesis using u res(1) by (intro exI [of _ u] exI [of _ ?d]) simp
qed

lemma find_row_in:
  assumes "ids_ok rid t" "r \<in> set (tb_rows t)"
  shows "find_row rid (rid r) t = Some r"
proof (cases "find_row rid (rid r) t")
  case None
  with assms(2) show ?thesis by (auto simp: find_row_def find_None_iff)
next
  case (Some x)
  then have "x \<in> set (tb_rows t)" "rid x = rid r" by (auto simp: find_row_def find_Some_iff)
  with assms Some show ?thesis by (auto simp: ids_ok_def distinct_map inj_on_def)
qed

lemma sorted_neg_rev: "sorted (map (\<lambda>a. - (c a :: int)) (rev xs)) = sorted (map c xs)"
  by (induction xs) (auto simp: sorted_append)

lemma get_agent_200:
  "handleGetAgent L None r d = (respond 200 (OneAgent a), d) \<longleftrightarrow>
     rq_Method r = ''GET'' \<and> (\<exists>i. path_id (rq_Path r) = Some i \<and>
       (\<exists>x. find_row ar_ID i (db_agents d) = Some x \<and> a = \<lparr>ag_row = x, ag_Status = agent_status L x\<rparr>))"
  by (auto simp: handleGetAgent_def db_query_row_def split: option.splits)

text \<open>
  C30: the two ways to read agents agree: the list contains exactly the agents that a GET by id
  returns, each with the same fields and the same status, ordered from the newest to the oldest.
\<close>

theorem api_agent_list_agrees:
  assumes "schema_ok d" "tb_serial (db_agents d) \<le> 2 ^ 31" "rq_Method r = ''GET''"
  shows "\<exists>as. handleGetAgents L None r d = (respond 200 (Agents as), d) \<and>
    sorted (map (\<lambda>a. - ar_CreatedAt (ag_row a)) as) \<and> length as = length (tb_rows (db_agents d)) \<and>
    (\<forall>a. a \<in> set as \<longleftrightarrow>
       handleGetAgent L None \<lparr>rq_Method = ''GET'', rq_Path = ''/api/agents/'' @ itoa (ar_ID (ag_row a)), rq_Body = ''''\<rparr> d =
         (respond 200 (OneAgent a), d))"
proof -
  let ?rows = "tb_rows (db_agents d)"
  let ?f = "\<lambda>a. \<lparr>ag_row = a, ag_Status = agent_status L a\<rparr>"
  let ?as = "map ?f (order_desc ar_CreatedAt ?rows)"
  have ids: "ids_ok ar_ID (db_agents d)" using assms(1) by (simp add: schema_ok_def agents_ok_def)
  have "sorted (map (\<lambda>a. - ar_CreatedAt (ag_row a)) ?as)"
    by (simp add: order_desc_def comp_def sorted_neg_rev)
  moreover have "a \<in> set ?as \<longleftrightarrow> handleGetAgent L None
      \<lparr>rq_Method = ''GET'', rq_Path = ''/api/agents/'' @ itoa (ar_ID (ag_row a)), rq_Body = []\<rparr> d =
      (respond 200 (OneAgent a), d)" (is "_ = (handleGetAgent L None ?r d = _)") for a
  proof
    assume "a \<in> set ?as"
    then obtain x where x: "x \<in> set ?rows" "a = ?f x" by (auto simp: order_desc_def)
    then have "0 < ar_ID x" "ar_ID x < 2 ^ 31" using ids assms(2) by (auto simp: ids_ok_def)
    then have "path_id (rq_Path ?r) = Some (ar_ID x)"
      using path_id_append [of "''/api/agents/''" "ar_ID x"] x(2) by simp
    with x show "handleGetAgent L None ?r d = (respond 200 (OneAgent a), d)"
      unfolding get_agent_200 using find_row_in [OF ids x(1)] by auto
  next
    assume "handleGetAgent L None ?r d = (respond 200 (OneAgent a), d)"
    then obtain x i where "find_row ar_ID i (db_agents d) = Some x" "a = ?f x"
      unfolding get_agent_200 by blast
    then show "a \<in> set ?as" by (auto simp: order_desc_def find_row_def find_Some_iff)
  qed
  moreover have "handleGetAgents L None r d = (respond 200 (Agents ?as), d)"
    by (simp add: handleGetAgents_def assms(3) db_query_def)
  ultimately show ?thesis by (intro exI [of _ ?as]) (simp add: order_desc_def)
qed

section \<open>Errors\<close>

text \<open>
  What the handlers rely on of the driver's messages: a violated unique constraint is reported as a
  duplicate key, with the name of the constraint, and that of the e-mail column does not speak of
  user names.
\<close>

definition reports_duplicates :: "(violation \<Rightarrow> error) \<Rightarrow> bool" where
  "reports_duplicates msg \<longleftrightarrow>
     (\<forall>c. str_contains (msg (UniqueKey c)) ''duplicate key'' \<and> str_contains (msg (UniqueKey c)) c) \<and>
     \<not> str_contains (msg (UniqueKey ''users_email_key'')) ''username''"

lemma str_contains_trans: "str_contains s t \<Longrightarrow> str_contains t u \<Longrightarrow> str_contains s u"
  unfolding str_contains_def by (rule sublist_order.order_trans)

lemma user_error_duplicate:
  assumes "reports_duplicates msg"
  shows "user_error e (msg (UniqueKey ''users_username_key'')) = ''Username already exists''"
    and "user_error e (msg (UniqueKey ''users_email_key'')) = ''Email already exists''"
proof -
  have c: "str_contains (msg (UniqueKey k)) ''duplicate key''" "str_contains (msg (UniqueKey k)) k" for k
    using assms by (auto simp: reports_duplicates_def)
  have "str_contains ''users_username_key'' ''username''" "str_contains ''users_email_key'' ''email''"
    by (simp_all add: str_contains_def sublist_Cons_right)
  with c str_contains_trans
  have n: "str_contains (msg (UniqueKey ''users_username_key'')) ''username''"
    "str_contains (msg (UniqueKey ''users_email_key'')) ''email''" by blast+
  show "user_error e (msg (UniqueKey ''users_username_key'')) = ''Username already exists''"
    using c(1) n(1) by (simp add: user_error_def contains_duplicate_def)
  show "user_error e (msg (UniqueKey ''users_email_key'')) = ''Email already exists''"
    using c(1) n(2) assms by (simp add: user_error_def contains_duplicate_def reports_duplicates_def)
qed

text \<open>
  A second user with the same name or e-mail address is refused with status 400 and a message that
  says which of the two is taken (the name first), and no row is added or changed.
\<close>

theorem api_duplicate_user_refused:
  assumes "reports_duplicates (ap_msg L)" "schema_ok d" "rq_Method r = ''POST''"
    "ap_json_user L (rq_Body r) = Inr q" "cu_Username q \<noteq> ''''" "cu_Email q \<noteq> ''''" "cu_Teamname q \<noteq> ''''"
    "\<exists>u \<in> set (tb_rows (db_users d)). u_Username u = cu_Username q \<or> u_Email u = cu_Email q"
  shows "fst (handleCreateUser L None drawn r d) =
      json_Error 400 (if \<exists>u \<in> set (tb_rows (db_users d)). u_Username u = cu_Username q
                      then ''Username already exists'' else ''Email already exists'') \<and>
    tb_rows (db_users (snd (handleCreateUser L None drawn r d))) = tb_rows (db_users d)"
proof -
  let ?r = "new_user L q (tb_serial (db_users d))"
  have "u_ID u < tb_serial (db_users d)" if "u \<in> set (tb_rows (db_users d))" for u
    using that assms(2) by (auto simp: schema_ok_def users_ok_def ids_ok_def)
  then have old: "filter (\<lambda>x. u_ID x \<noteq> u_ID ?r) (tb_rows (db_users d)) = tb_rows (db_users d)"
    by (force simp: filter_id_conv)
  have "check_user (ap_msg L) (db_users d) ?r =
      Some (ap_msg L (UniqueKey (if \<exists>u \<in> set (tb_rows (db_users d)). u_Username u = cu_Username q
                      then ''users_username_key'' else ''users_email_key'')))"
    using assms(8) unfolding check_user_def Let_def old by (auto simp: list_ex_iff new_user_def)
  then have "insert_row None drawn (new_user L q) (check_user (ap_msg L) (db_users d)) (db_users d) =
      (Inl (ap_msg L (UniqueKey (if \<exists>u \<in> set (tb_rows (db_users d)). u_Username u = cu_Username q
                      then ''users_username_key'' else ''users_email_key''))),
       (db_users d)\<lparr>tb_serial := tb_serial (db_users d) + 1\<rparr>)"
    by (simp add: insert_row_def Let_def)
  then show ?thesis
    using assms(3-7) user_error_duplicate [OF assms(1)] by (simp add: handleCreateUser_def)
qed

text \<open>
  An update of a database is neither partial nor checked for existence: although the type may be
  left out of the request, the statement then writes an empty type, which the schema refuses, so
  nothing is updated; and an id that does not exist is answered with success.
\<close>

theorem api_database_update_gaps:
  assumes "database_id (rq_Path r) = Some i" "ap_json_database L (rq_Body r) = Inr q" "d_Type q = ''''"
  shows "(find_row dr_ID i (db_databases d) = None \<longrightarrow>
            handleUpdateDatabase L None r d = (respond 200 (Message ''Database updated successfully''), d)) \<and>
         (find_row dr_ID i (db_databases d) \<noteq> None \<longrightarrow>
            rs_status (fst (handleUpdateDatabase L None r d)) \<in> {409, 500} \<and> snd (handleUpdateDatabase L None r d) = d)"
proof -
  have "check_database (ap_msg L) d (set_database L q x) = Some (ap_msg L (CheckFailed ''databases_type_check''))" for x
    using assms(3) by (simp add: check_database_def set_database_def valid_types_def)
  with assms show ?thesis
    by (auto simp: handleUpdateDatabase_def update_row_def split: option.splits)
qed

section \<open>Concrete cases\<close>

definition demo_user :: user where
  "demo_user = \<lparr>u_ID = 1, u_Username = ''john'', u_Email = ''j@x'', u_Teamname = ''eng'', u_CreatedAt = 5, u_UpdatedAt = 5\<rparr>"

definition demo_agent_row :: agent_row where
  "demo_agent_row = \<lparr>ar_ID = 1, ar_AgentID = ''agent-a'', ar_Name = ''A'', ar_Description = '''', ar_CreatedAt = 5, ar_UpdatedAt = 5\<rparr>"

definition demo_database_row :: database_row where
  "demo_database_row = \<lparr>dr_ID = 1, dr_DatabaseName = ''db'', dr_Type = ''mysql'', dr_AgentID = ''agent-a'', dr_Host = ''h'',
     dr_Port = ''3306'', dr_Username = ''u'', dr_Password = ''p'', dr_DBName = ''n'', dr_Description = '''',
     dr_CreatedAt = 5, dr_UpdatedAt = 5\<rparr>"

definition demo_db :: api_db where
  "demo_db = \<lparr>db_users = \<lparr>tb_rows = [demo_user], tb_serial = 2\<rparr>, db_agents = \<lparr>tb_rows = [demo_agent_row], tb_serial = 2\<rparr>,
     db_databases = \<lparr>tb_rows = [demo_database_row], tb_serial = 2\<rparr>\<rparr>"

definition demo_api :: api_libs where
  "demo_api = \<lparr>ap_json_user = (\<lambda>b. if b = ''jane'' then Inr \<lparr>cu_Username = ''jane'', cu_Email = ''a@x'', cu_Teamname = ''eng''\<rparr>
                              else Inr \<lparr>cu_Username = ''jim'', cu_Email = ''j@x'', cu_Teamname = ''eng''\<rparr>),
     ap_json_agent = (\<lambda>_. Inl ''EOF''),
     ap_json_database = (\<lambda>_. Inr \<lparr>d_ID = 0, d_DatabaseName = ''db2'', d_Type = '''', d_AgentID = ''agent-a'', d_Host = ''h'',
        d_Port = ''1'', d_Username = ''u'', d_Password = '''', d_DBName = ''n'', d_Description = '''', d_CreatedAt = '''',
        d_UpdatedAt = ''''\<rparr>),
     ap_msg = (\<lambda>v. case v of UniqueKey c \<Rightarrow> ''duplicate key '' @ c | ForeignKey c \<Rightarrow> c | CheckFailed c \<Rightarrow> c),
     ap_gateway_agents = Inr [''agent-a''], ap_now = 9, ap_time = (\<lambda>_. ''t'')\<rparr>"

lemma demo_db_schema: "schema_ok demo_db"
  by (simp add: schema_ok_def users_ok_def agents_ok_def databases_ok_def refers_def ids_ok_def valid_types_def
      demo_db_def demo_user_def demo_agent_row_def demo_database_row_def)

lemma demo_reports: "reports_duplicates (ap_msg demo_api)"
proof -
  have "str_contains (a @ b) a" "str_contains (a @ b) b" for a b :: string
    by (auto simp: str_contains_def sublist_append_rightI sublist_append_leftI)
  from str_contains_trans [OF this(1)] this(2)
  have "str_contains (''duplicate key '' @ c) ''duplicate key''" "str_contains (''duplicate key '' @ c) c" for c
    by (auto simp: str_contains_def sublist_Cons_right)
  moreover have "\<not> str_contains (''duplicate key '' @ ''users_email_key'') ''username''"
    by (simp add: str_contains_def sublist_Cons_right)
  ultimately show ?thesis by (simp add: reports_duplicates_def demo_api_def)
qed

definition demo_post :: "string \<Rightarrow> http_request" where
  "demo_post b = \<lparr>rq_Method = ''POST'', rq_Path = ''/api/users'', rq_Body = b\<rparr>"

theorem api_keeps_schema_witness:
  "schema_ok (snd (handleCreateUser demo_api None False (demo_post ''jane'') demo_db))"
proof -
  let ?p = "handleCreateUser demo_api None False (demo_post ''jane'') demo_db"
  have "api_route demo_api None False (demo_post ''jane'') demo_db = Some (fst ?p, snd ?p)"
    by (simp add: api_route_def demo_post_def)
  from api_keeps_schema [OF demo_db_schema this] show ?thesis .
qed

lemma demo_create_jane:
  "handleCreateUser demo_api None False (demo_post ''jane'') demo_db =
     (respond 201 (OneUser \<lparr>u_ID = 2, u_Username = ''jane'', u_Email = ''a@x'', u_Teamname = ''eng'', u_CreatedAt = 9, u_UpdatedAt = 9\<rparr>),
      demo_db\<lparr>db_users := \<lparr>tb_rows = [demo_user,
        \<lparr>u_ID = 2, u_Username = ''jane'', u_Email = ''a@x'', u_Teamname = ''eng'', u_CreatedAt = 9, u_UpdatedAt = 9\<rparr>], tb_serial = 3\<rparr>\<rparr>)"
  by (simp add: handleCreateUser_def demo_post_def demo_api_def demo_db_def insert_row_def new_user_def check_user_def
      demo_user_def Let_def)

theorem api_user_life_cycle_witness:
  "\<exists>u d''. handleGetUser None \<lparr>rq_Method = ''GET'', rq_Path = ''/api/users/2'', rq_Body = ''''\<rparr> d'' =
     (json_Error 404 ''User not found'', d'') \<and>
     handleGetUser None \<lparr>rq_Method = ''GET'', rq_Path = ''/api/users/2'', rq_Body = ''''\<rparr>
       (snd (handleCreateUser demo_api None False (demo_post ''jane'') demo_db)) =
     (respond 200 (OneUser u), snd (handleCreateUser demo_api None False (demo_post ''jane'') demo_db))"
proof -
  have s: "tb_serial (db_users demo_db) = 2" by (simp add: demo_db_def)
  have i: "itoa 2 = ''2''" by code_simp
  obtain resp d' where c: "handleCreateUser demo_api None False (demo_post ''jane'') demo_db = (resp, d')" "rs_status resp = 201"
    using demo_create_jane by simp
  have "tb_serial (db_users demo_db) < 2 ^ 31" by (simp add: s)
  from api_user_life_cycle [OF demo_db_schema this c refl] show ?thesis
    unfolding s i c(1) by auto
qed

theorem api_agent_list_agrees_witness:
  "\<exists>as. handleGetAgents demo_api None \<lparr>rq_Method = ''GET'', rq_Path = ''/api/agents'', rq_Body = ''''\<rparr> demo_db =
     (respond 200 (Agents as), demo_db) \<and> length as = 1"
proof -
  have "tb_serial (db_agents demo_db) \<le> 2 ^ 31" "length (tb_rows (db_agents demo_db)) = 1" by (simp_all add: demo_db_def)
  with api_agent_list_agrees [OF demo_db_schema this(1), of "\<lparr>rq_Method = ''GET'', rq_Path = ''/api/agents'', rq_Body = ''''\<rparr>" demo_api]
  show ?thesis by auto
qed

theorem api_duplicate_user_refused_witness:
  "fst (handleCreateUser demo_api None True (demo_post ''jim'') demo_db) = json_Error 400 ''Email already exists''"
proof -
  let ?q = "\<lparr>cu_Username = ''jim'', cu_Email = ''j@x'', cu_Teamname = ''eng''\<rparr>"
  have q: "ap_json_user demo_api (rq_Body (demo_post ''jim'')) = Inr ?q" by (simp add: demo_api_def demo_post_def)
  have "rq_Method (demo_post ''jim'') = ''POST''" by (simp add: demo_post_def)
  from api_duplicate_user_refused [OF demo_reports demo_db_schema this q, of True] show ?thesis
    by (simp add: demo_db_def demo_user_def)
qed

theorem api_database_update_gaps_witness:
  "rs_status (fst (handleUpdateDatabase demo_api None \<lparr>rq_Method = ''PUT'', rq_Path = ''/api/databases/1'', rq_Body = ''''\<rparr> demo_db)) \<in> {409, 500}"
proof -
  let ?r = "\<lparr>rq_Method = ''PUT'', rq_Path = ''/api/databases/1'', rq_Body = ''''\<rparr>"
  have "trim_prefix ''/api/databases/1'' ''/api/databases/'' = ''1''" by (simp add: trim_prefix_def has_prefix_def)
  moreover have "itoa 1 = ''1''" by code_simp
  ultimately have "database_id (rq_Path ?r) = Some 1" using atoi_itoa [of 1] by (simp add: database_id_def)
  from api_database_update_gaps [OF this] show ?thesis
    by (simp add: demo_api_def demo_db_def find_row_def demo_database_row_def)
qed

end
