(* ===== verification/QueryPath.thy ===== *)
theory QueryPath
  imports QueryClient Agent_Safety Gateway_Safety Api_Safety
begin

text \<open>
  A query from the REST API to the database and back: \<open>executeQuery\<close> of the API server, the session
  id that the gateway puts into its packets, and the agent that opens the session, runs the query
  and answers.
\<close>

section \<open>Variables on their way to the agent\<close>

definition coded_entry :: "string \<Rightarrow> env_val \<Rightarrow> bool" where
  "coded_entry k v \<longleftrightarrow> (\<exists>key s. k = ''envvar:'' @ key \<and> CHR '':'' \<notin> set key \<and> v = EnvStr (b64_encode s))"

definition coded :: "env_val gomap \<Rightarrow> bool" where
  "coded env \<longleftrightarrow> gm_wf env \<and> (\<forall>k v. gm_get env k = Some v \<longrightarrow> coded_entry k v)"

lemma coded_set:
  assumes "coded env" "CHR '':'' \<notin> set key"
  shows "coded (gm_set (''envvar:'' @ key) (EnvStr (b64_encode s)) env)"
proof -
  have "coded_entry (''envvar:'' @ key) (EnvStr (b64_encode s))" using assms(2) unfolding coded_entry_def by blast
  with assms(1) show ?thesis unfolding coded_def by simp
qed

lemma coded_entries:
  assumes "\<forall>(k, v) \<in> set env. coded_entry k v"
  shows "\<exists>store. new_env_vars u n env acc = Inr store"
  using assms
proof (induction env arbitrary: n acc)
  case Nil
  then show ?case by simp
next
  case (Cons kv env)
  then obtain key s where "kv = (''envvar:'' @ key, EnvStr (b64_encode s))" "CHR '':'' \<notin> set key"
    by (auto simp: coded_entry_def)
  with Cons new_env_var_envvar [of key "u n" s] show ?case by simp
qed

lemma coded_store: "coded env \<Longrightarrow> \<exists>store. NewEnvVarStore u env = Inr store"
  unfolding coded_def NewEnvVarStore_def using gm_get_in_set by (intro coded_entries) fast

lemma coded_Getenv:
  assumes "coded env" "NewEnvVarStore u env = Inr store" "CHR '':'' \<notin> set key"
    "gm_get env (''envvar:'' @ key) = Some (EnvStr (b64_encode v))"
  shows "evs_Getenv store key = v"
proof (rule NewEnvVarStore_envvar [OF assms(2) _ assms(3,4)])
  show "gm_wf env" using assms(1) by (simp add: coded_def)
  show "gm_get env (''filesystem:'' @ key) = None"
    using assms(1) by (cases "gm_get env (''filesystem:'' @ key)") (auto simp: coded_def coded_entry_def)
qed

text \<open>The five variables of a database, and a value that is neither a secret nor a request for the agent's environment.\<close>

definition carries :: "env_val gomap \<Rightarrow> database_row \<Rightarrow> bool" where
  "carries env c \<longleftrightarrow> coded env \<and>
     gm_get env (''envvar:'' @ ''HOST'') = Some (EnvStr (b64_encode (dr_Host c))) \<and>
     gm_get env (''envvar:'' @ ''PORT'') = Some (EnvStr (b64_encode (dr_Port c))) \<and>
     gm_get env (''envvar:'' @ ''USER'') = Some (EnvStr (b64_encode (dr_Username c))) \<and>
     gm_get env (''envvar:'' @ ''PASS'') = Some (EnvStr (b64_encode (dr_Password c))) \<and>
     gm_get env (''envvar:'' @ ''DB'') = Some (EnvStr (b64_encode (dr_DBName c)))"

definition plain_value :: "string \<Rightarrow> bool" where
  "plain_value v \<longleftrightarrow> length (str_split '':'' v) \<noteq> 3 \<and> v \<noteq> SystemAgentEnvs"

lemma carries_set:
  assumes "carries env c" "CHR '':'' \<notin> set key" "key \<notin> {''HOST'', ''PORT'', ''USER'', ''PASS'', ''DB''}"
  shows "carries (gm_set (''envvar:'' @ key) (EnvStr (b64_encode s)) env) c"
  using assms coded_set [of env key s] by (auto simp: carries_def)

definition has_credentials :: "database_row \<Rightarrow> bool" where
  "has_credentials c \<longleftrightarrow> dr_Host c \<noteq> '''' \<and> dr_Port c \<noteq> '''' \<and> dr_Username c \<noteq> '''' \<and> dr_Password c \<noteq> ''''"

lemma carries_parse:
  assumes "carries env c" "has_credentials c"
  shows "\<exists>e. parseConnectionEnvVars L (Some env) ConnectionTypeMySQL = Inr e \<and> ce_host e = dr_Host c \<and>
    ce_port e = dr_Port c \<and> ce_user e = dr_Username c \<and> ce_pass e = dr_Password c \<and> ce_dbname e = dr_DBName c \<and>
    ce_address e = ''''"
proof -
  have coded: "coded env" using assms(1) by (simp add: carries_def)
  obtain store where s: "NewEnvVarStore (cl_uuids L) env = Inr store" using coded_store [OF coded] by blast
  note get = coded_Getenv [OF coded s]
  have "evs_Getenv store ''HOST'' = dr_Host c" "evs_Getenv store ''PORT'' = dr_Port c"
    "evs_Getenv store ''USER'' = dr_Username c" "evs_Getenv store ''PASS'' = dr_Password c"
    "evs_Getenv store ''DB'' = dr_DBName c"
    using assms(1) by (auto simp: carries_def intro!: get)
  then show ?thesis
    using s assms(2)
    by (simp add: parseConnectionEnvVars_def check_conn_env_def conn_env_of_def default_port_def missing_credentials_def
        has_credentials_def Let_def)
qed

section \<open>Opening the session\<close>

lemma resolve_plain:
  assumes "length (str_split '':'' x) \<noteq> 3"
  shows "resolve L (EnvStr (b64_encode x)) = Some (EnvStr (b64_encode x))"
proof -
  have "(case str_split '':'' x of [a, b, c] \<Rightarrow> Inr (Some \<lparr>at_provider = a, at_secretID = b, at_secretKey = c\<rparr>) | _ \<Rightarrow> Inr None)
      = (Inr None :: env_val_attribute option result)"
    using assms by (auto split: list.splits)
  then have "decodeVal (EnvStr (b64_encode x)) = Inr None"
    by (simp add: decodeVal_def env_show_def b64_decode_string_encode)
  then show ?thesis by (simp add: resolve_def)
qed

lemma gm_wf_fold_set: "gm_wf acc \<Longrightarrow> gm_wf (fold (\<lambda>(k, v) acc. gm_set k (f v) acc) vars acc)"
  by (induction vars arbitrary: acc) auto

lemma secrets_plain:
  assumes "gm_wf env" "\<And>k v. gm_get env k = Some v \<Longrightarrow> resolve L v = Some v"
  shows "\<exists>m. secrets_Decode L env = Ret (Inr m) \<and> gm_wf m \<and> (\<forall>k. gm_get m k = gm_get env k)"
proof -
  let ?m = "fold (\<lambda>(k, v) acc. gm_set k (the (resolve L v)) acc) env []"
  have "providers_ok L no_providers" by (simp add: providers_ok_def no_providers_def slot_ok_def)
  then have "secrets_Decode L env = Ret (Inr ?m)"
    unfolding secrets_Decode_def using decode_loop_spec [of L no_providers env "[]" "[]" ?m] assms gm_get_in_set [OF assms(1)]
    by (auto simp: split_beta)
  moreover have "gm_get ?m k = gm_get env k" for k
    using assms(2) [of k] unfolding gm_get_fold_set [OF assms(1)] by (auto split: option.splits)
  ultimately show ?thesis using gm_wf_fold_set [of "[]" "\<lambda>v. the (resolve L v)" env] by auto
qed

lemma upstream_plain:
  assumes "\<And>k v. (k, v) \<in> set env \<Longrightarrow> b64_decode_lenient (env_show v) \<noteq> SystemAgentEnvs"
  shows "upstream_envs os env = env"
proof -
  have "fold (\<lambda>(key, b64EncVal) e.
        if \<not> has_prefix key ''envvar:'' then e
        else (let envVal = b64_decode_lenient (env_show b64EncVal) in
              if length envVal > 0 \<and> envVal = SystemAgentEnvs then
                (case os_LookupEnv os (drop 7 key) of
                   Some upstreamEnvVal \<Rightarrow> gm_set (''envvar:'' @ drop 7 key) (b64Enc upstreamEnvVal) e
                 | None \<Rightarrow> e)
              else e)) xs e = e" if "set xs \<subseteq> set env" for xs e
    using that assms by (induction xs arbitrary: e) (auto simp: Let_def)
  then show ?thesis by (simp add: upstream_envs_def)
qed

definition plain_database :: "database_row \<Rightarrow> bool" where
  "plain_database c \<longleftrightarrow> plain_value (dr_Host c) \<and> plain_value (dr_Port c) \<and> plain_value (dr_Username c) \<and>
     plain_value (dr_Password c) \<and> plain_value (dr_DBName c)"

lemma query_params_env:
  "gm_wf (EnvVars (query_params c))" "carries (EnvVars (query_params c)) c"
  "gm_get (EnvVars (query_params c)) k = Some v \<Longrightarrow> plain_database c \<Longrightarrow> \<exists>s. plain_value s \<and> v = EnvStr (b64_encode s)"
proof -
  show wf: "gm_wf (EnvVars (query_params c))" by (simp add: query_params_def gm_wf_def)
  have "coded_entry k v" if "gm_get (EnvVars (query_params c)) k = Some v" for k v
    using that
    by (auto simp: query_params_def gm_get_Cons base64Encode_def coded_entry_def split: if_splits)
  with wf have "coded (EnvVars (query_params c))" by (simp add: coded_def)
  then show "carries (EnvVars (query_params c)) c"
    by (simp add: carries_def query_params_def gm_get_Cons base64Encode_def)
  show "\<exists>s. plain_value s \<and> v = EnvStr (b64_encode s)"
    if "gm_get (EnvVars (query_params c)) k = Some v" "plain_database c"
    using that by (auto simp: query_params_def gm_get_Cons base64Encode_def plain_database_def split: if_splits)
qed

lemma stamp_fields [simp]: "pkt_Type (stamp sid pkt) = pkt_Type pkt" "payload_str (stamp sid pkt) = payload_str pkt"
  by (simp_all add: stamp_def Let_def payload_str_def)

lemma open_packet_spec [simp]:
  "spec_get (open_packet q c enc) SpecAgentConnectionParamsKey = enc"
  "spec_get (open_packet q c enc) SpecConnectionType = dr_Type c"
  "spec_get (open_packet q c enc) SpecClientExecEnvVar = []"
  "pkt_Type (open_packet q c enc) = agent_SessionOpen"
  by (simp_all add: open_packet_def gm_str_def gm_get_Cons)

lemma query_packet_spec [simp]:
  "spec_get (query_packet t q sid) SpecClientConnectionID = ''web-conn-1''"
  "pkt_Type (query_packet t q sid) = t" "payload_str (query_packet t q sid) = q"
  by (simp_all add: query_packet_def gm_str_def gm_get_Cons payload_str_def)

lemma session_envs_carry:
  assumes "carries env c"
  shows "carries (session_envs sid p env) c"
  unfolding session_envs_def b64Enc_def
  using assms carries_set [of _ c "''HOOP_SESSION_ID''"] carries_set [of _ c "''HOOP_USER_EMAIL''"]
    carries_set [of _ c "''HOOP_USER_ID''"] carries_set [of _ c "''HOOP_CLIENT_VERB''"]
    carries_set [of _ c "''HOOP_CLIENT_ORIGIN''"] carries_set [of _ c "''HOOP_CONNECTION_TYPE''"]
    carries_set [of _ c "''HOOP_CONNECTION_NAME''"]
  by simp

lemma build_query_params:
  assumes "al_gob_params L enc = Inr (query_params c)" "enc \<noteq> ''''" "plain_database c" "dr_Type c = ''mysql''"
    "ag_runtimeEnvs a = []"
  shows "\<exists>env. carries env c \<and>
    buildConnectionParams L (stamp sid (open_packet q c enc)) a = (Inr ((query_params c)\<lparr>EnvVars := env\<rparr>), a)"
proof -
  have plain: "resolve (al_secrets L) v = Some v" "b64_decode_lenient (env_show v) \<noteq> SystemAgentEnvs"
    if "gm_get (EnvVars (query_params c)) k = Some v" for k v
    using query_params_env(3) [OF that assms(3)] by (auto simp: plain_value_def resolve_plain env_show_def)
  obtain m where m: "secrets_Decode (al_secrets L) (EnvVars (query_params c)) = Ret (Inr m)" "gm_wf m"
      "\<And>k. gm_get m k = gm_get (EnvVars (query_params c)) k"
    using secrets_plain [of "EnvVars (query_params c)" "al_secrets L"] query_params_env(1) plain(1) by blast
  have carry: "carries m c"
    using query_params_env(2) [of c] m(2,3) by (simp add: carries_def coded_def)
  have up: "upstream_envs os m = m" for os
    using plain(2) m(3) gm_get_in_set [OF m(2)] by (intro upstream_plain) metis
  let ?env = "gm_set (''envvar:'' @ ''MYSQL_PWD'') (EnvStr (b64_encode (dr_Password c))) m"
  have "password_alias ''mysql'' m = ?env" using carry by (simp add: password_alias_def carries_def)
  moreover have "decodeConnectionParams L (stamp sid (open_packet q c enc)) a = (Some ((query_params c)\<lparr>EnvVars := m\<rparr>), a)"
    using assms(1,2) m(1) by (simp add: decodeConnectionParams_def GobDecodeInto_def Let_def)
  ultimately have "buildConnectionParams L (stamp sid (open_packet q c enc)) a =
      (Inr ((query_params c)\<lparr>EnvVars := ?env\<rparr>), a)"
    using assms(4,5) up by (simp add: buildConnectionParams_def add_runtime_envs_def)
  moreover have "carries ?env c" using carry by (intro carries_set) auto
  ultimately show ?thesis by blast
qed

lemma open_query_session:
  assumes "al_gob_params L enc = Inr (query_params c)" "enc \<noteq> ''''" "plain_database c" "dr_Type c = ''mysql''"
    "ag_runtimeEnvs a = []" "cfg_AgentMode (ag_config a) \<noteq> AgentModeEmbeddedType"
  shows "\<exists>p. carries (EnvVars p) c \<and> CmdList p = [] \<and> ClientArgs p = [] \<and>
    dispatch L (stamp sid (open_packet q c enc)) a =
      (store_Set sid (ConnParams p) a)\<lparr>ag_tasks := ag_tasks a @ [OpenTask (stamp sid (open_packet q c enc)) p]\<rparr>"
proof -
  obtain env where env: "carries env c"
    "buildConnectionParams L (stamp sid (open_packet q c enc)) a = (Inr ((query_params c)\<lparr>EnvVars := env\<rparr>), a)"
    using build_query_params [OF assms(1-5)] by blast
  let ?p = "(query_params c)\<lparr>EnvVars := session_envs sid ((query_params c)\<lparr>EnvVars := env\<rparr>) env\<rparr>"
  have "dispatch L (stamp sid (open_packet q c enc)) a =
      (store_Set sid (ConnParams ?p) a)\<lparr>ag_tasks := ag_tasks a @ [OpenTask (stamp sid (open_packet q c enc)) ?p]\<rparr>"
    using env(2) assms(6) by (simp add: dispatch_def processSessionOpen_def Let_def store_Set_def)
  with session_envs_carry [OF env(1)] show ?thesis
    by (intro exI [of _ ?p]) (simp add: query_params_def)
qed

section \<open>The answer\<close>

lemma digit_facts: "digit_val c \<noteq> None \<Longrightarrow> c \<noteq> CHR '' '' \<and> c \<noteq> CHR 0x09 \<and> c \<noteq> CHR ''-'' \<and> c \<noteq> CHR ''+''"
  by (auto simp: digit_val_def)

lemma sscanf_itoa:
  assumes "- (2 ^ 63) \<le> i" "i < 2 ^ 63"
  shows "sscanf_d (itoa i) v = i"
proof (cases "i < 0")
  case True
  then have i: "itoa i = CHR ''-'' # nat_dec (nat (- i))" by (simp add: itoa_def)
  have "takeWhile (\<lambda>c. digit_val c \<noteq> None) (nat_dec (nat (- i))) = nat_dec (nat (- i))"
    using nat_dec_digits by (simp add: takeWhile_eq_all_conv)
  with atoi_itoa [OF assms] show ?thesis by (simp add: sscanf_d_def i Let_def del: not_None_eq takeWhile_eq_all_conv)
next
  case False
  then have i: "itoa i = nat_dec (nat i)" by (simp add: itoa_def)
  obtain c cs where c: "nat_dec (nat i) = c # cs" by (cases "nat_dec (nat i)") auto
  have d: "digit_val x \<noteq> None" if "x \<in> set (c # cs)" for x
    using nat_dec_digits [of x "nat i"] that by (simp add: c)
  then have "takeWhile (\<lambda>c. digit_val c \<noteq> None) (c # cs) = c # cs" by (simp only: takeWhile_eq_all_conv) blast
  with atoi_itoa [OF assms] digit_facts [OF d, of c] show ?thesis by (simp add: sscanf_d_def i c Let_def del: not_None_eq takeWhile_eq_all_conv)
qed

definition query_conn_env :: "database_row \<Rightarrow> conn_env" where
  "query_conn_env c = empty_conn_env\<lparr>ce_host := dr_Host c, ce_port := dr_Port c, ce_user := dr_Username c,
     ce_pass := dr_Password c, ce_dbname := dr_DBName c\<rparr>"

text \<open>What the agent sends for the query on an open session.\<close>

lemma query_answer:
  assumes "connectionParams sid a = Some p" "carries (EnvVars p) c" "has_credentials c" "sid \<noteq> ''''"
    "conn_writer (connection_key sid ''web-conn-1'') a = None"
    "al_shell L (mysql_command (query_conn_env c) q) = Exited output code"
  shows "\<exists>spec payload. ag_sent (dispatch L (stamp sid (query_packet agent_MySQLConnectionWrite q sid)) a) = ag_sent a
    @ (if output = '''' then [] else [\<lparr>pkt_Type = client_MySQLConnectionWrite, pkt_Spec = spec, pkt_Payload = Some output\<rparr>])
    @ [\<lparr>pkt_Type = client_SessionClose,
        pkt_Spec = Some [(SpecGatewaySessionID, sid), (SpecClientExitCodeKey, itoa code)], pkt_Payload = payload\<rparr>]"
proof -
  let ?pkt = "stamp sid (query_packet agent_MySQLConnectionWrite q sid)"
  obtain e where e: "parseConnectionEnvVars (al_conn L) (Some (EnvVars p)) ConnectionTypeMySQL = Inr e"
    "ce_host e = dr_Host c" "ce_port e = dr_Port c" "ce_user e = dr_Username c" "ce_pass e = dr_Password c"
    "ce_dbname e = dr_DBName c"
    using carries_parse [OF assms(2,3)] by blast
  then have "mysql_command e q = mysql_command (query_conn_env c) q" by (simp add: mysql_command_def query_conn_env_def)
  moreover have "itoa 0 = ''0''" by code_simp
  moreover have "dispatch L ?pkt a = processMySQLProtocol L ?pkt a" by (simp add: dispatch_def)
  ultimately show ?thesis
    using assms(1,4-6) e(1)
    by (auto simp: processMySQLProtocol_def executeMySQLCommand_def answer_command_def streamWriter_Write_def
      sendClientSessionCloseWithExitCode_def client_Send_def Let_def)
qed

lemma query_loop_answer:
  assumes "\<And>n. ql_send Q n = None" "- (2 ^ 63) \<le> code" "code < 2 ^ 63" "pkt_Type ok = client_SessionOpenOK"
    "spec_get ok SpecGatewaySessionID = sid"
  shows "execute_loop Q agent_MySQLConnectionWrite client_MySQLConnectionWrite q
     (map RPkt ([ok] @ (if outp = '''' then [] else [\<lparr>pkt_Type = client_MySQLConnectionWrite, pkt_Spec = spec, pkt_Payload = Some outp\<rparr>])
    @ [\<lparr>pkt_Type = client_SessionClose,
        pkt_Spec = Some [(SpecGatewaySessionID, sid), (SpecClientExitCodeKey, itoa code)], pkt_Payload = payload\<rparr>])) sent '''' 0 =
     Some (Inr (query_result Q outp code), sent @ [query_packet agent_MySQLConnectionWrite q sid])"
  using assms by (simp add: gm_str_def gm_get_Cons sscanf_itoa payload_str_def)

lemma open_task_ok:
  assumes "carries (EnvVars p) c" "has_credentials c" "dr_Type c = ''mysql''"
    "al_dial L ''tcp'' (dr_Host c @ '':'' @ dr_Port c) = Inr ()"
  shows "\<exists>ok. run_open_task L (stamp sid (open_packet q c enc)) p a = a\<lparr>ag_sent := ag_sent a @ [ok]\<rparr> \<and>
    pkt_Type ok = client_SessionOpenOK \<and> spec_get ok SpecGatewaySessionID = sid"
proof -
  obtain e where e: "parseConnectionEnvVars (al_conn L) (Some (EnvVars p)) ConnectionTypeMySQL = Inr e"
    "ce_host e = dr_Host c" "ce_port e = dr_Port c" "ce_address e = ''''"
    using carries_parse [OF assms(1,2)] by blast
  then have "isPortActive L e = None" using assms(4) by (simp add: isPortActive_def ce_Address_def)
  then have "checkTCPLiveness L (stamp sid (open_packet q c enc)) (EnvVars p) = None"
    using e(1) assms(3) by (simp add: checkTCPLiveness_def)
  then show ?thesis
    by (intro exI [of _ "last (ag_sent (run_open_task L (stamp sid (open_packet q c enc)) p a))"])
      (simp add: run_open_task_def client_Send_def gm_str_def gm_get_Cons)
qed

text \<open>
  C1: a query goes to the database and its answer comes back.  For a MySQL database with plain
  credentials that the agent can reach: the agent handles the packet that opens the session (with
  the session id of the gateway), announces the session, and handles the query that the API server
  sends then; when the packets it has sent reach the API server, \<open>executeQuery\<close> returns exactly the
  output and the exit code of the one \<open>mysql\<close> command for the stored credentials and the query.
\<close>

theorem query_mysql_end_to_end:
  assumes "find_row dr_ID i (db_databases d) = Some c" "dr_Type c = ''mysql''" "has_credentials c" "plain_database c"
    and "ql_dial Q = None" "ql_connect Q (query_metadata c) = None" "\<And>n. ql_send Q n = None"
    and "ql_gob Q (query_params c) = Inr enc" "enc \<noteq> ''''" "al_gob_params L enc = Inr (query_params c)"
    and "al_dial L ''tcp'' (dr_Host c @ '':'' @ dr_Port c) = Inr ()"
    and "al_shell L (mysql_command (query_conn_env c) query) = Exited output code" "- (2 ^ 63) \<le> code" "code < 2 ^ 63"
    and "ag_runtimeEnvs a = []" "cfg_AgentMode (ag_config a) \<noteq> AgentModeEmbeddedType"
    and "sid \<noteq> ''''" "conn_writer (connection_key sid ''web-conn-1'') a = None"
    and "a1 = dispatch L (stamp sid (open_packet query c enc)) a"
    and "a2 = run_task L chunks copyErr (last (ag_tasks a1)) a1"
    and "a3 = dispatch L (stamp sid (query_packet agent_MySQLConnectionWrite query sid)) a2"
    and "ag_sent a3 = ag_sent a @ replies"
  shows "executeQuery Q None query i (map RPkt replies) d =
    Some (Inr (query_result Q output code), [open_packet query c enc, query_packet agent_MySQLConnectionWrite query sid])"
proof -
  let ?open = "stamp sid (open_packet query c enc)"
  obtain p where p: "carries (EnvVars p) c"
    "a1 = (store_Set sid (ConnParams p) a)\<lparr>ag_tasks := ag_tasks a @ [OpenTask ?open p]\<rparr>"
    using open_query_session [OF assms(10,9,4,2,15,16), of sid query] assms(19) by blast
  obtain ok where ok: "run_open_task L ?open p a1 = a1\<lparr>ag_sent := ag_sent a1 @ [ok]\<rparr>"
    "pkt_Type ok = client_SessionOpenOK" "spec_get ok SpecGatewaySessionID = sid"
    using open_task_ok [OF p(1) assms(3,2,11)] by blast
  have a2: "a2 = a1\<lparr>ag_sent := ag_sent a1 @ [ok]\<rparr>"
    using assms(20) ok(1) by (simp add: p(2) run_task_def)
  have "connectionParams sid a2 = Some p" by (simp add: a2 p(2) store_Set_def connectionParams_def)
  moreover have "connection_key sid ''web-conn-1'' \<noteq> sid" by (simp add: connection_key_def)
  then have "conn_writer (connection_key sid ''web-conn-1'') a2 = None"
    using assms(18) by (simp add: a2 p(2) store_Set_def conn_writer_def)
  ultimately obtain spec payload where sent: "ag_sent a3 = ag_sent a2
    @ (if output = '''' then [] else [\<lparr>pkt_Type = client_MySQLConnectionWrite, pkt_Spec = spec, pkt_Payload = Some output\<rparr>])
    @ [\<lparr>pkt_Type = client_SessionClose,
        pkt_Spec = Some [(SpecGatewaySessionID, sid), (SpecClientExitCodeKey, itoa code)], pkt_Payload = payload\<rparr>]"
    using query_answer [OF _ p(1) assms(3,17) _ assms(12)] assms(21) by blast
  have "ag_sent a2 = ag_sent a @ [ok]" by (simp add: a2 p(2) store_Set_def)
  with sent assms(22) have replies: "replies = [ok]
    @ (if output = '''' then [] else [\<lparr>pkt_Type = client_MySQLConnectionWrite, pkt_Spec = spec, pkt_Payload = Some output\<rparr>])
    @ [\<lparr>pkt_Type = client_SessionClose,
        pkt_Spec = Some [(SpecGatewaySessionID, sid), (SpecClientExitCodeKey, itoa code)], pkt_Payload = payload\<rparr>]"
    by (simp split: if_splits)
  show ?thesis
    using assms(1,2,5,6,7,8) query_loop_answer [OF assms(7,13,14) ok(2,3), where q = query and outp = "output" and spec = spec and payload = payload and sent = "[open_packet query c enc]"]
    unfolding replies by (simp add: executeQuery_def db_query_row_def encodeConnectionParams_def packet_types_def)
qed

section \<open>Concrete cases\<close>

theorem query_reaches_database_agent_witness:
  "gw_Connect 0 1 (Some (query_metadata demo_database_row)) gw_init =
    goto 1 (Finished (status_error ''Unavailable''
              (''requested agent '' @ [CHR 39] @ ''agent-a'' @ [CHR 39] @ '' is not connected'')))
      (gw_init\<lparr>gw_ctx := (gw_ctx gw_init)(1 \<mapsto> Some (query_metadata demo_database_row))\<rparr>)"
proof -
  have "dr_AgentID demo_database_row = ''agent-a''" by (simp add: demo_database_row_def)
  then show ?thesis
    using query_reaches_database_agent [of demo_database_row 0 1 gw_init] by (simp add: gw_init_def)
qed

definition demo_query_libs :: query_libs where
  "demo_query_libs = \<lparr>ql_dial = None, ql_connect = (\<lambda>_. None), ql_gob = (\<lambda>_. Inr ''gob''), ql_send = (\<lambda>_. None), ql_duration = ''1ms''\<rparr>"

definition demo_query_agent :: agent_libs where
  "demo_query_agent = demo_agent_libs\<lparr>al_gob_params := (\<lambda>_. Inr (query_params demo_database_row)), al_dial := (\<lambda>_ _. Inr ())\<rparr>"

definition demo_opened :: agent where
  "demo_opened = dispatch demo_query_agent (stamp ''s9'' (open_packet ''select 1'' demo_database_row ''gob'')) demo_ctl"

definition demo_answered :: agent where
  "demo_answered = dispatch demo_query_agent (stamp ''s9'' (query_packet agent_MySQLConnectionWrite ''select 1'' ''s9''))
     (run_task demo_query_agent [] None (last (ag_tasks demo_opened)) demo_opened)"

lemma demo_plain: "plain_database demo_database_row" "has_credentials demo_database_row"
  by (simp_all add: plain_database_def plain_value_def demo_database_row_def has_credentials_def str_split_char_none)

theorem query_mysql_end_to_end_witness:
  "executeQuery demo_query_libs None ''select 1'' 1 (map RPkt (ag_sent demo_answered)) demo_db =
     Some (Inr (query_result demo_query_libs ''1'' 0),
       [open_packet ''select 1'' demo_database_row ''gob'', query_packet agent_MySQLConnectionWrite ''select 1'' ''s9''])"
proof (rule query_mysql_end_to_end [OF _ _ demo_plain(2,1), where L = demo_query_agent and a = demo_ctl
      and chunks = "[]" and copyErr = None])
  show "find_row dr_ID 1 (db_databases demo_db) = Some demo_database_row" "dr_Type demo_database_row = ''mysql''"
    by (simp_all add: demo_db_def find_row_def demo_database_row_def)
  show "al_shell demo_query_agent (mysql_command (query_conn_env demo_database_row) ''select 1'') = Exited ''1'' 0"
    "al_dial demo_query_agent ''tcp'' (dr_Host demo_database_row @ '':'' @ dr_Port demo_database_row) = Inr ()"
    "al_gob_params demo_query_agent ''gob'' = Inr (query_params demo_database_row)"
    by (simp_all add: demo_query_agent_def)
  show "ag_runtimeEnvs demo_ctl = []" "cfg_AgentMode (ag_config demo_ctl) \<noteq> AgentModeEmbeddedType"
    "conn_writer (connection_key ''s9'' ''web-conn-1'') demo_ctl = None"
    by (simp_all add: demo_ctl_def agent_New_def demo_cfg_def conn_writer_def is_closer_def)
  show "ag_sent demo_answered = ag_sent demo_ctl @ ag_sent demo_answered" by simp
  show "demo_answered = dispatch demo_query_agent
      (stamp ''s9'' (query_packet agent_MySQLConnectionWrite ''select 1'' ''s9''))
      (run_task demo_query_agent [] None (last (ag_tasks demo_opened)) demo_opened)"
    by (rule demo_answered_def)
  show "demo_opened = dispatch demo_query_agent (stamp ''s9'' (open_packet ''select 1'' demo_database_row ''gob'')) demo_ctl"
    by (rule demo_opened_def)
qed (simp_all add: demo_query_libs_def)

end
