(* ===== verification/QueryStubs.thy ===== *)
theory QueryStubs
  imports QueryPath
begin

text \<open>
  Queries on PostgreSQL and SQL Server databases: the agent hands them to the proxies of
  \<open>libbifrost\<close>, of which the repository has only the stub.
\<close>

definition failing_close :: "packet \<Rightarrow> bool" where
  "failing_close pkt \<longleftrightarrow> pkt_Type pkt = client_SessionClose \<and> spec_get pkt SpecClientExitCodeKey = internalExitCode"

definition open_or_fail :: "packet \<Rightarrow> bool" where
  "open_or_fail pkt \<longleftrightarrow> pkt_Type pkt = client_SessionOpenOK \<or> failing_close pkt"

text \<open>The agent has sent only such packets since an earlier state.\<close>

definition answers_with :: "agent \<Rightarrow> agent \<Rightarrow> bool" where
  "answers_with a a' \<longleftrightarrow> (\<exists>new. ag_sent a' = ag_sent a @ new \<and> list_all open_or_fail new)"

lemma answers_refl [simp]: "answers_with a a"
  by (simp add: answers_with_def)

lemma answers_trans: "answers_with a b \<Longrightarrow> answers_with b c \<Longrightarrow> answers_with a c"
  by (auto simp: answers_with_def)

lemma refuse_answers: "answers_with a (refuse_session sid msg a)"
  by (simp add: answers_with_def refuse_session_def client_Send_def open_or_fail_def failing_close_def gm_str_def gm_get_Cons)

lemma close_answers:
  assumes "sid \<noteq> ''''" "msg \<noteq> ''''"
  shows "\<exists>p. ag_sent (sendClientSessionClose sid msg a) = ag_sent a @ [p] \<and> failing_close p"
  using sendClientSessionClose_sent [OF assms] by (simp add: failing_close_def gm_str_def gm_get_Cons)

lemma decode_answers: "answers_with a (snd (decodeConnectionParams L pkt a))"
  using refuse_answers
  by (auto simp: decodeConnectionParams_def answers_with_def Let_def split: sum.splits outcome.splits)

lemma decode_keeps:
  "ag_connStore (snd (decodeConnectionParams L pkt a)) = ag_connStore a" "ag_tasks (snd (decodeConnectionParams L pkt a)) = ag_tasks a"
  by (auto simp: decodeConnectionParams_def refuse_session_def client_Send_def Let_def split: sum.splits outcome.splits)

lemma build_snd: "snd (buildConnectionParams L pkt a) = snd (decodeConnectionParams L pkt a)"
  by (auto simp: buildConnectionParams_def Let_def split: prod.splits option.splits)

text \<open>Opening a session.\<close>

lemma open_answers:
  assumes "a1 = processSessionOpen L pkt a"
  shows "answers_with a a1"
    and "\<exists>ps. ag_tasks a1 = ag_tasks a @ map (OpenTask pkt) ps"
    and "key \<noteq> spec_get pkt SpecGatewaySessionID \<Longrightarrow> mem_Get (ag_connStore a1) key = mem_Get (ag_connStore a) key"
proof -
  obtain r b where b: "buildConnectionParams L pkt a = (r, b)" by (cases "buildConnectionParams L pkt a")
  then have keep: "answers_with a b" "ag_connStore b = ag_connStore a" "ag_tasks b = ag_tasks a"
    using build_snd [of L pkt a] decode_answers [of a L pkt] decode_keeps [of L pkt a] by simp_all
  show "answers_with a a1"
    using keep(1) assms b answers_trans [OF keep(1) refuse_answers]
    by (cases r) (simp_all add: processSessionOpen_def Let_def store_Set_def answers_with_def)
  show "\<exists>ps. ag_tasks a1 = ag_tasks a @ map (OpenTask pkt) ps"
  proof (cases r)
    case (Inl e)
    then show ?thesis using keep(3) assms b
      by (intro exI [of _ "[]"]) (simp add: processSessionOpen_def Let_def refuse_session_def client_Send_def)
  next
    case (Inr p)
    then have "\<exists>q. ag_tasks a1 = ag_tasks a @ [OpenTask pkt q]"
      using keep(3) assms b by (simp add: processSessionOpen_def Let_def store_Set_def)
    then obtain q where "ag_tasks a1 = ag_tasks a @ [OpenTask pkt q]" by blast
    then show ?thesis by (intro exI [of _ "[q]"]) simp
  qed
  show "mem_Get (ag_connStore a1) key = mem_Get (ag_connStore a) key" if "key \<noteq> spec_get pkt SpecGatewaySessionID"
    using keep(2) assms b that
    by (cases r) (simp_all add: processSessionOpen_def Let_def store_Set_def refuse_session_def client_Send_def)
qed

lemma task_answers:
  "answers_with a (run_open_task L pkt p a)" "ag_connStore (run_open_task L pkt p a) = ag_connStore a"
proof -
  have send: "answers_with a (client_Send ok b)" if "answers_with a b" "pkt_Type ok = client_SessionOpenOK" for ok b
    using that by (auto simp: answers_with_def client_Send_def open_or_fail_def)
  show "answers_with a (run_open_task L pkt p a)"
    unfolding run_open_task_def Let_def
    by (rule send) (simp_all add: refuse_answers split: option.splits)
  show "ag_connStore (run_open_task L pkt p a) = ag_connStore a"
    by (simp add: run_open_task_def refuse_session_def client_Send_def Let_def split: option.splits)
qed

definition run_tasks :: "agent_libs \<Rightarrow> task list \<Rightarrow> agent \<Rightarrow> agent" where
  "run_tasks L ts a = fold (run_task L [] None) ts a"

lemma tasks_answer:
  "answers_with a (run_tasks L (map (OpenTask pkt) ps) a)"
  "ag_connStore (run_tasks L (map (OpenTask pkt) ps) a) = ag_connStore a"
proof -
  have "answers_with a (run_tasks L (map (OpenTask pkt) ps) a) \<and> ag_connStore (run_tasks L (map (OpenTask pkt) ps) a) = ag_connStore a"
  proof (induction ps arbitrary: a)
    case Nil
    then show ?case by (simp add: run_tasks_def)
  next
    case (Cons p ps)
    let ?b = "run_open_task L pkt p a"
    have "run_tasks L (map (OpenTask pkt) (p # ps)) a = run_tasks L (map (OpenTask pkt) ps) ?b"
      by (simp add: run_tasks_def run_task_def)
    with Cons [of ?b] task_answers(1) [of a L pkt p] task_answers(2) [of L pkt p a] answers_trans show ?case by auto
  qed
  then show "answers_with a (run_tasks L (map (OpenTask pkt) ps) a)"
    "ag_connStore (run_tasks L (map (OpenTask pkt) ps) a) = ag_connStore a" by simp_all
qed

section \<open>The query\<close>

lemma noop_msg_nonempty [simp]: "noop_Run_msg t \<noteq> []"
  by (simp add: noop_Run_msg_def)

lemma stub_answers:
  assumes "sid \<noteq> []"
  shows "\<exists>p. ag_sent (start_db_proxy L t sid key opts pkt a) = ag_sent a @ [p] \<and> failing_close p"
  using close_answers [OF assms noop_msg_nonempty, of t a]
  by (auto simp: start_db_proxy_def new_proxy_def noop_Run_def obj_Write_def store_Set_def Let_def)

lemma query_fails:
  assumes "sid \<noteq> []" "conn_writer (connection_key sid ''web-conn-1'') a = None"
    "ptype = agent_PGConnectionWrite \<or> ptype = agent_MSSQLConnectionWrite"
  shows "\<exists>p. ag_sent (dispatch L (stamp sid (query_packet ptype q sid)) a) = ag_sent a @ [p] \<and> failing_close p"
proof -
  let ?pkt = "stamp sid (query_packet ptype q sid)"
  have "dispatch L ?pkt a = (if ptype = agent_PGConnectionWrite then processPGProtocol L ?pkt a else processMSSQLProtocol L ?pkt a)"
    using assms(3) by (elim disjE) (simp_all add: dispatch_def)
  moreover have "(\<exists>msg. msg \<noteq> [] \<and> processPGProtocol L ?pkt a = sendClientSessionClose sid msg a) \<or>
      (\<exists>t opts. processPGProtocol L ?pkt a = start_db_proxy L t sid (connection_key sid ''web-conn-1'') opts ?pkt a)"
  proof (cases "connectionParams sid a")
    case None
    then have "processPGProtocol L ?pkt a = sendClientSessionClose sid msg_no_params a" by (simp add: processPGProtocol_def)
    then show ?thesis by (intro disjI1 exI [of _ msg_no_params]) simp
  next
    case (Some p)
    show ?thesis
    proof (cases "parseConnectionEnvVars (al_conn L) (Some (EnvVars p)) ConnectionTypePostgres")
      case (Inl e)
      with Some assms(2) have "processPGProtocol L ?pkt a = sendClientSessionClose sid msg_no_credentials a"
        by (simp add: processPGProtocol_def Let_def)
      then show ?thesis by (intro disjI1 exI [of _ msg_no_credentials]) simp
    next
      case (Inr e)
      with Some assms(2) show ?thesis by (intro disjI2) (simp add: processPGProtocol_def Let_def, blast)
    qed
  qed
  moreover have "(\<exists>msg. msg \<noteq> [] \<and> processMSSQLProtocol L ?pkt a = sendClientSessionClose sid msg a) \<or>
      (\<exists>t opts. processMSSQLProtocol L ?pkt a = start_db_proxy L t sid (connection_key sid ''web-conn-1'') opts ?pkt a)"
  proof (cases "connectionParams sid a")
    case None
    then have "processMSSQLProtocol L ?pkt a = sendClientSessionClose sid msg_no_params a" by (simp add: processMSSQLProtocol_def)
    then show ?thesis by (intro disjI1 exI [of _ msg_no_params]) simp
  next
    case (Some p)
    show ?thesis
    proof (cases "parseConnectionEnvVars (al_conn L) (Some (EnvVars p)) ConnectionTypeMSSQL")
      case (Inl e)
      with Some assms(2) have "processMSSQLProtocol L ?pkt a = sendClientSessionClose sid msg_no_credentials a"
        by (simp add: processMSSQLProtocol_def Let_def)
      then show ?thesis by (intro disjI1 exI [of _ msg_no_credentials]) simp
    next
      case (Inr e)
      with Some assms(2) show ?thesis by (intro disjI2) (simp add: processMSSQLProtocol_def Let_def, blast)
    qed
  qed
  ultimately consider msg where "msg \<noteq> []" "dispatch L ?pkt a = sendClientSessionClose sid msg a"
    | t key opts where "dispatch L ?pkt a = start_db_proxy L t sid key opts ?pkt a"
    by (cases "ptype = agent_PGConnectionWrite") auto
  then show ?thesis
  proof cases
    case 1
    then show ?thesis using close_answers [OF assms(1) 1(1)] by simp
  next
    case 2
    then show ?thesis using stub_answers [OF assms(1)] by simp
  qed
qed

section \<open>What the API server makes of it\<close>

lemma loop_fails:
  assumes "\<And>n. ql_send Q n = None" "list_all open_or_fail ps" "\<exists>p \<in> set ps. failing_close p"
    "recvType \<noteq> client_SessionOpenOK" "recvType \<noteq> client_SessionClose"
  shows "\<exists>sent'. execute_loop Q sendType recvType q (map RPkt ps) sent results code = Some (Inr (query_result Q results 254), sent')"
  using assms(2,3)
proof (induction ps arbitrary: sent)
  case Nil
  then show ?case by simp
next
  case (Cons p ps)
  have code: "sscanf_d internalExitCode code = 254" by (simp add: sscanf_d_def atoi_def dec_nat_def digit_val_def Let_def)
  show ?case
  proof (cases "failing_close p")
    case True
    then show ?thesis using assms(5) code by (auto simp: failing_close_def)
  next
    case False
    have "open_or_fail p" "list_all open_or_fail ps" using Cons.prems(1) by simp_all
    moreover have "\<exists>p \<in> set ps. failing_close p" using Cons.prems(2) False by simp
    moreover have "pkt_Type p = client_SessionOpenOK" using \<open>open_or_fail p\<close> False by (simp add: open_or_fail_def)
    ultimately show ?thesis
      using Cons.IH assms(1,4) by simp
  qed
qed

text \<open>The settings name a secret that makes the agent panic, like a binary one at AWS.\<close>

definition settings_panic :: "agent_libs \<Rightarrow> string \<Rightarrow> bool" where
  "settings_panic L enc \<longleftrightarrow>
     (\<exists>p. GobDecodeInto (al_gob_params L) enc = Inr p \<and> secrets_Decode (al_secrets L) (EnvVars p) = Panic)"

lemma refuse_crash [simp]: "ag_crashed (refuse_session sid msg a) = ag_crashed a"
  by (simp add: refuse_session_def client_Send_def)

lemma decode_crash:
  assumes "\<not> ag_crashed a" "enc = spec_get pkt SpecAgentConnectionParamsKey"
  shows "if settings_panic L enc then decodeConnectionParams L pkt a = (None, a\<lparr>ag_crashed := True\<rparr>)
    else \<not> ag_crashed (snd (decodeConnectionParams L pkt a))"
  using assms
  by (auto simp: settings_panic_def decodeConnectionParams_def Let_def split: sum.splits outcome.splits)

lemma open_crash:
  assumes "\<not> ag_crashed a" "enc = spec_get pkt SpecAgentConnectionParamsKey"
  shows "if settings_panic L enc then processSessionOpen L pkt a = a\<lparr>ag_crashed := True\<rparr>
    else \<not> ag_crashed (processSessionOpen L pkt a)"
proof (cases "settings_panic L enc")
  case True
  with decode_crash [OF assms, of L] show ?thesis by (simp add: processSessionOpen_def buildConnectionParams_def Let_def)
next
  case False
  obtain r b where b: "buildConnectionParams L pkt a = (r, b)" by (cases "buildConnectionParams L pkt a")
  then have "\<not> ag_crashed b" using False decode_crash [OF assms, of L] build_snd [of L pkt a] by simp
  with False b show ?thesis by (simp add: processSessionOpen_def Let_def store_Set_def split: sum.split)
qed

lemma tasks_crash: "ag_crashed (run_tasks L (map (OpenTask pkt) ps) a) = ag_crashed a"
proof (induction ps arbitrary: a)
  case (Cons p ps)
  have "ag_crashed (run_open_task L pkt p a) = ag_crashed a"
    by (simp add: run_open_task_def client_Send_def Let_def split: option.split)
  with Cons [of "run_open_task L pkt p a"] show ?case by (simp add: run_tasks_def run_task_def)
qed (simp add: run_tasks_def)

text \<open>
  C2: queries on PostgreSQL and SQL Server databases never run.  The API accepts such databases, but the protocol
  library of the agent is only a stub.  An agent that is alive handles the packet that opens the session, runs the
  goroutines this has started, and handles the query.  If the settings of the database name a secret on which
  \<open>Decode\<close> panics, the process dies without a word and \<open>executeQuery\<close> is left waiting: it has read all there is and
  does not return.  Otherwise, whatever the settings and whether or not the agent can reach the database, the
  agent refuses or closes the session, and \<open>executeQuery\<close> returns an empty result with exit code 254.
\<close>

theorem query_stub_engines_fail:
  assumes "find_row dr_ID i (db_databases d) = Some c" "dr_Type c = ''postgres'' \<or> dr_Type c = ''mssql''"
    and "ql_dial Q = None" "ql_connect Q (query_metadata c) = None" "\<And>n. ql_send Q n = None" "ql_gob Q (query_params c) = Inr enc"
    and "sid \<noteq> ''''" "conn_writer (connection_key sid ''web-conn-1'') a = None" "\<not> ag_crashed a"
    and "a1 = agent_handle L (stamp sid (open_packet q c enc)) a"
    and "a2 = run_tasks L (drop (length (ag_tasks a)) (ag_tasks a1)) a1"
    and "sendType = fst (the (packet_types (dr_Type c)))"
    and "a3 = agent_handle L (stamp sid (query_packet sendType q sid)) a2"
    and "ag_sent a3 = ag_sent a @ replies"
  shows "if settings_panic L enc
    then ag_crashed a3 \<and> replies = [] \<and> executeQuery Q None q i (map RPkt replies) d = None
    else \<exists>sent. executeQuery Q None q i (map RPkt replies) d = Some (Inr (query_result Q '''' 254), sent)"
proof -
  let ?open = "stamp sid (open_packet q c enc)"
  have a1: "a1 = processSessionOpen L ?open a" using assms(9,10) by (simp add: agent_handle_def dispatch_def)
  have sid: "spec_get ?open SpecGatewaySessionID = sid" by simp
  have enc: "enc = spec_get ?open SpecAgentConnectionParamsKey" by simp
  note crash = open_crash [OF assms(9) enc, of L]
  obtain recvType where pt: "packet_types (dr_Type c) = Some (sendType, recvType)"
      "recvType \<noteq> client_SessionOpenOK" "recvType \<noteq> client_SessionClose"
    using assms(2,12) by (elim disjE) (simp_all add: packet_types_def)
  have query: "executeQuery Q None q i rs d = execute_loop Q sendType recvType q rs [open_packet q c enc] '''' 0" for rs
    using assms(1,3,4,5,6) pt(1) by (simp add: executeQuery_def db_query_row_def encodeConnectionParams_def)
  show ?thesis
  proof (cases "settings_panic L enc")
    case True
    with crash a1 have "a1 = a\<lparr>ag_crashed := True\<rparr>" by simp
    then have "a3 = a\<lparr>ag_crashed := True\<rparr>" using assms(11,13) by (simp add: run_tasks_def agent_handle_def)
    then show ?thesis using True query assms(14) by simp
  next
    case False
    obtain ps where "ag_tasks a1 = ag_tasks a @ map (OpenTask ?open) ps" using open_answers(2) [OF a1] by blast
    then have a2: "a2 = run_tasks L (map (OpenTask ?open) ps) a1" using assms(11) by simp
    then have "\<not> ag_crashed a2" using False crash a1 tasks_crash by simp
    then have a3: "a3 = dispatch L (stamp sid (query_packet sendType q sid)) a2" using assms(13) by (simp add: agent_handle_def)
    have "connection_key sid ''web-conn-1'' \<noteq> sid" by (simp add: connection_key_def)
    then have "mem_Get (ag_connStore a2) (connection_key sid ''web-conn-1'') = mem_Get (ag_connStore a) (connection_key sid ''web-conn-1'')"
      using open_answers(3) [OF a1] tasks_answer(2) [of L ?open ps a1] sid a2 by simp
    then have none: "conn_writer (connection_key sid ''web-conn-1'') a2 = None" using assms(8) by (simp add: conn_writer_def)
    have st: "sendType = agent_PGConnectionWrite \<or> sendType = agent_MSSQLConnectionWrite"
      using assms(2,12) by (elim disjE) (simp_all add: packet_types_def)
    obtain p where p: "ag_sent a3 = ag_sent a2 @ [p]" "failing_close p"
      using query_fails [OF assms(7) none st, of L q] a3 by blast
    have "answers_with a a2" unfolding a2 using answers_trans [OF open_answers(1) [OF a1] tasks_answer(1)] .
    then obtain new where new: "ag_sent a2 = ag_sent a @ new" "list_all open_or_fail new" by (auto simp: answers_with_def)
    with p assms(14) have "replies = new @ [p]" by simp
    then have replies: "list_all open_or_fail replies" "\<exists>p \<in> set replies. failing_close p"
      using new(2) p(2) by (simp_all add: open_or_fail_def)
    from loop_fails [OF assms(5) replies pt(2,3), of sendType q "[open_packet q c enc]" "''''" 0] False query
    show ?thesis by simp
  qed
qed

definition demo_pg_row :: database_row where
  "demo_pg_row = demo_database_row\<lparr>dr_Type := ''postgres''\<rparr>"

definition demo_pg_db :: api_db where
  "demo_pg_db = demo_db\<lparr>db_databases := \<lparr>tb_rows = [demo_pg_row], tb_serial = 2\<rparr>\<rparr>"

definition demo_pg_opened :: agent where
  "demo_pg_opened = agent_handle demo_query_agent (stamp ''s9'' (open_packet ''select 1'' demo_pg_row ''gob'')) demo_ctl"

definition demo_pg_answered :: agent where
  "demo_pg_answered = agent_handle demo_query_agent (stamp ''s9'' (query_packet agent_PGConnectionWrite ''select 1'' ''s9''))
     (run_tasks demo_query_agent (drop (length (ag_tasks demo_ctl)) (ag_tasks demo_pg_opened)) demo_pg_opened)"

lemma demo_pg_settings: "\<not> settings_panic demo_query_agent ''gob''"
proof -
  have "query_params demo_pg_row = (query_params demo_database_row)\<lparr>ConnectionType := ''postgres''\<rparr>"
    by (simp add: query_params_def demo_pg_row_def)
  have "resolve L v = Some v" if "gm_get (EnvVars (query_params demo_database_row)) k = Some v" for L k v
    using query_params_env(3) [OF that demo_plain(1)] by (auto simp: plain_value_def resolve_plain)
  then have "\<exists>m. secrets_Decode L (EnvVars (query_params demo_database_row)) = Ret (Inr m)" for L
    using secrets_plain [of "EnvVars (query_params demo_database_row)" L] query_params_env(1) by blast
  then have "secrets_Decode L (EnvVars (query_params demo_database_row)) \<noteq> Panic" for L by (metis outcome.distinct(1))
  then show ?thesis by (simp add: settings_panic_def demo_query_agent_def GobDecodeInto_def)
qed

theorem query_stub_engines_fail_witness:
  "\<exists>sent. executeQuery demo_query_libs None ''select 1'' 1 (map RPkt (ag_sent demo_pg_answered)) demo_pg_db =
     Some (Inr (query_result demo_query_libs '''' 254), sent)"
proof -
  have row: "find_row dr_ID 1 (db_databases demo_pg_db) = Some demo_pg_row"
    by (simp add: demo_pg_db_def find_row_def demo_pg_row_def demo_database_row_def)
  have t: "dr_Type demo_pg_row = ''postgres'' \<or> dr_Type demo_pg_row = ''mssql''" by (simp add: demo_pg_row_def)
  have send: "agent_PGConnectionWrite = fst (the (packet_types (dr_Type demo_pg_row)))"
    by (simp add: demo_pg_row_def packet_types_def)
  have idle: "conn_writer (connection_key ''s9'' ''web-conn-1'') demo_ctl = None" "\<not> ag_crashed demo_ctl"
    "ag_sent demo_pg_answered = ag_sent demo_ctl @ ag_sent demo_pg_answered"
    by (simp_all add: demo_ctl_def agent_New_def demo_cfg_def conn_writer_def is_closer_def)
  have Q: "ql_dial demo_query_libs = None" "ql_connect demo_query_libs md = None" "ql_send demo_query_libs n = None"
    "ql_gob demo_query_libs params = Inr ''gob''" for md n params
    by (simp_all add: demo_query_libs_def)
  have ne: "''s9'' \<noteq> []" by simp
  from query_stub_engines_fail [OF row t Q ne idle(1,2) demo_pg_opened_def refl send demo_pg_answered_def idle(3)]
  show ?thesis using demo_pg_settings by simp
qed

end
