(* ===== verification/SystemTypes.thy ===== *)
theory SystemTypes
  imports Prelude
begin

text \<open>
  The messages of the system requests, \<open>src/common/proto/system\<close>: requests to provision the roles of a
  database and to run a runbook hook, and their responses.

  A pointer field is an \<open>option\<close>.  A nil slice and an empty slice are both \<open>[]\<close>; they differ only in
  the JSON text (\<open>null\<close> or \<open>[]\<close>), and the JSON encoder is a parameter.  The tags of a database, which
  nothing reads, and the options of credentials, which are always empty, are left out.  Times are seconds.
\<close>

abbreviation StatusCompletedType :: string where "StatusCompletedType \<equiv> ''completed''"
abbreviation StatusFailedType :: string where "StatusFailedType \<equiv> ''failed''"
abbreviation MessageCompleted :: string where
  "MessageCompleted \<equiv> ''All user roles have been successfully provisioned''"
abbreviation MessageOneOrMoreRolesFailed :: string where
  "MessageOneOrMoreRolesFailed \<equiv> ''One or more user roles failed to be provisioned''"
abbreviation MessageVaultSaveError :: string where
  "MessageVaultSaveError \<equiv> ''One or more user roles could not be saved to the Vault key-value store''"
abbreviation SecretsManagerProviderDatabase :: string where "SecretsManagerProviderDatabase \<equiv> ''database''"
abbreviation SecretsManagerProviderVault :: string where "SecretsManagerProviderVault \<equiv> ''vault''"

record exec_hook =
  hk_Command :: "string list"
  hk_InputFile :: string

record db_provisioner_request =
  dp_OrgID :: string
  dp_SID :: string
  dp_ResourceID :: string
  dp_DatabaseHostname :: string
  dp_DatabasePort :: string
  dp_MasterUsername :: string
  dp_MasterPassword :: string
  dp_DatabaseType :: string
  dp_Vault :: "string option"
  dp_ExecHook :: "exec_hook option"

record db_credentials =
  cr_Host :: string
  cr_Port :: string
  cr_User :: string
  cr_Password :: string
  cr_DefaultDatabase :: string
  cr_SecretsManagerProvider :: string
  cr_SecretID :: string
  cr_SecretKeys :: "string list"

record role_result =
  ro_Credentials :: "db_credentials option"
  ro_RoleSuffixName :: string
  ro_Status :: string
  ro_Message :: string
  ro_CompletedAt :: nat

record runbook_hook =
  rh_ExitCode :: int
  rh_Output :: string
  rh_ExecutionTimeSec :: nat

record db_provisioner_response =
  ds_SID :: string
  ds_Status :: string
  ds_Message :: string
  ds_Result :: "role_result list"
  ds_RunbookHook :: "runbook_hook option"

record runbook_hook_request =
  rr_ID :: string
  rr_SID :: string
  rr_Command :: "string list"
  rr_InputFile :: string

record runbook_hook_response =
  rp_ID :: string
  rp_ExitCode :: int
  rp_Output :: string
  rp_ExecutionTimeSec :: nat

definition sqlserver_types :: "string list" where
  "sqlserver_types = [''sqlserver-ee'', ''sqlserver-se'', ''sqlserver-ex'', ''sqlserver-web'']"

definition postgres_types :: "string list" where
  "postgres_types = [''postgres'', ''aurora-postgresql'']"

definition mysql_types :: "string list" where
  "mysql_types = [''mysql'', ''aurora-mysql'']"

definition dp_Port :: "db_provisioner_request \<Rightarrow> string" where
  "dp_Port r =
     (if dp_DatabasePort r \<noteq> '''' then dp_DatabasePort r
      else if dp_DatabaseType r = ''postgres'' then ''5432''
      else if dp_DatabaseType r = ''mysql'' then ''3306''
      else if dp_DatabaseType r \<in> set sqlserver_types then ''1443''
      else if dp_DatabaseType r = ''mongodb-atlas'' then ''27017''
      else '''')"

definition dp_Address :: "db_provisioner_request \<Rightarrow> string" where
  "dp_Address r = dp_DatabaseHostname r @ '':'' @ dp_Port r"

definition NewDbProvisionerResponse :: "string \<Rightarrow> string \<Rightarrow> string \<Rightarrow> db_provisioner_response" where
  "NewDbProvisionerResponse sid status message =
     \<lparr>ds_SID = sid, ds_Status = status, ds_Message = message, ds_Result = [], ds_RunbookHook = None\<rparr>"

definition pbs_NewError :: "string \<Rightarrow> string \<Rightarrow> db_provisioner_response" where
  "pbs_NewError sid message =
     \<lparr>ds_SID = sid, ds_Status = StatusFailedType, ds_Message = message, ds_Result = [], ds_RunbookHook = None\<rparr>"

text \<open>\<open>String\<close>, which is what the log shows of a response: it has no credentials in it.\<close>

definition DBProvisionerResponse_String :: "db_provisioner_response \<Rightarrow> string" where
  "DBProvisionerResponse_String r =
     ''status='' @ ds_Status r @ '', message='' @ ds_Message r
       @ '', roles-message='' @ go_show_list (filter (\<lambda>m. m \<noteq> '''') (map ro_Message (ds_Result r)))"

lemma response_log_hides_credentials:
  "DBProvisionerResponse_String (r\<lparr>ds_Result := map (\<lambda>res. res\<lparr>ro_Credentials := c res\<rparr>) (ds_Result r)\<rparr>) = DBProvisionerResponse_String r"
  by (simp add: DBProvisionerResponse_String_def comp_def)

definition NewResultError :: "nat \<Rightarrow> string \<Rightarrow> role_result" where
  "NewResultError now message =
     \<lparr>ro_Credentials = None, ro_RoleSuffixName = '''', ro_Status = StatusFailedType, ro_Message = message,
      ro_CompletedAt = now\<rparr>"

text \<open>\<open>Encode\<close>: the payload and the packet type, both empty when the encoder fails.\<close>

definition dbp_Encode :: "(db_provisioner_response \<Rightarrow> string result) \<Rightarrow> db_provisioner_response \<Rightarrow> string option \<times> string" where
  "dbp_Encode marshal r =
     (case marshal r of Inl _ \<Rightarrow> (None, '''') | Inr payload \<Rightarrow> (Some payload, ''SysProvisionDBRolesResponse''))"

definition NewDbProvisionerRequest :: "(db_provisioner_request \<Rightarrow> string result) \<Rightarrow> db_provisioner_request \<Rightarrow> (string \<times> string) result" where
  "NewDbProvisionerRequest marshal req =
     bind_result (marshal req) (\<lambda>payload. Inr (payload, ''SysProvisionDBRolesRequest''))"

section \<open>Templates\<close>

text \<open>
  The fragment of \<open>text/template\<close> that the provisioner uses: literal text with actions
  \<open>{{ .key }}\<close>, executed on a \<open>map[string]string\<close>.  An action that is not closed makes \<open>Parse\<close> fail,
  which the constant templates of the program never do; the text is then left as it is.
\<close>

function template_exec :: "string \<Rightarrow> string gomap \<Rightarrow> string" where
  "template_exec tmpl env =
     (case str_cut ''{{ .'' tmpl of
        None \<Rightarrow> tmpl
      | Some (literal, rest) \<Rightarrow>
          (case str_cut '' }}'' rest of
             None \<Rightarrow> tmpl
           | Some (key, rest') \<Rightarrow> literal @ gm_str env key @ template_exec rest' env))"
  by pat_completeness auto
termination
proof (relation "measure (\<lambda>(t, env). length t)")
  fix t :: string and env :: "string gomap" and p a b q k c
  assume "str_cut ''{{ .'' t = Some p" "(a, b) = p" "str_cut '' }}'' b = Some q" "(k, c) = q"
  then have "t = a @ ''{{ .'' @ b" "b = k @ '' }}'' @ c" by (auto dest: str_cut_Some)
  then show "((c, env), (t, env)) \<in> measure (\<lambda>(t, env). length t)" by simp
qed simp

declare template_exec.simps [simp del]

end
