(* ===== verification/RoleStatements.thy ===== *)
theory RoleStatements
  imports SystemTypes
begin

text \<open>
  The SQL that the provisioner runs for a role, \<open>mysqlRoleStatement\<close>, \<open>postgresRoleStatement\<close> and
  \<open>mssqlRoleStatement\<close> with their privilege tables, and the passwords (\<open>generateRandomPassword\<close>), in
  \<open>src/agent/controller/system/dbprovisioner\<close>.  The templates are those of the code, line by line;
  executing a template into a buffer cannot fail.
\<close>

definition lines_text :: "string list \<Rightarrow> string" where
  "lines_text ls = str_join [CHR 0x0A] ls"

abbreviation tab :: string where "tab \<equiv> [CHR 0x09]"
abbreviation quote1 :: string where "quote1 \<equiv> [CHR 39]"

section \<open>Roles\<close>

abbreviation rolePrefixName :: string where "rolePrefixName \<equiv> ''hoop''"
abbreviation readOnlyRoleName :: string where "readOnlyRoleName \<equiv> ''ro''"
abbreviation readWriteRoleName :: string where "readWriteRoleName \<equiv> ''rw''"
abbreviation adminRoleName :: string where "adminRoleName \<equiv> ''ddl''"

definition roleNames :: "string list" where
  "roleNames = [readOnlyRoleName, readWriteRoleName, adminRoleName]"

definition role_user :: "string \<Rightarrow> string" where
  "role_user roleName = rolePrefixName @ ''_'' @ roleName"

section \<open>Passwords\<close>

definition charset :: string where
  "charset = ''abcdefghijklmnopqrstuvwxyzABCDEFGHIJKLMNOPQRSTUVWXYZ0123456789*_''"

definition passwordLength :: nat where
  "passwordLength = 25"

text \<open>\<open>rand.Read\<close> fills the whole slice or fails; the argument is what it puts at each index.\<close>

definition generateRandomPassword :: "(nat \<Rightarrow> 8 word) result \<Rightarrow> string result" where
  "generateRandomPassword rand_Read =
     bind_result rand_Read (\<lambda>password.
       Inr (map (\<lambda>i. charset ! (unat (password i) mod length charset)) [0..<passwordLength]))"

section \<open>MySQL\<close>

definition mysql_template :: string where
  \<open>mysql_template = lines_text
     ['''',
      ''START TRANSACTION;'',
      ''DROP USER IF EXISTS '{{ .user }}';'',
      ''CREATE USER '{{ .user }}'@'%' IDENTIFIED BY '{{ .password }}';'',
      ''GRANT {{ .privileges }} ON *.* TO '{{ .user }}'@'%';'',
      ''FLUSH PRIVILEGES;'',
      ''COMMIT;'',
      tab]\<close>

definition mysqlRoleStatement :: "string \<Rightarrow> string \<Rightarrow> string \<Rightarrow> string result" where
  "mysqlRoleStatement user password privileges =
     Inr (template_exec mysql_template [(''user'', user), (''password'', password), (''privileges'', privileges)])"

definition mysqlPrivileges :: "string gomap" where
  "mysqlPrivileges =
     [(readOnlyRoleName, ''SELECT''),
      (readWriteRoleName, ''SELECT, INSERT, UPDATE, DELETE''),
      (adminRoleName, ''SELECT, INSERT, UPDATE, DELETE, ALTER, CREATE, DROP'')]"

section \<open>PostgreSQL\<close>

definition postgres_template :: string where
  \<open>postgres_template = lines_text
     ['''',
      ''DO $$'',
      ''  DECLARE'',
      ''    role_count int;'',
      ''    db_schema_name text;'',
      ''BEGIN'',
      ''  -- create role or alter the password'',
      ''  SELECT COUNT(*) INTO role_count FROM pg_roles WHERE rolname = '{{ .user }}';'',
      ''  IF role_count > 0 THEN'',
      ''    ALTER ROLE "{{ .user }}" WITH LOGIN ENCRYPTED PASSWORD '{{ .password }}';'',
      ''  ELSE'',
      ''    CREATE ROLE "{{ .user }}" WITH LOGIN ENCRYPTED PASSWORD '{{ .password }}' NOINHERIT NOCREATEDB NOCREATEROLE NOSUPERUSER;'',
      ''  END IF;'',
      '''',
      ''  -- grant the privileges to the new or existing role for all schemas'',
      ''  FOR db_schema_name IN'',
      ''    SELECT schema_name'',
      ''    FROM information_schema.schemata'',
      ''    WHERE schema_name NOT IN ('information_schema', 'pg_catalog', 'pg_toast')'',
      ''  LOOP'',
      ''    EXECUTE 'GRANT USAGE ON SCHEMA ' || db_schema_name || ' TO "{{ .user }}"';'',
      ''    EXECUTE 'GRANT {{ .privileges }} ON ALL TABLES IN SCHEMA ' || db_schema_name || ' TO "{{ .user }}"';'',
      ''  END LOOP;'',
      ''END$$;'',
      tab]\<close>

definition postgresRoleStatement :: "string \<Rightarrow> string \<Rightarrow> string \<Rightarrow> string result" where
  "postgresRoleStatement user password privileges =
     Inr (template_exec postgres_template [(''user'', user), (''password'', password), (''privileges'', privileges)])"

definition postgresPrivileges :: "string gomap" where
  "postgresPrivileges =
     [(readOnlyRoleName, ''SELECT''),
      (readWriteRoleName, ''SELECT, INSERT, UPDATE, DELETE''),
      (adminRoleName, ''SELECT, INSERT, UPDATE, DELETE, TRUNCATE, REFERENCES, TRIGGER'')]"

section \<open>SQL Server\<close>

definition mssql_template :: string where
  \<open>mssql_template = lines_text
     ['''',
      ''BEGIN TRANSACTION;'',
      '''',
      ''-- Create or alter LOGIN with password'',
      ''IF NOT EXISTS (SELECT * FROM sys.server_principals WHERE name = '{{ .user }}')'',
      ''BEGIN'',
      tab @ ''CREATE LOGIN {{ .user }} WITH PASSWORD = '{{ .password }}';'',
      ''END'',
      ''ELSE'',
      tab @ ''ALTER LOGIN {{ .user }} WITH PASSWORD = '{{ .password }}';'',
      '''',
      ''-- Obtain existent databases in the instace'',
      ''DECLARE @DBName NVARCHAR(100)'',
      ''DECLARE db_cursor CURSOR FOR'',
      ''SELECT name FROM sys.databases WHERE name NOT IN ('master', 'model', 'msdb', 'tempdb', 'rdsadmin')'',
      '''',
      ''OPEN db_cursor'',
      ''FETCH NEXT FROM db_cursor INTO @DBName'',
      '''',
      ''-- Iterate over all databases creating the user and associating to roles'',
      ''WHILE @@FETCH_STATUS = 0'',
      ''BEGIN'',
      tab @ ''DECLARE @SQL NVARCHAR(MAX)'',
      ''  SET @SQL = N'' @ quote1,
      ''  USE ' + QUOTENAME(@DBName) + '' @ quote1,
      ''  IF NOT EXISTS (SELECT * FROM sys.database_principals WHERE name = '' @ quote1 @ quote1 @ ''{{ .user }}'' @ quote1 @ quote1 @ '')'',
      ''  BEGIN'',
      ''    CREATE USER {{ .user }} FOR LOGIN {{ .user }};'',
      ''  END'',
      ''  -- role statements'',
      ''  {{ .statement }}';'',
      ''  EXEC sp_executesql @SQL;'',
      ''  FETCH NEXT FROM db_cursor INTO @DBName'',
      ''END'',
      '''',
      ''CLOSE db_cursor'',
      ''DEALLOCATE db_cursor'',
      ''COMMIT;'',
      tab]\<close>

definition mssqlRoleStatement :: "string \<Rightarrow> string \<Rightarrow> string \<Rightarrow> string result" where
  "mssqlRoleStatement user password privStatement =
     (let roleStatement = template_exec privStatement [(''user'', user)] in
      Inr (template_exec mssql_template [(''user'', user), (''password'', password), (''statement'', roleStatement)]))"

definition sqlServerPrivileges :: "string gomap" where
  "sqlServerPrivileges =
     [(readOnlyRoleName, ''ALTER ROLE db_datareader ADD MEMBER {{ .user }};''),
      (readWriteRoleName, lines_text
        [''ALTER ROLE db_datareader ADD MEMBER {{ .user }};'', ''ALTER ROLE db_datawriter ADD MEMBER {{ .user }}'']),
      (adminRoleName, lines_text
        [''ALTER ROLE db_datareader ADD MEMBER {{ .user }};'', ''ALTER ROLE db_datawriter ADD MEMBER {{ .user }}'',
         ''ALTER ROLE db_ddladmin ADD MEMBER {{ .user }}''])]"

end
