(* ===== verification/Provisioner.thy ===== *)
theory Provisioner
  imports RoleStatements Base64 Agent_Handlers
begin

text \<open>
  The system requests of the agent: the database provisioner
  (\<open>src/agent/controller/system/dbprovisioner\<close>) and the runbook hooks
  (\<open>src/agent/controller/system/runbookhook\<close>).

  Every provisioning request runs in a goroutine of its own, and all of them share one store of locks;
  a goroutine is a program counter, and one step of it does at most one operation on the store, so
  requests interleave the way the code allows.  A database handle is its data source name.  The SQL
  drivers, JSON, \<open>crypto/rand\<close>, the clock and \<open>fmt.Sprintf\<close> on a text that is used as a format
  without arguments are the parameter \<open>sys_libs\<close>; the random bytes and the time are indexed by the
  role they are drawn for.  The statements that were run and the secrets that were saved are kept in
  logs, with the statements and secrets that failed among them.
\<close>

record sys_libs =
  sy_json_request :: "string \<Rightarrow> db_provisioner_request result"
  sy_json_show_request :: "db_provisioner_request \<Rightarrow> string result"
  sy_json_response :: "db_provisioner_response \<Rightarrow> string result"
  sy_json_hook :: "string \<Rightarrow> runbook_hook_request result"
  sy_json_hook_response :: "runbook_hook_response \<Rightarrow> string result"
  sy_json_data :: "string gomap \<Rightarrow> string"
  sy_open :: "string \<Rightarrow> string \<Rightarrow> error option"
  sy_ping :: "string \<Rightarrow> error option"
  sy_query :: "string \<Rightarrow> string \<Rightarrow> string result list result"
  sy_exec :: "string \<Rightarrow> string \<Rightarrow> error option"
  sy_rand :: "string \<Rightarrow> (nat \<Rightarrow> 8 word) result"
  sy_now :: "string \<Rightarrow> nat"
  sy_elapsed :: nat
  sy_format :: "string \<Rightarrow> string"
  sy_secrets :: secret_libs

type_synonym sql_log = "(string \<times> string) list"
type_synonym vault_log = "(string \<times> string gomap) list"

section \<open>One role\<close>

text \<open>The result for a role whose statements were run.\<close>

definition role_completed :: "sys_libs \<Rightarrow> db_provisioner_request \<Rightarrow> string \<Rightarrow> string \<Rightarrow> string \<Rightarrow> role_result" where
  "role_completed L r roleName randomPasswd database =
     \<lparr>ro_Credentials = Some \<lparr>cr_Host = dp_DatabaseHostname r, cr_Port = dp_Port r, cr_User = role_user roleName,
        cr_Password = randomPasswd, cr_DefaultDatabase = database,
        cr_SecretsManagerProvider = SecretsManagerProviderDatabase, cr_SecretID = '''', cr_SecretKeys = []\<rparr>,
      ro_RoleSuffixName = roleName, ro_Status = StatusCompletedType, ro_Message = '''', ro_CompletedAt = sy_now L roleName\<rparr>"

definition provisionMySQLRole :: "sys_libs \<Rightarrow> string \<Rightarrow> db_provisioner_request \<Rightarrow> string \<Rightarrow> role_result \<times> sql_log" where
  "provisionMySQLRole L db r roleName =
     (let userRole = role_user roleName; fail = NewResultError (sy_now L roleName) in
      case generateRandomPassword (sy_rand L roleName) of
        Inl err \<Rightarrow> (fail (''failed generating password for user role '' @ userRole @ '': '' @ err), [])
      | Inr randomPasswd \<Rightarrow>
          (case mysqlRoleStatement userRole randomPasswd (gm_str mysqlPrivileges roleName) of
             Inl err \<Rightarrow> (fail (''failed generating SQL statement for user role '' @ userRole @ '': '' @ err), [])
           | Inr statement \<Rightarrow>
               (case sy_exec L db statement of
                  Some err \<Rightarrow> (fail (sy_format L err), [(db, statement)])
                | None \<Rightarrow> (role_completed L r roleName randomPasswd ''mysql'', [(db, statement)]))))"

definition provisionMSSQLRole :: "sys_libs \<Rightarrow> string \<Rightarrow> db_provisioner_request \<Rightarrow> string \<Rightarrow> role_result \<times> sql_log" where
  "provisionMSSQLRole L db r roleName =
     (let userRole = role_user roleName; fail = NewResultError (sy_now L roleName) in
      case generateRandomPassword (sy_rand L roleName) of
        Inl err \<Rightarrow> (fail (''failed generating password for user role '' @ userRole @ '': '' @ err), [])
      | Inr randomPasswd \<Rightarrow>
          (case mssqlRoleStatement userRole randomPasswd (gm_str sqlServerPrivileges roleName) of
             Inl err \<Rightarrow> (fail (''failed generating SQL statement for user role '' @ userRole @ '': '' @ err), [])
           | Inr statement \<Rightarrow>
               (case sy_exec L db statement of
                  Some err \<Rightarrow> (fail (sy_format L err), [(db, statement)])
                | None \<Rightarrow> (role_completed L r roleName randomPasswd ''master'', [(db, statement)]))))"

text \<open>PostgreSQL has a statement to run in every database; the first failure ends the loop.\<close>

definition postgres_dsn :: "db_provisioner_request \<Rightarrow> string \<Rightarrow> string" where
  "postgres_dsn r dbName =
     ''postgres://'' @ dp_MasterUsername r @ '':'' @ dp_MasterPassword r @ ''@'' @ dp_Address r @ ''/'' @ dbName
       @ ''?connect_timeout=5''"

definition postgres_role_in :: "sys_libs \<Rightarrow> db_provisioner_request \<Rightarrow> string \<Rightarrow> string \<Rightarrow> string \<Rightarrow> role_result option \<times> sql_log" where
  "postgres_role_in L r roleName randomPasswd dbName =
     (let db = postgres_dsn r dbName; userRole = role_user roleName; fail = NewResultError (sy_now L roleName) in
      case sy_open L ''postgres'' db of
        Some err \<Rightarrow> (Some (fail (''failed to create database connection: '' @ err)), [])
      | None \<Rightarrow>
          (case postgresRoleStatement userRole randomPasswd (gm_str postgresPrivileges roleName) of
             Inl err \<Rightarrow> (Some (fail (''failed generating SQL statement for user role '' @ userRole @ '': '' @ err)), [])
           | Inr statement \<Rightarrow>
               (case sy_exec L db statement of
                  Some err \<Rightarrow> (Some (fail (sy_format L err)), [(db, statement)])
                | None \<Rightarrow> (None, [(db, statement)]))))"

fun postgres_role_loop :: "sys_libs \<Rightarrow> db_provisioner_request \<Rightarrow> string \<Rightarrow> string \<Rightarrow> string list \<Rightarrow> role_result option \<times> sql_log" where
  "postgres_role_loop L r roleName randomPasswd [] = (None, [])"
| "postgres_role_loop L r roleName randomPasswd (dbName # dbNames) =
     (case postgres_role_in L r roleName randomPasswd dbName of
        (Some res, log) \<Rightarrow> (Some res, log)
      | (None, log) \<Rightarrow> (case postgres_role_loop L r roleName randomPasswd dbNames of (res, log') \<Rightarrow> (res, log @ log')))"

definition provisionPostgresRole :: "sys_libs \<Rightarrow> string list \<Rightarrow> db_provisioner_request \<Rightarrow> string \<Rightarrow> role_result \<times> sql_log" where
  "provisionPostgresRole L dbNames r roleName =
     (case generateRandomPassword (sy_rand L roleName) of
        Inl err \<Rightarrow> (NewResultError (sy_now L roleName)
                     (''failed generating password for user role '' @ role_user roleName @ '': '' @ err), [])
      | Inr randomPasswd \<Rightarrow>
          (case postgres_role_loop L r roleName randomPasswd dbNames of
             (Some res, log) \<Rightarrow> (res, log)
           | (None, log) \<Rightarrow> (role_completed L r roleName randomPasswd ''postgres'', log)))"

section \<open>All roles of a database\<close>

text \<open>The loop over \<open>roleNames\<close>: one result per role, in their order.\<close>

fun provision_roles :: "(string \<Rightarrow> role_result \<times> sql_log) \<Rightarrow> string list \<Rightarrow> role_result list \<times> sql_log" where
  "provision_roles role [] = ([], [])"
| "provision_roles role (roleName # names) =
     (case role roleName of (result, log) \<Rightarrow>
        (case provision_roles role names of (results, log') \<Rightarrow> (result # results, log @ log')))"

definition roles_response :: "db_provisioner_request \<Rightarrow> (string \<Rightarrow> role_result \<times> sql_log) \<Rightarrow> db_provisioner_response \<times> sql_log" where
  "roles_response r role =
     (case provision_roles role roleNames of (results, log) \<Rightarrow>
        ((NewDbProvisionerResponse (dp_SID r) '''' '''')\<lparr>ds_Result := results\<rparr>, log))"

definition connect_error :: "db_provisioner_request \<Rightarrow> error \<Rightarrow> db_provisioner_response" where
  "connect_error r err = pbs_NewError (dp_SID r)
     (''failed to connect to engine '' @ dp_DatabaseType r @ '', host='' @ dp_DatabaseHostname r @ '', user=''
       @ dp_MasterUsername r @ '', reason='' @ err)"

definition mysql_dsn :: "db_provisioner_request \<Rightarrow> string" where
  "mysql_dsn r = dp_MasterUsername r @ '':'' @ dp_MasterPassword r @ ''@tcp('' @ dp_Address r @ '')/mysql?multiStatements=true''"

definition mssql_dsn :: "db_provisioner_request \<Rightarrow> string" where
  "mssql_dsn r = ''sqlserver://'' @ dp_MasterUsername r @ '':'' @ dp_MasterPassword r @ ''@'' @ dp_Address r @ ''?database=master''"

definition provisionMySQLRoles :: "sys_libs \<Rightarrow> db_provisioner_request \<Rightarrow> db_provisioner_response \<times> sql_log" where
  "provisionMySQLRoles L r =
     (let db = mysql_dsn r in
      case sy_open L ''mysql'' db of
        Some err \<Rightarrow> (pbs_NewError (dp_SID r) (''failed to create database connection: '' @ err), [])
      | None \<Rightarrow>
          (case sy_ping L db of
             Some err \<Rightarrow> (connect_error r err, [])
           | None \<Rightarrow> roles_response r (provisionMySQLRole L db r)))"

definition provisionMSSQLRoles :: "sys_libs \<Rightarrow> db_provisioner_request \<Rightarrow> db_provisioner_response \<times> sql_log" where
  "provisionMSSQLRoles L r =
     (let db = mssql_dsn r in
      case sy_open L ''sqlserver'' db of
        Some err \<Rightarrow> (pbs_NewError (dp_SID r) (''failed to create database connection: '' @ err), [])
      | None \<Rightarrow>
          (case sy_ping L db of
             Some err \<Rightarrow> (connect_error r err, [])
           | None \<Rightarrow> roles_response r (provisionMSSQLRole L db r)))"

text \<open>The rows of the query for the names: each row is scanned with a result.\<close>

fun scan_names :: "string result list \<Rightarrow> string list \<Rightarrow> string list result" where
  "scan_names [] dbNames = Inr dbNames"
| "scan_names (Inl err # rows) dbNames = Inl err"
| "scan_names (Inr dbName # rows) dbNames = scan_names rows (dbNames @ [dbName])"

definition database_names_query :: string where
  \<open>database_names_query = ''SELECT datname as dbname FROM pg_database WHERE datname NOT IN ('template0', 'template1', 'rdsadmin')''\<close>

definition provisionPostgresRoles :: "sys_libs \<Rightarrow> db_provisioner_request \<Rightarrow> db_provisioner_response \<times> sql_log" where
  "provisionPostgresRoles L r =
     (let db = postgres_dsn r ''postgres''; fail = (\<lambda>msg. (pbs_NewError (dp_SID r) msg, [])) in
      case sy_open L ''postgres'' db of
        Some err \<Rightarrow> fail (''failed to create database connection: '' @ err)
      | None \<Rightarrow>
          (case sy_ping L db of
             Some err \<Rightarrow> (connect_error r err, [])
           | None \<Rightarrow>
               (case sy_query L db database_names_query of
                  Inl err \<Rightarrow> fail (''failed listing databases: '' @ err)
                | Inr rows \<Rightarrow>
                    (case scan_names rows [] of
                       Inl err \<Rightarrow> fail (''failed reading column name: '' @ err)
                     | Inr [] \<Rightarrow> fail ''cannot find any databases to provision roles''
                     | Inr dbNames \<Rightarrow> roles_response r (provisionPostgresRole L dbNames r)))))"

section \<open>The status of a request, Vault and the hook\<close>

text \<open>The choice of the engine; \<open>None\<close> for a type that is not implemented.\<close>

definition provision_engine :: "sys_libs \<Rightarrow> db_provisioner_request \<Rightarrow> (db_provisioner_response \<times> sql_log) option" where
  "provision_engine L req =
     (if dp_DatabaseType req \<in> set postgres_types then Some (provisionPostgresRoles L req)
      else if dp_DatabaseType req \<in> set mysql_types then Some (provisionMySQLRoles L req)
      else if dp_DatabaseType req \<in> set sqlserver_types then Some (provisionMSSQLRoles L req)
      else None)"

definition complete_status :: "db_provisioner_response \<Rightarrow> db_provisioner_response" where
  "complete_status res =
     (let res = (if ds_Status res = '''' then res\<lparr>ds_Status := StatusCompletedType, ds_Message := MessageCompleted\<rparr> else res) in
      if list_ex (\<lambda>item. ro_Status item \<noteq> StatusCompletedType) (ds_Result res)
      then res\<lparr>ds_Message := MessageOneOrMoreRolesFailed, ds_Status := StatusFailedType\<rparr>
      else res)"

definition NewVaultProvider :: "secret_libs \<Rightarrow> vault_provider result" where
  "NewVaultProvider L = newVaultKeyValProvider L secretProviderVaultKv2Type"

definition vault_data :: "db_credentials \<Rightarrow> string gomap" where
  "vault_data c =
     [(''HOST'', cr_Host c), (''PORT'', cr_Port c), (''USER'', cr_User c), (''PASSWORD'', cr_Password c),
      (''DB'', cr_DefaultDatabase c)]"

definition vault_path :: "string \<Rightarrow> db_credentials \<Rightarrow> string" where
  "vault_path secretID c = secretID @ cr_User c @ ''_'' @ cr_Host c"

text \<open>
  Save the credentials of one role.  An item without credentials would be a nil dereference.  The
  result says whether the secret could not be saved.
\<close>

definition save_role :: "sys_libs \<Rightarrow> vault_provider \<Rightarrow> string \<Rightarrow> role_result \<Rightarrow> (role_result \<times> bool \<times> vault_log) outcome" where
  "save_role L vault secretID item =
     (case ro_Credentials item of
        None \<Rightarrow> Panic
      | Some c \<Rightarrow>
          (let vaultPath = vault_path secretID c;
               err = vault_SetValue (sy_secrets L) vault vaultPath (vault_data c) (sy_json_data L);
               c' = c\<lparr>cr_SecretsManagerProvider := SecretsManagerProviderVault,
                      cr_SecretKeys := [''HOST'', ''PORT'', ''USER'', ''PASSWORD'', ''DB''],
                      cr_SecretID := vaultPath, cr_Password := ''''\<rparr>;
               item' = item\<lparr>ro_Credentials := Some c'\<rparr>
           in Ret (case err of
                     None \<Rightarrow> (item', False, [(vaultPath, vault_data c)])
                   | Some e \<Rightarrow> (item'\<lparr>ro_Message := ''Unable to create or update secret in Vault, reason='' @ e\<rparr>, True,
                               [(vaultPath, vault_data c)]))))"

fun save_roles :: "sys_libs \<Rightarrow> vault_provider \<Rightarrow> string \<Rightarrow> role_result list \<Rightarrow> (role_result list \<times> bool \<times> vault_log) outcome" where
  "save_roles L vault secretID [] = Ret ([], False, [])"
| "save_roles L vault secretID (item # items) =
     (case save_role L vault secretID item of
        Panic \<Rightarrow> Panic
      | Ret (item', failed, log) \<Rightarrow>
          (case save_roles L vault secretID items of
             Panic \<Rightarrow> Panic
           | Ret (items', failed', log') \<Rightarrow> Ret (item' # items', failed \<or> failed', log @ log')))"

definition save_response :: "sys_libs \<Rightarrow> vault_provider \<Rightarrow> string \<Rightarrow> db_provisioner_response
    \<Rightarrow> (db_provisioner_response \<times> vault_log) outcome" where
  "save_response L vault secretID res =
     (case save_roles L vault secretID (ds_Result res) of
        Panic \<Rightarrow> Panic
      | Ret (items, failed, log) \<Rightarrow>
          Ret (if failed then res\<lparr>ds_Result := items, ds_Message := MessageVaultSaveError, ds_Status := StatusFailedType\<rparr>
               else res\<lparr>ds_Result := items\<rparr>, log))"

text \<open>The output of a hook is cut after \<open>maxOutputBytes\<close>; both hooks do it in the same way.\<close>

definition maxOutputBytes :: nat where
  "maxOutputBytes = 4096"

definition truncate_output :: "string \<Rightarrow> string" where
  "truncate_output outputContent =
     (if length outputContent > maxOutputBytes
      then take maxOutputBytes outputContent @ '' [truncated '' @ nat_dec (length outputContent - maxOutputBytes) @ '' byte(s)]''
      else outputContent)"

text \<open>
  The hook of a request.  The proxy that the stub returns writes nothing to its streams, so the output
  is empty when the callback reads it.
\<close>

definition hook_envs :: "sys_libs \<Rightarrow> db_provisioner_request \<Rightarrow> db_provisioner_response \<Rightarrow> string gomap" where
  "hook_envs L req res =
     (let bytes_of = (\<lambda>r. case r of Inl _ \<Rightarrow> '''' | Inr s \<Rightarrow> s) in
      [(''envvar:HOOP_AWS_CONNECT_REQUEST'', b64_encode (bytes_of (sy_json_show_request L req))),
       (''envvar:HOOP_AWS_CONNECT_RESPONSE'', b64_encode (bytes_of (sy_json_response L res)))])"

definition run_exec_hook :: "sys_libs \<Rightarrow> string \<Rightarrow> db_provisioner_request \<Rightarrow> db_provisioner_response \<Rightarrow> db_provisioner_response" where
  "run_exec_hook L sid req res =
     (case dp_ExecHook req of
        None \<Rightarrow> res
      | Some hook \<Rightarrow>
          (case new_proxy ''terminal-exec'' (hook_envs L req res) of
             Inl err \<Rightarrow> pbs_NewError sid (''failed executing runbook hook, reason='' @ err)
           | Inr cmd \<Rightarrow>
               noop_Run ''terminal-exec'' (\<lambda>exitCode errMsg res.
                 res\<lparr>ds_RunbookHook := Some \<lparr>rh_ExitCode = exitCode, rh_Output = truncate_output '''',
                   rh_ExecutionTimeSec = sy_elapsed L\<rparr>\<rparr>) res))"

text \<open>What a request does while it holds its lock: the response it sends and its two logs.\<close>

definition provision :: "sys_libs \<Rightarrow> string \<Rightarrow> db_provisioner_request
    \<Rightarrow> (db_provisioner_response \<times> sql_log \<times> vault_log) outcome" where
  "provision L sid req =
     (let vault = NewVaultProvider (sy_secrets L) in
      case (dp_Vault req, vault) of
        (Some _, Inl err) \<Rightarrow> Ret (pbs_NewError sid (sy_format L err), [], [])
      | _ \<Rightarrow>
          (case provision_engine L req of
             None \<Rightarrow> Ret (pbs_NewError sid (''database provisioner not implemented for type '' @ go_quote (dp_DatabaseType req)), [], [])
           | Some (res, log) \<Rightarrow>
               (let res = complete_status res in
                case (case (dp_Vault req, vault) of
                        (Some secretID, Inr p) \<Rightarrow>
                          if ds_Status res = StatusCompletedType then save_response L p secretID res else Ret (res, [])
                      | _ \<Rightarrow> Ret (res, [])) of
                  Panic \<Rightarrow> Panic
                | Ret (res, saved) \<Rightarrow> Ret (run_exec_hook L sid req res, log, saved))))"

section \<open>The goroutines\<close>

datatype prov_pc =
    PStart packet
  | PMark string db_provisioner_request
  | PWork string db_provisioner_request
  | PRelease string
  | PEnd

record prov_state =
  ps_store :: "unit store"
  ps_threads :: "prov_pc list"
  ps_sent :: "packet list"
  ps_sql :: sql_log
  ps_saved :: vault_log
  ps_crashed :: bool

definition prov_init :: prov_state where
  "prov_init = \<lparr>ps_store = mem_New, ps_threads = [], ps_sent = [], ps_sql = [], ps_saved = [], ps_crashed = False\<rparr>"

definition prov_goto :: "nat \<Rightarrow> prov_pc \<Rightarrow> prov_state \<Rightarrow> prov_state" where
  "prov_goto i pc s = s\<lparr>ps_threads := (ps_threads s)[i := pc]\<rparr>"

definition response_packet :: "sys_libs \<Rightarrow> db_provisioner_response \<Rightarrow> packet" where
  "response_packet L response =
     (case dbp_Encode (sy_json_response L) response of (payload, pbtype) \<Rightarrow>
        \<lparr>pkt_Type = pbtype, pkt_Spec = Some [(SpecGatewaySessionID, ds_SID response)], pkt_Payload = payload\<rparr>)"

definition prov_sendResponse :: "sys_libs \<Rightarrow> db_provisioner_response \<Rightarrow> prov_state \<Rightarrow> prov_state" where
  "prov_sendResponse L response s = s\<lparr>ps_sent := ps_sent s @ [response_packet L response]\<rparr>"

definition lockResourceID :: "db_provisioner_request \<Rightarrow> string" where
  "lockResourceID req = dp_OrgID req @ '':'' @ dp_ResourceID req"

definition busy_response :: "string \<Rightarrow> db_provisioner_request \<Rightarrow> db_provisioner_response" where
  "busy_response sid req = pbs_NewError sid (''process already being executed, resource_id='' @ dp_ResourceID req)"

text \<open>
  One step of a goroutine: decode and look at the lock; take it; do the work and answer; the deferred
  release.
\<close>

fun prov_step_pc :: "sys_libs \<Rightarrow> nat \<Rightarrow> prov_pc \<Rightarrow> prov_state \<Rightarrow> prov_state" where
  "prov_step_pc L i (PStart pkt) s =
     (let sid = spec_get pkt SpecGatewaySessionID in
      case sy_json_request L (payload_str pkt) of
        Inl err \<Rightarrow> prov_goto i PEnd (prov_sendResponse L (pbs_NewError sid (''unable to decode payload: '' @ err)) s)
      | Inr req \<Rightarrow>
          if mem_Has (ps_store s) (lockResourceID req) then prov_goto i PEnd (prov_sendResponse L (busy_response sid req) s)
          else prov_goto i (PMark sid req) s)"
| "prov_step_pc L i (PMark sid req) s =
     prov_goto i (PWork sid req) (s\<lparr>ps_store := mem_Set (lockResourceID req) None (ps_store s)\<rparr>)"
| "prov_step_pc L i (PWork sid req) s =
     (case provision L sid req of
        Panic \<Rightarrow> s\<lparr>ps_crashed := True\<rparr>
      | Ret (res, sql, saved) \<Rightarrow>
          prov_goto i (PRelease (lockResourceID req))
            (prov_sendResponse L res (s\<lparr>ps_sql := ps_sql s @ sql, ps_saved := ps_saved s @ saved\<rparr>)))"
| "prov_step_pc L i (PRelease key) s = prov_goto i PEnd (s\<lparr>ps_store := mem_Del key (ps_store s)\<rparr>)"
| "prov_step_pc L i PEnd s = s"

definition prov_step :: "sys_libs \<Rightarrow> nat \<Rightarrow> prov_state \<Rightarrow> prov_state" where
  "prov_step L i s = (if ps_crashed s then s else prov_step_pc L i (ps_threads s ! i) s)"

definition ProcessDBProvisionerRequest :: "packet \<Rightarrow> prov_state \<Rightarrow> prov_state" where
  "ProcessDBProvisionerRequest pkt s = s\<lparr>ps_threads := ps_threads s @ [PStart pkt]\<rparr>"

text \<open>The run of a request that no other one interrupts: its goroutine has at most four steps.\<close>

definition processDBProvisionerRequest :: "sys_libs \<Rightarrow> packet \<Rightarrow> prov_state \<Rightarrow> prov_state" where
  "processDBProvisionerRequest L pkt s =
     (let i = length (ps_threads s) in (prov_step L i ^^ 4) (ProcessDBProvisionerRequest pkt s))"

inductive prov_next :: "sys_libs \<Rightarrow> prov_state \<Rightarrow> prov_state \<Rightarrow> bool" for L where
  arrive: "\<not> ps_crashed s \<Longrightarrow> prov_next L s (ProcessDBProvisionerRequest pkt s)"
| run: "i < length (ps_threads s) \<Longrightarrow> prov_next L s (prov_step L i s)"

inductive_cases prov_nextE [elim]: "prov_next L s s'"

section \<open>Runbook hooks\<close>

definition hook_newError :: "string \<Rightarrow> string \<Rightarrow> runbook_hook_response" where
  "hook_newError sid message = \<lparr>rp_ID = sid, rp_ExitCode = - 2, rp_Output = message, rp_ExecutionTimeSec = 0\<rparr>"

text \<open>A response that cannot be encoded is logged and not sent.\<close>

definition hook_sendResponse :: "sys_libs \<Rightarrow> runbook_hook_response \<Rightarrow> packet list" where
  "hook_sendResponse L response =
     (case sy_json_hook_response L response of
        Inl _ \<Rightarrow> []
      | Inr payload \<Rightarrow>
          [\<lparr>pkt_Type = system_RunbookHookResponseType, pkt_Spec = Some [(SpecGatewaySessionID, rp_ID response)],
            pkt_Payload = Some payload\<rparr>])"

definition hook_processRequest :: "sys_libs \<Rightarrow> packet \<Rightarrow> packet list" where
  "hook_processRequest L pkt =
     (let sid = spec_get pkt SpecGatewaySessionID in
      case sy_json_hook L (payload_str pkt) of
        Inl err \<Rightarrow> hook_sendResponse L (hook_newError sid (''unable to decode payload: '' @ err))
      | Inr req \<Rightarrow>
          (case new_proxy ''terminal-exec'' [(''envvar:HOOP_RUNBOOK_HOOK_PAYLOAD'', b64_encode (payload_str pkt))] of
             Inl err \<Rightarrow> hook_sendResponse L (hook_newError sid (''failed executing runbook hook, reason='' @ err))
           | Inr cmd \<Rightarrow>
               noop_Run ''terminal-exec'' (\<lambda>exitCode errMsg sent.
                 sent @ hook_sendResponse L \<lparr>rp_ID = sid, rp_ExitCode = exitCode, rp_Output = truncate_output '''',
                   rp_ExecutionTimeSec = sy_elapsed L\<rparr>) []))"

end
