(* ===== verification/Provisioner_Safety.thy ===== *)
theory Provisioner_Safety
  imports Provisioner Transition
begin

text \<open>
  Properties of the database provisioner: its passwords, what a completed request has done, what
  reaches the response when Vault is used, and the locks under every interleaving of requests.
\<close>

section \<open>Passwords\<close>

lemma charset_length [simp]: "length charset = 64"
  by (simp add: charset_def)

lemma charset_distinct: "distinct charset"
  by (simp add: charset_def)

lemma residue_cases: "n < 256 \<Longrightarrow> n mod 64 = k \<Longrightarrow> n \<in> {k, k + 64, k + 128, k + 192}" for n :: nat
proof -
  assume "n < 256" "n mod 64 = k"
  moreover from \<open>n < 256\<close> have "n div 64 = 0 \<or> n div 64 = 1 \<or> n div 64 = 2 \<or> n div 64 = 3" by linarith
  moreover have "n = 64 * (n div 64) + n mod 64" by simp
  ultimately show ?thesis by auto
qed

lemma card_residue:
  assumes "k < 64"
  shows "card {b :: 8 word. unat b mod 64 = k} = 4"
proof -
  have "{b :: 8 word. unat b mod 64 = k} = of_nat ` {k, k + 64, k + 128, k + 192}"
  proof (intro set_eqI iffI)
    fix b :: "8 word"
    assume "b \<in> {b. unat b mod 64 = k}"
    then have "unat b \<in> {k, k + 64, k + 128, k + 192}"
      using unsigned_less [of b] by (intro residue_cases) simp_all
    moreover have "b = of_nat (unat b)" by simp
    ultimately show "b \<in> of_nat ` {k, k + 64, k + 128, k + 192}" by blast
  next
    fix b :: "8 word"
    assume "b \<in> of_nat ` {k, k + 64, k + 128, k + 192}"
    then obtain n where n: "n \<in> {k, k + 64, k + 128, k + 192}" "b = of_nat n" by blast
    with assms have "unat b = n" by (auto simp: unat_of_nat)
    moreover have "(k + 64 * m) mod 64 = k" for m using assms by simp
    from this [of 0] this [of 1] this [of 2] this [of 3] have "n mod 64 = k" using n(1) by auto
    ultimately show "b \<in> {b. unat b mod 64 = k}" by simp
  qed
  moreover have "inj_on (of_nat :: nat \<Rightarrow> 8 word) {k, k + 64, k + 128, k + 192}"
  proof (rule inj_on_inverseI [where g = unat])
    fix n
    assume "n \<in> {k, k + 64, k + 128, k + 192}"
    with assms have "n < 256" by auto
    then show "unat (of_nat n :: 8 word) = n" by (simp add: unat_of_nat)
  qed
  ultimately show ?thesis by (simp add: card_image)
qed

lemma card_charset:
  assumes "c \<in> set charset"
  shows "card {b :: 8 word. charset ! (unat b mod length charset) = c} = 4"
proof -
  obtain k where k: "k < 64" "c = charset ! k" using assms by (auto simp: in_set_conv_nth)
  have "charset ! (unat b mod length charset) = c \<longleftrightarrow> unat b mod 64 = k" for b :: "8 word"
    using k nth_eq_iff_index_eq [OF charset_distinct, of "unat b mod 64" k] by simp
  then show ?thesis using card_residue [OF k(1)] by simp
qed

lemma card_list_all2:
  assumes "\<And>y. y \<in> set ys \<Longrightarrow> card {x. R x y} = n"
  shows "card {xs. list_all2 R xs ys} = n ^ length ys"
  using assms
proof (induction ys)
  case Nil
  then show ?case by simp
next
  case (Cons y ys)
  have "{xs. list_all2 R xs (y # ys)} = (\<lambda>(x, xs). x # xs) ` ({x. R x y} \<times> {xs. list_all2 R xs ys})"
    by (auto simp: list_all2_Cons2 image_iff)
  moreover have "inj_on (\<lambda>(x, xs). x # xs) ({x. R x y} \<times> {xs. list_all2 R xs ys})"
    by (auto simp: inj_on_def)
  ultimately show ?case using Cons by (simp add: card_image card_cartesian_product)
qed

lemma password_bytes:
  assumes "length bs = passwordLength" "length p = passwordLength"
  shows "generateRandomPassword (Inr ((!) bs)) = Inr p \<longleftrightarrow> list_all2 (\<lambda>b c. charset ! (unat b mod length charset) = c) bs p"
  using assms by (auto simp: generateRandomPassword_def list_all2_conv_all_nth list_eq_iff_nth_eq)

lemma password_chars:
  "generateRandomPassword r = Inr p \<Longrightarrow> length p = passwordLength \<and> set p \<subseteq> set charset"
  by (auto simp: generateRandomPassword_def bind_result_def in_set_conv_nth split: sum.splits)
    (metis charset_length mod_less_divisor nth_mem zero_less_numeral)

text \<open>
  C33: the passwords of the roles are drawn without bias: every text of 25 characters of the character
  set is the password for exactly \<open>4 ^ 25\<close> of the \<open>256 ^ 25\<close> byte sequences that \<open>rand.Read\<close> can
  deliver, and no other text is a password; no password holds a quote, so it stays inside the quotes
  of the statements.
\<close>

theorem password_uniform:
  "card {bs. length bs = 25 \<and> generateRandomPassword (Inr ((!) bs)) = Inr p} =
     (if length p = 25 \<and> set p \<subseteq> set charset then 4 ^ 25 else 0) \<and> CHR 39 \<notin> set charset \<and> CHR 34 \<notin> set charset"
proof (intro conjI)
  let ?R = "\<lambda>(b :: 8 word) c. charset ! (unat b mod length charset) = c"
  let ?D = "{bs. length bs = 25 \<and> generateRandomPassword (Inr ((!) bs)) = Inr p}"
  show "card ?D = (if length p = 25 \<and> set p \<subseteq> set charset then 4 ^ 25 else 0)"
  proof (cases "length p = 25 \<and> set p \<subseteq> set charset")
    case True
    then have "length bs = 25 \<and> generateRandomPassword (Inr ((!) bs)) = Inr p \<longleftrightarrow> list_all2 ?R bs p" for bs
      using password_bytes [of bs p] list_all2_lengthD [of ?R bs p] by (auto simp: passwordLength_def)
    then have "?D = {bs. list_all2 ?R bs p}" by blast
    moreover have "card {bs. list_all2 ?R bs p} = 4 ^ length p"
      using True card_charset by (intro card_list_all2) blast
    ultimately show ?thesis using True by simp
  next
    case False
    then have "?D = {}" using password_chars by (auto simp: passwordLength_def)
    then have "card ?D = 0" by (simp only: card.empty)
    with False show ?thesis by presburger
  qed
  show "CHR 39 \<notin> set charset" "CHR 34 \<notin> set charset" by (simp_all add: charset_def)
qed

section \<open>What a request is meant to do\<close>

text \<open>
  The plan of a request on a reachable database: the statement for a role and its password has to run
  on every target.
\<close>

record plan =
  pn_database :: string
  pn_targets :: "string list"
  pn_statement :: "string \<Rightarrow> string \<Rightarrow> string result"
  pn_runs :: "string \<Rightarrow> string \<Rightarrow> bool"

definition mysql_plan :: "sys_libs \<Rightarrow> db_provisioner_request \<Rightarrow> plan" where
  "mysql_plan L r = \<lparr>pn_database = ''mysql'', pn_targets = [mysql_dsn r],
     pn_statement = (\<lambda>role pw. mysqlRoleStatement (role_user role) pw (gm_str mysqlPrivileges role)),
     pn_runs = (\<lambda>d st. sy_exec L d st = None)\<rparr>"

definition mssql_plan :: "sys_libs \<Rightarrow> db_provisioner_request \<Rightarrow> plan" where
  "mssql_plan L r = \<lparr>pn_database = ''master'', pn_targets = [mssql_dsn r],
     pn_statement = (\<lambda>role pw. mssqlRoleStatement (role_user role) pw (gm_str sqlServerPrivileges role)),
     pn_runs = (\<lambda>d st. sy_exec L d st = None)\<rparr>"

definition postgres_plan :: "sys_libs \<Rightarrow> string list \<Rightarrow> db_provisioner_request \<Rightarrow> plan" where
  "postgres_plan L dbNames r = \<lparr>pn_database = ''postgres'', pn_targets = map (postgres_dsn r) dbNames,
     pn_statement = (\<lambda>role pw. postgresRoleStatement (role_user role) pw (gm_str postgresPrivileges role)),
     pn_runs = (\<lambda>d st. sy_open L ''postgres'' d = None \<and> sy_exec L d st = None)\<rparr>"

definition reachable_db :: "sys_libs \<Rightarrow> string \<Rightarrow> string \<Rightarrow> bool" where
  "reachable_db L driver db \<longleftrightarrow> sy_open L driver db = None \<and> sy_ping L db = None"

definition provision_plan :: "sys_libs \<Rightarrow> db_provisioner_request \<Rightarrow> plan option" where
  "provision_plan L r =
     (if dp_DatabaseType r \<in> set postgres_types then
        if reachable_db L ''postgres'' (postgres_dsn r ''postgres'') then
          (case sy_query L (postgres_dsn r ''postgres'') database_names_query of
             Inr rows \<Rightarrow> (case scan_names rows [] of Inr (n # ns) \<Rightarrow> Some (postgres_plan L (n # ns) r) | _ \<Rightarrow> None)
           | Inl _ \<Rightarrow> None)
        else None
      else if dp_DatabaseType r \<in> set mysql_types then
        if reachable_db L ''mysql'' (mysql_dsn r) then Some (mysql_plan L r) else None
      else if dp_DatabaseType r \<in> set sqlserver_types then
        if reachable_db L ''sqlserver'' (mssql_dsn r) then Some (mssql_plan L r) else None
      else None)"

definition role_password :: "sys_libs \<Rightarrow> string \<Rightarrow> string" where
  "role_password L role = projr (generateRandomPassword (sy_rand L role))"

definition planned_statement :: "sys_libs \<Rightarrow> plan \<Rightarrow> string \<Rightarrow> string" where
  "planned_statement L P role = projr (pn_statement P role (role_password L role))"

definition role_succeeds :: "sys_libs \<Rightarrow> plan \<Rightarrow> string \<Rightarrow> bool" where
  "role_succeeds L P role \<longleftrightarrow> is_ok (sy_rand L role) \<and> (\<forall>d \<in> set (pn_targets P). pn_runs P d (planned_statement L P role))"

definition planned_result :: "sys_libs \<Rightarrow> db_provisioner_request \<Rightarrow> plan \<Rightarrow> string \<Rightarrow> role_result" where
  "planned_result L r P role = role_completed L r role (role_password L role) (pn_database P)"

definition planned_log :: "sys_libs \<Rightarrow> plan \<Rightarrow> string \<Rightarrow> sql_log" where
  "planned_log L P role = map (\<lambda>d. (d, planned_statement L P role)) (pn_targets P)"

section \<open>The engines follow their plan\<close>

locale role_engine =
  fixes L :: sys_libs and r :: db_provisioner_request and P :: plan
    and provision_role :: "string \<Rightarrow> role_result \<times> sql_log"
  assumes success: "role_succeeds L P role \<Longrightarrow> provision_role role = (planned_result L r P role, planned_log L P role)"
    and failure: "\<not> role_succeeds L P role \<Longrightarrow> ro_Status (fst (provision_role role)) = StatusFailedType"
begin

lemma roles_good:
  assumes "\<forall>role \<in> set names. role_succeeds L P role"
  shows "provision_roles provision_role names = (map (planned_result L r P) names, concat (map (planned_log L P) names))"
  using assms by (induction names) (auto simp: success)

lemma roles_bad:
  assumes "role \<in> set names" "\<not> role_succeeds L P role"
  shows "\<exists>item \<in> set (fst (provision_roles provision_role names)). ro_Status item = StatusFailedType"
  using assms(1)
proof (induction names)
  case Nil
  then show ?case by simp
next
  case (Cons name names)
  show ?case
  proof (cases "role = name")
    case True
    then show ?thesis using failure [OF assms(2)] by (auto simp: split_beta)
  next
    case False
    then show ?thesis using Cons by (auto simp: split_beta)
  qed
qed

lemma response_good:
  assumes "\<forall>role \<in> set roleNames. role_succeeds L P role"
  shows "roles_response r provision_role =
    (\<lparr>ds_SID = dp_SID r, ds_Status = '''', ds_Message = '''', ds_Result = map (planned_result L r P) roleNames,
      ds_RunbookHook = None\<rparr>, concat (map (planned_log L P) roleNames))"
  using roles_good [OF assms] by (simp add: roles_response_def NewDbProvisionerResponse_def)

lemma response_bad:
  assumes "\<not> (\<forall>role \<in> set roleNames. role_succeeds L P role)"
  shows "ds_Status (complete_status (fst (roles_response r provision_role))) = StatusFailedType"
proof -
  obtain item where "item \<in> set (ds_Result (fst (roles_response r provision_role)))" "ro_Status item = StatusFailedType"
    using assms roles_bad [of _ roleNames] by (auto simp: roles_response_def split_beta)
  then have "\<exists>item \<in> set (ds_Result (fst (roles_response r provision_role))). ro_Status item \<noteq> StatusCompletedType"
    by (intro bexI [of _ item]) simp_all
  then show ?thesis unfolding complete_status_def Let_def list_ex_iff by auto
qed

end

lemma generate_ok: "is_ok (sy_rand L role) \<Longrightarrow> generateRandomPassword (sy_rand L role) = Inr (role_password L role)"
  by (cases "sy_rand L role") (simp_all add: role_password_def generateRandomPassword_def)

lemma generate_bad: "\<not> is_ok (sy_rand L role) \<Longrightarrow> \<exists>e. generateRandomPassword (sy_rand L role) = Inl e"
  by (cases "sy_rand L role") (simp_all add: generateRandomPassword_def)

lemma NewResultError_status [simp]: "ro_Status (NewResultError now msg) = StatusFailedType"
  by (simp add: NewResultError_def)

interpretation mysql: role_engine L r "mysql_plan L r" "provisionMySQLRole L (mysql_dsn r) r" for L r
proof unfold_locales
  fix role
  show "provisionMySQLRole L (mysql_dsn r) r role = (planned_result L r (mysql_plan L r) role, planned_log L (mysql_plan L r) role)"
    if "role_succeeds L (mysql_plan L r) role"
    using that generate_ok [of L role]
    by (simp add: role_succeeds_def provisionMySQLRole_def mysql_plan_def planned_result_def planned_log_def
        planned_statement_def mysqlRoleStatement_def Let_def)
  show "ro_Status (fst (provisionMySQLRole L (mysql_dsn r) r role)) = StatusFailedType"
    if "\<not> role_succeeds L (mysql_plan L r) role"
  proof (cases "is_ok (sy_rand L role)")
    case True
    with that show ?thesis
      by (auto simp: role_succeeds_def provisionMySQLRole_def mysql_plan_def planned_statement_def generate_ok mysqlRoleStatement_def Let_def)
  next
    case False
    then show ?thesis using generate_bad [OF False] by (auto simp: provisionMySQLRole_def)
  qed
qed

interpretation mssql: role_engine L r "mssql_plan L r" "provisionMSSQLRole L (mssql_dsn r) r" for L r
proof unfold_locales
  fix role
  show "provisionMSSQLRole L (mssql_dsn r) r role = (planned_result L r (mssql_plan L r) role, planned_log L (mssql_plan L r) role)"
    if "role_succeeds L (mssql_plan L r) role"
    using that generate_ok [of L role]
    by (simp add: role_succeeds_def provisionMSSQLRole_def mssql_plan_def planned_result_def planned_log_def
        planned_statement_def mssqlRoleStatement_def Let_def)
  show "ro_Status (fst (provisionMSSQLRole L (mssql_dsn r) r role)) = StatusFailedType"
    if "\<not> role_succeeds L (mssql_plan L r) role"
  proof (cases "is_ok (sy_rand L role)")
    case True
    with that show ?thesis
      by (auto simp: role_succeeds_def provisionMSSQLRole_def mssql_plan_def planned_statement_def generate_ok mssqlRoleStatement_def Let_def)
  next
    case False
    then show ?thesis using generate_bad [OF False] by (auto simp: provisionMSSQLRole_def)
  qed
qed

lemma postgres_loop:
  assumes "postgresRoleStatement (role_user role) pw (gm_str postgresPrivileges role) = Inr st"
  shows "(\<forall>d \<in> set dbNames. sy_open L ''postgres'' (postgres_dsn r d) = None \<and> sy_exec L (postgres_dsn r d) st = None) \<Longrightarrow>
      postgres_role_loop L r role pw dbNames = (None, map (\<lambda>d. (postgres_dsn r d, st)) dbNames)"
    and "\<not> (\<forall>d \<in> set dbNames. sy_open L ''postgres'' (postgres_dsn r d) = None \<and> sy_exec L (postgres_dsn r d) st = None) \<Longrightarrow>
      \<exists>now msg. fst (postgres_role_loop L r role pw dbNames) = Some (NewResultError now msg)"
  using assms
  by (induction dbNames) (auto simp: postgres_role_in_def Let_def split_beta split: option.splits)

interpretation postgres: role_engine L r "postgres_plan L dbNames r" "provisionPostgresRole L dbNames r" for L r dbNames
proof unfold_locales
  fix role
  note st = postgresRoleStatement_def [of "role_user role" "role_password L role" "gm_str postgresPrivileges role"]
  show "provisionPostgresRole L dbNames r role =
      (planned_result L r (postgres_plan L dbNames r) role, planned_log L (postgres_plan L dbNames r) role)"
    if "role_succeeds L (postgres_plan L dbNames r) role"
    using that generate_ok [of L role] postgres_loop(1) [OF st, of dbNames L r]
    by (simp add: role_succeeds_def provisionPostgresRole_def postgres_plan_def planned_result_def planned_log_def
        planned_statement_def st)
  show "ro_Status (fst (provisionPostgresRole L dbNames r role)) = StatusFailedType"
    if "\<not> role_succeeds L (postgres_plan L dbNames r) role"
  proof (cases "is_ok (sy_rand L role)")
    case True
    have "\<exists>now msg. fst (postgres_role_loop L r role (role_password L role) dbNames) = Some (NewResultError now msg)"
      using that True by (intro postgres_loop(2) [OF st]) (simp add: role_succeeds_def postgres_plan_def planned_statement_def st)
    then obtain now msg where "fst (postgres_role_loop L r role (role_password L role) dbNames) = Some (NewResultError now msg)"
      by blast
    then show ?thesis using generate_ok [OF True] by (auto simp: provisionPostgresRole_def split_beta)
  next
    case False
    then show ?thesis using generate_bad [OF False] by (auto simp: provisionPostgresRole_def)
  qed
qed

text \<open>A request without a plan fails before any role; with a plan its engine is one of the three above.\<close>

definition refused_early :: "(db_provisioner_response \<times> sql_log) option \<Rightarrow> bool" where
  "refused_early e \<longleftrightarrow> (case e of None \<Rightarrow> True | Some (res, log) \<Rightarrow> log = [] \<and> ds_Status res = StatusFailedType \<and> ds_Result res = [])"

lemma refused_simps [simp]:
  "refused_early None" "refused_early (Some (pbs_NewError sid msg, []))" "refused_early (Some (connect_error r err, []))"
  by (simp_all add: refused_early_def pbs_NewError_def connect_error_def)

lemma engine_plan:
  "case provision_plan L req of
     None \<Rightarrow> refused_early (provision_engine L req)
   | Some P \<Rightarrow> \<exists>role. role_engine L req P role \<and> provision_engine L req = Some (roles_response req role)"
proof -
  consider (pg) "dp_DatabaseType req \<in> set postgres_types"
    | (my) "dp_DatabaseType req \<in> set mysql_types"
    | (ms) "dp_DatabaseType req \<in> set sqlserver_types"
    | (other) "dp_DatabaseType req \<notin> set postgres_types" "dp_DatabaseType req \<notin> set mysql_types"
        "dp_DatabaseType req \<notin> set sqlserver_types"
    by blast
  then show ?thesis
  proof cases
    case pg
    then show ?thesis
      using postgres.role_engine_axioms
      by (auto simp: provision_engine_def provision_plan_def provisionPostgresRoles_def reachable_db_def Let_def
          split: option.splits sum.splits list.splits)
  next
    case my
    then have "dp_DatabaseType req \<notin> set postgres_types" by (auto simp: mysql_types_def postgres_types_def)
    with my mysql.role_engine_axioms [of L req] show ?thesis
      by (auto simp: provision_engine_def provision_plan_def provisionMySQLRoles_def reachable_db_def Let_def split: option.splits)
  next
    case ms
    then have "dp_DatabaseType req \<notin> set postgres_types" "dp_DatabaseType req \<notin> set mysql_types"
      by (auto simp: mysql_types_def postgres_types_def sqlserver_types_def)
    with ms mssql.role_engine_axioms [of L req] show ?thesis
      by (auto simp: provision_engine_def provision_plan_def provisionMSSQLRoles_def reachable_db_def Let_def split: option.splits)
  next
    case other
    then show ?thesis by (simp add: provision_plan_def provision_engine_def)
  qed
qed

lemma complete_status_failed:
  assumes "ds_Status res = StatusFailedType" "ds_Result res = []"
  shows "complete_status res = res"
  using assms by (simp add: complete_status_def)

lemma planned_result_completed [simp]:
  "ro_Status (planned_result L r P role) = StatusCompletedType"
  "ro_Message (planned_result L r P role) = ''''" "ro_RoleSuffixName (planned_result L r P role) = role"
  by (simp_all add: planned_result_def role_completed_def)

definition all_roles :: "sys_libs \<Rightarrow> plan \<Rightarrow> bool" where
  "all_roles L P \<longleftrightarrow> (\<forall>role \<in> set roleNames. role_succeeds L P role)"

definition completed_response :: "sys_libs \<Rightarrow> db_provisioner_request \<Rightarrow> plan \<Rightarrow> db_provisioner_response" where
  "completed_response L req P =
     \<lparr>ds_SID = dp_SID req, ds_Status = StatusCompletedType, ds_Message = MessageCompleted,
      ds_Result = map (planned_result L req P) roleNames, ds_RunbookHook = None\<rparr>"

lemma engine_completed:
  assumes "provision_plan L req = Some P" "all_roles L P"
  shows "\<exists>res. provision_engine L req = Some (res, concat (map (planned_log L P) roleNames)) \<and>
    complete_status res = completed_response L req P"
proof -
  obtain role where role: "role_engine L req P role" "provision_engine L req = Some (roles_response req role)"
    using engine_plan [of L req] assms(1) by auto
  show ?thesis
    using role(2) role_engine.response_good [OF role(1)] assms(2)
    by (simp add: all_roles_def complete_status_def completed_response_def list_ex_iff)
qed

lemma engine_role_failed:
  assumes "provision_plan L req = Some P" "\<not> all_roles L P"
  shows "\<exists>res log. provision_engine L req = Some (res, log) \<and> ds_Status (complete_status res) = StatusFailedType \<and>
    (\<exists>item \<in> set (ds_Result res). ro_Status item = StatusFailedType)"
proof -
  obtain role where role: "role_engine L req P role" "provision_engine L req = Some (roles_response req role)"
    using engine_plan [of L req] assms(1) by auto
  obtain name where "name \<in> set roleNames" "\<not> role_succeeds L P name" using assms(2) by (auto simp: all_roles_def)
  from role_engine.roles_bad [OF role(1) this]
  have "\<exists>item \<in> set (ds_Result (fst (roles_response req role))). ro_Status item = StatusFailedType"
    by (simp add: roles_response_def split_beta)
  moreover have "ds_Status (complete_status (fst (roles_response req role))) = StatusFailedType"
    using role_engine.response_bad [OF role(1)] assms(2) by (simp add: all_roles_def)
  ultimately show ?thesis using role(2) by (cases "roles_response req role") auto
qed

lemma run_exec_hook_keeps [simp]:
  "ds_Status (run_exec_hook L sid req res) = ds_Status res" "ds_Result (run_exec_hook L sid req res) = ds_Result res"
  "ds_SID (run_exec_hook L sid req res) = ds_SID res"
  by (simp_all add: run_exec_hook_def new_proxy_def noop_Run_def split: option.splits)

lemma complete_status_keeps [simp]: "ds_Result (complete_status res) = ds_Result res" "ds_SID (complete_status res) = ds_SID res"
  by (simp_all add: complete_status_def Let_def)

section \<open>Vault\<close>

definition planned_credentials :: "sys_libs \<Rightarrow> db_provisioner_request \<Rightarrow> plan \<Rightarrow> string \<Rightarrow> db_credentials" where
  "planned_credentials L r P role = the (ro_Credentials (planned_result L r P role))"

definition role_saves :: "sys_libs \<Rightarrow> vault_provider \<Rightarrow> string \<Rightarrow> db_credentials \<Rightarrow> bool" where
  "role_saves L p secretID c \<longleftrightarrow> vault_SetValue (sy_secrets L) p (vault_path secretID c) (vault_data c) (sy_json_data L) = None"

definition vault_saves :: "sys_libs \<Rightarrow> db_provisioner_request \<Rightarrow> plan \<Rightarrow> bool" where
  "vault_saves L req P \<longleftrightarrow>
     (case dp_Vault req of
        None \<Rightarrow> True
      | Some secretID \<Rightarrow>
          (case NewVaultProvider (sy_secrets L) of
             Inl _ \<Rightarrow> False
           | Inr p \<Rightarrow> list_all (\<lambda>role. role_saves L p secretID (planned_credentials L req P role)) roleNames))"

definition planned_secret :: "sys_libs \<Rightarrow> db_provisioner_request \<Rightarrow> plan \<Rightarrow> string \<Rightarrow> string \<Rightarrow> string \<times> string gomap" where
  "planned_secret L req P secretID role =
     (let c = planned_credentials L req P role in (vault_path secretID c, vault_data c))"

text \<open>An item whose password was taken out and replaced by a reference to Vault.\<close>

definition hidden_item :: "role_result \<Rightarrow> bool" where
  "hidden_item item \<longleftrightarrow> ro_Status item = StatusCompletedType \<and>
     (\<exists>c. ro_Credentials item = Some c \<and> cr_Password c = '''' \<and> cr_SecretsManagerProvider c = SecretsManagerProviderVault)"

lemma planned_credentials_Some: "ro_Credentials (planned_result L r P role) = Some (planned_credentials L r P role)"
  by (simp add: planned_credentials_def planned_result_def role_completed_def)

lemma save_role_planned:
  "\<exists>item. save_role L p secretID (planned_result L r P role) =
     Ret (item, \<not> role_saves L p secretID (planned_credentials L r P role), [planned_secret L r P secretID role]) \<and>
     hidden_item item \<and> ro_RoleSuffixName item = role"
  by (auto simp: save_role_def planned_credentials_Some role_saves_def planned_secret_def hidden_item_def Let_def split: option.splits)

lemma save_roles_planned:
  "\<exists>items. save_roles L p secretID (map (planned_result L r P) names) =
     Ret (items, \<not> list_all (\<lambda>role. role_saves L p secretID (planned_credentials L r P role)) names,
          map (planned_secret L r P secretID) names) \<and>
     list_all hidden_item items \<and> map ro_RoleSuffixName items = names"
proof (induction names)
  case Nil
  then show ?case by simp
next
  case (Cons role names)
  obtain item where item: "save_role L p secretID (planned_result L r P role) =
      Ret (item, \<not> role_saves L p secretID (planned_credentials L r P role), [planned_secret L r P secretID role])"
    "hidden_item item" "ro_RoleSuffixName item = role"
    using save_role_planned by blast
  from Cons obtain items where "save_roles L p secretID (map (planned_result L r P) names) =
     Ret (items, \<not> list_all (\<lambda>role. role_saves L p secretID (planned_credentials L r P role)) names,
          map (planned_secret L r P secretID) names)" "list_all hidden_item items" "map ro_RoleSuffixName items = names"
    by blast
  with item show ?case by simp
qed

section \<open>The outcome of a request\<close>

lemma provision_no_vault:
  assumes "dp_Vault req = Some secretID" "NewVaultProvider (sy_secrets L) = Inl err"
  shows "provision L sid req = Ret (pbs_NewError sid (sy_format L err), [], [])"
  using assms by (simp add: provision_def Let_def)

lemma provision_not_completed:
  assumes "\<And>secretID. dp_Vault req = Some secretID \<Longrightarrow> is_ok (NewVaultProvider (sy_secrets L))"
    "provision_engine L req = Some (res, log)" "ds_Status (complete_status res) = StatusFailedType"
  shows "provision L sid req = Ret (run_exec_hook L sid req (complete_status res), log, [])"
  using assms by (cases "NewVaultProvider (sy_secrets L)") (auto simp: provision_def Let_def split: option.splits)

lemma provision_refused:
  assumes "refused_early (provision_engine L req)"
  shows "\<exists>res. provision L sid req = Ret (res, [], []) \<and> ds_Status res = StatusFailedType \<and> ds_Result res = []"
proof (cases "\<exists>secretID err. dp_Vault req = Some secretID \<and> NewVaultProvider (sy_secrets L) = Inl err")
  case True
  then show ?thesis using provision_no_vault by (auto simp: pbs_NewError_def)
next
  case False
  then have ok: "is_ok (NewVaultProvider (sy_secrets L))" if "dp_Vault req = Some secretID" for secretID
    using that by (cases "NewVaultProvider (sy_secrets L)") auto
  show ?thesis
  proof (cases "provision_engine L req")
    case None
    with False show ?thesis
      by (auto simp: provision_def Let_def pbs_NewError_def split: option.splits sum.splits)
  next
    case (Some e)
    then obtain res where res: "provision_engine L req = Some (res, [])" "ds_Status res = StatusFailedType" "ds_Result res = []"
      using assms by (cases e) (auto simp: refused_early_def)
    moreover have "complete_status res = res" using res(2,3) by (rule complete_status_failed)
    ultimately show ?thesis using provision_not_completed [OF ok res(1)] by simp
  qed
qed

lemma provision_all_roles:
  assumes "provision_plan L req = Some P" "all_roles L P"
  shows "case dp_Vault req of
      None \<Rightarrow> provision L sid req = Ret (run_exec_hook L sid req (completed_response L req P), concat (map (planned_log L P) roleNames), [])
    | Some secretID \<Rightarrow> \<forall>p. NewVaultProvider (sy_secrets L) = Inr p \<longrightarrow>
        (\<exists>res. provision L sid req = Ret (run_exec_hook L sid req res, concat (map (planned_log L P) roleNames),
                 map (planned_secret L req P secretID) roleNames) \<and>
           list_all hidden_item (ds_Result res) \<and> map ro_RoleSuffixName (ds_Result res) = roleNames \<and> ds_SID res = dp_SID req \<and>
           ds_Status res = (if vault_saves L req P then StatusCompletedType else StatusFailedType))"
proof (cases "dp_Vault req")
  case None
  with engine_completed [OF assms] show ?thesis by (auto simp: provision_def Let_def)
next
  case (Some secretID)
  have "\<exists>res. provision L sid req = Ret (run_exec_hook L sid req res, concat (map (planned_log L P) roleNames),
                 map (planned_secret L req P secretID) roleNames) \<and>
           list_all hidden_item (ds_Result res) \<and> map ro_RoleSuffixName (ds_Result res) = roleNames \<and> ds_SID res = dp_SID req \<and>
           ds_Status res = (if vault_saves L req P then StatusCompletedType else StatusFailedType)"
    if p: "NewVaultProvider (sy_secrets L) = Inr p" for p
  proof -
    obtain items where items: "save_roles L p secretID (map (planned_result L req P) roleNames) =
        Ret (items, \<not> vault_saves L req P, map (planned_secret L req P secretID) roleNames)"
      "list_all hidden_item items" "map ro_RoleSuffixName items = roleNames"
      using save_roles_planned [of L p secretID req P roleNames] Some p by (auto simp: vault_saves_def)
    obtain er where er: "provision_engine L req = Some (er, concat (map (planned_log L P) roleNames))"
      "complete_status er = completed_response L req P"
      using engine_completed [OF assms] by blast
    let ?res = "if vault_saves L req P then (completed_response L req P)\<lparr>ds_Result := items\<rparr>
      else (completed_response L req P)\<lparr>ds_Result := items, ds_Message := MessageVaultSaveError, ds_Status := StatusFailedType\<rparr>"
    have "save_response L p secretID (completed_response L req P) = Ret (?res, map (planned_secret L req P secretID) roleNames)"
      using items(1) by (simp add: save_response_def completed_response_def)
    moreover have "ds_Status (completed_response L req P) = StatusCompletedType" by (simp add: completed_response_def)
    ultimately have "provision L sid req = Ret (run_exec_hook L sid req ?res, concat (map (planned_log L P) roleNames),
                 map (planned_secret L req P secretID) roleNames)"
      using Some p er by (simp add: provision_def Let_def)
    with items(2,3) show ?thesis by (intro exI [of _ ?res]) (simp add: completed_response_def)
  qed
  with Some show ?thesis by simp
qed

text \<open>
  C12: a provisioning request does what it is meant to do, or reports that it failed.  It never crashes
  the agent.  It is completed exactly when the database could be reached, every role got a password and
  its statement ran on every target, and, when Vault is asked for, every secret was saved; then the
  statements that ran are those of the plan, the results are for the three roles in order, and the
  passwords are in the response or, with Vault, in the secrets.
\<close>

theorem provision_follows_plan:
  "\<exists>res sql saved. provision L sid req = Ret (res, sql, saved) \<and>
     (case provision_plan L req of
        None \<Rightarrow> ds_Status res = StatusFailedType \<and> sql = [] \<and> saved = []
      | Some P \<Rightarrow>
          if all_roles L P \<and> vault_saves L req P then
            ds_Status res = StatusCompletedType \<and> sql = concat (map (planned_log L P) roleNames) \<and>
            map ro_RoleSuffixName (ds_Result res) = roleNames \<and>
            (case dp_Vault req of
               None \<Rightarrow> ds_Result res = map (planned_result L req P) roleNames \<and> saved = []
             | Some secretID \<Rightarrow> saved = map (planned_secret L req P secretID) roleNames)
          else ds_Status res = StatusFailedType)"
proof (cases "provision_plan L req")
  case None
  then show ?thesis using engine_plan [of L req] provision_refused [of L req sid] by auto
next
  case (Some P)
  note plan = Some
  show ?thesis
  proof (cases "\<exists>secretID err. dp_Vault req = Some secretID \<and> NewVaultProvider (sy_secrets L) = Inl err")
    case True
    then obtain err where "provision L sid req = Ret (pbs_NewError sid (sy_format L err), [], [])"
      using provision_no_vault by blast
    moreover have "\<not> vault_saves L req P" using True by (auto simp: vault_saves_def)
    ultimately show ?thesis using plan by (simp add: pbs_NewError_def)
  next
    case False
    then have ok: "is_ok (NewVaultProvider (sy_secrets L))" if "dp_Vault req = Some secretID" for secretID
      using that by (cases "NewVaultProvider (sy_secrets L)") auto
    show ?thesis
    proof (cases "all_roles L P")
      case True
      have names: "map ro_RoleSuffixName (map (planned_result L req P) roleNames) = roleNames" by (simp add: map_idI)
      show ?thesis
      proof (cases "dp_Vault req")
        case None
        with provision_all_roles [OF plan True, of sid] plan True names show ?thesis
          by (simp add: vault_saves_def completed_response_def)
      next
        case (Some secretID)
        then obtain p where "NewVaultProvider (sy_secrets L) = Inr p"
          using ok by (cases "NewVaultProvider (sy_secrets L)") auto
        then obtain res where "provision L sid req = Ret (run_exec_hook L sid req res, concat (map (planned_log L P) roleNames),
              map (planned_secret L req P secretID) roleNames)" "map ro_RoleSuffixName (ds_Result res) = roleNames"
            "ds_Status res = (if vault_saves L req P then StatusCompletedType else StatusFailedType)"
          using Some provision_all_roles [OF plan True, of sid] by auto
        with Some plan True show ?thesis by (intro exI [of _ "run_exec_hook L sid req res"]) simp
      qed
    next
      case False
      then show ?thesis using engine_role_failed [OF plan False] provision_not_completed [OF ok, where sid = sid] plan by auto
    qed
  qed
qed

text \<open>
  C13: passwords do not leave the agent when they are in Vault: in the response to a request that asks
  for Vault and whose roles were all provisioned, no credentials hold a password, also when a secret
  could not be saved.
\<close>

theorem provision_vault_hides_passwords:
  assumes "dp_Vault req = Some secretID" "provision L sid req = Ret (res, sql, saved)"
    "\<forall>item \<in> set (ds_Result res). ro_Status item = StatusCompletedType"
    "item \<in> set (ds_Result res)" "ro_Credentials item = Some c"
  shows "cr_Password c = ''''"
proof (cases "NewVaultProvider (sy_secrets L)")
  case (Inl err)
  then show ?thesis using provision_no_vault [OF assms(1) Inl, of sid] assms(2,4) by (simp add: pbs_NewError_def)
next
  case (Inr p)
  then have ok: "is_ok (NewVaultProvider (sy_secrets L))" by simp
  show ?thesis
  proof (cases "provision_plan L req")
    case None
    then show ?thesis using engine_plan [of L req] provision_refused [of L req sid] assms(2,4) by auto
  next
    case (Some P)
    have "all_roles L P"
    proof (rule ccontr)
      assume "\<not> all_roles L P"
      then obtain er log item where er: "provision_engine L req = Some (er, log)"
        "ds_Status (complete_status er) = StatusFailedType" "item \<in> set (ds_Result er)" "ro_Status item = StatusFailedType"
        using engine_role_failed [OF Some] by blast
      then have "ds_Result res = ds_Result er" using provision_not_completed [OF ok er(1,2), of sid] assms(2) by simp
      with assms(3) er(3,4) show False by auto
    qed
    then have "list_all hidden_item (ds_Result res)"
      using provision_all_roles [OF Some, of sid] assms(1,2) Inr by auto
    with assms(4,5) show ?thesis by (auto simp: list_all_iff hidden_item_def)
  qed
qed

text \<open>
  When Vault is asked for but a role failed, the results of the other roles go out as they are, with
  their passwords.
\<close>

lemma provision_vault_partial_failure:
  assumes "provision_plan L req = Some P" "\<not> all_roles L P" "is_ok (NewVaultProvider (sy_secrets L))"
  shows "\<exists>er log res. provision_engine L req = Some (er, log) \<and> provision L sid req = Ret (res, log, []) \<and>
    ds_Result res = ds_Result er"
  using engine_role_failed [OF assms(1,2)] provision_not_completed [OF assms(3), of req _ _ sid] by force

section \<open>Requests side by side\<close>

interpretation provs: transition_system "\<lambda>s. s = prov_init" "prov_next L" for L .

definition holds_lock :: "string \<Rightarrow> prov_pc \<Rightarrow> bool" where
  "holds_lock key pc = (case pc of PWork _ req \<Rightarrow> lockResourceID req = key | PRelease k \<Rightarrow> k = key | _ \<Rightarrow> False)"

definition answered :: "prov_pc \<Rightarrow> bool" where
  "answered pc = (case pc of PRelease _ \<Rightarrow> True | PEnd \<Rightarrow> True | _ \<Rightarrow> False)"

definition prov_inv :: "prov_state \<Rightarrow> bool" where
  "prov_inv s \<longleftrightarrow> \<not> ps_crashed s \<and> length (ps_sent s) = length (filter answered (ps_threads s)) \<and>
     (\<forall>key. mem_Has (ps_store s) key \<longrightarrow> (\<exists>pc \<in> set (ps_threads s). holds_lock key pc))"

lemma filter_update:
  assumes "i < length xs"
  shows "length (filter P (xs[i := y])) + (if P (xs ! i) then 1 else 0) = length (filter P xs) + (if P y then 1 else 0)"
proof -
  have "length (filter P xs) = length (filter P (take i xs @ xs ! i # drop (Suc i) xs))"
    by (subst id_take_nth_drop [OF assms, symmetric]) (rule refl)
  then show ?thesis using assms by (simp add: upd_conv_take_nth_drop)
qed

lemma provision_returns: "\<exists>res sql saved. provision L sid req = Ret (res, sql, saved)"
proof (cases "provision_plan L req")
  case None
  then show ?thesis using engine_plan [of L req] provision_refused [of L req sid] by auto
next
  case (Some P)
  consider (novault) secretID err where "dp_Vault req = Some secretID" "NewVaultProvider (sy_secrets L) = Inl err"
    | (ok) "\<And>secretID. dp_Vault req = Some secretID \<Longrightarrow> is_ok (NewVaultProvider (sy_secrets L))"
    by (cases "NewVaultProvider (sy_secrets L)"; cases "dp_Vault req") auto
  then show ?thesis
  proof cases
    case novault
    then show ?thesis using provision_no_vault by blast
  next
    case ok
    show ?thesis
    proof (cases "all_roles L P")
      case True
      then show ?thesis
        using provision_all_roles [OF Some True, of sid] ok
        by (cases "NewVaultProvider (sy_secrets L)") (auto split: option.splits)
    next
      case False
      then obtain er log where er: "provision_engine L req = Some (er, log)" "ds_Status (complete_status er) = StatusFailedType"
        using engine_role_failed [OF Some] by blast
      have "provision L sid req = Ret (run_exec_hook L sid req (complete_status er), log, [])"
        by (rule provision_not_completed [OF _ er], erule ok)
      then show ?thesis by blast
    qed
  qed
qed

lemma pc_simps [simp]:
  "\<not> holds_lock key (PStart pkt)" "\<not> holds_lock key (PMark sid req)" "holds_lock key (PWork sid req) \<longleftrightarrow> lockResourceID req = key"
  "holds_lock key (PRelease k) \<longleftrightarrow> k = key" "\<not> holds_lock key PEnd"
  "\<not> answered (PStart pkt)" "\<not> answered (PMark sid req)" "\<not> answered (PWork sid req)" "answered (PRelease k)" "answered PEnd"
  by (simp_all add: holds_lock_def answered_def)

lemma has_lock_update:
  assumes "i < length xs" "pc \<in> set xs" "holds_lock key pc" "\<not> holds_lock key (xs ! i) \<or> holds_lock key pc'"
  shows "\<exists>pc \<in> set (xs[i := pc']). holds_lock key pc"
proof -
  obtain j where j: "j < length xs" "xs ! j = pc" using assms(2) by (auto simp: in_set_conv_nth)
  show ?thesis
  proof (cases "j = i")
    case True
    with assms(1,3,4) j show ?thesis by (intro bexI [of _ pc']) (auto simp: set_update_memI)
  next
    case False
    with j have "xs[i := pc'] ! j = pc" "j < length (xs[i := pc'])" by simp_all
    with assms(3) show ?thesis by (metis nth_mem)
  qed
qed

lemma prov_step_inv:
  assumes "prov_inv s" "i < length (ps_threads s)"
  shows "prov_inv (prov_step L i s)"
proof (cases "ps_threads s ! i")
  case (PStart pkt)
  with assms filter_update [OF assms(2), of answered] has_lock_update [OF assms(2)] show ?thesis
    by (auto simp: prov_inv_def prov_step_def prov_goto_def prov_sendResponse_def Let_def
        split: sum.splits)
next
  case (PMark sid req)
  with assms filter_update [OF assms(2), of answered] has_lock_update [OF assms(2)]
    bexI [OF _ set_update_memI [OF assms(2)], of "holds_lock (lockResourceID req)" "PWork sid req"] show ?thesis
    by (auto simp: prov_inv_def prov_step_def prov_goto_def)
next
  case (PWork sid req)
  with assms filter_update [OF assms(2), of answered] has_lock_update [OF assms(2)] provision_returns [of L sid req] show ?thesis
    by (auto simp: prov_inv_def prov_step_def prov_goto_def prov_sendResponse_def)
next
  case (PRelease key)
  with assms filter_update [OF assms(2), of answered PEnd] has_lock_update [OF assms(2)] show ?thesis
    by (auto simp: prov_inv_def prov_step_def prov_goto_def)
next
  case PEnd
  with assms show ?thesis by (simp add: prov_step_def)
qed

lemma prov_inv_reach: "provs.reach L s \<Longrightarrow> prov_inv s"
proof (rule provs.invariant [of L s prov_inv])
  fix s
  assume "s = prov_init"
  then show "prov_inv s" by (simp add: prov_inv_def prov_init_def)
next
  fix s s'
  assume "prov_inv s" "prov_next L s s'"
  from this(2,1) show "prov_inv s'"
  proof cases
    case (arrive pkt)
    then show ?thesis using \<open>prov_inv s\<close> by (auto simp: prov_inv_def ProcessDBProvisionerRequest_def)
  next
    case (run i)
    then show ?thesis using \<open>prov_inv s\<close> prov_step_inv by simp
  qed
qed

text \<open>
  C14: however provisioning requests interleave, the agent does not crash, every request is answered
  exactly once (there are as many responses as requests that have reached their end or only have to
  release their lock), and a lock is only there while a request that took it is still at work, so no
  resource stays locked.
\<close>

theorem provisioner_locks_are_released:
  assumes "provs.reach L s"
  shows "\<not> ps_crashed s \<and> length (ps_sent s) = length (filter answered (ps_threads s)) \<and>
    (mem_Has (ps_store s) key \<longrightarrow> (\<exists>pc \<in> set (ps_threads s). holds_lock key pc))"
  using prov_inv_reach [OF assms] by (simp add: prov_inv_def)

text \<open>
  The lock does not keep two requests for one resource apart: the look at the lock and taking it
  are two operations, and when the second request looks before the first has taken it, both run.
\<close>

theorem provisioner_lock_race:
  assumes "sy_json_request L (payload_str pkt) = Inr req" "sid = spec_get pkt SpecGatewaySessionID"
  shows "\<exists>s. provs.reach L s \<and> ps_threads s = [PWork sid req, PWork sid req]"
proof -
  let ?s2 = "ProcessDBProvisionerRequest pkt (ProcessDBProvisionerRequest pkt prov_init)"
  let ?s3 = "prov_step L 0 ?s2" let ?s4 = "prov_step L 1 ?s3" let ?s5 = "prov_step L 0 ?s4" let ?s6 = "prov_step L 1 ?s5"
  note defs = ProcessDBProvisionerRequest_def prov_init_def prov_step_def prov_goto_def Let_def
  have "provs.reach L prov_init" by (rule provs.start) (rule refl)
  then have "provs.reach L (ProcessDBProvisionerRequest pkt prov_init)"
    by (rule provs.next_state) (rule arrive, simp add: defs)
  then have "provs.reach L ?s2" by (rule provs.next_state) (rule arrive, simp add: defs)
  then have "provs.reach L ?s3" by (rule provs.next_state) (rule run, simp add: defs)
  then have "provs.reach L ?s4" by (rule provs.next_state) (rule run, simp add: defs assms)
  then have "provs.reach L ?s5" by (rule provs.next_state) (rule run, simp add: defs assms)
  then have "provs.reach L ?s6" by (rule provs.next_state) (rule run, simp add: defs assms)
  moreover have "ps_threads ?s6 = [PWork sid req, PWork sid req]" by (simp add: defs assms)
  ultimately show ?thesis by blast
qed

section \<open>One request\<close>

lemma funpow_4: "(f ^^ 4) x = f (f (f (f x)))"
  by (simp add: numeral_eq_Suc)

text \<open>
  A request that is not interrupted sends one response and leaves the locks as they were; while
  another request holds the lock of its resource it is refused, and nothing is run or saved.
\<close>

lemma provisioner_single_request:
  assumes "\<not> ps_crashed s" "s' = processDBProvisionerRequest L pkt s"
  shows "(\<exists>res. ps_sent s' = ps_sent s @ [response_packet L res]) \<and> mem_Has (ps_store s') key = mem_Has (ps_store s) key \<and>
    (sy_json_request L (payload_str pkt) = Inr req \<and> mem_Has (ps_store s) (lockResourceID req) \<longrightarrow>
       ps_sent s' = ps_sent s @ [response_packet L (busy_response (spec_get pkt SpecGatewaySessionID) req)] \<and>
       ps_sql s' = ps_sql s \<and> ps_saved s' = ps_saved s)"
proof -
  note defs = processDBProvisionerRequest_def funpow_4 ProcessDBProvisionerRequest_def prov_step_def prov_goto_def
    prov_sendResponse_def Let_def
  show ?thesis
  proof (cases "sy_json_request L (payload_str pkt)")
    case (Inl err)
    then show ?thesis using assms by (auto simp: defs)
  next
    case (Inr q)
    show ?thesis
    proof (cases "mem_Has (ps_store s) (lockResourceID q)")
      case True
      then show ?thesis using Inr assms by (auto simp: defs)
    next
      case False
      obtain res sql saved where "provision L (spec_get pkt SpecGatewaySessionID) q = Ret (res, sql, saved)"
        using provision_returns by blast
      then show ?thesis using Inr False assms by (auto simp: defs)
    qed
  qed
qed

section \<open>Responses and sessions\<close>

lemma engine_SID: "provision_engine L req = Some (res, log) \<Longrightarrow> ds_SID res = dp_SID req"
  by (auto simp: provision_engine_def provisionMySQLRoles_def provisionMSSQLRoles_def provisionPostgresRoles_def roles_response_def
      NewDbProvisionerResponse_def pbs_NewError_def connect_error_def Let_def split_beta
      split: if_splits option.splits sum.splits list.splits)

lemma save_response_SID: "save_response L p secretID res = Ret (res', log) \<Longrightarrow> ds_SID res' = ds_SID res"
  by (auto simp: save_response_def split: outcome.splits if_splits)

text \<open>
  Which session a response names: that of the packet when the request could not be decoded, met a lock, or could not
  be started; the one in the body otherwise.
\<close>

lemma provision_SID: "provision L sid req = Ret (res, sql, saved) \<Longrightarrow> ds_SID res = sid \<or> ds_SID res = dp_SID req"
proof (cases "provision_engine L req")
  case None
  then show "provision L sid req = Ret (res, sql, saved) \<Longrightarrow> ?thesis"
    by (auto simp: provision_def Let_def pbs_NewError_def split: option.splits sum.splits)
next
  case (Some e)
  then obtain er log where "provision_engine L req = Some (er, log)" by (cases e) auto
  with engine_SID [OF this] show "provision L sid req = Ret (res, sql, saved) \<Longrightarrow> ?thesis"
    by (auto simp: provision_def Let_def pbs_NewError_def dest!: save_response_SID
        split: option.splits sum.splits outcome.splits if_splits)
qed

lemma response_packet_session [simp]: "spec_get (response_packet L res) SpecGatewaySessionID = ds_SID res"
  by (simp add: response_packet_def gm_str_def gm_get_Cons split_beta)

section \<open>Concrete cases\<close>

definition demo_vault :: secret_libs where
  "demo_vault = demo_secrets\<lparr>
     sl_os := \<lparr>os_LookupEnv = (\<lambda>k. if k = ''VAULT_TOKEN'' then Some ''t'' else if k = ''VAULT_ADDR'' then Some ''http://v'' else None),
       os_Environ = [], os_Getwd = Inr ''/'', os_ReadFile = (\<lambda>_. Inl ''no file''), path_Join = (\<lambda>a b. a @ b)\<rparr>\<rparr>"

definition demo_prov_request :: db_provisioner_request where
  "demo_prov_request = \<lparr>dp_OrgID = ''o'', dp_SID = ''s1'', dp_ResourceID = ''r'', dp_DatabaseHostname = ''h'', dp_DatabasePort = '''',
     dp_MasterUsername = ''root'', dp_MasterPassword = ''x'', dp_DatabaseType = ''mysql'', dp_Vault = Some ''db/'', dp_ExecHook = None\<rparr>"

definition demo_sys :: sys_libs where
  "demo_sys = \<lparr>sy_json_request = (\<lambda>_. Inr demo_prov_request), sy_json_show_request = (\<lambda>_. Inr ''{}''),
     sy_json_response = (\<lambda>_. Inr ''{}''), sy_json_hook = (\<lambda>_. Inl ''bad''), sy_json_hook_response = (\<lambda>_. Inr ''{}''),
     sy_json_data = (\<lambda>_. ''{}''), sy_open = (\<lambda>_ _. None), sy_ping = (\<lambda>_. None), sy_query = (\<lambda>_ _. Inr [Inr ''a'']),
     sy_exec = (\<lambda>_ _. None), sy_rand = (\<lambda>_. Inr (\<lambda>_. 0)), sy_now = (\<lambda>_. 0), sy_elapsed = 0, sy_format = (\<lambda>s. s),
     sy_secrets = demo_vault\<rparr>"

definition demo_sys_packet :: packet where
  "demo_sys_packet = \<lparr>pkt_Type = system_ProvisionDBRolesRequest, pkt_Spec = Some [(SpecGatewaySessionID, ''s1'')], pkt_Payload = Some ''{}''\<rparr>"

lemma demo_plan: "provision_plan demo_sys demo_prov_request = Some (mysql_plan demo_sys demo_prov_request)"
  by (simp add: provision_plan_def demo_prov_request_def demo_sys_def reachable_db_def postgres_types_def mysql_types_def)

lemma demo_all_roles: "all_roles demo_sys (mysql_plan demo_sys demo_prov_request)"
  by (simp add: all_roles_def role_succeeds_def mysql_plan_def demo_sys_def)

lemma demo_provider: "\<exists>p. NewVaultProvider (sy_secrets demo_sys) = Inr p"
  by (simp add: NewVaultProvider_def newVaultKeyValProvider_def loadDefaultVaultConfig_def GetEnv_def os_Getenv_def
      loadAppRoleCredentials_def has_prefix_def demo_sys_def demo_vault_def demo_secrets_def Let_def)

theorem provision_vault_hides_passwords_witness:
  "\<exists>res sql saved item c. provision demo_sys ''s1'' demo_prov_request = Ret (res, sql, saved) \<and> item \<in> set (ds_Result res) \<and>
     ro_Credentials item = Some c \<and> cr_Password c = ''''"
proof -
  have vault: "dp_Vault demo_prov_request = Some ''db/''" by (simp add: demo_prov_request_def)
  obtain res sql saved where res: "provision demo_sys ''s1'' demo_prov_request = Ret (res, sql, saved)"
    "list_all hidden_item (ds_Result res)" "map ro_RoleSuffixName (ds_Result res) = roleNames"
  proof -
    obtain p where "NewVaultProvider (sy_secrets demo_sys) = Inr p" using demo_provider by blast
    with provision_all_roles [OF demo_plan demo_all_roles, of "''s1''"] vault obtain res where
      "provision demo_sys ''s1'' demo_prov_request = Ret (run_exec_hook demo_sys ''s1'' demo_prov_request res,
         concat (map (planned_log demo_sys (mysql_plan demo_sys demo_prov_request)) roleNames),
         map (planned_secret demo_sys demo_prov_request (mysql_plan demo_sys demo_prov_request) ''db/'') roleNames)"
      "list_all hidden_item (ds_Result res)" "map ro_RoleSuffixName (ds_Result res) = roleNames"
      by (simp only: option.case) blast
    then show thesis by (intro that [of "run_exec_hook demo_sys ''s1'' demo_prov_request res"]) (simp_all only: run_exec_hook_keeps)
  qed
  then obtain item where item: "item \<in> set (ds_Result res)" by (cases "ds_Result res") (auto simp: roleNames_def)
  with res(2) obtain c where "ro_Credentials item = Some c" by (auto simp: list_all_iff hidden_item_def)
  moreover have "\<forall>item \<in> set (ds_Result res). ro_Status item = StatusCompletedType"
    using res(2) by (simp add: list_all_iff hidden_item_def)
  ultimately show ?thesis using provision_vault_hides_passwords [OF vault res(1) _ item] res(1) item by blast
qed

theorem provisioner_lock_race_witness:
  "\<exists>s. provs.reach demo_sys s \<and> ps_threads s = [PWork ''s1'' demo_prov_request, PWork ''s1'' demo_prov_request]"
proof (rule provisioner_lock_race)
  show "sy_json_request demo_sys (payload_str demo_sys_packet) = Inr demo_prov_request" by (simp add: demo_sys_def)
  show "''s1'' = spec_get demo_sys_packet SpecGatewaySessionID" by (simp add: demo_sys_packet_def gm_str_def gm_get_Cons)
qed

definition demo_taken :: prov_state where
  "demo_taken = prov_step demo_sys 0 (prov_step demo_sys 0 (ProcessDBProvisionerRequest demo_sys_packet prov_init))"

lemma demo_taken_reach: "provs.reach demo_sys demo_taken"
proof -
  have "provs.reach demo_sys (ProcessDBProvisionerRequest demo_sys_packet prov_init)"
    by (rule provs.next_state [OF provs.start [OF refl]]) (rule arrive, simp add: prov_init_def)
  then have "provs.reach demo_sys (prov_step demo_sys 0 (ProcessDBProvisionerRequest demo_sys_packet prov_init))"
    by (rule provs.next_state) (rule run, simp add: ProcessDBProvisionerRequest_def)
  then show ?thesis unfolding demo_taken_def
    by (rule provs.next_state)
      (rule run, simp add: ProcessDBProvisionerRequest_def prov_step_def prov_init_def prov_goto_def demo_sys_def Let_def)
qed

theorem provisioner_locks_are_released_witness:
  "mem_Has (ps_store demo_taken) ''o:r'' \<and> (\<exists>pc \<in> set (ps_threads demo_taken). holds_lock ''o:r'' pc)"
proof -
  have "mem_Has (ps_store demo_taken) ''o:r''"
    by (simp add: demo_taken_def prov_step_def ProcessDBProvisionerRequest_def prov_init_def prov_goto_def Let_def demo_sys_def
        lockResourceID_def demo_prov_request_def)
  with provisioner_locks_are_released [OF demo_taken_reach, of "''o:r''"] show ?thesis by simp
qed

end
