(* ===== verification/RunbookConfig.thy ===== *)
theory RunbookConfig
  imports Base64
begin

text \<open>
  The configuration of the runbook plugin, \<open>src/common/runbooks/config.go\<close>: the git URL, the
  credentials, the time the hooks are cached, and the known hosts of the SSH transport.

  Parsing an SSH key (\<open>gitssh.NewPublicKeys\<close>) and running \<open>ssh-keyscan\<close> are parameters.  A duration is a
  64-bit integer of nanoseconds, so the product wraps around.
\<close>

datatype git_auth =
    PublicKeys string string string
  | BasicAuth string string

record runbook_config =
  rc_GitURL :: string
  rc_HookCacheTTL :: "int option"
  rc_Auth :: "git_auth option"
  rc_sshKnownHostsEnc :: string

definition ErrEmptyConfiguration :: error where
  "ErrEmptyConfiguration = ''missing (empty) required plugin configuration: GIT_URL''"

definition duration_seconds :: "int \<Rightarrow> int" where
  "duration_seconds n = sint (word_of_int (n * 1000000000) :: 64 word)"

text \<open>The text of an error of \<open>strconv.Atoi\<close>.\<close>

definition atoi_error :: "string \<Rightarrow> error" where
  "atoi_error s =
     ''strconv.Atoi: parsing '' @ go_quote s @ '': '' @
     (let ds = (if s \<noteq> [] \<and> hd s \<in> {CHR ''-'', CHR ''+''} then tl s else s) in
      if dec_nat ds = None then ''invalid syntax'' else ''value out of range'')"

definition parseRunbookHookCacheTTLConfig :: "string gomap \<Rightarrow> int option result" where
  "parseRunbookHookCacheTTLConfig envVars =
     (case gm_get envVars ''GIT_HOOK_CONFIG_TTL'' of
        None \<Rightarrow> Inr None
      | Some configTTLEnc \<Rightarrow>
          (case b64_decode_string configTTLEnc of
             Inl err \<Rightarrow> Inl (''failed decoding GIT_HOOK_CONFIG_TTL, '' @ err)
           | Inr configTTLStr \<Rightarrow>
               (case atoi configTTLStr of
                  None \<Rightarrow> Inl (''failed parsing GIT_HOOK_CONFIG_TTL, '' @ atoi_error configTTLStr)
                | Some configTTL \<Rightarrow> Inr (Some (duration_seconds configTTL)))))"

text \<open>A variable that is decoded unless it is empty, with its default.\<close>

definition decode_or :: "string \<Rightarrow> string \<Rightarrow> error \<Rightarrow> string result" where
  "decode_or enc dflt err = (if enc = '''' then Inr dflt else case b64_decode_string enc of Inl _ \<Rightarrow> Inl err | Inr v \<Rightarrow> Inr v)"

definition NewConfig :: "(string \<Rightarrow> string \<Rightarrow> string \<Rightarrow> unit result) \<Rightarrow> string gomap \<Rightarrow> runbook_config result" where
  "NewConfig newPublicKeys envVars =
     (if envVars = [] then Inl ErrEmptyConfiguration
      else case b64_decode_string (gm_str envVars ''GIT_URL'') of
        Inl _ \<Rightarrow> Inl ErrEmptyConfiguration
      | Inr gitURL \<Rightarrow>
          bind_result (parseRunbookHookCacheTTLConfig envVars) (\<lambda>hookCacheTTL.
            let gitUserEnc = gm_str envVars ''GIT_USER'';
                gitPasswordEnc = gm_str envVars ''GIT_PASSWORD'';
                sshKeyEnc = gm_str envVars ''GIT_SSH_KEY'';
                config = \<lparr>rc_GitURL = gitURL, rc_HookCacheTTL = hookCacheTTL, rc_Auth = None, rc_sshKnownHostsEnc = ''''\<rparr>
            in if sshKeyEnc \<noteq> '''' then
                 bind_result (decode_or sshKeyEnc '''' ''failed decoding GIT_SSH_KEY'') (\<lambda>pemBytes.
                 bind_result (decode_or (gm_str envVars ''GIT_SSH_USER'') ''git'' ''failed decoding GIT_SSH_USER'') (\<lambda>sshUser.
                 bind_result (decode_or (gm_str envVars ''GIT_SSH_KEYPASS'') '''' ''failed decoding GIT_SSH_KEYPASS'') (\<lambda>sshKeyPass.
                   case newPublicKeys sshUser pemBytes sshKeyPass of
                     Inl _ \<Rightarrow> Inl ''failed parsing SSH key file''
                   | Inr _ \<Rightarrow> Inr (config\<lparr>rc_Auth := Some (PublicKeys sshUser pemBytes sshKeyPass),
                                rc_sshKnownHostsEnc := gm_str envVars ''GIT_SSH_KNOWN_HOSTS''\<rparr>))))
               else if gitPasswordEnc \<noteq> '''' then
                 bind_result (decode_or gitPasswordEnc '''' ''failed decoding GIT_PASSWORD'') (\<lambda>gitPassword.
                 bind_result (decode_or gitUserEnc ''oauth2'' ''failed decoding GIT_USER'') (\<lambda>gitUser.
                   Inr (config\<lparr>rc_Auth := Some (BasicAuth gitUser gitPassword)\<rparr>)))
               else Inr config))"

section \<open>Known hosts\<close>

record public_key =
  pk_Type :: string
  pk_Marshal :: string

definition host_part :: "string \<Rightarrow> string" where
  "host_part hostname = hd (str_split '':'' hostname)"

definition known_hosts_line :: "string \<Rightarrow> string gomap \<Rightarrow> string gomap" where
  "known_hosts_line knownHostsLine sshKnownHosts =
     (case str_split '' '' knownHostsLine of
        [host, alg, key] \<Rightarrow> gm_set (host_part host @ '':'' @ alg) (alg @ '' '' @ key) sshKnownHosts
      | _ \<Rightarrow> sshKnownHosts)"

definition parseKnownHostsFileContent :: "string \<Rightarrow> string gomap" where
  "parseKnownHostsFileContent knownHostsContent = fold known_hosts_line (str_split [CHR 0x0A] knownHostsContent) []"

definition knownHostKey :: "public_key \<Rightarrow> string" where
  "knownHostKey k = pk_Type k @ '' '' @ b64_encode (pk_Marshal k)"

definition knowHostMapKey :: "string \<Rightarrow> public_key \<Rightarrow> string" where
  "knowHostMapKey hostname pub = host_part hostname @ '':'' @ pk_Type pub"

definition trustedHostKeyCallback :: "string gomap \<Rightarrow> string \<Rightarrow> public_key \<Rightarrow> error option" where
  "trustedHostKeyCallback knownHostsStore hostname k =
     (let storeKey = knowHostMapKey hostname k; khKey = knownHostKey k; trustedKey = gm_str knownHostsStore storeKey in
      if trustedKey \<noteq> khKey
      then Some (''ssh-key failed verification for '' @ storeKey @ ''. Want '' @ go_quote trustedKey @ '', Got '' @ go_quote khKey)
      else None)"

text \<open>
  \<open>loadKnownHosts\<close>: the known hosts that the callback of an SSH configuration will use (\<open>None\<close> for
  another configuration), and the cached output of \<open>ssh-keyscan\<close>, a global variable.
\<close>

definition sshKeyScan :: "string result \<Rightarrow> string result" where
  "sshKeyScan command_output =
     (case command_output of Inl err \<Rightarrow> Inl (''failed executing ssh-keyscan, err='' @ err) | Inr content \<Rightarrow> Inr content)"

definition loadKnownHosts :: "string result \<Rightarrow> runbook_config \<Rightarrow> string \<Rightarrow> string gomap option result \<times> string" where
  "loadKnownHosts scan c cached =
     (case rc_Auth c of
        Some (PublicKeys _ _ _) \<Rightarrow>
          if cached \<noteq> '''' then (Inr (Some (parseKnownHostsFileContent cached)), cached)
          else if rc_sshKnownHostsEnc c = '''' \<and> length cached = 0 then
            (case sshKeyScan scan of
               Inl err \<Rightarrow> (Inl (''failed executing ssh-keyscan, err='' @ err), cached)
             | Inr knownHostsContent \<Rightarrow> (Inr (Some (parseKnownHostsFileContent knownHostsContent)), knownHostsContent))
          else (case b64_decode_string (rc_sshKnownHostsEnc c) of
                  Inl _ \<Rightarrow> (Inl ''failed decoding GIT_SSH_KNOWN_HOSTS'', cached)
                | Inr content \<Rightarrow> (Inr (Some (parseKnownHostsFileContent content)), cached))
      | _ \<Rightarrow> (Inr None, cached))"

section \<open>Properties\<close>

text \<open>The entries of a known hosts text, in the order of its lines.\<close>

definition host_entries :: "string \<Rightarrow> (string \<times> string \<times> string) list" where
  "host_entries content =
     concat (map (\<lambda>l. case str_split '' '' l of [host, alg, key] \<Rightarrow> [(host_part host, alg, key)] | _ \<Rightarrow> [])
       (str_split [CHR 0x0A] content))"

text \<open>The last entry for a host and an algorithm decides.\<close>

definition trusted_key :: "string \<Rightarrow> string \<Rightarrow> string \<Rightarrow> string option" where
  "trusted_key content host alg = map_of (rev (map (\<lambda>(h, a, key). ((h, a), key)) (host_entries content))) (host, alg)"

lemma split_no_sep: "x \<in> set (str_split [c] s) \<Longrightarrow> c \<notin> set x"
proof (induction s arbitrary: x rule: length_induct)
  case (1 s)
  show ?case
  proof (cases "str_cut [c] s")
    case None
    then have "c \<notin> set s" using str_cut_None_iff [of "[c]" s] str_contains_char [of s c] by (simp add: str_contains_def)
    moreover have "x = s" using 1(2) None by (subst (asm) str_split.simps) simp
    ultimately show ?thesis by simp
  next
    case (Some p)
    obtain a b where p: "p = (a, b)" by (cases p)
    with Some have s: "s = a @ [c] @ b" by (auto dest: str_cut_Some)
    have "c \<notin> set a"
    proof
      assume "c \<in> set a"
      then obtain u v where "a = u @ c # v" "c \<notin> set u" by (meson split_list_first)
      then have "str_cut [c] s = Some (u, v @ [c] @ b)" using s str_cut_char [of c u "v @ [c] @ b"] by simp
      with Some p \<open>a = u @ c # v\<close> show False by simp
    qed
    moreover have "x = a \<or> x \<in> set (str_split [c] b)" using 1(2) Some p by (subst (asm) str_split.simps) simp
    moreover have "length b < length s" using s by simp
    ultimately show ?thesis using 1(1) by blast
  qed
qed

lemma host_part_no_colon: "CHR '':'' \<notin> set (host_part h)"
  unfolding host_part_def by (rule split_no_sep [of _ "CHR '':''" h]) simp

lemma host_key_inj:
  assumes "CHR '':'' \<notin> set h" "CHR '':'' \<notin> set h'"
  shows "h @ '':'' @ a = h' @ '':'' @ a' \<longleftrightarrow> h = h' \<and> a = a'"
proof
  assume eq: "h @ '':'' @ a = h' @ '':'' @ a'"
  have "takeWhile (\<lambda>c. c \<noteq> CHR '':'') (h @ '':'' @ a) = h" "takeWhile (\<lambda>c. c \<noteq> CHR '':'') (h' @ '':'' @ a') = h'"
    using assms by (simp_all add: takeWhile_append takeWhile_eq_all_conv)
  with eq show "h = h' \<and> a = a'" by simp
qed simp

lemma known_hosts_lookup:
  assumes "CHR '':'' \<notin> set host"
  shows "gm_get (fold known_hosts_line ls m) (host @ '':'' @ alg) =
    (case map_of (rev (map (\<lambda>(h, a, key). ((h, a), key))
             (concat (map (\<lambda>l. case str_split '' '' l of [host, alg, key] \<Rightarrow> [(host_part host, alg, key)] | _ \<Rightarrow> []) ls)))) (host, alg) of
       Some key \<Rightarrow> Some (alg @ '' '' @ key)
     | None \<Rightarrow> gm_get m (host @ '':'' @ alg))"
proof (induction ls arbitrary: m)
  case Nil
  then show ?case by simp
next
  case (Cons l ls)
  show ?case
  proof (cases "\<exists>h a key. str_split '' '' l = [h, a, key]")
    case True
    then obtain h a key where "str_split '' '' l = [h, a, key]" by blast
    then show ?thesis
      using Cons host_key_inj [OF assms host_part_no_colon [of h], of alg a]
      by (auto simp: known_hosts_line_def map_add_def split: option.splits)
  next
    case False
    then have "known_hosts_line l m = m"
      "(case str_split '' '' l of [host, alg, key] \<Rightarrow> [(host_part host, alg, key)] | _ \<Rightarrow> []) = []"
      unfolding known_hosts_line_def by (auto split: list.split)
    then show ?thesis using Cons by (simp del: list.case)
  qed
qed

text \<open>
  C31: only a listed host key is trusted.  The callback made from a known hosts text accepts a key of a
  host exactly when the last entry of the text for this host (its port does not matter) and the type of
  the key is that key.
\<close>

theorem host_key_trusted_iff_listed:
  "trustedHostKeyCallback (parseKnownHostsFileContent content) hostname k = None \<longleftrightarrow>
     trusted_key content (host_part hostname) (pk_Type k) = Some (b64_encode (pk_Marshal k))"
proof -
  have "gm_get (parseKnownHostsFileContent content) (knowHostMapKey hostname k) =
      map_option (\<lambda>key. pk_Type k @ '' '' @ key) (trusted_key content (host_part hostname) (pk_Type k))"
    using known_hosts_lookup [OF host_part_no_colon [of hostname], of "str_split [CHR 0x0A] content" "[]" "pk_Type k"]
    by (simp add: parseKnownHostsFileContent_def knowHostMapKey_def trusted_key_def host_entries_def split: option.splits)
  then show ?thesis
    by (auto simp: trustedHostKeyCallback_def knownHostKey_def gm_str_def Let_def split: option.splits)
qed

text \<open>
  Once \<open>ssh-keyscan\<close> has been run, its cached output is used for every SSH configuration, also for one
  that comes with its own known hosts.
\<close>

lemma cached_hosts_win:
  assumes "rc_Auth c = Some (PublicKeys u k p)" "cached \<noteq> ''''"
  shows "loadKnownHosts scan c cached = (Inr (Some (parseKnownHostsFileContent cached)), cached)"
  using assms by (simp add: loadKnownHosts_def)

text \<open>A configuration without \<open>GIT_URL\<close> is accepted, with an empty URL, as long as it has another variable.\<close>

lemma config_without_url:
  assumes "envVars \<noteq> []" "\<And>k. k \<in> {''GIT_URL'', ''GIT_HOOK_CONFIG_TTL'', ''GIT_SSH_KEY'', ''GIT_PASSWORD''} \<Longrightarrow> gm_get envVars k = None"
  shows "NewConfig keys envVars = Inr \<lparr>rc_GitURL = '''', rc_HookCacheTTL = None, rc_Auth = None, rc_sshKnownHostsEnc = ''''\<rparr>"
proof -
  have "b64_decode_string '''' = Inr ''''" by code_simp
  with assms show ?thesis
    by (simp add: NewConfig_def gm_str_def parseRunbookHookCacheTTLConfig_def)
qed

text \<open>A time to live is exact up to about 292 years, and wraps around beyond.\<close>

lemma ttl_exact:
  assumes "- 9223372036 \<le> n" "n \<le> 9223372036"
  shows "duration_seconds n = n * 1000000000"
proof -
  have "- (2 ^ 63) \<le> n * 1000000000" "n * 1000000000 < 2 ^ 63" using assms by simp_all
  then show ?thesis unfolding duration_seconds_def sint_sbintrunc' by (intro signed_take_bit_int_eq_self) simp_all
qed

lemma ttl_wraps: "duration_seconds 9223372037 < 0"
  by (simp add: duration_seconds_def)

end
