(* ===== verification/RunbookTemplates.thy ===== *)
theory RunbookTemplates
  imports RunbookConfig
begin

text \<open>
  Runbook templates and files, \<open>templates.go\<close>, \<open>template_funcs.go\<close> and \<open>git.go\<close> of
  \<open>src/common/runbooks\<close>.

  The parser of \<open>text/template\<close> is the parameter \<open>tl_parse\<close>: it turns a text into a list of nodes: text,
  an action, or an \<open>if\<close> with its condition and its two branches.  The pipeline of an action or a condition
  starts with a field and is piped through functions, or it is any other pipeline, given by its source
  text; what such a one evaluates to is a parameter.  \<open>range\<close>, \<open>with\<close> and nested templates are not modelled.
  An argument of a function is a pair of its source text, with its quotes, and its value.
  \<open>regexp.Match\<close>, the functions that \<open>text/template\<close> has built in, the wording it gives to errors and
  \<open>fmt.Errorf\<close> on a text without arguments are parameters too, and so is the order in which \<open>range\<close> visits the
  attributes, which Go leaves open: \<open>tl_range\<close> gives the entries of a map in the order of a loop.

  A value is a string, the value of an input that is not set, or a value of another type, given by its
  truth and its printed text.
\<close>

datatype tmpl_val = VStr string | VMissing | VOther bool string

type_synonym tmpl_cmds = "(string \<times> (string \<times> string) list) list"

datatype tmpl_pipe = FieldPipe string tmpl_cmds | OtherPipe string

datatype tmpl_node =
    TextNode string
  | ActionNode tmpl_pipe
  | IfNode tmpl_pipe "tmpl_node list" "tmpl_node list"

text \<open>The value of one attribute of an input.\<close>

datatype spec_val = SpecStr string | SpecBool bool | SpecList "string list"

record tmpl_libs =
  tl_parse :: "string \<Rightarrow> tmpl_node list result"
  tl_regexp :: "string \<Rightarrow> string \<Rightarrow> bool result"
  tl_builtin :: "string \<Rightarrow> tmpl_val list \<Rightarrow> tmpl_val result"
  tl_other :: "string \<Rightarrow> string gomap \<Rightarrow> string gomap \<Rightarrow> (tmpl_val \<times> string gomap) result"
  tl_wrap :: "error \<Rightarrow> error"
  tl_format :: "string \<Rightarrow> string"
  tl_range :: "spec_val gomap gomap \<Rightarrow> spec_val gomap gomap"

section \<open>Attributes\<close>

text \<open>\<open>String\<close> of an action node.\<close>

fun cmd_String :: "string \<times> (string \<times> string) list \<Rightarrow> string" where
  "cmd_String (fn, args) = fn @ concat (map (\<lambda>(src, _). '' '' @ src) args)"

fun pipe_String :: "tmpl_pipe \<Rightarrow> string" where
  "pipe_String (FieldPipe key cmds) = ''{{'' @ str_join '' | '' ((''.'' @ key) # map cmd_String cmds) @ ''}}''"
| "pipe_String (OtherPipe t) = ''{{'' @ t @ ''}}''"

definition defaultInputTypes :: "string list" where
  "defaultInputTypes =
     [''text'', ''number'', ''tel'', ''time'', ''date'', ''url'', ''email'', ''select'', ''textarea'', ''password'']"

text \<open>One section of an action: the name of a function and what follows it.\<close>

definition section_name :: "string \<Rightarrow> string" where
  "section_name s = hd (str_split '' '' s)"

definition section_val :: "string \<Rightarrow> string" where
  "section_val s =
     (let parts = str_split '' '' s in
      if length parts > 1 then filter (\<lambda>c. c \<noteq> CHR 34) (trim_space (str_join '' '' (tl parts))) else '''')"

definition spec_section :: "string \<Rightarrow> spec_val gomap \<Rightarrow> spec_val gomap" where
  "spec_section s specs =
     (let fnName = section_name s; fnVal = section_val s in
      if fnName = ''type'' then if fnVal \<in> set defaultInputTypes then gm_set fnName (SpecStr fnVal) specs else specs
      else if fnName = ''required'' then gm_set fnName (SpecBool True) specs
      else if fnName \<in> {''description'', ''default'', ''placeholder''} then gm_set fnName (SpecStr fnVal) specs
      else if fnName = ''options'' then gm_set fnName (SpecList (str_split '' '' fnVal)) specs
      else if fnName = ''asenv'' then gm_set fnName (SpecStr fnVal) specs
      else specs)"

definition initial_specs :: "spec_val gomap" where
  "initial_specs = [(''type'', SpecStr ''text''), (''required'', SpecBool False), (''description'', SpecStr '''')]"

definition parseNode :: "string \<Rightarrow> spec_val gomap" where
  "parseNode node =
     (let node = drop 2 node; node = take (length node - 2) node in
      fold spec_section (str_split '' | '' node) initial_specs)"

text \<open>The anchored expression \<open>^{{\.[a-zA-Z0-9_]+\<close> has at most one match.\<close>

definition word_char :: "char \<Rightarrow> bool" where
  "word_char c = (let n = of_char c :: nat in (97 \<le> n \<and> n \<le> 122) \<or> (65 \<le> n \<and> n \<le> 90) \<or> (48 \<le> n \<and> n \<le> 57) \<or> n = 95)"

definition match_input_key :: "string \<Rightarrow> string list" where
  "match_input_key s =
     (if prefix ''{{.'' s then
        (let w = takeWhile word_char (drop 3 s) in if w = [] then [] else [''{{.'' @ w])
      else [])"

definition spec_of_action :: "string \<Rightarrow> spec_val gomap gomap \<Rightarrow> spec_val gomap gomap result" where
  "spec_of_action s into =
     (let findings = match_input_key s in
      if length findings \<noteq> 1 then
        Inl (''inconsistent findings, findings='' @ nat_dec (length findings) @ '', val='' @ go_show_list findings)
      else let inputKey = drop 3 (trim_space (hd findings)) in Inr (gm_set inputKey (parseNode s) into))"

text \<open>Only the actions at the top of the template are looked at: the walk does not go into an \<open>if\<close>.\<close>

fun parseSpecFromTemplate :: "tmpl_node list \<Rightarrow> spec_val gomap gomap \<Rightarrow> spec_val gomap gomap result" where
  "parseSpecFromTemplate [] into = Inr into"
| "parseSpecFromTemplate (TextNode _ # nodes) into = parseSpecFromTemplate nodes into"
| "parseSpecFromTemplate (IfNode _ _ _ # nodes) into = parseSpecFromTemplate nodes into"
| "parseSpecFromTemplate (ActionNode p # nodes) into =
     bind_result (spec_of_action (pipe_String p) into) (parseSpecFromTemplate nodes)"

record runbook_template =
  rt_nodes :: "tmpl_node list"
  rt_attributes :: "spec_val gomap gomap"

definition runbook_Parse :: "tmpl_libs \<Rightarrow> string \<Rightarrow> runbook_template result" where
  "runbook_Parse L tmpl =
     bind_result (tl_parse L tmpl) (\<lambda>nodes.
     bind_result (parseSpecFromTemplate nodes []) (\<lambda>attributes. Inr \<lparr>rt_nodes = nodes, rt_attributes = attributes\<rparr>))"

section \<open>Functions\<close>

text \<open>
  The functions of the program, on their arguments with the piped value last; the environment variables
  collected by \<open>asenv\<close> are threaded through.
\<close>

definition tmpl_AsEnv :: "string \<Rightarrow> string \<Rightarrow> string gomap \<Rightarrow> string gomap" where
  "tmpl_AsEnv envKey envVal items = gm_set (''envvar:'' @ envKey) (b64_encode envVal) items"

definition wrong_args :: "string \<Rightarrow> 'a result" where
  "wrong_args name = Inl (''wrong number of args for '' @ name)"

definition template_func :: "tmpl_libs \<Rightarrow> string \<Rightarrow> string list \<Rightarrow> string result" where
  "template_func L name args =
     (if name = ''required'' then
        (case args of [msg, s] \<Rightarrow> if s = '''' then Inl (tl_format L msg) else Inr s | _ \<Rightarrow> wrong_args name)
      else if name = ''default'' then (case args of [d, s] \<Rightarrow> Inr (if s = '''' then d else s) | _ \<Rightarrow> wrong_args name)
      else if name = ''pattern'' then
        (case args of
           [p, s] \<Rightarrow>
             (case tl_regexp L p s of
                Inl err \<Rightarrow> Inl (''regexp error: '' @ err)
              | Inr ok \<Rightarrow> if ok then Inr s else Inl (''pattern didn'' @ [CHR 39] @ ''t match:'' @ p))
         | _ \<Rightarrow> wrong_args name)
      else if name \<in> {''placeholder'', ''description'', ''type''} then (case args of [_, s] \<Rightarrow> Inr s | _ \<Rightarrow> wrong_args name)
      else if name = ''options'' then Inr (if args = [] then '''' else last args)
      else if name = ''squote'' then (case args of [s] \<Rightarrow> Inr ([CHR 39] @ s @ [CHR 39]) | _ \<Rightarrow> wrong_args name)
      else if name = ''dquote'' then (case args of [s] \<Rightarrow> Inr ([CHR 34] @ s @ [CHR 34]) | _ \<Rightarrow> wrong_args name)
      else if name = ''quotechar'' then (case args of [c, s] \<Rightarrow> Inr (c @ s @ c) | _ \<Rightarrow> wrong_args name)
      else if name = ''encodeb64'' then (case args of [s] \<Rightarrow> Inr (b64_encode s) | _ \<Rightarrow> wrong_args name)
      else if name = ''decodeb64'' then (case args of [s] \<Rightarrow> b64_decode_string s | _ \<Rightarrow> wrong_args name)
      else wrong_args name)"

text \<open>
  A call of a function of the program: the number of the arguments is checked first, then that each is a
  string.
\<close>

definition func_arity :: "string \<Rightarrow> nat option" where
  "func_arity name =
     (if name \<in> {''required'', ''default'', ''pattern'', ''placeholder'', ''description'', ''type'', ''quotechar'', ''asenv''} then Some 2
      else if name \<in> {''squote'', ''dquote'', ''encodeb64'', ''decodeb64''} then Some 1
      else None)"

fun val_strings :: "tmpl_val list \<Rightarrow> string list result" where
  "val_strings [] = Inr []"
| "val_strings (VStr s # vs) = bind_result (val_strings vs) (\<lambda>ss. Inr (s # ss))"
| "val_strings (VMissing # vs) = Inl ''invalid value; expected string''"
| "val_strings (VOther _ _ # vs) = Inl ''wrong type for value; expected string''"

definition apply_func :: "tmpl_libs \<Rightarrow> string \<Rightarrow> tmpl_val list \<Rightarrow> string gomap \<Rightarrow> (tmpl_val \<times> string gomap) result" where
  "apply_func L name args items =
     (case func_arity name of
        Some n \<Rightarrow>
          if length args \<noteq> n then wrong_args name
          else bind_result (val_strings args) (\<lambda>strs.
            if name = ''asenv'' then Inr (VStr '''', tmpl_AsEnv (hd strs) (strs ! 1) items)
            else bind_result (template_func L name strs) (\<lambda>s. Inr (VStr s, items)))
      | None \<Rightarrow>
          if name = ''options'' then
            bind_result (val_strings args) (\<lambda>strs. bind_result (template_func L name strs) (\<lambda>s. Inr (VStr s, items)))
          else bind_result (tl_builtin L name args) (\<lambda>v. Inr (v, items)))"

section \<open>Execution\<close>

definition val_truth :: "tmpl_val \<Rightarrow> bool" where
  "val_truth v = (case v of VStr s \<Rightarrow> s \<noteq> '''' | VMissing \<Rightarrow> False | VOther b _ \<Rightarrow> b)"

definition val_print :: "tmpl_val \<Rightarrow> string" where
  "val_print v = (case v of VStr s \<Rightarrow> s | VMissing \<Rightarrow> ''<no value>'' | VOther _ t \<Rightarrow> t)"

definition field_val :: "string gomap \<Rightarrow> string \<Rightarrow> tmpl_val" where
  "field_val inputs key = (case gm_get inputs key of Some s \<Rightarrow> VStr s | None \<Rightarrow> VMissing)"

fun exec_cmds :: "tmpl_libs \<Rightarrow> tmpl_cmds \<Rightarrow> tmpl_val \<Rightarrow> string gomap \<Rightarrow> (tmpl_val \<times> string gomap) result" where
  "exec_cmds L [] v items = Inr (v, items)"
| "exec_cmds L ((fn, args) # cmds) v items =
     bind_result (apply_func L fn (map (\<lambda>(_, arg). VStr arg) args @ [v]) items) (\<lambda>(v, items). exec_cmds L cmds v items)"

fun exec_pipe :: "tmpl_libs \<Rightarrow> tmpl_pipe \<Rightarrow> string gomap \<Rightarrow> string gomap \<Rightarrow> (tmpl_val \<times> string gomap) result" where
  "exec_pipe L (FieldPipe key cmds) inputs items = exec_cmds L cmds (field_val inputs key) items"
| "exec_pipe L (OtherPipe t) inputs items = tl_other L t inputs items"

fun exec_nodes :: "tmpl_libs \<Rightarrow> tmpl_node list \<Rightarrow> string gomap \<Rightarrow> string gomap \<Rightarrow> (string \<times> string gomap) result" where
  "exec_nodes L [] inputs items = Inr ('''', items)"
| "exec_nodes L (TextNode t # nodes) inputs items =
     bind_result (exec_nodes L nodes inputs items) (\<lambda>(out, items). Inr (t @ out, items))"
| "exec_nodes L (ActionNode p # nodes) inputs items =
     (case exec_pipe L p inputs items of
        Inl err \<Rightarrow> Inl (tl_wrap L err)
      | Inr (v, items) \<Rightarrow> bind_result (exec_nodes L nodes inputs items) (\<lambda>(out, items). Inr (val_print v @ out, items)))"
| "exec_nodes L (IfNode p yes no # nodes) inputs items =
     (case exec_pipe L p inputs items of
        Inl err \<Rightarrow> Inl (tl_wrap L err)
      | Inr (v, items) \<Rightarrow>
          bind_result (if val_truth v then exec_nodes L yes inputs items else exec_nodes L no inputs items) (\<lambda>(branch, items).
          bind_result (exec_nodes L nodes inputs items) (\<lambda>(out, items). Inr (branch @ out, items))))"

text \<open>The check of the inputs: missing ones with a non-empty default are entered as empty.\<close>

definition has_default :: "spec_val gomap \<Rightarrow> bool" where
  "has_default metadata = (case gm_get metadata ''default'' of Some (SpecStr d) \<Rightarrow> d \<noteq> '''' | _ \<Rightarrow> False)"

definition check_input :: "string \<times> spec_val gomap \<Rightarrow> string gomap \<times> string list \<Rightarrow> string gomap \<times> string list" where
  "check_input = (\<lambda>(inputKey, metadata) (execInputs, missingKeys).
     if gm_get execInputs inputKey \<noteq> None then (execInputs, missingKeys)
     else if has_default metadata then (gm_set inputKey '''' execInputs, missingKeys)
     else (execInputs, missingKeys @ [inputKey]))"

definition runbook_Execute :: "tmpl_libs \<Rightarrow> runbook_template \<Rightarrow> string gomap \<Rightarrow> (string \<times> string gomap) result" where
  "runbook_Execute L t inputs =
     (case fold check_input (tl_range L (rt_attributes t)) (inputs, []) of
        (execInputs, []) \<Rightarrow> exec_nodes L (rt_nodes t) execInputs []
      | (_, missingKeys) \<Rightarrow> Inl (''the following inputs are missing '' @ go_show_list missingKeys))"

definition IsRunbookFile :: "string \<Rightarrow> bool" where
  "IsRunbookFile filePath = str_contains (last (str_split ''/'' filePath)) ''.runbook.''"

section \<open>Files\<close>

text \<open>
  A file of the repository: its name, its size, what reading its blob gives, and its hash, which the fetch
  replaces by that of the commit.
\<close>

record git_file =
  gf_Name :: string
  gf_Size :: int
  gf_Reader :: "unit result"
  gf_Content :: "string result"
  gf_Hash :: string

definition LookupFile :: "string \<Rightarrow> git_file list \<Rightarrow> git_file option" where
  "LookupFile fileName tree = fold (\<lambda>f objFile. if gf_Name f = fileName then Some f else objFile) tree None"

definition ReadBlob :: "git_file \<Rightarrow> string result" where
  "ReadBlob f = (case gf_Reader f of Inl err \<Rightarrow> Inl (''reader error '' @ err) | Inr _ \<Rightarrow> gf_Content f)"

record runbook_file =
  rf_Name :: string
  rf_EnvVars :: "string gomap"
  rf_InputFile :: string
  rf_CommitSHA :: string

definition maxTemplateSize :: int where
  "maxTemplateSize = 1000000"

text \<open>The result \<open>Inr None\<close> is the pair of nil values for a file that is not there.\<close>

definition repo_ReadFile :: "tmpl_libs \<Rightarrow> git_file gomap \<Rightarrow> string \<Rightarrow> string gomap \<Rightarrow> runbook_file option result" where
  "repo_ReadFile L files fileName parameters =
     (case gm_get files fileName of
        None \<Rightarrow> Inr None
      | Some f \<Rightarrow>
          if gf_Size f > maxTemplateSize then Inl (''max template size [1000 KB] reached for '' @ gf_Name f)
          else case gf_Reader f of
            Inl err \<Rightarrow> Inl (''reader error '' @ err)
          | Inr _ \<Rightarrow>
              (case gf_Content f of
                 Inl err \<Rightarrow> Inl (''failed reading file '' @ fileName @ '', '' @ err)
               | Inr blob \<Rightarrow>
                   bind_result (runbook_Parse L blob) (\<lambda>t.
                   bind_result (runbook_Execute L t parameters) (\<lambda>(out, envVars).
                     Inr (Some \<lparr>rf_Name = gf_Name f, rf_EnvVars = envVars, rf_InputFile = out, rf_CommitSHA = gf_Hash f\<rparr>)))))"

text \<open>Fetching: go-git is a parameter, as the results of its calls.\<close>

record git_ref =
  gr_Name :: string
  gr_Symbolic :: bool
  gr_Hash :: string

record git_libs =
  gl_scan :: "string result"
  gl_init :: "unit result"
  gl_remote :: "string \<Rightarrow> unit result"
  gl_fetch :: "string \<Rightarrow> git_auth option \<Rightarrow> string gomap option \<Rightarrow> error option"
  gl_upToDate :: error
  gl_references :: "git_ref list result"
  gl_commit :: "string \<Rightarrow> string result"
  gl_isZero :: "string \<Rightarrow> bool"
  gl_files :: "string \<Rightarrow> git_file list result"
  gl_iterate :: "error option"

text \<open>The loop over the references: the first branch named master or main, and the others seen before it.\<close>

fun find_ref :: "git_ref list \<Rightarrow> string list \<Rightarrow> git_ref option \<times> string list" where
  "find_ref [] refList = (None, refList)"
| "find_ref (ref # refs) refList =
     (if gr_Symbolic ref then find_ref refs refList
      else if gr_Name ref \<in> {''refs/remotes/origin/master'', ''refs/remotes/origin/main''} then (Some ref, refList)
      else find_ref refs (refList @ [gr_Name ref @ ''='' @ gr_Hash ref]))"

definition fetch_result :: "git_libs \<Rightarrow> runbook_config \<Rightarrow> error option \<Rightarrow> unit result" where
  "fetch_result G conf res =
     (case res of
        Some err \<Rightarrow> if err \<noteq> gl_upToDate G then Inl (''failed pulling repo '' @ rc_GitURL conf @ '', err='' @ err) else Inr ()
      | None \<Rightarrow> Inr ())"

definition CloneRepositoryInMemory :: "git_libs \<Rightarrow> runbook_config \<Rightarrow> string \<Rightarrow> string result \<times> string" where
  "CloneRepositoryInMemory G conf cached =
     (case loadKnownHosts (gl_scan G) conf cached of
        (Inl err, cached) \<Rightarrow> (Inl err, cached)
      | (Inr knownHosts, cached) \<Rightarrow>
          (bind_result (gl_init G) (\<lambda>_.
           case gl_remote G (rc_GitURL conf) of
             Inl err \<Rightarrow> Inl (''failed creating remote, err='' @ err)
           | Inr _ \<Rightarrow>
               bind_result (fetch_result G conf (gl_fetch G (rc_GitURL conf) (rc_Auth conf) knownHosts)) (\<lambda>_.
               case gl_references G of
                 Inl err \<Rightarrow> Inl (''failed getting references, err='' @ err)
               | Inr refs \<Rightarrow>
                   (case find_ref refs [] of
                      (Some ref, _) \<Rightarrow> gl_commit G (gr_Hash ref)
                    | (None, refList) \<Rightarrow> Inl (''master or main ref not found. refs='' @ go_show_list refList)))), cached))"

definition FetchRepository :: "git_libs \<Rightarrow> runbook_config \<Rightarrow> string \<Rightarrow> git_file gomap result \<times> string" where
  "FetchRepository G config cached =
     (case CloneRepositoryInMemory G config cached of
        (Inl err, cached) \<Rightarrow> (Inl err, cached)
      | (Inr hash, cached) \<Rightarrow>
          (if gl_isZero G hash then Inl ''commit hash from remote is empty''
           else case gl_files G hash of
             Inl err \<Rightarrow> Inl (''failed obtaining tree from commit '' @ hash @ '', '' @ err)
           | Inr fs \<Rightarrow>
               (case gl_iterate G of
                  Some err \<Rightarrow> Inl (''failed iterating through tree, reason='' @ err)
                | None \<Rightarrow> Inr (fold (\<lambda>f files. gm_set (gf_Name f) (f\<lparr>gf_Hash := hash\<rparr>) files) fs [])), cached))"

text \<open>Looking a file up in the tree and in the fetched repository agree, but for the hash.\<close>

lemma fetched_files:
  "gm_get (fold (\<lambda>f files. gm_set (gf_Name f) (f\<lparr>gf_Hash := hash\<rparr>) files) fs files) name =
     (case fold (\<lambda>f objFile. if gf_Name f = name then Some f else objFile) fs None of
        Some f \<Rightarrow> Some (f\<lparr>gf_Hash := hash\<rparr>) | None \<Rightarrow> gm_get files name)"
  by (induction fs rule: rev_induct) auto

lemma fetch_then_lookup:
  assumes "FetchRepository G config cached = (Inr files, cached')" "CloneRepositoryInMemory G config cached = (Inr hash, cached')"
    "gl_files G hash = Inr fs"
  shows "gm_get files name = map_option (\<lambda>f. f\<lparr>gf_Hash := hash\<rparr>) (LookupFile name fs)"
  using assms by (auto simp: FetchRepository_def LookupFile_def fetched_files split: if_splits option.splits)

section \<open>The inputs of a template\<close>

definition missing_inputs :: "spec_val gomap gomap \<Rightarrow> string gomap \<Rightarrow> string list" where
  "missing_inputs attributes inputs =
     map fst (filter (\<lambda>(key, metadata). gm_get inputs key = None \<and> \<not> has_default metadata) attributes)"

lemma spec_of_action_wf: "spec_of_action s into = Inr into' \<Longrightarrow> gm_wf into \<Longrightarrow> gm_wf into'"
  by (auto simp: spec_of_action_def Let_def split: if_splits)

lemma parseSpec_wf: "parseSpecFromTemplate nodes into = Inr attributes \<Longrightarrow> gm_wf into \<Longrightarrow> gm_wf attributes"
  by (induction nodes into rule: parseSpecFromTemplate.induct)
    (auto simp: bind_result_def dest: spec_of_action_wf split: sum.splits)

lemma Parse_wf: "runbook_Parse L tmpl = Inr t \<Longrightarrow> gm_wf (rt_attributes t)"
  by (auto simp: runbook_Parse_def bind_result_def gm_wf_def dest: parseSpec_wf [unfolded gm_wf_def] split: sum.splits)

text \<open>A loop over a map visits every entry once, in any order.\<close>

definition visits_all :: "tmpl_libs \<Rightarrow> bool" where
  "visits_all L \<longleftrightarrow> (\<forall>m. gm_wf m \<longrightarrow> gm_wf (tl_range L m) \<and> set (tl_range L m) = set m)"

lemma visited:
  assumes "visits_all L" "gm_wf m"
  shows "gm_wf (tl_range L m)" "set (tl_range L m) = set m" "gm_get (tl_range L m) k = gm_get m k"
proof -
  show r: "gm_wf (tl_range L m)" "set (tl_range L m) = set m" using assms by (simp_all add: visits_all_def)
  have "gm_get (tl_range L m) k = Some v \<longleftrightarrow> gm_get m k = Some v" for v
    using gm_get_in_set [OF r(1)] gm_get_in_set [OF assms(2)] r(2) by blast
  then show "gm_get (tl_range L m) k = gm_get m k" by (metis option.exhaust)
qed

lemma visited_one [simp]: "visits_all L \<Longrightarrow> tl_range L [] = []" "visits_all L \<Longrightarrow> tl_range L [e] = [e]"
proof -
  assume L: "visits_all L"
  show "tl_range L [] = []" using visited(2) [OF L gm_wf_Nil] by simp
  have one: "gm_wf [e]" by (simp add: gm_wf_def)
  have "distinct (tl_range L [e])" using visited(1) [OF L one] by (simp add: gm_wf_def distinct_map)
  with visited(2) [OF L one] show "tl_range L [e] = [e]"
    by (cases "tl_range L [e]" rule: list.exhaust) (auto simp: set_empty2 subset_singleton_iff split: list.splits)
qed

lemma missing_inputs_visited:
  assumes "visits_all L" "gm_wf m"
  shows "set (missing_inputs (tl_range L m) inputs) = set (missing_inputs m inputs)" "distinct (missing_inputs (tl_range L m) inputs)"
  using visited(1,2) [OF assms] by (simp_all add: missing_inputs_def gm_wf_def distinct_map_filter)

text \<open>Entering defaults for other keys does not change what is missing.\<close>

lemma check_inputs_fold:
  assumes "gm_wf attributes" "\<And>key. key \<in> fst ` set attributes \<Longrightarrow> gm_get acc key = gm_get inputs key"
  shows "\<exists>execInputs. fold check_input attributes (acc, ms) = (execInputs, ms @ missing_inputs attributes inputs) \<and>
    (\<forall>k. gm_get execInputs k =
      (if gm_get acc k = None \<and> (\<exists>metadata. gm_get attributes k = Some metadata \<and> has_default metadata) then Some '''' else gm_get acc k))"
  using assms
proof (induction attributes arbitrary: acc ms)
  case Nil
  then show ?case by (simp add: missing_inputs_def)
next
  case (Cons kv attributes)
  obtain key metadata where kv: "kv = (key, metadata)" by (cases kv)
  from Cons.prems(1) have wf: "gm_wf attributes" and new: "key \<notin> fst ` set attributes" by (simp_all add: gm_wf_def kv)
  have key: "gm_get acc key = gm_get inputs key" using Cons.prems(2) [of key] by (simp add: kv)
  have none: "gm_get attributes key = None" using new gm_get_dom [of key attributes] by blast
  have rest: "gm_get acc k = gm_get inputs k" if "k \<in> fst ` set attributes" for k using Cons.prems(2) that by (simp add: kv)
  let ?acc = "fst (check_input kv (acc, ms))" and ?ms = "snd (check_input kv (acc, ms))"
  have "gm_get ?acc k = gm_get inputs k" if "k \<in> fst ` set attributes" for k
    using rest [OF that] that new by (auto simp: check_input_def kv)
  from Cons.IH [OF wf this, of ?ms] obtain execInputs where e:
    "fold check_input attributes (?acc, ?ms) = (execInputs, ?ms @ missing_inputs attributes inputs)"
    "\<And>k. gm_get execInputs k = (if gm_get ?acc k = None \<and>
        (\<exists>metadata. gm_get attributes k = Some metadata \<and> has_default metadata) then Some '''' else gm_get ?acc k)"
    by blast
  have "?ms @ missing_inputs attributes inputs = ms @ missing_inputs (kv # attributes) inputs"
    using key by (simp add: check_input_def kv missing_inputs_def)
  moreover have "gm_get execInputs k = (if gm_get acc k = None \<and>
        (\<exists>metadata. gm_get (kv # attributes) k = Some metadata \<and> has_default metadata) then Some '''' else gm_get acc k)" for k
    using e(2) [of k] none by (auto simp: check_input_def kv gm_get_Cons)
  ultimately show ?case using e(1) by auto
qed

text \<open>The name of an input, as the expression for it finds it in an action.\<close>

lemma match_key:
  assumes "key \<noteq> []" "\<forall>c \<in> set key. word_char c" "rest = [] \<or> \<not> word_char (hd rest)"
  shows "match_input_key (''{{.'' @ key @ rest) = [''{{.'' @ key]"
proof -
  have "takeWhile word_char (key @ rest) = key"
    using assms(2,3) by (cases rest) (simp_all add: takeWhile_append takeWhile_eq_all_conv)
  with assms(1) show ?thesis by (simp add: match_input_key_def)
qed

lemma trim_key: "\<forall>c \<in> set key. word_char c \<Longrightarrow> trim_space (''{{.'' @ key) = ''{{.'' @ key"
proof -
  assume key: "\<forall>c \<in> set key. word_char c"
  have "\<not> is_space (hd (rev (''{{.'' @ key)))"
  proof (cases key rule: rev_cases)
    case Nil
    then show ?thesis by (simp add: is_space_def)
  next
    case (snoc ks c)
    with key have "word_char c" by simp
    then have "\<not> is_space c" by (auto simp: word_char_def is_space_def)
    with snoc show ?thesis by simp
  qed
  then have "dropWhile is_space (rev (''{{.'' @ key)) = rev (''{{.'' @ key)"
    by (cases "rev (''{{.'' @ key)") simp_all
  then show ?thesis by (simp add: trim_space_def is_space_def)
qed

lemma word_char_facts [simp]: "\<not> word_char (CHR '' '')" "\<not> word_char (CHR ''|'')" "\<not> word_char (CHR ''.'')"
  by (simp_all add: word_char_def)

definition input_name :: "string \<Rightarrow> bool" where
  "input_name key \<longleftrightarrow> key \<noteq> '''' \<and> (\<forall>c \<in> set key. word_char c)"

lemma spec_of_field:
  assumes "input_name key"
  shows "spec_of_action (pipe_String (FieldPipe key cmds)) into = Inr (gm_set key (parseNode (pipe_String (FieldPipe key cmds))) into)"
proof -
  obtain rest where s: "pipe_String (FieldPipe key cmds) = ''{{.'' @ key @ rest" "\<not> word_char (hd rest)" "rest \<noteq> []"
  proof (cases cmds)
    case Nil
    then show ?thesis by (intro that [of "''}}''"]) (simp_all add: word_char_def)
  next
    case (Cons c cs)
    then show ?thesis
      by (intro that [of "'' | '' @ str_join '' | '' (map cmd_String cmds) @ ''}}''"]) simp_all
  qed
  have "match_input_key (''{{.'' @ key @ rest) = [''{{.'' @ key]"
    using match_key [of key rest] assms s(2) by (simp add: input_name_def)
  then show ?thesis using trim_key [of key] assms unfolding s(1) by (simp add: spec_of_action_def input_name_def)
qed

text \<open>The inputs that actions at the top of a template start with are attributes of it.\<close>

definition top_inputs :: "tmpl_node list \<Rightarrow> string list" where
  "top_inputs nodes = concat (map (\<lambda>n. case n of ActionNode (FieldPipe key _) \<Rightarrow> [key] | _ \<Rightarrow> []) nodes)"

lemma spec_of_action_grows: "spec_of_action s into = Inr into' \<Longrightarrow> gm_get into k \<noteq> None \<Longrightarrow> gm_get into' k \<noteq> None"
  by (auto simp: spec_of_action_def Let_def split: if_splits)

lemma parseSpec_grows: "parseSpecFromTemplate nodes into = Inr attributes \<Longrightarrow> gm_get into k \<noteq> None \<Longrightarrow> gm_get attributes k \<noteq> None"
proof (induction nodes into rule: parseSpecFromTemplate.induct)
  case (4 p nodes into)
  then obtain into' where "spec_of_action (pipe_String p) into = Inr into'" "parseSpecFromTemplate nodes into' = Inr attributes"
    by (auto simp: bind_result_def split: sum.splits)
  with 4 spec_of_action_grows show ?case by blast
qed simp_all

lemma top_inputs_found:
  "parseSpecFromTemplate nodes into = Inr attributes \<Longrightarrow> key \<in> set (top_inputs nodes) \<Longrightarrow> input_name key \<Longrightarrow> gm_get attributes key \<noteq> None"
proof (induction nodes into rule: parseSpecFromTemplate.induct)
  case (4 p nodes into)
  then obtain into' where into': "spec_of_action (pipe_String p) into = Inr into'" "parseSpecFromTemplate nodes into' = Inr attributes"
    by (auto simp: bind_result_def split: sum.splits)
  show ?case
  proof (cases "key \<in> set (top_inputs nodes)")
    case True
    with 4 into' show ?thesis by blast
  next
    case False
    then obtain cmds where "p = FieldPipe key cmds"
      using "4.prems"(2) by (auto simp: top_inputs_def split: tmpl_pipe.splits)
    then have "gm_get into' key \<noteq> None" using into'(1) spec_of_field [OF "4.prems"(3)] by auto
    then show ?thesis by (rule parseSpec_grows [OF into'(2)])
  qed
qed (simp_all add: top_inputs_def)


text \<open>
  Inputs that only occur in an \<open>if\<close> are not checked: such a template has no attributes, and an action in
  it prints what stands for a value that is not there.
\<close>

lemma branch_inputs_unchecked:
  assumes "tl_parse L tmpl = Inr [IfNode (FieldPipe c []) [ActionNode (FieldPipe key [])] []]" "visits_all L"
  shows "runbook_Parse L tmpl = Inr \<lparr>rt_nodes = [IfNode (FieldPipe c []) [ActionNode (FieldPipe key [])] []], rt_attributes = []\<rparr>"
    and "gm_str inputs c \<noteq> '''' \<Longrightarrow> gm_get inputs key = None \<Longrightarrow>
      runbook_Execute L \<lparr>rt_nodes = [IfNode (FieldPipe c []) [ActionNode (FieldPipe key [])] []], rt_attributes = []\<rparr> inputs = Inr (''<no value>'', [])"
  using assms
  by (auto simp: runbook_Parse_def runbook_Execute_def field_val_def val_truth_def val_print_def gm_str_def split: option.splits)

text \<open>
  A name with another character, as the bytes of an umlaut, is cut: the attribute is the part before it.  A caller who
  gives the input by its name is told that the part is missing; one who gives the part gets no value for the input.
\<close>

lemma cut_input_name:
  assumes "tl_parse L tmpl = Inr [ActionNode (FieldPipe (k @ rest) [])]" "visits_all L" "input_name k" "rest \<noteq> ''''" "\<not> word_char (hd rest)"
  shows "\<exists>t. runbook_Parse L tmpl = Inr t \<and> map fst (rt_attributes t) = [k] \<and>
    (gm_get inputs k \<noteq> None \<longrightarrow> gm_get inputs (k @ rest) = None \<longrightarrow> runbook_Execute L t inputs = Inr (''<no value>'', []))"
proof -
  let ?s = "''{{.'' @ k @ rest @ ''}}''"
  have "match_input_key ?s = [''{{.'' @ k]" using match_key [of k "rest @ ''}}''"] assms(3-5) by (simp add: input_name_def)
  then have "spec_of_action ?s [] = Inr (gm_set k (parseNode ?s) [])"
    using trim_key [of k] assms(3) by (simp add: spec_of_action_def input_name_def)
  then have "spec_of_action (pipe_String (FieldPipe (k @ rest) [])) [] = Inr [(k, parseNode ?s)]" by (simp add: gm_set_def)
  then have parse: "runbook_Parse L tmpl = Inr \<lparr>rt_nodes = [ActionNode (FieldPipe (k @ rest) [])], rt_attributes = [(k, parseNode ?s)]\<rparr>"
    using assms(1) by (simp add: runbook_Parse_def)
  moreover have "runbook_Execute L \<lparr>rt_nodes = [ActionNode (FieldPipe (k @ rest) [])], rt_attributes = [(k, parseNode ?s)]\<rparr> inputs = Inr (''<no value>'', [])"
    if "gm_get inputs k \<noteq> None" "gm_get inputs (k @ rest) = None"
    using that assms(2) by (simp add: runbook_Execute_def check_input_def field_val_def val_print_def)
  ultimately show ?thesis by (intro exI [of _ "\<lparr>rt_nodes = [ActionNode (FieldPipe (k @ rest) [])], rt_attributes = [(k, parseNode ?s)]\<rparr>"]) simp
qed

section \<open>Defaults\<close>

text \<open>A pattern that does not hold the character \<open>q\<close> cannot reach over it.\<close>

lemma sublist_across:
  assumes "q \<notin> set p" "p \<noteq> []"
  shows "sublist p (a @ q # b) \<longleftrightarrow> sublist p a \<or> sublist p b"
proof
  assume "sublist p (a @ q # b)"
  then obtain u v where uv: "a @ q # b = u @ p @ v" by (auto simp: sublist_def)
  show "sublist p a \<or> sublist p b"
  proof (cases "length u + length p \<le> length a")
    case True
    then have "take (length u + length p) (a @ q # b) = u @ p" using uv by simp
    with True have "take (length u + length p) a = u @ p" by simp
    then have "a = u @ p @ drop (length u + length p) a" by (metis append_assoc append_take_drop_id)
    then show ?thesis by (metis sublist_appendI)
  next
    case False
    have "length u > length a"
    proof (rule ccontr)
      assume "\<not> length a < length u"
      moreover have "(a @ q # b) ! length a = q" by simp
      moreover have less: "length a - length u < length p" using False \<open>\<not> length a < length u\<close> by linarith
      ultimately have "p ! (length a - length u) = q" unfolding uv by (simp add: nth_append)
      with less show False using assms(1) nth_mem by blast
    qed
    then have "drop (Suc (length a)) (u @ p @ v) = drop (Suc (length a)) u @ p @ v" by simp
    moreover have "drop (Suc (length a)) (a @ q # b) = b" by simp
    ultimately have "b = drop (Suc (length a)) u @ p @ v" using uv by simp
    then show ?thesis by (metis sublist_appendI)
  qed
next
  assume "sublist p a \<or> sublist p b"
  then consider u v where "a = u @ p @ v" | u v where "b = u @ p @ v" by (auto simp: sublist_def)
  then show "sublist p (a @ q # b)"
  proof cases
    case (1 u v)
    then have "a @ q # b = u @ p @ v @ q # b" by simp
    then show ?thesis unfolding sublist_def by blast
  next
    case (2 u v)
    then have "a @ q # b = (a @ q # u) @ p @ v" by simp
    then show ?thesis unfolding sublist_def by blast
  qed
qed

lemma str_cut_first:
  assumes "c \<notin> set a" "sep = c # cs"
  shows "str_cut sep (a @ sep @ b) = Some (a, b)"
  using assms(1)
proof (induction a)
  case Nil
  then show ?case using assms(2) by simp
next
  case (Cons x a)
  then have "\<not> prefix sep (x # a @ sep @ b)" using assms(2) by simp
  with Cons show ?case by simp
qed

lemma str_split_two:
  assumes "c \<notin> set a" "sep = c # cs" "\<not> sublist sep b"
  shows "str_split sep (a @ sep @ b) = [a, b]"
proof -
  have "sep \<noteq> []" "str_cut sep (a @ sep @ b) = Some (a, b)" using assms(2) str_cut_first [OF assms(1,2)] by simp_all
  moreover have "str_cut sep b = None" using str_cut_None_iff [OF \<open>sep \<noteq> []\<close>] assms(3) by simp
  ultimately show ?thesis by (simp add: str_split.simps [of sep "a @ sep @ b"] str_split.simps [of sep b])
qed

definition quoted :: "string \<Rightarrow> string" where
  "quoted v = [CHR 34] @ v @ [CHR 34]"

text \<open>A value that \<open>parseNode\<close> reads back as it was written.\<close>

definition plain_default :: "string \<Rightarrow> bool" where
  "plain_default v \<longleftrightarrow> v \<noteq> '''' \<and> CHR 34 \<notin> set v \<and> \<not> str_contains v '' | ''"

lemma default_no_pipe:
  assumes "plain_default v"
  shows "\<not> sublist '' | '' (''default '' @ quoted v)"
proof -
  have "\<not> sublist '' | '' ''default ''" by (simp add: sublist_Cons_right)
  moreover have "sublist '' | '' (v @ CHR 34 # []) \<longleftrightarrow> sublist '' | '' v" by (subst sublist_across) simp_all
  ultimately have "\<not> sublist '' | '' (''default '' @ CHR 34 # v @ [CHR 34])"
    using assms by (subst sublist_across) (simp_all add: plain_default_def str_contains_def)
  then show ?thesis by (simp add: quoted_def)
qed

lemma section_default:
  assumes "CHR 34 \<notin> set v"
  shows "section_name (''default '' @ quoted v) = ''default''" "section_val (''default '' @ quoted v) = v"
proof -
  have split: "str_split '' '' (''default '' @ quoted v) = ''default'' # str_split '' '' (quoted v)"
    using str_split_char [of "CHR '' ''" "''default''" "quoted v"] by simp
  then show "section_name (''default '' @ quoted v) = ''default''" by (simp add: section_name_def)
  have "trim_space (quoted v) = quoted v" by (simp add: trim_space_def quoted_def is_space_def)
  moreover have "filter (\<lambda>c. c \<noteq> CHR 34) (quoted v) = v" using assms by (simp add: quoted_def filter_id_conv) (metis)
  ultimately show "section_val (''default '' @ quoted v) = v"
    using split by (simp add: section_val_def str_join_split)
qed

lemma spec_section_default:
  "section_name s = ''default'' \<Longrightarrow> gm_get (spec_section s specs) ''default'' = Some (SpecStr (section_val s))"
  by (simp add: spec_section_def Let_def)

definition default_pipe :: "string \<Rightarrow> string \<Rightarrow> tmpl_pipe" where
  "default_pipe key v = FieldPipe key [(''default'', [(quoted v, v)])]"

lemma default_pipe_String:
  "pipe_String (default_pipe key v) = ''{{.'' @ key @ '' | default '' @ quoted v @ ''}}''"
  by (simp add: default_pipe_def)

lemma default_specs:
  assumes "\<forall>c \<in> set key. word_char c" "plain_default v"
  shows "gm_get (parseNode (''{{.'' @ key @ '' | default '' @ quoted v @ ''}}'')) ''default'' = Some (SpecStr v)"
proof -
  let ?body = "''.'' @ key @ '' | '' @ ''default '' @ quoted v"
  have "take (length (x @ ''}}'') - 2) (x @ ''}}'') = x" for x :: string by simp
  from this [of ?body] have body:
    "(let node = drop 2 (''{{.'' @ key @ '' | default '' @ quoted v @ ''}}'') in take (length node - 2) node) = ?body"
    unfolding Let_def append_assoc append_Cons append_Nil drop_Suc_Cons numeral_2_eq_2 drop0 .
  have nospace: "CHR '' '' \<notin> set (''.'' @ key)" using assms(1) by auto
  have "str_split '' | '' ((''.'' @ key) @ '' | '' @ ''default '' @ quoted v) = [''.'' @ key, ''default '' @ quoted v]"
    by (rule str_split_two [OF nospace refl default_no_pipe [OF assms(2)]])
  then have split: "str_split '' | '' ?body = [''.'' @ key, ''default '' @ quoted v]" unfolding append_assoc .
  have field: "spec_section (''.'' @ key) initial_specs = initial_specs"
    using nospace str_split_char_none [of "CHR '' ''" "''.'' @ key"] by (simp add: spec_section_def section_name_def Let_def)
  have q: "CHR 34 \<notin> set v" using assms(2) by (simp add: plain_default_def)
  show ?thesis
    using spec_section_default [OF section_default(1) [OF q], of initial_specs] section_default(2) [OF q] field
    unfolding parseNode_def body [unfolded Let_def] Let_def split by (simp only: fold_simps comp_apply id_apply fold.simps)
qed

text \<open>
  A default of a template is found and used.  For a template that is some text around one input with
  a default: the template parses, the input is not asked for, and rendering it without the input gives
  the text with the default in place of the input; with the input, it gives the input.
\<close>

theorem runbook_default_rendered:
  assumes "tl_parse L tmpl = Inr [TextNode a, ActionNode (default_pipe key v), TextNode b]"
    and "key \<noteq> []" "\<forall>c \<in> set key. word_char c" "plain_default v" "visits_all L"
  shows "\<exists>t. runbook_Parse L tmpl = Inr t \<and>
    runbook_Execute L t inputs = Inr (a @ (if gm_str inputs key = [] then v else gm_str inputs key) @ b, [])"
proof -
  let ?s = "''{{.'' @ key @ '' | default '' @ quoted v @ ''}}''"
  have "match_input_key ?s = [''{{.'' @ key]"
    using match_key [OF assms(2,3), of "'' | default '' @ quoted v @ ''}}''"] by simp
  then have "spec_of_action ?s [] = Inr (gm_set key (parseNode ?s) [])"
    using trim_key [OF assms(3)] by (simp add: spec_of_action_def)
  then have spec: "spec_of_action (pipe_String (default_pipe key v)) [] = Inr [(key, parseNode ?s)]"
    unfolding default_pipe_String by (simp add: gm_set_def)
  let ?t = "\<lparr>rt_nodes = [TextNode a, ActionNode (default_pipe key v), TextNode b], rt_attributes = [(key, parseNode ?s)]\<rparr>"
  have parse: "runbook_Parse L tmpl = Inr ?t"
    using assms(1) spec by (simp add: runbook_Parse_def default_pipe_def)
  have "has_default (parseNode ?s)"
    using default_specs [OF assms(3,4)] assms(4) by (simp add: has_default_def plain_default_def)
  then have "fold check_input [(key, parseNode ?s)] (inputs, []) =
      (if gm_get inputs key \<noteq> None then inputs else gm_set key [] inputs, [])"
    by (simp add: check_input_def)
  moreover have "field_val (if gm_get inputs key \<noteq> None then inputs else gm_set key [] inputs) key = VStr (gm_str inputs key)"
    by (auto simp: gm_str_def field_val_def)
  ultimately have "runbook_Execute L ?t inputs = Inr (a @ (if gm_str inputs key = [] then v else gm_str inputs key) @ b, [])"
    using assms(5) by (simp add: runbook_Execute_def default_pipe_def apply_func_def template_func_def func_arity_def val_print_def)
  with parse show ?thesis by blast
qed

section \<open>Concrete cases\<close>

definition demo_tmpl :: tmpl_libs where
  "demo_tmpl = \<lparr>tl_parse = (\<lambda>_. Inr [TextNode ''select '', ActionNode (default_pipe ''id'' ''1''), TextNode '';'']), tl_regexp = (\<lambda>_ _. Inr True),
     tl_builtin = (\<lambda>_ _. Inl ''undefined''), tl_other = (\<lambda>_ _ _. Inl ''undefined''), tl_wrap = (\<lambda>e. e), tl_format = (\<lambda>s. s), tl_range = rev\<rparr>"

lemma demo_visits_all: "tl_range L = rev \<Longrightarrow> visits_all L"
  by (simp add: visits_all_def gm_wf_def rev_map [symmetric])

theorem runbook_default_rendered_witness:
  "\<exists>t. runbook_Parse demo_tmpl ''x'' = Inr t \<and> runbook_Execute demo_tmpl t [] = Inr (''select 1;'', [])"
proof -
  have "tl_parse demo_tmpl ''x'' = Inr [TextNode ''select '', ActionNode (default_pipe ''id'' ''1''), TextNode '';'']" by (simp add: demo_tmpl_def)
  moreover have "plain_default ''1''" by (simp add: plain_default_def str_contains_def sublist_Cons_right)
  ultimately show ?thesis
    using runbook_default_rendered [of demo_tmpl "''x''" "''select ''" "''id''" "''1''" "'';''" "[]"]
    by (simp add: word_char_def gm_str_def demo_visits_all demo_tmpl_def)
qed

text \<open>Two inputs are missing; the loop visits the second one first.\<close>

definition demo_required :: tmpl_libs where
  "demo_required = demo_tmpl\<lparr>tl_parse := (\<lambda>_. Inr [ActionNode (FieldPipe ''id'' []), ActionNode (FieldPipe ''key'' [])])\<rparr>"

definition demo_required_template :: runbook_template where
  "demo_required_template = \<lparr>rt_nodes = [ActionNode (FieldPipe ''id'' []), ActionNode (FieldPipe ''key'' [])],
     rt_attributes = [(''id'', initial_specs), (''key'', initial_specs)]\<rparr>"

lemma demo_required_parse: "runbook_Parse demo_required ''x'' = Inr demo_required_template"
  by (simp add: runbook_Parse_def demo_required_def demo_required_template_def) code_simp


end
