(* ===== verification/LogFields.thy ===== *)
theory LogFields
  imports Prelude
begin

text \<open>
  The values of log fields and the helpers on them, \<open>field_utils.go\<close> and \<open>emojis.go\<close> of
  \<open>src/common/log\<close>.  Texts outside ASCII are written as their UTF-8 bytes.

  A field value is a Go \<open>any\<close>.  A \<open>float64\<close> is kept as its bits; what the code computes with it (its integer
  part, and the text of a duration in milliseconds) is the parameter \<open>float_libs\<close>.  A value of any other
  type is only ever printed, and is represented by that text.
\<close>

section \<open>Emojis\<close>

abbreviation EmojiDebug :: string where "EmojiDebug \<equiv> [CHR 0xF0, CHR 0x9F, CHR 0x94, CHR 0x8D]"
abbreviation EmojiWarn :: string where "EmojiWarn \<equiv> [CHR 0xE2, CHR 0x9A, CHR 0xA0, CHR 0xEF, CHR 0xB8, CHR 0x8F]"
abbreviation EmojiError :: string where "EmojiError \<equiv> [CHR 0xE2, CHR 0x9D, CHR 0x8C]"
abbreviation EmojiFatal :: string where "EmojiFatal \<equiv> [CHR 0xF0, CHR 0x9F, CHR 0x92, CHR 0x80]"
abbreviation EmojiRocket :: string where "EmojiRocket \<equiv> [CHR 0xF0, CHR 0x9F, CHR 0x9A, CHR 0x80]"
abbreviation EmojiSession :: string where "EmojiSession \<equiv> [CHR 0xF0, CHR 0x9F, CHR 0x93, CHR 0xA6]"
abbreviation EmojiShutdown :: string where "EmojiShutdown \<equiv> [CHR 0xF0, CHR 0x9F, CHR 0x91, CHR 0x8B]"
abbreviation EmojiEnd :: string where "EmojiEnd \<equiv> [CHR 0xF0, CHR 0x9F, CHR 0x94, CHR 0x9A]"
abbreviation EmojiLink :: string where "EmojiLink \<equiv> [CHR 0xF0, CHR 0x9F, CHR 0x94, CHR 0x97]"
abbreviation EmojiConnect :: string where "EmojiConnect \<equiv> [CHR 0xF0, CHR 0x9F, CHR 0x93, CHR 0xA1]"
abbreviation EmojiConnected :: string where "EmojiConnected \<equiv> [CHR 0xE2, CHR 0x9C, CHR 0x85]"
abbreviation EmojiProxy :: string where "EmojiProxy \<equiv> [CHR 0xF0, CHR 0x9F, CHR 0x8C, CHR 0x90]"
abbreviation EmojiReconnect :: string where "EmojiReconnect \<equiv> [CHR 0xF0, CHR 0x9F, CHR 0x94, CHR 0x84]"
abbreviation EmojiCommand :: string where "EmojiCommand \<equiv> [CHR 0xF0, CHR 0x9F, CHR 0x93, CHR 0x8B]"
abbreviation EmojiSuccess :: string where "EmojiSuccess \<equiv> [CHR 0xE2, CHR 0x9C, CHR 0x85]"
abbreviation EmojiFailed :: string where "EmojiFailed \<equiv> [CHR 0xE2, CHR 0x9D, CHR 0x8C]"
abbreviation EmojiLock :: string where "EmojiLock \<equiv> [CHR 0xF0, CHR 0x9F, CHR 0x94, CHR 0x92]"
abbreviation EmojiUnlock :: string where "EmojiUnlock \<equiv> [CHR 0xF0, CHR 0x9F, CHR 0x94, CHR 0x93]"
abbreviation EmojiCheck :: string where "EmojiCheck \<equiv> [CHR 0xE2, CHR 0x9C, CHR 0x85]"
abbreviation EmojiCross :: string where "EmojiCross \<equiv> [CHR 0xE2, CHR 0x9D, CHR 0x8C]"
abbreviation bullet :: string where "bullet \<equiv> [CHR 0xE2, CHR 0x80, CHR 0xA2]"
abbreviation bar :: string where "bar \<equiv> [CHR 0xE2, CHR 0x94, CHR 0x82]"
abbreviation corner :: string where "corner \<equiv> [CHR 0xE2, CHR 0x94, CHR 0x94, CHR 0xE2, CHR 0x94, CHR 0x80]"

definition AllEmojis :: "string list" where
  "AllEmojis =
     [EmojiDebug, EmojiWarn, EmojiError, EmojiFatal, EmojiRocket, EmojiSession, EmojiShutdown, EmojiEnd, EmojiLink,
      EmojiConnect, EmojiConnected, EmojiProxy, EmojiReconnect, EmojiCommand, EmojiSuccess, EmojiFailed, EmojiLock, EmojiUnlock, EmojiCheck, EmojiCross]"

section \<open>Values\<close>

datatype log_val =
    LStr string
  | LBool bool
  | LInt int
  | LInt64 int
  | LFloat "64 word"
  | LBytes string
  | LOther string

record float_libs =
  fl_int :: "64 word \<Rightarrow> int"
  fl_ms :: "64 word \<Rightarrow> string"

type_synonym fields = "log_val gomap"

text \<open>The types of a zap field that the code tells apart.\<close>

datatype field_type = StringType | BoolType | IntType | FloatType | ByteStringType | OtherType

record zap_field =
  zf_Key :: string
  zf_Type :: field_type
  zf_Integer :: int
  zf_String :: string
  zf_Interface :: "log_val option"

fun getStringField :: "fields \<Rightarrow> string list \<Rightarrow> string" where
  "getStringField fs [] = ''''"
| "getStringField fs (key # keys) =
     (case gm_get fs key of
        Some (LStr str) \<Rightarrow> if str \<noteq> '''' then str else getStringField fs keys
      | _ \<Rightarrow> getStringField fs keys)"

definition getBoolField :: "fields \<Rightarrow> string \<Rightarrow> bool" where
  "getBoolField fs key = (case gm_get fs key of Some (LBool b) \<Rightarrow> b | _ \<Rightarrow> False)"

fun getIntField :: "float_libs \<Rightarrow> fields \<Rightarrow> string list \<Rightarrow> int" where
  "getIntField F fs [] = 0"
| "getIntField F fs (key # keys) =
     (case gm_get fs key of
        Some (LInt v) \<Rightarrow> v
      | Some (LInt64 v) \<Rightarrow> v
      | Some (LFloat v) \<Rightarrow> fl_int F v
      | _ \<Rightarrow> getIntField F fs keys)"

text \<open>A nil interface value is \<open>None\<close>; it stays a nil in the map, which no type assertion matches.\<close>

definition nil_val :: log_val where
  "nil_val = LOther ''<nil>''"

definition ExtractFieldValue :: "zap_field \<Rightarrow> log_val" where
  "ExtractFieldValue field =
     (case zf_Type field of
        StringType \<Rightarrow> LStr (zf_String field)
      | BoolType \<Rightarrow> LBool (zf_Integer field = 1)
      | IntType \<Rightarrow> LInt64 (zf_Integer field)
      | FloatType \<Rightarrow> (case zf_Interface field of Some v \<Rightarrow> v | None \<Rightarrow> nil_val)
      | ByteStringType \<Rightarrow> (case zf_Interface field of Some (LBytes b) \<Rightarrow> LStr b | _ \<Rightarrow> LStr (zf_String field))
      | OtherType \<Rightarrow> (case zf_Interface field of Some v \<Rightarrow> v | None \<Rightarrow> LStr (zf_String field)))"

definition BuildFieldMap :: "fields \<Rightarrow> zap_field list \<Rightarrow> fields" where
  "BuildFieldMap storedFields fs =
     fold (\<lambda>field m. gm_set (zf_Key field) (ExtractFieldValue field) m) fs
       (fold (\<lambda>(k, v) m. gm_set k v m) storedFields [])"

section \<open>Formatting\<close>

definition truncateSession :: "string \<Rightarrow> string" where
  "truncateSession sid = (if length sid > 12 then take 8 sid @ ''...'' @ drop (length sid - 4) sid else sid)"

definition formatDuration :: "float_libs \<Rightarrow> fields \<Rightarrow> string" where
  "formatDuration F fs =
     (case gm_get fs ''duration'' of
        Some (LStr dur) \<Rightarrow> dur
      | _ \<Rightarrow> (case gm_get fs ''duration_ms'' of Some (LFloat durMs) \<Rightarrow> fl_ms F durMs | _ \<Rightarrow> ''''))"

text \<open>The first of \<open>strings.Fields\<close>, and \<open>strings.Title\<close> on ASCII letters.\<close>

definition first_field :: "string \<Rightarrow> string" where
  "first_field s = takeWhile (\<lambda>c. \<not> is_space c) (dropWhile is_space s)"

definition char_upper :: "char \<Rightarrow> char" where
  "char_upper c = (let n = of_char c :: nat in if 97 \<le> n \<and> n \<le> 122 then char_of (n - 32) else c)"

definition word_byte :: "char \<Rightarrow> bool" where
  "word_byte c = (let n = of_char c :: nat in
     (97 \<le> n \<and> n \<le> 122) \<or> (65 \<le> n \<and> n \<le> 90) \<or> (48 \<le> n \<and> n \<le> 57) \<or> n = 95 \<or> 128 \<le> n)"

fun title_from :: "bool \<Rightarrow> string \<Rightarrow> string" where
  "title_from inWord [] = []"
| "title_from inWord (c # cs) = (if inWord then c else char_upper c) # title_from (word_byte c) cs"

definition str_title :: "string \<Rightarrow> string" where
  "str_title s = title_from False s"

definition identifyCommand :: "string \<Rightarrow> string" where
  "identifyCommand cmd =
     (if cmd = '''' then ''command''
      else let cmdLower = to_lower cmd in
        if str_contains cmdLower ''psql'' then ''PostgreSQL''
        else if str_contains cmdLower ''mysql'' then ''MySQL''
        else if str_contains cmdLower ''mongosh'' \<or> str_contains cmdLower ''mongo'' then ''MongoDB''
        else if str_contains cmdLower ''redis-cli'' then ''Redis''
        else if str_contains cmdLower ''ssh'' then ''SSH''
        else if str_contains cmdLower ''bash'' \<or> str_contains cmdLower ''sh'' then ''Shell''
        else if first_field cmd \<noteq> '''' then str_title (first_field cmd) else ''command'')"

section \<open>Lemmas\<close>

text \<open>A field of the entry hides a stored field of the same name; the other stored fields are kept.\<close>

lemma gm_get_fold_fields:
  "gm_get (fold (\<lambda>field m. gm_set (zf_Key field) (ExtractFieldValue field) m) fs m) k =
     (case find (\<lambda>f. zf_Key f = k) (rev fs) of Some f \<Rightarrow> Some (ExtractFieldValue f) | None \<Rightarrow> gm_get m k)"
proof (induction fs arbitrary: m)
  case Nil
  then show ?case by simp
next
  case (Cons f fs)
  have "find P (xs @ [f]) = (case find P xs of Some x \<Rightarrow> Some x | None \<Rightarrow> if P f then Some f else None)" for P xs
    by (induction xs) auto
  with Cons show ?case by (auto split: option.splits)
qed

lemma gm_get_fold_copy: "gm_wf m \<Longrightarrow> gm_get (fold (\<lambda>(k, v) acc. gm_set k v acc) m acc) k = (case gm_get m k of Some v \<Rightarrow> Some v | None \<Rightarrow> gm_get acc k)"
proof (induction m arbitrary: acc)
  case Nil
  then show ?case by simp
next
  case (Cons kv m)
  obtain k' v where "kv = (k', v)" by (cases kv)
  moreover from this Cons.prems have "gm_wf m" "gm_get m k' = None"
    using gm_get_dom [of k' m] by (auto simp: gm_wf_def)
  ultimately show ?case using Cons.IH by (auto simp: gm_get_Cons split: option.splits)
qed

lemma field_map_get:
  "gm_wf storedFields \<Longrightarrow> gm_get (BuildFieldMap storedFields fs) k =
     (case find (\<lambda>f. zf_Key f = k) (rev fs) of Some f \<Rightarrow> Some (ExtractFieldValue f) | None \<Rightarrow> gm_get storedFields k)"
  by (simp add: BuildFieldMap_def gm_get_fold_fields gm_get_fold_copy split: option.splits)

text \<open>
  Zap keeps the bits of a float in the integer of the field and no interface value, so a float that is
  passed with a message is lost, and with it a duration in milliseconds.
\<close>

lemma direct_float_lost:
  assumes "zf_Type f = FloatType" "zf_Interface f = None" "zf_Key f = ''duration_ms''" "gm_wf stored" "gm_get stored ''duration'' = None"
  shows "formatDuration F (BuildFieldMap stored [f]) = '''' \<and> getIntField F (BuildFieldMap stored [f]) [''duration_ms''] = 0"
  using assms by (simp add: formatDuration_def field_map_get ExtractFieldValue_def nil_val_def)

lemma truncateSession_length: "length (truncateSession sid) \<le> 15"
  by (simp add: truncateSession_def)

end
