(* ===== verification/LogFormat.thy ===== *)
theory LogFormat
  imports LogFields
begin

text \<open>
  The formatters of log events and the encoders, \<open>formatters.go\<close>, \<open>events.go\<close>, \<open>encoder_utils.go\<close>,
  \<open>base_encoder.go\<close>, \<open>human_encoder.go\<close> and \<open>verbose_encoder.go\<close> of \<open>src/common/log\<close>.

  An encoder is a pointer to the map of its stored fields, and the maps live in a heap, since loggers
  share encoders and \<open>Clone\<close> is what keeps them apart.  The output for debugging the encoders is left out.
\<close>

section \<open>The formatters\<close>

text \<open>The lines of details: a line break, eleven blanks, a name and a value.\<close>

definition detail :: "string \<Rightarrow> string \<Rightarrow> string" where
  "detail name val = [CHR 0x0A] @ replicate 11 (CHR '' '') @ name @ '': '' @ val"

definition detail_if :: "bool \<Rightarrow> string \<Rightarrow> string \<Rightarrow> string" where
  "detail_if b name val = (if b then detail name val else '''')"

definition log_bool :: "bool \<Rightarrow> string" where
  "log_bool b = (if b then ''true'' else ''false'')"

definition tls_status :: "bool \<Rightarrow> string" where
  "tls_status tls = (if tls then ''enabled'' else ''disabled'')"

definition session_prefix :: "string \<Rightarrow> string" where
  "session_prefix sid = ''  '' @ bar @ '' ['' @ truncateSession sid @ ''] ''"

definition session_fields :: "string list" where
  "session_fields = [''sid'', ''session_id'']"

definition AgentStart_FormatHuman :: "fields \<Rightarrow> string \<Rightarrow> string" where
  "AgentStart_FormatHuman fs msg =
     (let version = getStringField fs [''version'']; platform = getStringField fs [''platform'']; mode = getStringField fs [''mode''] in
      if version \<noteq> '''' \<and> platform \<noteq> '''' then
        EmojiRocket @ '' Starting Hoop Agent v'' @ version @ '' ('' @ platform @ '')'' @
          (if mode \<noteq> '''' then '' '' @ bullet @ '' mode: '' @ mode else '''')
      else if version \<noteq> '''' then EmojiRocket @ '' Starting Hoop Agent v'' @ version
      else EmojiRocket @ '' '' @ msg)"

definition AgentStart_FormatVerbose :: "fields \<Rightarrow> string \<Rightarrow> string" where
  "AgentStart_FormatVerbose fs msg =
     (let version = getStringField fs [''version'']; platform = getStringField fs [''platform'']; mode = getStringField fs [''mode''];
          server = getStringField fs [''server'', ''host'']; tls = getBoolField fs ''tls'' in
      ''Starting Hoop Agent'' @ detail_if (version \<noteq> '''') ''Version'' version @ detail_if (platform \<noteq> '''') ''Platform'' platform
        @ detail_if (mode \<noteq> '''') ''Mode'' mode @ detail_if (server \<noteq> '''') ''Server'' server @ detail ''TLS'' (tls_status tls))"

definition SessionStart_FormatHuman :: "fields \<Rightarrow> string \<Rightarrow> string" where
  "SessionStart_FormatHuman fs msg =
     (let sid = getStringField fs session_fields; version = getStringField fs [''version'']; platform = getStringField fs [''platform''];
          session = (if sid \<noteq> '''' then '' '' @ bullet @ '' session: '' @ sid else '''')
      in if version \<noteq> '''' \<and> platform \<noteq> '''' then
           EmojiSession @ '' Starting session '' @ bullet @ '' Hoop v'' @ version @ '' ('' @ platform @ '')'' @ session
         else if version \<noteq> '''' then EmojiSession @ '' Starting session '' @ bullet @ '' Hoop v'' @ version @ session
         else if sid \<noteq> '''' then EmojiSession @ '' New session: '' @ sid
         else EmojiSession @ '' '' @ msg)"

definition SessionStart_FormatVerbose :: "float_libs \<Rightarrow> fields \<Rightarrow> string \<Rightarrow> string" where
  "SessionStart_FormatVerbose F fs msg =
     (let sid = getStringField fs session_fields; dlpTypes = getIntField F fs [''dlp_types'', ''dlp_info_types''] in
      ''Session started: '' @ sid @ detail_if (dlpTypes \<ge> 0) ''DLP info types'' (itoa dlpTypes))"

definition SessionCleanup_FormatHuman :: "float_libs \<Rightarrow> fields \<Rightarrow> string \<Rightarrow> string" where
  "SessionCleanup_FormatHuman F fs msg =
     (let sid = getStringField fs session_fields; duration = formatDuration F fs in
      session_prefix sid @ EmojiEnd @ '' Session closed'' @
        (if duration \<noteq> '''' then '' '' @ bullet @ '' duration: '' @ duration else ''''))"

definition SessionCleanup_FormatVerbose :: "float_libs \<Rightarrow> fields \<Rightarrow> string \<Rightarrow> string" where
  "SessionCleanup_FormatVerbose F fs msg =
     (let sid = getStringField fs session_fields; duration = formatDuration F fs in
      (if sid \<noteq> '''' then ''['' @ truncateSession sid @ ''] Session closed'' else ''Session closed'')
        @ detail_if (duration \<noteq> '''') ''Duration'' duration)"

definition Connection_FormatHuman :: "fields \<Rightarrow> string \<Rightarrow> string" where
  "Connection_FormatHuman fs msg =
     (let server = getStringField fs [''server'', ''host'']; tls = getBoolField fs ''tls'' in
      if server \<noteq> '''' then EmojiConnect @ '' Connecting to '' @ server @ (if tls then '' (TLS)'' else '''')
      else EmojiConnect @ '' '' @ msg)"

definition Connection_FormatVerbose :: "float_libs \<Rightarrow> fields \<Rightarrow> string \<Rightarrow> string" where
  "Connection_FormatVerbose F fs msg =
     (let server = getStringField fs [''server'', ''host'']; tls = getBoolField fs ''tls''; timeout = getIntField F fs [''timeout''] in
      ''Connecting to server...'' @ detail_if (server \<noteq> '''') ''Server'' server
        @ detail_if (timeout > 0) ''Timeout'' (itoa timeout @ ''s'') @ detail ''TLS'' (tls_status tls))"

definition ConnectionEstablished_FormatHuman :: "fields \<Rightarrow> string \<Rightarrow> string" where
  "ConnectionEstablished_FormatHuman fs msg =
     (let server = getStringField fs [''server'', ''host''] in
      if server \<noteq> '''' then EmojiConnected @ '' Connected to '' @ server else EmojiConnected @ '' Connection established'')"

definition ConnectionEstablished_FormatVerbose :: "float_libs \<Rightarrow> fields \<Rightarrow> string \<Rightarrow> string" where
  "ConnectionEstablished_FormatVerbose F fs msg =
     (let server = getStringField fs [''server'', ''host'']; responseTime = getIntField F fs [''response_time_ms''] in
      ''Connected successfully'' @ detail_if (server \<noteq> '''') ''Server'' server
        @ detail_if (responseTime > 0) ''Response time'' (itoa responseTime @ ''ms''))"

definition display_cmd :: "string \<Rightarrow> string" where
  "display_cmd cmd = (if length cmd > 50 then take 47 cmd @ ''...'' else cmd)"

definition Command_FormatHuman :: "float_libs \<Rightarrow> fields \<Rightarrow> string \<Rightarrow> string" where
  "Command_FormatHuman F fs msg =
     (let cmd = getStringField fs [''command'', ''cmd'']; sid = getStringField fs session_fields; tty = getBoolField fs ''tty'';
          stdinSize = getIntField F fs [''stdin_size'']
      in if cmd \<noteq> '''' then
           (let inputInfo = (if \<not> tty \<and> stdinSize > 0 then '' ('' @ itoa stdinSize @ '' bytes input)'' else '''') in
            (if sid \<noteq> '''' then session_prefix sid else '''') @ EmojiCommand @ '' Executing '' @ identifyCommand cmd @ '': ''
              @ display_cmd cmd @ inputInfo)
         else if sid \<noteq> '''' then session_prefix sid @ EmojiCommand @ '' '' @ msg
         else EmojiCommand @ '' '' @ msg)"

definition Command_FormatVerbose :: "float_libs \<Rightarrow> fields \<Rightarrow> string \<Rightarrow> string" where
  "Command_FormatVerbose F fs msg =
     (let cmd = getStringField fs [''command'', ''cmd'']; sid = getStringField fs session_fields; tty = getBoolField fs ''tty'';
          stdinSize = getIntField F fs [''stdin_size'']; tableName = getStringField fs [''table_name'']
      in (if sid \<noteq> '''' then ''['' @ truncateSession sid @ ''] '' else '''') @ ''Executing command: '' @ cmd
           @ detail_if (tableName \<noteq> '''') ''Table name'' tableName @ detail ''TTY'' (log_bool tty)
           @ detail_if (stdinSize > 0) ''Stdin size'' (itoa stdinSize @ '' bytes''))"

definition CommandResult_FormatHuman :: "float_libs \<Rightarrow> fields \<Rightarrow> string \<Rightarrow> string" where
  "CommandResult_FormatHuman F fs msg =
     (let exitCode = getIntField F fs [''exit_code'']; stderr = getStringField fs [''stderr'', ''error'']; sid = getStringField fs session_fields;
          prefix = (if sid \<noteq> '''' then session_prefix sid else '''')
      in if exitCode = 0 then prefix @ EmojiSuccess @ '' Success''
         else prefix @ EmojiFailed @ '' Command failed (exit code: '' @ itoa exitCode @ '')''
           @ (if stderr \<noteq> '''' \<and> stderr \<noteq> ''<nil>'' then [CHR 0x0A] @ ''     '' @ corner @ '' stderr: '' @ stderr else ''''))"

definition CommandResult_FormatVerbose :: "float_libs \<Rightarrow> fields \<Rightarrow> string \<Rightarrow> string" where
  "CommandResult_FormatVerbose F fs msg =
     (let exitCode = getIntField F fs [''exit_code'']; sid = getStringField fs session_fields;
          stderrSize = getIntField F fs [''stderr_size'', ''stderr_bytes'']; stdoutSize = getIntField F fs [''stdout_size'', ''stdout_bytes''];
          duration = formatDuration F fs; stderr = getStringField fs [''stderr'', ''error'']
      in (if sid \<noteq> '''' then ''['' @ truncateSession sid @ ''] '' else '''')
           @ (if exitCode = 0 then ''Command completed successfully'' else ''Command failed'')
           @ detail ''Exit code'' (itoa exitCode) @ detail_if (duration \<noteq> '''') ''Duration'' duration
           @ detail_if (stderrSize > 0) ''Stderr'' (itoa stderrSize @ '' bytes written'')
           @ detail_if (stdoutSize \<ge> 0) ''Stdout'' (itoa stdoutSize @ '' bytes written'')
           @ detail_if (stderr \<noteq> '''' \<and> stderr \<noteq> ''<nil>'' \<and> stderrSize = 0) ''Stderr'' stderr)"

definition AgentShutdown_FormatHuman :: "fields \<Rightarrow> string \<Rightarrow> string" where
  "AgentShutdown_FormatHuman fs msg = EmojiShutdown @ '' Shutting down agent''"

definition AgentShutdown_FormatVerbose :: "float_libs \<Rightarrow> fields \<Rightarrow> string \<Rightarrow> string" where
  "AgentShutdown_FormatVerbose F fs msg =
     (let reason = getStringField fs [''reason'']; uptime = formatDuration F fs in
      ''Shutting down agent'' @ detail_if (reason \<noteq> '''') ''Reason'' reason @ detail_if (uptime \<noteq> '''') ''Uptime'' uptime)"

section \<open>The registry and the choice of a formatter\<close>

record formatter =
  fm_Human :: "fields \<Rightarrow> string \<Rightarrow> string"
  fm_Verbose :: "fields \<Rightarrow> string \<Rightarrow> string"

definition Events :: "float_libs \<Rightarrow> formatter gomap" where
  "Events F =
     [(''agent.start'', \<lparr>fm_Human = AgentStart_FormatHuman, fm_Verbose = AgentStart_FormatVerbose\<rparr>),
      (''session.start'', \<lparr>fm_Human = SessionStart_FormatHuman, fm_Verbose = SessionStart_FormatVerbose F\<rparr>),
      (''session.cleanup'', \<lparr>fm_Human = SessionCleanup_FormatHuman F, fm_Verbose = SessionCleanup_FormatVerbose F\<rparr>),
      (''connection.start'', \<lparr>fm_Human = Connection_FormatHuman, fm_Verbose = Connection_FormatVerbose F\<rparr>),
      (''connection.established'', \<lparr>fm_Human = ConnectionEstablished_FormatHuman, fm_Verbose = ConnectionEstablished_FormatVerbose F\<rparr>),
      (''command.exec'', \<lparr>fm_Human = Command_FormatHuman F, fm_Verbose = Command_FormatVerbose F\<rparr>),
      (''command.result'', \<lparr>fm_Human = CommandResult_FormatHuman F, fm_Verbose = CommandResult_FormatVerbose F\<rparr>),
      (''agent.shutdown'', \<lparr>fm_Human = AgentShutdown_FormatHuman, fm_Verbose = AgentShutdown_FormatVerbose F\<rparr>)]"

definition DetectEventType :: "string \<Rightarrow> string" where
  "DetectEventType msg =
     (let msgLower = to_lower msg in
      if str_contains msgLower ''starting agent'' then ''agent.start''
      else if str_contains msgLower ''connecting to'' \<and> str_contains msgLower ''tls='' then ''connection.start''
      else if str_contains msgLower ''connected with success'' then ''connection.established''
      else if msgLower = ''received connect request'' then ''session.start''
      else if has_prefix msgLower ''tty=false'' \<and> str_contains msgLower ''executing command:'' then ''command.exec''
      else if has_prefix msgLower ''exitcode='' then ''command.result''
      else if msgLower = ''cleaning up session'' then ''session.cleanup''
      else if str_contains msgLower ''shutting down'' then ''agent.shutdown''
      else '''')"

definition FormatLegacyMessage :: "string \<Rightarrow> fields \<Rightarrow> string" where
  "FormatLegacyMessage msg fieldMap =
     (let sid = getStringField fieldMap session_fields in if sid \<noteq> '''' then session_prefix sid @ msg else msg)"

definition FormatLegacyVerboseMessage :: "string \<Rightarrow> fields \<Rightarrow> string" where
  "FormatLegacyVerboseMessage msg fieldMap =
     (let sid = getStringField fieldMap session_fields in
      if sid \<noteq> '''' then ''['' @ truncateSession sid @ ''] '' @ msg else msg)"

text \<open>
  \<open>RemoveEmojis\<close>: \<open>strings.ReplaceAll\<close> with the empty text, for each emoji first with a blank after it and
  then alone, and blanks cut off at both ends.
\<close>

definition remove_all :: "string \<Rightarrow> string \<Rightarrow> string" where
  "remove_all sub s = concat (str_split sub s)"

definition RemoveEmojis :: "string \<Rightarrow> string" where
  "RemoveEmojis txt = trim_space (fold (\<lambda>emoji result. remove_all emoji (remove_all (emoji @ '' '') result)) AllEmojis txt)"

definition registered_formatter :: "float_libs \<Rightarrow> string \<Rightarrow> fields \<Rightarrow> formatter option" where
  "registered_formatter F msg fieldMap =
     (case (case gm_get fieldMap ''event'' of Some (LStr eventType) \<Rightarrow> gm_get (Events F) eventType | _ \<Rightarrow> None) of
        Some formatter \<Rightarrow> Some formatter
      | None \<Rightarrow> (let detectedEvent = DetectEventType msg in
                 if detectedEvent \<noteq> '''' then gm_get (Events F) detectedEvent else None))"

definition FormatMessage :: "float_libs \<Rightarrow> string \<Rightarrow> fields \<Rightarrow> bool \<Rightarrow> string" where
  "FormatMessage F msg fieldMap useEmoji =
     (case registered_formatter F msg fieldMap of
        Some formatter \<Rightarrow> (let formatted = fm_Human formatter fieldMap msg in if useEmoji then formatted else RemoveEmojis formatted)
      | None \<Rightarrow> FormatLegacyMessage msg fieldMap)"

definition FormatVerboseMessage :: "float_libs \<Rightarrow> string \<Rightarrow> fields \<Rightarrow> bool \<Rightarrow> string" where
  "FormatVerboseMessage F msg fieldMap useEmoji =
     (case registered_formatter F msg fieldMap of
        Some formatter \<Rightarrow> (let formatted = fm_Verbose formatter fieldMap msg in if useEmoji then formatted else RemoveEmojis formatted)
      | None \<Rightarrow> FormatLegacyVerboseMessage msg fieldMap)"

section \<open>Encoders\<close>

type_synonym log_heap = "fields list"

definition NewBaseEncoder :: "log_heap \<Rightarrow> nat \<times> log_heap" where
  "NewBaseEncoder h = (length h, h @ [[]])"

definition GetStoredFields :: "log_heap \<Rightarrow> nat \<Rightarrow> fields" where
  "GetStoredFields h b = h ! b"

definition CopyStoredFields :: "log_heap \<Rightarrow> nat \<Rightarrow> fields" where
  "CopyStoredFields h b = fold (\<lambda>(k, v) copied. gm_set k v copied) (h ! b) []"

text \<open>The \<open>Add\<close> methods all store a value under its key; those for arrays and objects, and \<open>OpenNamespace\<close>, do nothing.\<close>

definition enc_Add :: "nat \<Rightarrow> string \<Rightarrow> log_val \<Rightarrow> log_heap \<Rightarrow> log_heap" where
  "enc_Add b key v h = h[b := gm_set key v (h ! b)]"

definition enc_Clone :: "nat \<Rightarrow> log_heap \<Rightarrow> nat \<times> log_heap" where
  "enc_Clone b h = (length h, h @ [CopyStoredFields h b])"

datatype log_level = DebugLevel | InfoLevel | WarnLevel | ErrorLevel | DPanicLevel | PanicLevel | FatalLevel

record log_entry =
  en_Message :: string
  en_Level :: log_level
  en_Time :: string

definition esc :: "string \<Rightarrow> string" where
  "esc code = [CHR 0x1B] @ ''['' @ code @ ''m''"

fun level_emoji :: "log_level \<Rightarrow> string" where
  "level_emoji DebugLevel = EmojiDebug"
| "level_emoji WarnLevel = EmojiWarn"
| "level_emoji ErrorLevel = EmojiError"
| "level_emoji FatalLevel = EmojiFatal"
| "level_emoji _ = ''''"

fun level_color :: "log_level \<Rightarrow> string" where
  "level_color ErrorLevel = esc ''31''"
| "level_color FatalLevel = esc ''31''"
| "level_color WarnLevel = esc ''33''"
| "level_color DebugLevel = esc ''90''"
| "level_color _ = ''''"

definition Human_EncodeEntry :: "float_libs \<Rightarrow> log_heap \<Rightarrow> nat \<Rightarrow> log_entry \<Rightarrow> zap_field list \<Rightarrow> string" where
  "Human_EncodeEntry F h b entry fs =
     (let msg = FormatMessage F (en_Message entry) (BuildFieldMap (GetStoredFields h b) fs) True in
      if msg = '''' then ''''
      else (let emoji = level_emoji (en_Level entry) in
            (if emoji \<noteq> '''' then emoji @ '' '' else '''') @ level_color (en_Level entry) @ msg @ esc ''0'' @ [CHR 0x0A]))"

fun level_text :: "log_level \<Rightarrow> string" where
  "level_text DebugLevel = ''DEBUG''"
| "level_text InfoLevel = ''INFO''"
| "level_text WarnLevel = ''WARN''"
| "level_text ErrorLevel = ''ERROR''"
| "level_text DPanicLevel = ''DPANIC''"
| "level_text PanicLevel = ''PANIC''"
| "level_text FatalLevel = ''FATAL''"

definition verbose_level :: "log_level \<Rightarrow> string" where
  "verbose_level l =
     (if l = ErrorLevel \<or> l = FatalLevel then esc ''31'' @ level_text l @ esc ''0''
      else if l = WarnLevel then esc ''33'' @ level_text l @ esc ''0''
      else if l = InfoLevel then esc ''36'' @ level_text l @ esc ''0''
      else if l = DebugLevel then esc ''90'' @ level_text l @ esc ''0''
      else level_text l)"

definition Verbose_EncodeEntry :: "float_libs \<Rightarrow> log_heap \<Rightarrow> nat \<Rightarrow> log_entry \<Rightarrow> zap_field list \<Rightarrow> string" where
  "Verbose_EncodeEntry F h b entry fs =
     (let msg = FormatVerboseMessage F (en_Message entry) (BuildFieldMap (GetStoredFields h b) fs) True in
      if msg = '''' then ''''
      else ''['' @ en_Time entry @ ''] '' @ verbose_level (en_Level entry) @ ''  '' @ msg @ [CHR 0x0A])"

text \<open>\<open>parseToAtomicLevel\<close> of \<open>log.go\<close>.\<close>

definition parseToAtomicLevel :: "string \<Rightarrow> log_level" where
  "parseToAtomicLevel level =
     (let l = map char_upper level in
      if l = ''DEBUG'' \<or> l = ''TRACE'' then DebugLevel
      else if l = ''WARN'' then WarnLevel
      else if l = ''ERROR'' then ErrorLevel
      else InfoLevel)"

section \<open>Properties\<close>

definition add_fields :: "nat \<Rightarrow> (string \<times> log_val) list \<Rightarrow> log_heap \<Rightarrow> log_heap" where
  "add_fields b kvs h = fold (\<lambda>(k, v) h. enc_Add b k v h) kvs h"

lemma add_fields_length [simp]: "length (add_fields b kvs h) = length h"
  unfolding add_fields_def by (induction kvs arbitrary: h) (auto simp: enc_Add_def)

lemma add_fields_other: "b \<noteq> c \<Longrightarrow> add_fields c kvs h ! b = h ! b"
  unfolding add_fields_def by (induction kvs arbitrary: h) (auto simp: enc_Add_def)

lemma add_fields_get:
  "b < length h \<Longrightarrow> gm_get (add_fields b kvs h ! b) k = (case map_of (rev kvs) k of Some v \<Rightarrow> Some v | None \<Rightarrow> gm_get (h ! b) k)"
proof (induction kvs arbitrary: h)
  case Nil
  then show ?case by (simp add: add_fields_def)
next
  case (Cons kv kvs)
  obtain k' v where kv: "kv = (k', v)" by (cases kv)
  have "add_fields b (kv # kvs) h = add_fields b kvs (enc_Add b k' v h)" by (simp add: add_fields_def kv)
  then show ?case
    using Cons.IH [of "enc_Add b k' v h"] Cons.prems by (auto simp: kv enc_Add_def map_add_def split: option.splits)
qed

text \<open>
  C35: a logger with fields does not change the one it was made from.  After \<open>Clone\<close> and any additions to
  the clone, the original writes every entry as before; the clone has the fields of the original and the
  added ones, the last value of each.
\<close>

theorem log_clone_isolated:
  assumes "b < length h" "gm_wf (h ! b)" "enc_Clone b h = (c, h1)" "h2 = add_fields c kvs h1"
  shows "Human_EncodeEntry F h2 b e fs = Human_EncodeEntry F h b e fs \<and>
    Verbose_EncodeEntry F h2 b e fs = Verbose_EncodeEntry F h b e fs \<and>
    gm_get (GetStoredFields h2 c) k = (case map_of (rev kvs) k of Some v \<Rightarrow> Some v | None \<Rightarrow> gm_get (GetStoredFields h b) k)"
proof -
  have c: "c = length h" "h1 = h @ [CopyStoredFields h b]" using assms(3) by (simp_all add: enc_Clone_def)
  have "h2 ! b = h ! b" using assms(1,4) c by (simp add: add_fields_other nth_append)
  moreover have "gm_get (CopyStoredFields h b) k = gm_get (h ! b) k" for k
    using assms(2) by (simp add: CopyStoredFields_def gm_get_fold_copy split: option.splits)
  then have "gm_get (h2 ! c) k = (case map_of (rev kvs) k of Some v \<Rightarrow> Some v | None \<Rightarrow> gm_get (h ! b) k)"
    using assms(4) c add_fields_get [of c h1 kvs k] by (simp split: option.split)
  ultimately show ?thesis unfolding Human_EncodeEntry_def Verbose_EncodeEntry_def GetStoredFields_def by simp
qed

text \<open>Every line that is written ends with a line break, after the colour was reset.\<close>

lemma human_line_ends: "Human_EncodeEntry F h b e fs = '''' \<or> suffix (esc ''0'' @ [CHR 0x0A]) (Human_EncodeEntry F h b e fs)"
  by (auto simp: Human_EncodeEntry_def Let_def suffix_def)

lemma verbose_line_ends: "Verbose_EncodeEntry F h b e fs = '''' \<or> suffix [CHR 0x0A] (Verbose_EncodeEntry F h b e fs)"
  by (auto simp: Verbose_EncodeEntry_def Let_def suffix_def)

text \<open>The result of a command without an exit code is shown as a success, whatever its error says.\<close>

lemma missing_exit_code_is_success:
  assumes "gm_get fs ''exit_code'' = None" "getStringField fs session_fields = ''''"
  shows "CommandResult_FormatHuman F fs msg = EmojiSuccess @ '' Success''"
  using assms by (simp add: CommandResult_FormatHuman_def)

definition demo_floats :: float_libs where
  "demo_floats = \<lparr>fl_int = (\<lambda>_. 0), fl_ms = (\<lambda>_. ''0ms'')\<rparr>"

theorem log_clone_isolated_witness:
  "Human_EncodeEntry demo_floats (add_fields 1 [(''sid'', LStr ''s1'')] [[], []]) 0 \<lparr>en_Message = ''hello'', en_Level = InfoLevel, en_Time = ''''\<rparr> []
     = Human_EncodeEntry demo_floats [[]] 0 \<lparr>en_Message = ''hello'', en_Level = InfoLevel, en_Time = ''''\<rparr> []"
  using log_clone_isolated [of 0 "[[]]" 1 "[[], []]" _ "[(''sid'', LStr ''s1'')]", OF _ _ _ refl]
  by (simp add: enc_Clone_def CopyStoredFields_def gm_wf_def)

end
