(* ===== verification/Logger.thy ===== *)
theory Logger
  imports LogFormat
begin

text \<open>
  The loggers of the process, \<open>src/common/log/log.go\<close>: how a logger is put together, the package
  variables that hold it, changing its level, and making it anew.

  The zap library is a parameter.  A core is what the code hands to \<open>zapcore.NewCore\<close>: the encoder,
  where it writes, and the atomic level.  Atomic levels are shared by reference, so they live in a list
  and a core holds an index; so do the stored fields of the encoders (\<open>log_heap\<close>).  The child that
  \<open>With\<close> makes of a logger has the parent's cores and, in addition, the fields given.  A failing
  \<open>zap.Open\<close> ends the process (\<open>Panic\<close>).  What \<open>DEBUG_ENCODER\<close> prints is left out.
\<close>

section \<open>Loggers\<close>

datatype zap_encoder = HumanEncoder nat | VerboseEncoder nat | ConsoleEncoder | JSONEncoder

record zap_core =
  zc_Encoder :: zap_encoder
  zc_Sink :: string
  zc_Level :: nat

record zlogger =
  zg_Cores :: "zap_core list"
  zg_Fields :: "zap_field list"

record zap_libs =
  zl_Open :: "string \<Rightarrow> error option"
  zl_Any :: "string \<Rightarrow> log_val \<Rightarrow> zap_field"
  zl_sweeten :: "log_val list \<Rightarrow> zap_field list"
  zl_Sprint :: "log_val \<Rightarrow> string"

datatype with_impl = WithBase | WithSugar

text \<open>
  The package variables.  \<open>lp_setLevel\<close> is the level that \<open>defaultLoggerSetLevel\<close> sets, none while it
  is the function that does nothing; \<open>lp_sugar\<close> is also what the aliases \<open>Infof\<close>, \<open>Warn\<close>, \dots are
  bound to, and \<open>lp_grpc\<close> and \<open>lp_global\<close> are the loggers that grpc and zap were given.
\<close>

record log_pkg =
  lp_LogEncoding :: string
  lp_levels :: "log_level list"
  lp_stored :: log_heap
  lp_setLevel :: "nat option"
  lp_zlog :: zlogger
  lp_sugar :: zlogger
  lp_With :: with_impl
  lp_IsDebugLevel :: bool
  lp_global :: "zlogger option"
  lp_grpc :: "zlogger option"

text \<open>The encoder for an encoding.\<close>

definition pick_encoder :: "string \<Rightarrow> log_heap \<Rightarrow> zap_encoder \<times> log_heap" where
  "pick_encoder enc h =
     (if enc = ''human'' then (case NewBaseEncoder h of (b, h) \<Rightarrow> (HumanEncoder b, h))
      else if enc = ''verbose'' then (case NewBaseEncoder h of (b, h) \<Rightarrow> (VerboseEncoder b, h))
      else if enc = ''console'' then (ConsoleEncoder, h)
      else (JSONEncoder, h))"

definition NewDefaultLogger :: "zap_libs \<Rightarrow> string \<Rightarrow> string option \<Rightarrow> log_pkg \<Rightarrow> (zlogger \<times> log_pkg) outcome" where
  "NewDefaultLogger Z env_LOG_LEVEL additionalWriter P =
     (let enc = (if lp_LogEncoding P = '''' then ''json'' else lp_LogEncoding P);
          logLevel = length (lp_levels P);
          levels = lp_levels P @ [parseToAtomicLevel env_LOG_LEVEL] in
      if zl_Open Z ''stdout'' \<noteq> None then Panic
      else if zl_Open Z ''stderr'' \<noteq> None then Panic
      else (case pick_encoder enc (lp_stored P) of (encoder, stored) \<Rightarrow>
        (let core = \<lparr>zc_Encoder = encoder, zc_Sink = ''stdout'', zc_Level = logLevel\<rparr>;
             cores = (case additionalWriter of
                        None \<Rightarrow> [core]
                      | Some w \<Rightarrow> [core, \<lparr>zc_Encoder = encoder, zc_Sink = w, zc_Level = logLevel\<rparr>]);
             logger = \<lparr>zg_Cores = cores, zg_Fields = []\<rparr>
         in Ret (logger, P\<lparr>lp_LogEncoding := enc, lp_levels := levels, lp_stored := stored,
                           lp_setLevel := Some logLevel, lp_global := Some logger\<rparr>))))"

text \<open>\<open>Logger.Level()\<close>: the lowest level that one of the cores has enabled.\<close>

fun level_num :: "log_level \<Rightarrow> int" where
  "level_num DebugLevel = -1"
| "level_num InfoLevel = 0"
| "level_num WarnLevel = 1"
| "level_num ErrorLevel = 2"
| "level_num DPanicLevel = 3"
| "level_num PanicLevel = 4"
| "level_num FatalLevel = 5"

definition core_writes :: "log_pkg \<Rightarrow> zap_core \<Rightarrow> log_level \<Rightarrow> bool" where
  "core_writes P c l = (level_num (lp_levels P ! zc_Level c) \<le> level_num l)"

definition logger_writes :: "log_pkg \<Rightarrow> zlogger \<Rightarrow> log_level \<Rightarrow> bool" where
  "logger_writes P lg l = list_ex (\<lambda>c. core_writes P c l) (zg_Cores lg)"

text \<open>The package initialisation, from the zero values, and \<open>ReinitializeLogger\<close>.\<close>

definition zero_logger :: zlogger where
  "zero_logger = \<lparr>zg_Cores = [], zg_Fields = []\<rparr>"

definition log_init :: "zap_libs \<Rightarrow> string \<Rightarrow> string \<Rightarrow> log_pkg outcome" where
  "log_init Z env_LOG_ENCODING env_LOG_LEVEL =
     (case NewDefaultLogger Z env_LOG_LEVEL None
             \<lparr>lp_LogEncoding = env_LOG_ENCODING, lp_levels = [], lp_stored = [], lp_setLevel = None,
              lp_zlog = zero_logger, lp_sugar = zero_logger, lp_With = WithBase, lp_IsDebugLevel = False,
              lp_global = None, lp_grpc = None\<rparr> of
        Panic \<Rightarrow> Panic
      | Ret (logger, P) \<Rightarrow>
          Ret (P\<lparr>lp_zlog := logger, lp_sugar := logger, lp_IsDebugLevel := logger_writes P logger DebugLevel\<rparr>))"

definition ReinitializeLogger :: "zap_libs \<Rightarrow> string \<Rightarrow> string \<Rightarrow> log_pkg \<Rightarrow> log_pkg outcome" where
  "ReinitializeLogger Z env_LOG_ENCODING env_LOG_LEVEL P =
     (case NewDefaultLogger Z env_LOG_LEVEL None (P\<lparr>lp_LogEncoding := env_LOG_ENCODING\<rparr>) of
        Panic \<Rightarrow> Panic
      | Ret (logger, P) \<Rightarrow>
          Ret (P\<lparr>lp_zlog := logger, lp_sugar := logger, lp_With := WithSugar,
                 lp_IsDebugLevel := logger_writes P logger DebugLevel\<rparr>))"

text \<open>\<open>SetDefaultLoggerLevel\<close> and \<open>SetGrpcLogger\<close>.\<close>

definition SetDefaultLoggerLevel :: "string \<Rightarrow> log_pkg \<Rightarrow> log_pkg" where
  "SetDefaultLoggerLevel level P =
     (case lp_setLevel P of
        None \<Rightarrow> P
      | Some r \<Rightarrow> P\<lparr>lp_levels := (lp_levels P)[r := parseToAtomicLevel level]\<rparr>)"

definition SetGrpcLogger :: "log_pkg \<Rightarrow> log_pkg" where
  "SetGrpcLogger P = P\<lparr>lp_grpc := Some (lp_zlog P)\<rparr>"

text \<open>
  \<open>With\<close>.  At first the arguments are taken in pairs, of any type as a key, and a last one without a
  value is dropped; after \<open>ReinitializeLogger\<close> zap turns them into fields.
\<close>

fun with_pairs :: "zap_libs \<Rightarrow> log_val list \<Rightarrow> zap_field list" where
  "with_pairs Z (key # val # args) = zl_Any Z (zl_Sprint Z key) val # with_pairs Z args"
| "with_pairs Z _ = []"

definition log_With :: "zap_libs \<Rightarrow> log_pkg \<Rightarrow> log_val list \<Rightarrow> zlogger" where
  "log_With Z P args =
     (case lp_With P of
        WithBase \<Rightarrow> (lp_zlog P)\<lparr>zg_Fields := zg_Fields (lp_zlog P) @ with_pairs Z args\<rparr>
      | WithSugar \<Rightarrow> (lp_sugar P)\<lparr>zg_Fields := zg_Fields (lp_sugar P) @ zl_sweeten Z args\<rparr>)"

section \<open>Helpers of the encoders\<close>

text \<open>
  \<open>GetFieldStringValue\<close>, which only the debug output calls, and \<open>extractServer\<close>, which nothing calls: the
  word after the first \<open>to\<close> that has one, without a comma at its end.
\<close>

definition GetFieldStringValue :: "(log_val \<Rightarrow> string) \<Rightarrow> zap_field \<Rightarrow> string" where
  "GetFieldStringValue sprint field =
     (case zf_Type field of
        StringType \<Rightarrow> zf_String field
      | ByteStringType \<Rightarrow> (case zf_Interface field of Some (LBytes b) \<Rightarrow> b | _ \<Rightarrow> zf_String field)
      | _ \<Rightarrow> (case zf_Interface field of Some v \<Rightarrow> sprint v | None \<Rightarrow> zf_String field))"

fun server_after :: "string list \<Rightarrow> string" where
  "server_after (part # server # parts) =
     (if part = ''to'' then trim_suffix server '','' else server_after (server # parts))"
| "server_after _ = ''server''"

definition extractServer :: "string \<Rightarrow> string" where
  "extractServer msg = server_after (str_split '' '' msg)"

section \<open>Properties\<close>

text \<open>What the process does with its loggers, and the state after it.\<close>

datatype log_op =
    OpReinit string string
  | OpSetLevel string
  | OpGrpc
  | OpNew string "string option"

fun log_do :: "zap_libs \<Rightarrow> log_op \<Rightarrow> log_pkg \<Rightarrow> log_pkg outcome" where
  "log_do Z (OpReinit enc level) P = ReinitializeLogger Z enc level P"
| "log_do Z (OpSetLevel level) P = Ret (SetDefaultLoggerLevel level P)"
| "log_do Z OpGrpc P = Ret (SetGrpcLogger P)"
| "log_do Z (OpNew level w) P = (case NewDefaultLogger Z level w P of Panic \<Rightarrow> Panic | Ret (_, P) \<Rightarrow> Ret P)"

fun log_run :: "zap_libs \<Rightarrow> log_op list \<Rightarrow> log_pkg \<Rightarrow> log_pkg outcome" where
  "log_run Z [] P = Ret P"
| "log_run Z (op # ops) P = (case log_do Z op P of Panic \<Rightarrow> Panic | Ret P \<Rightarrow> log_run Z ops P)"

text \<open>Every reference is in range, and the package's logger is the last one that was made.\<close>

fun encoder_ok :: "nat \<Rightarrow> zap_encoder \<Rightarrow> bool" where
  "encoder_ok n (HumanEncoder b) = (b < n)"
| "encoder_ok n (VerboseEncoder b) = (b < n)"
| "encoder_ok n _ = True"

definition logger_ok :: "log_pkg \<Rightarrow> zlogger \<Rightarrow> bool" where
  "logger_ok P lg = (\<forall>c \<in> set (zg_Cores lg). zc_Level c < length (lp_levels P) \<and> encoder_ok (length (lp_stored P)) (zc_Encoder c))"

definition log_wf :: "log_pkg \<Rightarrow> bool" where
  "log_wf P \<longleftrightarrow> logger_ok P (lp_zlog P) \<and> lp_sugar P = lp_zlog P \<and> zg_Cores (lp_zlog P) \<noteq> []
     \<and> (\<exists>r. lp_setLevel P = Some r \<and> r < length (lp_levels P))"

definition log_current :: "log_pkg \<Rightarrow> bool" where
  "log_current P \<longleftrightarrow> (\<forall>c \<in> set (zg_Cores (lp_zlog P)). lp_setLevel P = Some (zc_Level c))"

lemma encoder_ok_mono: "encoder_ok n e \<Longrightarrow> n \<le> m \<Longrightarrow> encoder_ok m e"
  by (cases e) auto

lemma pick_encoder_ok:
  "pick_encoder enc h = (e, h') \<Longrightarrow> encoder_ok (length h') e" "pick_encoder enc h = (e, h') \<Longrightarrow> length h \<le> length h'"
  by (auto simp: pick_encoder_def NewBaseEncoder_def split: if_splits)

lemma new_default_logger:
  assumes "NewDefaultLogger Z level w P = Ret (lg, P')"
  shows "logger_ok P' lg \<and> zg_Cores lg \<noteq> [] \<and> zg_Fields lg = [] \<and> (\<forall>c \<in> set (zg_Cores lg). zc_Level c = length (lp_levels P))"
    and "lp_setLevel P' = Some (length (lp_levels P))" and "lp_levels P' = lp_levels P @ [parseToAtomicLevel level]"
    and "length (lp_stored P) \<le> length (lp_stored P')"
    and "lp_zlog P' = lp_zlog P \<and> lp_sugar P' = lp_sugar P \<and> lp_With P' = lp_With P \<and> lp_IsDebugLevel P' = lp_IsDebugLevel P"
proof -
  obtain e stored where pick: "pick_encoder (if lp_LogEncoding P = '''' then ''json'' else lp_LogEncoding P) (lp_stored P) = (e, stored)"
    by (rule prod.exhaust)
  note assms [unfolded NewDefaultLogger_def Let_def pick prod.case]
  note new = this [symmetric]
  show "logger_ok P' lg \<and> zg_Cores lg \<noteq> [] \<and> zg_Fields lg = [] \<and> (\<forall>c \<in> set (zg_Cores lg). zc_Level c = length (lp_levels P))"
    using new pick_encoder_ok(1) [OF pick] by (simp add: logger_ok_def split: if_splits option.splits)
  show "lp_setLevel P' = Some (length (lp_levels P))" "lp_levels P' = lp_levels P @ [parseToAtomicLevel level]"
    "lp_zlog P' = lp_zlog P \<and> lp_sugar P' = lp_sugar P \<and> lp_With P' = lp_With P \<and> lp_IsDebugLevel P' = lp_IsDebugLevel P"
    "length (lp_stored P) \<le> length (lp_stored P')"
    using new pick_encoder_ok(2) [OF pick] by (simp_all split: if_splits)
qed

lemma logger_ok_grow:
  "logger_ok P lg \<Longrightarrow> length (lp_levels P) \<le> length (lp_levels P') \<Longrightarrow> length (lp_stored P) \<le> length (lp_stored P') \<Longrightarrow> logger_ok P' lg"
  by (fastforce simp: logger_ok_def elim: encoder_ok_mono)

lemma log_init_ok:
  assumes "log_init Z enc level = Ret P"
  shows "log_wf P \<and> log_current P"
proof -
  obtain lg Q P0 where new: "NewDefaultLogger Z level None P0 = Ret (lg, Q)" "lp_levels P0 = []"
    and P: "P = Q\<lparr>lp_zlog := lg, lp_sugar := lg, lp_IsDebugLevel := logger_writes Q lg DebugLevel\<rparr>"
    using assms unfolding log_init_def by (auto split: outcome.splits prod.splits)
  then show ?thesis
    using new_default_logger(1-3) [OF new(1)] by (simp add: log_wf_def log_current_def logger_ok_def)
qed

lemma log_do_ok:
  assumes "log_do Z op P = Ret P'" "log_wf P"
  shows "log_wf P' \<and> (log_current P \<and> (\<forall>level w. op \<noteq> OpNew level w) \<longrightarrow> log_current P')"
proof (cases op)
  case (OpReinit enc level)
  obtain lg Q where new: "NewDefaultLogger Z level None (P\<lparr>lp_LogEncoding := enc\<rparr>) = Ret (lg, Q)"
    and P': "P' = Q\<lparr>lp_zlog := lg, lp_sugar := lg, lp_With := WithSugar, lp_IsDebugLevel := logger_writes Q lg DebugLevel\<rparr>"
    using assms(1) by (auto simp: OpReinit ReinitializeLogger_def split: outcome.splits prod.splits)
  then show ?thesis
    using new_default_logger(1-3) [OF new] by (simp add: log_wf_def log_current_def logger_ok_def)
next
  case (OpSetLevel level)
  with assms show ?thesis
    by (auto simp: SetDefaultLoggerLevel_def log_wf_def log_current_def logger_ok_def split: option.splits)
next
  case OpGrpc
  with assms show ?thesis by (auto simp: SetGrpcLogger_def log_wf_def log_current_def logger_ok_def)
next
  case (OpNew level w)
  obtain lg where new: "NewDefaultLogger Z level w P = Ret (lg, P')"
    using assms(1) by (auto simp: OpNew split: outcome.splits prod.splits)
  have "logger_ok P' (lp_zlog P)"
    using logger_ok_grow [of P "lp_zlog P" P'] new_default_logger(3,4) [OF new] assms(2) by (simp add: log_wf_def)
  then show ?thesis using new_default_logger [OF new] assms(2) OpNew by (simp add: log_wf_def)
qed

lemma log_run_ok:
  "log_run Z ops P = Ret P' \<Longrightarrow> log_wf P \<Longrightarrow>
     log_wf P' \<and> (log_current P \<and> (\<forall>level w. OpNew level w \<notin> set ops) \<longrightarrow> log_current P')"
proof (induction ops arbitrary: P)
  case Nil
  then show ?case by simp
next
  case (Cons op ops)
  then obtain Q where Q: "log_do Z op P = Ret Q" "log_run Z ops Q = Ret P'" by (auto split: outcome.splits)
  with log_do_ok [OF Q(1) Cons.prems(2)] Cons.IH [OF Q(2)] show ?case by (auto simp: image_iff)
qed

text \<open>
  Changing the level reaches the package's logger and all that \<open>With\<close> made of it, as long as no other
  logger was made; \<open>IsDebugLevel\<close> does not follow it.
\<close>

lemma set_level_writes:
  assumes "log_wf P" "log_current P"
  shows "logger_writes (SetDefaultLoggerLevel level P) (lp_zlog P) l \<longleftrightarrow> level_num (parseToAtomicLevel level) \<le> level_num l"
proof -
  obtain r where r: "lp_setLevel P = Some r" "r < length (lp_levels P)" using assms(1) by (auto simp: log_wf_def)
  obtain c cs where cs: "zg_Cores (lp_zlog P) = c # cs" using assms(1) by (cases "zg_Cores (lp_zlog P)") (auto simp: log_wf_def)
  have "\<forall>c \<in> set (zg_Cores (lp_zlog P)). zc_Level c = r" using assms(2) r(1) by (simp add: log_current_def)
  then show ?thesis
    using r cs by (auto simp: logger_writes_def core_writes_def SetDefaultLoggerLevel_def list_ex_iff)
qed

lemma log_level_follows:
  assumes "log_init Z enc env_level = Ret P0" "log_run Z ops P0 = Ret P" "\<forall>level w. OpNew level w \<notin> set ops"
  shows "logger_writes (SetDefaultLoggerLevel level P) (log_With Z (SetDefaultLoggerLevel level P) args) l
           \<longleftrightarrow> level_num (parseToAtomicLevel level) \<le> level_num l"
    and "lp_IsDebugLevel (SetDefaultLoggerLevel level P) = lp_IsDebugLevel P"
proof -
  have P: "log_wf P" "log_current P" using log_run_ok [OF assms(2)] log_init_ok [OF assms(1)] assms(3) by auto
  let ?Q = "SetDefaultLoggerLevel level P"
  have Q: "lp_zlog ?Q = lp_zlog P" "lp_sugar ?Q = lp_zlog P" "lp_IsDebugLevel ?Q = lp_IsDebugLevel P"
    using P(1) by (auto simp: SetDefaultLoggerLevel_def log_wf_def)
  have "zg_Cores (log_With Z ?Q args) = zg_Cores (lp_zlog P)"
    by (cases "lp_With ?Q") (simp_all add: log_With_def Q)
  then have "logger_writes ?Q (log_With Z ?Q args) l = logger_writes ?Q (lp_zlog P) l" by (simp add: logger_writes_def)
  with set_level_writes [OF P] show "logger_writes ?Q (log_With Z ?Q args) l \<longleftrightarrow> level_num (parseToAtomicLevel level) \<le> level_num l" by simp
  show "lp_IsDebugLevel ?Q = lp_IsDebugLevel P" by (rule Q(3))
qed

text \<open>A logger made for another purpose takes the level with it: the package's own logger no longer follows.\<close>

lemma new_logger_takes_level:
  assumes "log_wf P" "log_do Z (OpNew env_level w) P = Ret P'"
  shows "logger_writes (SetDefaultLoggerLevel level P') (lp_zlog P') l = logger_writes P (lp_zlog P) l"
proof -
  obtain lg where new: "NewDefaultLogger Z env_level w P = Ret (lg, P')"
    using assms(2) by (auto split: outcome.splits prod.splits)
  have "\<forall>c \<in> set (zg_Cores (lp_zlog P)). zc_Level c < length (lp_levels P)" using assms(1) by (auto simp: log_wf_def logger_ok_def)
  then have "\<forall>c \<in> set (zg_Cores (lp_zlog P)). core_writes (SetDefaultLoggerLevel level P') c l = core_writes P c l"
    using new_default_logger(2,3) [OF new] by (auto simp: core_writes_def SetDefaultLoggerLevel_def nth_append)
  then show ?thesis using new_default_logger(5) [OF new] by (simp add: logger_writes_def list_ex_iff)
qed

text \<open>Loggers that were handed out stay as they are when the package's logger is made anew.\<close>

lemma reinit_keeps_grpc: "ReinitializeLogger Z enc level P = Ret P' \<Longrightarrow> lp_grpc P' = lp_grpc P"
  by (auto simp: ReinitializeLogger_def NewDefaultLogger_def Let_def split: outcome.splits prod.splits if_splits option.splits)

text \<open>\<open>With\<close> on complete pairs keeps every one of them, in their order, and drops a key without a value.\<close>

lemma with_pairs_complete:
  "with_pairs Z (concat (map (\<lambda>(k, v). [k, v]) kvs) @ (case rest of None \<Rightarrow> [] | Some k \<Rightarrow> [k]))
     = map (\<lambda>(k, v). zl_Any Z (zl_Sprint Z k) v) kvs"
  by (induction kvs) (auto split: option.split)

end
