(* ===== verification/GrpcClient.thy ===== *)
theory GrpcClient
  imports Reconnect Gateway
begin

text \<open>
  The gRPC client of the agent, \<open>client.go\<close> and \<open>streamrecv.go\<close> of \<open>src/common/grpc\<close>: dialling with and
  without TLS, the pre-connect call, the stream with its metadata, and reading a stream in the
  background.

  What the gRPC library does is the parameter \<open>grpc_libs\<close>: the result of the \<open>n\<close>-th dial of the process, of
  opening a stream and of the pre-connect call on that connection, whether a text is accepted as a CA, the
  status code in an error, and the metadata that the OAuth credentials add to a call.  The model keeps every dial that was made and
  the connections that are open, so that it shows which are never closed.
\<close>

section \<open>Connections\<close>

record tls_config =
  tls_RootCAs :: "string option"
  tls_ServerName :: string

datatype transport_credentials = InsecureCreds | TLSCreds tls_config

record dial_options =
  do_TransportCredentials :: transport_credentials
  do_PerRPCCredentials :: "string option"
  do_UserAgent :: string
  do_MaxRecvMsgSize :: "nat option"

record preconnect_request =
  pq_Name :: string
  pq_Envs :: "string gomap"

record grpc_libs =
  gl_append_certs :: "string \<Rightarrow> bool"
  gl_dial :: "nat \<Rightarrow> string \<Rightarrow> dial_options \<Rightarrow> error option"
  gl_stream :: "nat \<Rightarrow> metadata \<Rightarrow> error option"
  gl_preconnect :: "nat \<Rightarrow> metadata \<Rightarrow> preconnect_request \<Rightarrow> preconnect_response result"
  gl_status :: "error \<Rightarrow> nat option"
  gl_oauth :: "string \<Rightarrow> (string \<times> string) list"
  gl_version :: "string \<Rightarrow> string"
  gl_os :: "string gomap"

record network =
  nw_dials :: "(string \<times> dial_options) list"
  nw_open :: "nat list"

definition nw_init :: network where
  "nw_init = \<lparr>nw_dials = [], nw_open = []\<rparr>"

abbreviation MaxRecvMsgSize :: nat where "MaxRecvMsgSize \<equiv> 1024 * 1024 * 17"
abbreviation LocalhostAddr :: string where "LocalhostAddr \<equiv> ''127.0.0.1:8010''"

text \<open>\<open>grpc.DialContext\<close> with the error that its two callers build.\<close>

definition DialContext :: "grpc_libs \<Rightarrow> string \<Rightarrow> dial_options \<Rightarrow> network \<Rightarrow> nat result \<times> network" where
  "DialContext L addr opts nw =
     (let n = length (nw_dials nw); nw = nw\<lparr>nw_dials := nw_dials nw @ [(addr, opts)]\<rparr> in
      case gl_dial L n addr opts of
        Some err \<Rightarrow> (Inl (''failed dialing to grpc server, err='' @ err), nw)
      | None \<Rightarrow> (Inr n, nw\<lparr>nw_open := nw_open nw @ [n]\<rparr>))"

definition loadTLSCredentials :: "grpc_libs \<Rightarrow> client_config \<Rightarrow> transport_credentials result" where
  "loadTLSCredentials L cc =
     (if cc_TLSCA cc \<noteq> '''' then
        (if \<not> gl_append_certs L (cc_TLSCA cc) then Inl ''failed to append root CA into cert pool''
         else Inr (TLSCreds \<lparr>tls_RootCAs = Some (cc_TLSCA cc), tls_ServerName = cc_TLSServerName cc\<rparr>))
      else Inr (TLSCreds \<lparr>tls_RootCAs = None, tls_ServerName = cc_TLSServerName cc\<rparr>))"

section \<open>The stream\<close>

text \<open>The options that \<open>connectRPC\<close> sends before those of its caller.\<close>

definition base_options :: "grpc_libs \<Rightarrow> (string \<times> string) list" where
  "base_options L =
     [(''version'', gl_version L ''Version''), (''go-version'', gl_version L ''GoVersion''),
      (''compiler'', gl_version L ''Compiler''), (''platform'', gl_version L ''Platform''),
      (''hostname'', gm_str (gl_os L) ''hostname''), (''machine-id'', gm_str (gl_os L) ''machine_id''),
      (''kernel-version'', gm_str (gl_os L) ''kernel_version'')]"

text \<open>What the server reads: the credentials of the call, then the outgoing context.\<close>

definition call_metadata :: "grpc_libs \<Rightarrow> dial_options \<Rightarrow> (string \<times> string) list \<Rightarrow> (string \<times> string) list \<Rightarrow> metadata" where
  "call_metadata L dopts base opts =
     connect_metadata ((case do_PerRPCCredentials dopts of None \<Rightarrow> [] | Some token \<Rightarrow> gl_oauth L token) @ base) opts"

definition connectRPC :: "grpc_libs \<Rightarrow> string \<Rightarrow> dial_options \<Rightarrow> (string \<times> string) list \<Rightarrow> network \<Rightarrow> nat result \<times> network" where
  "connectRPC L serverAddress dopts opts nw =
     (case DialContext L serverAddress dopts nw of
        (Inl err, nw) \<Rightarrow> (Inl err, nw)
      | (Inr conn, nw) \<Rightarrow>
          (case gl_stream L conn (call_metadata L dopts (base_options L) opts) of
             Some err \<Rightarrow> (Inl (''failed connecting to streaming RPC server, err='' @ err), nw)
           | None \<Rightarrow> (Inr conn, nw)))"

definition insecure_dial :: "client_config \<Rightarrow> dial_options" where
  "insecure_dial cc =
     \<lparr>do_TransportCredentials = InsecureCreds, do_PerRPCCredentials = None, do_UserAgent = cc_UserAgent cc,
      do_MaxRecvMsgSize = Some MaxRecvMsgSize\<rparr>"

definition tls_dial :: "client_config \<Rightarrow> transport_credentials \<Rightarrow> dial_options" where
  "tls_dial cc tlsCred =
     \<lparr>do_TransportCredentials = tlsCred, do_PerRPCCredentials = Some (cc_Token cc), do_UserAgent = cc_UserAgent cc,
      do_MaxRecvMsgSize = Some MaxRecvMsgSize\<rparr>"

text \<open>\<open>Connect\<close>; for an insecure connection \<open>connect_options\<close> appends the token to the options.\<close>

definition grpc_Connect :: "grpc_libs \<Rightarrow> client_config \<Rightarrow> (string \<times> string) list \<Rightarrow> network \<Rightarrow> nat result \<times> network" where
  "grpc_Connect L cc opts nw =
     (if cc_Insecure cc then connectRPC L (cc_ServerAddress cc) (insecure_dial cc) (connect_options cc opts) nw
      else case loadTLSCredentials L cc of
             Inl err \<Rightarrow> (Inl err, nw)
           | Inr tlsCred \<Rightarrow> connectRPC L (cc_ServerAddress cc) (tls_dial cc tlsCred) opts nw)"

definition ConnectLocalhost :: "grpc_libs \<Rightarrow> string \<Rightarrow> string \<Rightarrow> (string \<times> string) list \<Rightarrow> network \<Rightarrow> nat result \<times> network" where
  "ConnectLocalhost L token userAgent opts nw =
     connectRPC L LocalhostAddr
       \<lparr>do_TransportCredentials = InsecureCreds, do_PerRPCCredentials = None, do_UserAgent = userAgent, do_MaxRecvMsgSize = None\<rparr>
       (opts @ [(''authorization'', ''Bearer '' @ token)]) nw"

definition PreConnectRPC :: "grpc_libs \<Rightarrow> client_config \<Rightarrow> preconnect_request \<Rightarrow> network \<Rightarrow> preconnect_response result \<times> network" where
  "PreConnectRPC L cc req nw =
     (if cc_Insecure cc then
        (case DialContext L (cc_ServerAddress cc) (insecure_dial cc) nw of
           (Inl err, nw) \<Rightarrow> (Inl err, nw)
         | (Inr conn, nw) \<Rightarrow>
             (gl_preconnect L conn
                (call_metadata L (insecure_dial cc) [] [(''authorization'', ''Bearer '' @ cc_Token cc)]) req, nw))
      else case loadTLSCredentials L cc of
             Inl err \<Rightarrow> (Inl err, nw)
           | Inr tlsCred \<Rightarrow>
               (case DialContext L (cc_ServerAddress cc) (tls_dial cc tlsCred) nw of
                  (Inl err, nw) \<Rightarrow> (Inl err, nw)
                | (Inr conn, nw) \<Rightarrow> (gl_preconnect L conn (call_metadata L (tls_dial cc tlsCred) [] []) req, nw)))"

text \<open>\<open>Close\<close> of the client: the connection is closed, and with it the stream.\<close>

definition client_Close :: "nat \<Rightarrow> network \<Rightarrow> network" where
  "client_Close conn nw = nw\<lparr>nw_open := filter (\<lambda>c. c \<noteq> conn) (nw_open nw)\<rparr>"

text \<open>\<open>StartKeepAlive\<close>: packets are sent until a send fails; the list holds the results of the sends.\<close>

fun StartKeepAlive :: "error option list \<Rightarrow> packet list" where
  "StartKeepAlive [] = []"
| "StartKeepAlive (res # rest) =
     (if res \<noteq> None then []
      else \<lparr>pkt_Type = gateway_KeepAlive, pkt_Spec = None, pkt_Payload = None\<rparr> # StartKeepAlive rest)"

section \<open>Reading a stream in the background\<close>

text \<open>
  \<open>NewStreamRecv\<close>: a goroutine receives from the stream and hands each result over an unbuffered channel,
  until a receive fails or the context is done.  \<open>src\<close> is what the stream answers, one result per \<open>Recv\<close>; a
  goroutine in \<open>Receiving\<close> is inside \<open>Recv\<close>, in \<open>Offering\<close> inside the \<open>select\<close>.
\<close>

datatype recv_pc = Receiving | Offering "packet result" | Stopped

record recv_state =
  rv_pc :: recv_pc
  rv_received :: nat
  rv_delivered :: "packet result list"
  rv_ctxDone :: bool
  rv_closed :: bool

definition NewStreamRecv :: recv_state where
  "NewStreamRecv = \<lparr>rv_pc = Receiving, rv_received = 0, rv_delivered = [], rv_ctxDone = False, rv_closed = False\<rparr>"

definition recv_handover :: "packet result \<Rightarrow> recv_state \<Rightarrow> recv_state" where
  "recv_handover data s =
     (let s = s\<lparr>rv_delivered := rv_delivered s @ [data]\<rparr> in
      case data of
        Inl err \<Rightarrow> s\<lparr>rv_pc := Stopped, rv_closed := True\<rparr>
      | Inr pkt \<Rightarrow> s\<lparr>rv_pc := Receiving\<rparr>)"

inductive recv_step :: "packet result list \<Rightarrow> recv_state \<Rightarrow> recv_state \<Rightarrow> bool" for src :: "packet result list" where
  receive: "\<lbrakk>rv_pc s = Receiving; rv_received s < length src\<rbrakk>
    \<Longrightarrow> recv_step src s (s\<lparr>rv_pc := Offering (src ! rv_received s), rv_received := Suc (rv_received s)\<rparr>)"
| handover: "rv_pc s = Offering data \<Longrightarrow> recv_step src s (recv_handover data s)"
| stop: "\<lbrakk>rv_pc s = Offering data; rv_ctxDone s\<rbrakk>
    \<Longrightarrow> recv_step src s (s\<lparr>rv_pc := Stopped, rv_closed := True\<rparr>)"
| cancel: "recv_step src s (s\<lparr>rv_ctxDone := True\<rparr>)"

inductive_cases recv_step_cases: "recv_step src s s'"

interpretation rcv: transition_system "\<lambda>s. s = NewStreamRecv" "recv_step src" for src .

definition failed :: "'a result \<Rightarrow> bool" where
  "failed r = (case r of Inl _ \<Rightarrow> True | Inr _ \<Rightarrow> False)"

lemma failed_simps [simp]: "failed (Inl e)" "\<not> failed (Inr x)"
  by (simp_all add: failed_def)

text \<open>
  What is delivered is a prefix of what the stream answers, a failure is only ever the last of it, and at most
  one answer has been taken from the stream and not been delivered.
\<close>

definition recv_inv :: "packet result list \<Rightarrow> recv_state \<Rightarrow> bool" where
  "recv_inv src s \<longleftrightarrow>
     rv_received s \<le> length src \<and>
     rv_delivered s = take (length (rv_delivered s)) src \<and>
     (\<forall>i. Suc i < length (rv_delivered s) \<longrightarrow> \<not> failed (src ! i)) \<and>
     (case rv_pc s of
        Receiving \<Rightarrow> rv_received s = length (rv_delivered s) \<and> \<not> rv_closed s \<and> (\<forall>r \<in> set (rv_delivered s). \<not> failed r)
      | Offering data \<Rightarrow> rv_received s = Suc (length (rv_delivered s)) \<and> data = src ! length (rv_delivered s) \<and>
          \<not> rv_closed s \<and> (\<forall>r \<in> set (rv_delivered s). \<not> failed r)
      | Stopped \<Rightarrow> rv_closed s \<and> rv_received s \<le> Suc (length (rv_delivered s)) \<and>
          ((rv_delivered s \<noteq> [] \<and> failed (last (rv_delivered s))) \<or> rv_ctxDone s))"

lemma take_Suc_snoc: "d = take (length d) xs \<Longrightarrow> length d < length xs \<Longrightarrow> d @ [xs ! length d] = take (Suc (length d)) xs"
  by (simp add: take_Suc_conv_app_nth)

lemma recv_inv_handover:
  assumes "recv_inv src s" "rv_pc s = Offering data"
  shows "recv_inv src (recv_handover data s)"
proof -
  let ?d = "rv_delivered s"
  from assms have d: "?d = take (length ?d) src" and len: "length ?d < length src" and data: "data = src ! length ?d"
    and ok: "\<forall>r \<in> set ?d. \<not> failed r" and recvd: "rv_received s = Suc (length ?d)" and open1: "\<not> rv_closed s"
    by (auto simp: recv_inv_def)
  have nth: "src ! i = ?d ! i" if "i < length ?d" for i using d that by (metis nth_take)
  have snoc: "?d @ [data] = take (Suc (length ?d)) src" unfolding data by (rule take_Suc_snoc [OF d len])
  have ok': "\<not> failed (src ! i)" if "i < length ?d" for i using ok nth [OF that] that by simp
  show ?thesis
  proof (cases data)
    case (Inl e)
    have "last (take (Suc (length ?d)) src) = data" by (simp flip: snoc)
    moreover have "src \<noteq> []" using len by auto
    ultimately show ?thesis using Inl snoc len recvd ok' by (simp add: recv_inv_def recv_handover_def Let_def)
  next
    case (Inr p)
    then have "\<forall>r \<in> set (take (Suc (length ?d)) src). \<not> failed r" using ok by (simp flip: snoc)
    with Inr show ?thesis using snoc len recvd ok' open1 by (simp add: recv_inv_def recv_handover_def Let_def)
  qed
qed

lemma recv_inv_step: "recv_inv src s \<Longrightarrow> recv_step src s s' \<Longrightarrow> recv_inv src s'"
proof (erule recv_step_cases)
  fix data assume "recv_inv src s" "s' = recv_handover data s" "rv_pc s = Offering data"
  then show "recv_inv src s'" using recv_inv_handover by simp
qed (auto simp: recv_inv_def split: recv_pc.splits)

lemma recv_inv_reach: "rcv.reach src s \<Longrightarrow> recv_inv src s"
proof (erule rcv.invariant)
  show "recv_inv src s" if "s = NewStreamRecv" for s
    using that by (simp add: NewStreamRecv_def recv_inv_def)
qed (rule recv_inv_step)

text \<open>
  A reader of the channel sees the answers of the stream in order and without gaps, a failure only as the last of
  them; when the channel is closed and the context is not done, the last answer was the failure.
\<close>

lemma stream_reader_in_order:
  assumes "rcv.reach src s"
  shows "rv_delivered s = take (length (rv_delivered s)) src"
    "Suc i < length (rv_delivered s) \<Longrightarrow> \<not> failed (src ! i)"
    "rv_received s \<le> Suc (length (rv_delivered s))"
    "rv_closed s \<Longrightarrow> \<not> rv_ctxDone s \<Longrightarrow> rv_delivered s \<noteq> [] \<and> failed (last (rv_delivered s))"
  using recv_inv_reach [OF assms] by (auto simp: recv_inv_def split: recv_pc.splits)

text \<open>The goroutine inside \<open>Recv\<close> does not see that the context is done: only an answer moves it.\<close>

lemma reader_waits_for_stream:
  assumes "rv_pc s = Receiving" "rv_received s = length src" "recv_step src s s'"
  shows "rv_pc s' = Receiving"
  using assms(3) by (rule recv_step_cases) (use assms(1,2) in auto)

section \<open>Connections that stay open\<close>

lemma dial_cases:
  obtains (refused) err where "DialContext L addr opts nw =
      (Inl (''failed dialing to grpc server, err='' @ err), nw\<lparr>nw_dials := nw_dials nw @ [(addr, opts)]\<rparr>)"
      "gl_dial L (length (nw_dials nw)) addr opts = Some err"
  | (connected) "DialContext L addr opts nw = (Inr (length (nw_dials nw)),
      nw\<lparr>nw_dials := nw_dials nw @ [(addr, opts)], nw_open := nw_open nw @ [length (nw_dials nw)]\<rparr>)"
      "gl_dial L (length (nw_dials nw)) addr opts = None"
proof (cases "gl_dial L (length (nw_dials nw)) addr opts")
  case None
  then show ?thesis by (intro connected) (simp_all add: DialContext_def Let_def)
next
  case (Some err)
  then show ?thesis by (intro refused) (simp_all add: DialContext_def Let_def)
qed

lemma dial_net:
  "nw_dials (snd (DialContext L addr opts nw)) = nw_dials nw @ [(addr, opts)]"
  "nw_open (snd (DialContext L addr opts nw)) =
     nw_open nw @ (if gl_dial L (length (nw_dials nw)) addr opts = None then [length (nw_dials nw)] else [])"
  by (rule dial_cases [of L addr opts nw]; simp)+

text \<open>
  A pre-connect call never closes the connection that it dialled: the network afterwards is that after the
  dial, with the new connection open if there is one.
\<close>

lemma preconnect_leaks:
  "snd (PreConnectRPC L cc req nw) =
     (if cc_Insecure cc then snd (DialContext L (cc_ServerAddress cc) (insecure_dial cc) nw)
      else case loadTLSCredentials L cc of
             Inl _ \<Rightarrow> nw
           | Inr cred \<Rightarrow> snd (DialContext L (cc_ServerAddress cc) (tls_dial cc cred) nw))"
  by (simp add: PreConnectRPC_def case_prod_beta split: sum.split)

text \<open>The metadata that the gateway reads on a stream that \<open>Connect\<close> has opened.\<close>

definition stream_metadata :: "grpc_libs \<Rightarrow> client_config \<Rightarrow> (string \<times> string) list \<Rightarrow> metadata" where
  "stream_metadata L cc opts =
     connect_metadata ((if cc_Insecure cc then [] else gl_oauth L (cc_Token cc)) @ base_options L) (connect_options cc opts)"

lemma grpc_Connect_metadata:
  assumes "grpc_Connect L cc opts nw = (Inr n, nw')"
  shows "gl_stream L n (stream_metadata L cc opts) = None"
  using assms
  by (auto simp: grpc_Connect_def connectRPC_def stream_metadata_def call_metadata_def insecure_dial_def tls_dial_def
      connect_options_def split: if_splits sum.splits prod.splits option.splits)

text \<open>Without TLS the token goes to whoever answers at the address; with TLS no dial is made without it.\<close>

lemma tls_is_kept:
  assumes "\<not> cc_Insecure cc" "(addr, opts) \<in> set (nw_dials (snd (grpc_Connect L cc copts nw)))" "(addr, opts) \<notin> set (nw_dials nw)"
  shows "\<exists>tls. do_TransportCredentials opts = TLSCreds tls \<and> tls_ServerName tls = cc_TLSServerName cc"
proof (cases "loadTLSCredentials L cc")
  case (Inl e)
  with assms show ?thesis by (simp add: grpc_Connect_def)
next
  case (Inr cred)
  then obtain tls where cred: "cred = TLSCreds tls" "tls_ServerName tls = cc_TLSServerName cc"
    by (auto simp: loadTLSCredentials_def split: if_splits)
  have "nw_dials (snd (grpc_Connect L cc copts nw)) = nw_dials nw @ [(cc_ServerAddress cc, tls_dial cc cred)]"
    by (rule dial_cases [of L "cc_ServerAddress cc" "tls_dial cc cred" nw])
       (use assms(1) Inr in \<open>auto simp: grpc_Connect_def connectRPC_def split: option.split\<close>)
  with assms(2,3) cred show ?thesis by (simp add: tls_dial_def)
qed

end
