(* ===== verification/Process.thy ===== *)
theory Process
  imports Base64 Memory
begin

text \<open>
  The process of the agent, \<open>src/agent/proc.go\<close> and the start of \<open>src/agent/main.go\<close>: the command it
  wraps, stopping that command, and leaving on a signal.

  A running process is what it answers: the result of the SIGTERM, whether it is alive at the \<open>i\<close>-th
  probe, and the result of the SIGKILL.  What the code does to it is a list of events; every \<open>Sleep\<close> is a
  second.  SIGTERM goes to the process group that the command leads, SIGKILL to the command alone; on
  Windows there is no group and no SIGTERM (\<open>proc_unix.go\<close>, \<open>proc_windows.go\<close>).
\<close>

section \<open>The wrapped command\<close>

record command =
  cm_Name :: string
  cm_Args :: "string list"
  cm_Env :: "string list"

text \<open>
  \<open>exec.Command(mainCmd, args...)\<close>.  The result of the base64 decoder is never nil, also when it fails: what
  could be decoded is used.
\<close>

definition command_env :: "string gomap \<Rightarrow> string list" where
  "command_env envs =
     concat (map (\<lambda>(key, val).
       let key = (case str_cut '':'' key of None \<Rightarrow> '''' | Some (_, after) \<Rightarrow> after) in
       if key = '''' then [] else [key @ ''='' @ b64_decode_lenient val]) envs)"

definition newCommand :: "string gomap \<Rightarrow> string list \<Rightarrow> command option" where
  "newCommand envs args =
     (case args of
        [] \<Rightarrow> None
      | mainCmd # _ \<Rightarrow>
          (let args = (if length args > 1 then tl args else args) in
           Some \<lparr>cm_Name = mainCmd, cm_Args = args, cm_Env = command_env envs\<rparr>))"

section \<open>Stopping it\<close>

record process =
  pr_term :: "error option"
  pr_alive :: "nat \<Rightarrow> bool"
  pr_kill :: "error option"
  pr_pid :: int

datatype kill_event = SigTerm | Sleep | SigKill

text \<open>The loop of at most ten probes: is the process still running, and the sleeps.\<close>

fun probe_loop :: "(nat \<Rightarrow> bool) \<Rightarrow> nat \<Rightarrow> nat \<Rightarrow> bool \<times> kill_event list" where
  "probe_loop alive i 0 = (True, [])"
| "probe_loop alive i (Suc n) =
     (if \<not> alive i then (False, [])
      else case probe_loop alive (Suc i) n of (isRunning, evs) \<Rightarrow> (isRunning, Sleep # evs))"

datatype platform = Unix | Windows

text \<open>\<open>setPgid\<close>: does the command lead a process group of its own?  \<open>killPid\<close>: its error, and what it sends.\<close>

definition setPgid :: "platform \<Rightarrow> bool" where
  "setPgid pl = (pl = Unix)"

definition killPid :: "platform \<Rightarrow> process \<Rightarrow> error option \<times> kill_event list" where
  "killPid pl proc = (case pl of Unix \<Rightarrow> (pr_term proc, [SigTerm]) | Windows \<Rightarrow> (None, []))"

definition killProcess :: "platform \<Rightarrow> process option \<Rightarrow> error option \<times> kill_event list" where
  "killProcess pl cmd =
     (case cmd of
        None \<Rightarrow> (None, [])
      | Some proc \<Rightarrow>
          (case killPid pl proc of
             (Some e, sent) \<Rightarrow> (Some (''failed sending SIGTERM to process '' @ itoa (pr_pid proc) @ '', reason='' @ e), sent)
           | (None, sent) \<Rightarrow>
               (case probe_loop (pr_alive proc) 0 10 of
                  (False, evs) \<Rightarrow> (None, sent @ evs)
                | (True, evs) \<Rightarrow>
                    (map_option (\<lambda>e. ''failed sending SIGKILL to process '' @ itoa (pr_pid proc) @ '', reason='' @ e) (pr_kill proc),
                     sent @ evs @ [SigKill]))))"

section \<open>Leaving\<close>

text \<open>
  \<open>cleanupAgentInstance\<close>: take the instance out of the store, close it in a goroutine, and wait for that
  goroutine at most ten seconds; \<open>inTime\<close> says whether it was done by then.
\<close>

definition agentInstanceKey :: string where
  "agentInstanceKey = ''instance''"

definition cleanupAgentInstance :: "bool \<Rightarrow> 'i store \<Rightarrow> bool \<times> 'i option \<times> 'i store" where
  "cleanupAgentInstance inTime agentStore =
     (case mem_Pop agentInstanceKey agentStore of (instance_, agentStore) \<Rightarrow> (inTime, instance_, agentStore))"

datatype os_signal = SIGHUP | SIGINT | SIGTERM | SIGQUIT

text \<open>The exit code after a signal is its number.\<close>

fun signal_exit :: "os_signal \<Rightarrow> int" where
  "signal_exit SIGHUP = 1"
| "signal_exit SIGINT = 2"
| "signal_exit SIGTERM = 15"
| "signal_exit SIGQUIT = 3"

text \<open>
  \<open>handleOsInterrupt\<close>, from the signal on, with the times in milliseconds.  The goroutine of the clean-up
  closes the instance, which takes \<open>closeTime\<close>, and then stops the command; the program waits for it until
  the deadline of ten seconds, lets Sentry flush, which takes \<open>flushTime\<close>, and exits.  The result is the exit
  code, whether the exit was clean, and what was done to the command by then.  What falls together with
  the deadline counts as late.
\<close>

definition cleanup_timeout :: nat where
  "cleanup_timeout = 10000"

fun timeline :: "nat \<Rightarrow> kill_event list \<Rightarrow> (nat \<times> kill_event) list" where
  "timeline now [] = []"
| "timeline now (Sleep # evs) = timeline (now + 1000) evs"
| "timeline now (ev # evs) = (now, ev) # timeline now evs"

definition kill_duration :: "kill_event list \<Rightarrow> nat" where
  "kill_duration evs = 1000 * count_list evs Sleep"

definition handleOsInterrupt :: "platform \<Rightarrow> process option \<Rightarrow> nat \<Rightarrow> nat \<Rightarrow> os_signal \<Rightarrow> 'i store
    \<Rightarrow> int \<times> bool \<times> kill_event list \<times> 'i store" where
  "handleOsInterrupt pl cmd closeTime flushTime sigval agentStore =
     (let evs = snd (killProcess pl cmd);
          inTime = (closeTime + kill_duration evs < cleanup_timeout);
          exitTime = cleanup_timeout + flushTime;
          acts = timeline closeTime evs in
      case cleanupAgentInstance inTime agentStore of
        (cleanExit, instance_, agentStore) \<Rightarrow>
          (signal_exit sigval, cleanExit,
           map snd (if cleanExit then acts else filter (\<lambda>(t, _). t < exitTime) acts), agentStore))"

section \<open>The command in the foreground\<close>

text \<open>
  The end of \<open>RunV2\<close>: without arguments it waits for ever (\<open>None\<close>).  Otherwise it runs the command, stops the
  controller, cleans up, and returns; the exit code of the command is logged.
\<close>

datatype run_result = RunOk | RunExited int | RunFailed error

definition foreground :: "string list \<Rightarrow> run_result \<Rightarrow> bool \<Rightarrow> 'i store \<Rightarrow> (int \<times> 'i store) option" where
  "foreground commandArgs result inTime agentStore =
     (if commandArgs = [] then None
      else (let exitCode = (case result of RunExited code \<Rightarrow> code | _ \<Rightarrow> 0) in
        case cleanupAgentInstance inTime agentStore of (_, _, agentStore) \<Rightarrow> Some (exitCode, agentStore)))"

section \<open>Properties\<close>

lemma probe_loop_spec:
  "probe_loop alive i n =
     (if \<forall>j < n. alive (i + j) then (True, replicate n Sleep)
      else (False, replicate (LEAST j. \<not> alive (i + j)) Sleep))"
proof (induction n arbitrary: i)
  case 0
  then show ?case by simp
next
  case (Suc n)
  show ?case
  proof (cases "alive i")
    case False
    then have "(LEAST j. \<not> alive (i + j)) = 0" by (intro Least_equality) auto
    moreover have "\<not> (\<forall>j < Suc n. alive (i + j))" using False by (intro notI) (drule spec [of _ 0], simp)
    ultimately show ?thesis using False by simp
  next
    case True
    have split: "(\<forall>j < Suc n. alive (i + j)) \<longleftrightarrow> (\<forall>j < n. alive (Suc i + j))"
      using True by (auto simp: less_Suc_eq_0_disj)
    show ?thesis
    proof (cases "\<forall>j < n. alive (Suc i + j)")
      case all: True
      then show ?thesis using True Suc.IH [of "Suc i"] split by (simp only: probe_loop.simps) simp
    next
      case some: False
      then obtain j where "\<not> alive (Suc i + j)" by blast
      then have "(LEAST j. \<not> alive (i + j)) = Suc (LEAST j. \<not> alive (i + Suc j))"
        using Least_Suc [of "\<lambda>j. \<not> alive (i + j)" "Suc j"] True by simp
      then show ?thesis using True Suc.IH [of "Suc i"] some split by (simp only: probe_loop.simps) simp
    qed
  qed
qed

text \<open>
  Stopping a process ends: SIGTERM comes first, there are at most ten seconds of waiting, and SIGKILL is
  sent exactly when the process was alive at all ten probes.
\<close>

lemma kill_process_escalates:
  assumes "pr_term proc = None"
  shows "if \<forall>j < 10. pr_alive proc j
    then snd (killProcess Unix (Some proc)) = SigTerm # replicate 10 Sleep @ [SigKill]
      \<and> (fst (killProcess Unix (Some proc)) = None \<longleftrightarrow> pr_kill proc = None)
    else killProcess Unix (Some proc) = (None, SigTerm # replicate (LEAST j. \<not> pr_alive proc j) Sleep) \<and> (LEAST j. \<not> pr_alive proc j) < 10"
proof (cases "\<forall>j < 10. pr_alive proc j")
  case True
  then show ?thesis using assms probe_loop_spec [of "pr_alive proc" 0 10] by (simp add: killProcess_def killPid_def)
next
  case False
  then obtain j where "j < 10" "\<not> pr_alive proc j" by blast
  then have "(LEAST j. \<not> pr_alive proc j) < 10" using Least_le [of "\<lambda>j. \<not> pr_alive proc j" j] by simp
  moreover have "killProcess Unix (Some proc) = (None, SigTerm # replicate (LEAST j. \<not> pr_alive proc j) Sleep)"
  proof -
    have "probe_loop (pr_alive proc) 0 10 = (False, replicate (LEAST j. \<not> pr_alive proc j) Sleep)"
      unfolding probe_loop_spec [of "pr_alive proc" 0 10] add_0 using False by (rule if_not_P)
    then show ?thesis using assms by (simp add: killProcess_def killPid_def)
  qed
  ultimately show ?thesis unfolding if_not_P [OF False] by (rule conjI [rotated])
qed

text \<open>
  A command that goes on for ten seconds outlives the agent: by the time of the SIGKILL the deadline of the
  clean-up has passed, so it is only sent when the flush takes longer than the closing of the instance
  (without Sentry the flush takes no time).
\<close>

lemma kill_duration_simps [simp]:
  "kill_duration [] = 0" "kill_duration (Sleep # evs) = 1000 + kill_duration evs"
  "kill_duration (SigTerm # evs) = kill_duration evs" "kill_duration (SigKill # evs) = kill_duration evs"
  by (simp_all add: kill_duration_def)

lemma timeline_append: "timeline t (evs @ evs') = timeline t evs @ timeline (t + kill_duration evs) evs'"
  by (induction t evs rule: timeline.induct) (simp_all add: algebra_simps)

lemma kill_duration_append: "kill_duration (evs @ evs') = kill_duration evs + kill_duration evs'"
  by (simp add: kill_duration_def algebra_simps)

lemma kill_duration_sleeps [simp]: "kill_duration (replicate n Sleep) = 1000 * n"
  by (induction n) simp_all

lemma timeline_sleeps [simp]: "timeline t (replicate n Sleep) = []"
  by (induction n arbitrary: t) simp_all

lemma stubborn_command:
  assumes "pr_term proc = None" "\<forall>j < 10. pr_alive proc j"
    and "handleOsInterrupt Unix (Some proc) closeTime flushTime sigval st = (code, cleanExit, acted, st')"
  shows "\<not> cleanExit" and "SigKill \<in> set acted \<longleftrightarrow> closeTime < flushTime" and "code = signal_exit sigval"
proof -
  have evs: "snd (killProcess Unix (Some proc)) = [SigTerm] @ replicate 10 Sleep @ [SigKill]"
    using kill_process_escalates [OF assms(1)] assms(2) by simp
  have duration: "kill_duration (snd (killProcess Unix (Some proc))) = 10000"
    unfolding evs kill_duration_append by simp
  have acts: "timeline closeTime (snd (killProcess Unix (Some proc))) = [(closeTime, SigTerm), (closeTime + 10000, SigKill)]"
    unfolding evs timeline_append by (simp only: kill_duration_sleeps timeline_sleeps) simp
  from assms(3) show "\<not> cleanExit" "SigKill \<in> set acted \<longleftrightarrow> closeTime < flushTime" "code = signal_exit sigval"
    by (auto simp: handleOsInterrupt_def Let_def duration acts cleanup_timeout_def cleanupAgentInstance_def split: prod.splits if_splits)
qed

text \<open>A command that ends soon enough is stopped without SIGKILL, and the exit is clean.\<close>

lemma obedient_command:
  assumes "pr_term proc = None" "k < 10" "\<not> pr_alive proc k" "closeTime + 1000 * k < cleanup_timeout"
    and "handleOsInterrupt Unix (Some proc) closeTime flushTime sigval st = (code, cleanExit, acted, st')"
  shows "cleanExit \<and> acted = [SigTerm]"
proof -
  let ?n = "LEAST j. \<not> pr_alive proc j"
  have n: "?n \<le> k" using assms(3) by (rule Least_le)
  have "\<not> (\<forall>j < 10. pr_alive proc j)" using assms(2,3) by blast
  then have evs: "snd (killProcess Unix (Some proc)) = [SigTerm] @ replicate ?n Sleep"
    using kill_process_escalates [OF assms(1)] by simp
  have duration: "kill_duration (snd (killProcess Unix (Some proc))) = 1000 * ?n"
    unfolding evs kill_duration_append by simp
  have acts: "timeline closeTime (snd (killProcess Unix (Some proc))) = [(closeTime, SigTerm)]"
    unfolding evs timeline_append by simp
  have "closeTime + 1000 * ?n < cleanup_timeout" using n assms(4) by simp
  with assms(5) show ?thesis
    by (auto simp: handleOsInterrupt_def Let_def duration acts cleanupAgentInstance_def split: prod.splits)
qed

text \<open>On Windows, where a process cannot be probed with a signal, the command is not stopped at all.\<close>

lemma windows_never_stops: "\<not> pr_alive proc 0 \<Longrightarrow> killProcess Windows (Some proc) = (None, [])"
  by (simp add: killProcess_def killPid_def eval_nat_numeral)

text \<open>A command without arguments of its own is run with its name as an argument.\<close>

lemma command_alone: "newCommand envs [c] = Some \<lparr>cm_Name = c, cm_Args = [c], cm_Env = command_env envs\<rparr>"
  by (simp add: newCommand_def)

lemma command_with_args:
  "args \<noteq> [] \<Longrightarrow> newCommand envs (c # args) = Some \<lparr>cm_Name = c, cm_Args = args, cm_Env = command_env envs\<rparr>"
  by (simp add: newCommand_def)

text \<open>After a clean-up no instance is registered.\<close>

lemma cleanup_removes: "\<not> mem_Has (snd (snd (cleanupAgentInstance inTime s))) agentInstanceKey"
  by (simp add: cleanupAgentInstance_def mem_Pop_def mem_Has_def gm_get_def gm_del_def AList.delete_conv split: option.splits)

end
