(* ===== verification/AgentMain.thy ===== *)
theory AgentMain
  imports GrpcClient Process Agent_Safety
begin

text \<open>
  The two modes of the agent's process, \<open>src/agent/main.go\<close>: the choice of the mode (\<open>Run\<close>), the standard
  mode (\<open>runDefaultMode\<close>) and the embedded one (\<open>RunV2\<close>, \<open>runAgentController\<close>, \<open>runAgent\<close>), on the gRPC client
  and the controller.

  What a stream delivers while a controller runs on it is a list of receive results, as in \<open>agent_Run\<close>: a
  controller whose list ends is still running.  The store of the process holds the number of the
  connection that its controller runs on.  The clean-up on a signal, which ends the process, is in \<open>Process\<close>.
\<close>

section \<open>A controller on a connection\<close>

record agent_proc =
  ap_net :: network
  ap_store :: "nat store"

definition ap_init :: agent_proc where
  "ap_init = \<lparr>ap_net = nw_init, ap_store = mem_New\<rparr>"

text \<open>
  Connect, register the controller, run it, and on its return the deferred function: remove it and close it,
  which closes the client (the objects in its own store, which \<open>Close\<close> closes too, go with the controller).
  The result is the error of \<open>Connect\<close>, or the error \<open>Run\<close> returned, \<open>None\<close> if it has not returned.
\<close>

definition serve :: "grpc_libs \<Rightarrow> agent_libs \<Rightarrow> agent_config \<Rightarrow> client_config \<Rightarrow> string \<Rightarrow>
    string gomap \<Rightarrow> packet result list \<Rightarrow> agent_proc \<Rightarrow> (error + error option) \<times> agent_proc" where
  "serve L AL config clientConfig name runtimeEnvs msgs p =
     (case grpc_Connect L clientConfig (agent_options name) (ap_net p) of
        (Inl err, nw) \<Rightarrow> (Inl err, p\<lparr>ap_net := nw\<rparr>)
      | (Inr client, nw) \<Rightarrow>
          (let p = p\<lparr>ap_net := nw, ap_store := mem_Set agentInstanceKey (Some client) (ap_store p)\<rparr>;
               err = fst (agent_Run AL msgs (agent_New config runtimeEnvs))
           in (Inr err,
               if err = None then p
               else p\<lparr>ap_net := client_Close client (ap_net p), ap_store := mem_Del agentInstanceKey (ap_store p)\<rparr>)))"

section \<open>The standard mode\<close>

text \<open>One round: \<open>elapsed\<close> is how long the controller ran; the second result is \<open>None\<close> while it runs.\<close>

definition default_connect :: "grpc_libs \<Rightarrow> agent_libs \<Rightarrow> agent_config \<Rightarrow> client_config \<Rightarrow>
    int \<times> packet result list \<Rightarrow> agent_proc \<Rightarrow> fn_err option \<times> agent_proc" where
  "default_connect L AL config clientConfig r p =
     (case r of (elapsed, msgs) \<Rightarrow>
        (case serve L AL config clientConfig (cfg_Name config) [] msgs p of
           (Inl _, p) \<Rightarrow> (Some (default_round None), p)
         | (Inr None, p) \<Rightarrow> (None, p)
         | (Inr (Some err), p) \<Rightarrow> (Some (default_round (Some (elapsed, gl_status L err))), p)))"

fun default_rounds :: "grpc_libs \<Rightarrow> agent_libs \<Rightarrow> agent_config \<Rightarrow> client_config \<Rightarrow>
    (int \<times> packet result list) list \<Rightarrow> agent_proc \<Rightarrow> fn_err list \<times> agent_proc" where
  "default_rounds L AL config clientConfig [] p = ([], p)"
| "default_rounds L AL config clientConfig (r # rs) p =
     (case default_connect L AL config clientConfig r p of
        (None, p) \<Rightarrow> ([], p)
      | (Some e, p) \<Rightarrow> (case default_rounds L AL config clientConfig rs p of (es, p) \<Rightarrow> (e # es, p)))"

section \<open>The embedded mode\<close>

definition runAgent :: "grpc_libs \<Rightarrow> agent_libs \<Rightarrow> agent_config \<Rightarrow> client_config \<Rightarrow> string \<Rightarrow>
    string gomap \<Rightarrow> packet result list \<Rightarrow> agent_proc \<Rightarrow> bool \<times> agent_proc" where
  "runAgent L AL config clientConfig connectionName runtimeEnvs msgs p =
     (case serve L AL config clientConfig connectionName runtimeEnvs msgs p of (r, p) \<Rightarrow> (r \<noteq> Inr None, p))"

text \<open>One round of the loop, up to its \<open>Sleep\<close>.\<close>

definition preconnect_round :: "grpc_libs \<Rightarrow> agent_libs \<Rightarrow> agent_config \<Rightarrow> client_config \<Rightarrow>
    preconnect_request \<Rightarrow> string gomap \<Rightarrow> packet result list \<Rightarrow> agent_proc \<Rightarrow> bool \<times> agent_proc" where
  "preconnect_round L AL conf cc req runtimeEnvs msgs p =
     (case PreConnectRPC L cc req (ap_net p) of
        (Inl err, nw) \<Rightarrow> (True, p\<lparr>ap_net := nw\<rparr>)
      | (Inr resp, nw) \<Rightarrow>
          (let p = p\<lparr>ap_net := nw\<rparr> in
           case preconnect_dispatch (pr_Status resp) of
             RunAgent \<Rightarrow> runAgent L AL conf cc (pq_Name req) runtimeEnvs msgs p
           | WaitBackoff \<Rightarrow> (True, p)
           | NotImplemented \<Rightarrow> (True, p)))"

text \<open>The loop; each round says whether its context is done, and what a stream of it delivers.\<close>

fun runAgentController :: "grpc_libs \<Rightarrow> agent_libs \<Rightarrow> agent_config \<Rightarrow> client_config \<Rightarrow>
    preconnect_request \<Rightarrow> string gomap \<Rightarrow> (bool \<times> packet result list) list \<Rightarrow> agent_proc \<Rightarrow> agent_proc" where
  "runAgentController L AL conf cc req runtimeEnvs [] p = p"
| "runAgentController L AL conf cc req runtimeEnvs ((done, msgs) # rounds) p =
     (if done then p
      else case preconnect_round L AL conf cc req runtimeEnvs msgs p of
             (False, p) \<Rightarrow> p
           | (True, p) \<Rightarrow> runAgentController L AL conf cc req runtimeEnvs rounds p)"

section \<open>Starting\<close>

text \<open>
  What \<open>RunV2\<close> and \<open>Run\<close> decide before they loop; a \<open>Fatal\<close> ends the process.  \<open>RunV2\<close> builds the command from the
  variables of its caller and then adds those of the request for the sessions.
\<close>

datatype agent_start =
    Fatal error
  | Embedded agent_config client_config "command option" preconnect_request "string gomap"
  | Standard agent_config client_config

definition defaultUserAgent :: "grpc_libs \<Rightarrow> string" where
  "defaultUserAgent L = ''bifrostagent/'' @ gl_version L ''Version''"

definition RunV2 :: "grpc_libs \<Rightarrow> dsn_libs \<Rightarrow> os_env \<Rightarrow> preconnect_request \<Rightarrow> string gomap \<Rightarrow> string list \<Rightarrow> agent_start" where
  "RunV2 L DL os req runtimeEnvs commandArgs =
     (case config_Load DL os of
        Inl err \<Rightarrow> Fatal err
      | Inr c \<Rightarrow>
          (case GrpcClientConfig DL os c of
             (_, Some err) \<Rightarrow> Fatal err
           | (clientConfig, None) \<Rightarrow>
               Embedded c (clientConfig\<lparr>cc_UserAgent := defaultUserAgent L\<rparr>) (newCommand runtimeEnvs commandArgs)
                 (req\<lparr>pq_Envs := []\<rparr>) (fold (\<lambda>(key, val) envs. gm_set key val envs) (pq_Envs req) runtimeEnvs)))"

definition agent_Run_main :: "grpc_libs \<Rightarrow> dsn_libs \<Rightarrow> os_env \<Rightarrow> agent_start" where
  "agent_Run_main L DL os =
     (case config_Load DL os of
        Inl err \<Rightarrow> Fatal err
      | Inr config \<Rightarrow>
          if cfg_Type config = ModeDsn \<and> cfg_AgentMode config = AgentModeEmbeddedType
          then RunV2 L DL os \<lparr>pq_Name = cfg_Name config, pq_Envs = []\<rparr> [] []
          else (case GrpcClientConfig DL os config of
                  (_, Some err) \<Rightarrow> Fatal err
                | (clientConfig, None) \<Rightarrow> Standard config (clientConfig\<lparr>cc_UserAgent := defaultUserAgent L\<rparr>)))"

section \<open>What the modes leave behind\<close>

text \<open>
  Between two rounds of an agent no controller is registered, and the open connections are those whose stream
  could not be opened: \<open>connectRPC\<close> does not close the connection then.
\<close>

definition leaked :: "grpc_libs \<Rightarrow> (string \<times> string) list \<Rightarrow> network \<Rightarrow> nat \<Rightarrow> bool" where
  "leaked L opts nw c \<longleftrightarrow>
     c < length (nw_dials nw) \<and>
     (case nw_dials nw ! c of (addr, dopts) \<Rightarrow>
        gl_dial L c addr dopts = None \<and> gl_stream L c (call_metadata L dopts (base_options L) opts) \<noteq> None)"

definition settled :: "grpc_libs \<Rightarrow> (string \<times> string) list \<Rightarrow> agent_proc \<Rightarrow> bool" where
  "settled L opts p \<longleftrightarrow>
     mem_wf (ap_store p) \<and> \<not> mem_Has (ap_store p) agentInstanceKey \<and>
     (\<forall>c. c \<in> set (nw_open (ap_net p)) \<longleftrightarrow> leaked L opts (ap_net p) c)"

lemma leaked_append:
  "leaked L opts (nw\<lparr>nw_dials := nw_dials nw @ [(addr, dopts)], nw_open := x\<rparr>) c \<longleftrightarrow>
     leaked L opts nw c \<or>
     c = length (nw_dials nw) \<and> gl_dial L c addr dopts = None \<and> gl_stream L c (call_metadata L dopts (base_options L) opts) \<noteq> None"
  "leaked L opts (nw\<lparr>nw_dials := nw_dials nw @ [(addr, dopts)]\<rparr>) c \<longleftrightarrow>
     leaked L opts nw c \<or>
     c = length (nw_dials nw) \<and> gl_dial L c addr dopts = None \<and> gl_stream L c (call_metadata L dopts (base_options L) opts) \<noteq> None"
  by (auto simp: leaked_def nth_append less_Suc_eq)

lemma leaked_less: "leaked L opts nw c \<Longrightarrow> c < length (nw_dials nw)"
  by (simp add: leaked_def)

text \<open>\<open>Connect\<close> on top of open connections that are all leaked: one more, whose stream works or is leaked.\<close>

lemma connectRPC_open:
  assumes "connectRPC L addr dopts opts nw = (res, nw')" "\<forall>c. c \<in> set (nw_open nw) \<longleftrightarrow> leaked L opts nw c"
  shows "case res of
      Inl _ \<Rightarrow> \<forall>c. c \<in> set (nw_open nw') \<longleftrightarrow> leaked L opts nw' c
    | Inr n \<Rightarrow> \<not> leaked L opts nw' n \<and> (\<forall>c. c \<in> set (nw_open nw') \<longleftrightarrow> leaked L opts nw' c \<or> c = n)"
proof (rule dial_cases [of L addr dopts nw])
  fix err
  assume "DialContext L addr dopts nw = (Inl (''failed dialing to grpc server, err='' @ err), nw\<lparr>nw_dials := nw_dials nw @ [(addr, dopts)]\<rparr>)"
    "gl_dial L (length (nw_dials nw)) addr dopts = Some err"
  then show ?thesis using assms by (auto simp: connectRPC_def leaked_append)
next
  assume "DialContext L addr dopts nw = (Inr (length (nw_dials nw)),
      nw\<lparr>nw_dials := nw_dials nw @ [(addr, dopts)], nw_open := nw_open nw @ [length (nw_dials nw)]\<rparr>)"
    "gl_dial L (length (nw_dials nw)) addr dopts = None"
  then show ?thesis
    using assms leaked_less [of L opts nw "length (nw_dials nw)"]
    by (auto simp: connectRPC_def leaked_append split: option.splits)
qed

lemma grpc_Connect_open:
  assumes "grpc_Connect L cc copts nw = (res, nw')" "\<forall>c. c \<in> set (nw_open nw) \<longleftrightarrow> leaked L (connect_options cc copts) nw c"
  shows "case res of
      Inl _ \<Rightarrow> \<forall>c. c \<in> set (nw_open nw') \<longleftrightarrow> leaked L (connect_options cc copts) nw' c
    | Inr n \<Rightarrow> \<not> leaked L (connect_options cc copts) nw' n \<and>
        (\<forall>c. c \<in> set (nw_open nw') \<longleftrightarrow> leaked L (connect_options cc copts) nw' c \<or> c = n)"
proof (cases "cc_Insecure cc")
  case True
  then show ?thesis using assms connectRPC_open [of L "cc_ServerAddress cc" "insecure_dial cc" "connect_options cc copts" nw]
    by (simp add: grpc_Connect_def)
next
  case False
  then have o: "connect_options cc copts = copts" by (simp add: connect_options_def)
  show ?thesis
  proof (cases "loadTLSCredentials L cc")
    case (Inl e)
    then show ?thesis using assms False by (auto simp: grpc_Connect_def)
  next
    case (Inr cred)
    then show ?thesis using assms False connectRPC_open [of L "cc_ServerAddress cc" "tls_dial cc cred" copts nw]
      unfolding o by (simp add: grpc_Connect_def)
  qed
qed

lemma serve_settled:
  assumes "settled L (connect_options cc (agent_options name)) p" "serve L AL cfg cc name envs msgs p = (r, p')" "r \<noteq> Inr None"
  shows "settled L (connect_options cc (agent_options name)) p'"
proof -
  let ?o = "connect_options cc (agent_options name)"
  obtain res nw where c: "grpc_Connect L cc (agent_options name) (ap_net p) = (res, nw)" by (rule prod.exhaust)
  note opened = grpc_Connect_open [OF c]
  show ?thesis
  proof (cases res)
    case (Inl e)
    with c opened assms show ?thesis by (auto simp: serve_def settled_def)
  next
    case (Inr n)
    obtain err a where run: "agent_Run AL msgs (agent_New cfg envs) = (err, a)" by (rule prod.exhaust)
    from assms(2,3) c Inr run have p': "p' = p\<lparr>ap_net := client_Close n nw,
        ap_store := mem_Del agentInstanceKey (mem_Set agentInstanceKey (Some n) (ap_store p))\<rparr>"
      by (auto simp: serve_def Let_def split: if_splits)
    have cl: "leaked L ?o (client_Close n nw) = leaked L ?o nw" by (simp add: leaked_def client_Close_def fun_eq_iff)
    have "\<forall>c. c \<in> set (nw_open (client_Close n nw)) \<longleftrightarrow> leaked L ?o (client_Close n nw) c"
      unfolding cl using opened assms(1) Inr by (auto simp: settled_def client_Close_def)
    then show ?thesis
      using assms(1) by (simp add: p' settled_def mem_Has_def mem_Del_def mem_Set_def mem_wf_def)
  qed
qed

lemma serve_while_running:
  assumes "serve L AL cfg cc name envs msgs p = (Inr None, p')"
  shows "mem_Has (ap_store p') agentInstanceKey"
  using assms by (auto simp: serve_def Let_def mem_Has_def mem_Set_def split: prod.splits sum.splits if_splits)

lemma default_connect_settled:
  assumes "settled L (connect_options cc (agent_options (cfg_Name cfg))) p"
    "default_connect L AL cfg cc r p = (Some e, p')"
  shows "settled L (connect_options cc (agent_options (cfg_Name cfg))) p'"
proof -
  obtain elapsed msgs where r: "r = (elapsed, msgs)" by (rule prod.exhaust)
  obtain out q where s: "serve L AL cfg cc (cfg_Name cfg) [] msgs p = (out, q)" by (rule prod.exhaust)
  from assms(2) have "p' = q" "out \<noteq> Inr None"
    by (auto simp: default_connect_def r s split: sum.splits option.splits)
  with serve_settled [OF assms(1) s] show ?thesis by simp
qed

lemma default_rounds_settled:
  assumes "settled L (connect_options cc (agent_options (cfg_Name cfg))) p"
    "default_rounds L AL cfg cc rs p = (es, p')" "length es = length rs"
  shows "settled L (connect_options cc (agent_options (cfg_Name cfg))) p'"
  using assms
proof (induction rs arbitrary: p es)
  case Nil
  then show ?case by simp
next
  case (Cons r rs)
  obtain out q where d: "default_connect L AL cfg cc r p = (out, q)" by (rule prod.exhaust)
  obtain fs q' where t: "default_rounds L AL cfg cc rs q = (fs, q')" by (rule prod.exhaust)
  show ?case
  proof (cases out)
    case None
    with d Cons.prems show ?thesis by simp
  next
    case (Some e)
    with d t Cons.prems have "es = e # fs" "p' = q'" by simp_all
    with Cons.prems(3) t have "length fs = length rs" "default_rounds L AL cfg cc rs q = (fs, p')" by simp_all
    then show ?thesis using Cons.IH [of q fs] default_connect_settled [OF Cons.prems(1)] d Some by simp
  qed
qed

lemma first_other_rounds: "default_rounds L AL cfg cc rs p = (es, p') \<Longrightarrow> first_other es = None"
proof (induction rs arbitrary: p es)
  case Nil
  then show ?case by simp
next
  case (Cons r rs)
  obtain out q where d: "default_connect L AL cfg cc r p = (out, q)" by (rule prod.exhaust)
  obtain fs q' where t: "default_rounds L AL cfg cc rs q = (fs, q')" by (rule prod.exhaust)
  show ?case
  proof (cases out)
    case None
    with d Cons.prems show ?thesis by simp
  next
    case (Some e)
    then obtain x where e: "e = default_round x"
      using d by (auto simp: default_connect_def split: prod.splits sum.splits option.splits)
    from Some d t Cons.prems have es: "es = e # fs" "p' = q'" by simp_all
    have "first_other fs = None" using Cons.IH [of q fs] t es by simp
    moreover have "default_round x = NilErr \<or> default_round x = BackoffErr ''''"
      by (auto simp: default_round_def Let_def split: option.split)
    ultimately show ?thesis using es e by auto
  qed
qed

text \<open>
  C24: an agent in standard mode goes on for ever and cleans up behind itself: whatever the connections and the
  streams do, when every round so far has ended the loop has not returned, no controller is registered, and a
  connection is open only if it could be dialled but its stream could not be opened.
\<close>

theorem standard_mode_releases:
  assumes "default_rounds L AL cfg cc rs ap_init = (es, p)" "length es = length rs"
  shows "snd (snd (Exponential2x es)) = None \<and> \<not> mem_Has (ap_store p) agentInstanceKey \<and>
    (\<forall>c. c \<in> set (nw_open (ap_net p)) \<longleftrightarrow> leaked L (connect_options cc (agent_options (cfg_Name cfg))) (ap_net p) c)"
proof -
  have "settled L (connect_options cc (agent_options (cfg_Name cfg))) ap_init"
    by (simp add: settled_def ap_init_def nw_init_def leaked_def mem_Has_def mem_New_def mem_wf_def)
  from default_rounds_settled [OF this assms] first_other_rounds [OF assms(1)] show ?thesis
    using exponential2x_loop_spec [of 0 es] by (simp add: settled_def Exponential2x_def after_failures_0)
qed

section \<open>The embedded mode against the gateway\<close>

lemma preconnect_status_never_understood:
  "preconnect_dispatch (pr_Status (PreConnect ctx)) = NotImplemented"
  by (simp add: PreConnect_def preconnect_dispatch_def split: sum.split)

lemma preconnect_answered:
  assumes "\<forall>n addr opts. gl_dial L n addr opts = None" "\<forall>n md. \<exists>ctx. gl_preconnect L n md req = Inr (PreConnect ctx)"
    "cc_Insecure cc \<or> cc_TLSCA cc = '''' \<or> gl_append_certs L (cc_TLSCA cc)"
  shows "\<exists>ctx d. PreConnectRPC L cc req nw =
    (Inr (PreConnect ctx), nw\<lparr>nw_dials := nw_dials nw @ [d], nw_open := nw_open nw @ [length (nw_dials nw)]\<rparr>)"
proof (cases "cc_Insecure cc")
  case True
  with assms(1,2) show ?thesis
    by (fastforce simp: PreConnectRPC_def DialContext_def Let_def)
next
  case False
  then obtain cred where "loadTLSCredentials L cc = Inr cred"
    using assms(3) by (cases "cc_TLSCA cc = ''''") (simp_all add: loadTLSCredentials_def)
  with False assms(1,2) show ?thesis
    by (fastforce simp: PreConnectRPC_def DialContext_def Let_def)
qed

lemma embedded_rounds:
  assumes "\<forall>n addr opts. gl_dial L n addr opts = None" "\<forall>n md. \<exists>ctx. gl_preconnect L n md req = Inr (PreConnect ctx)"
    "cc_Insecure cc \<or> cc_TLSCA cc = '''' \<or> gl_append_certs L (cc_TLSCA cc)"
    "\<forall>r \<in> set rounds. \<not> fst r" "nw_open (ap_net p) = [0..<length (nw_dials (ap_net p))]"
    "q = runAgentController L AL conf cc req envs rounds p"
  shows "ap_store q = ap_store p \<and> length (nw_dials (ap_net q)) = length (nw_dials (ap_net p)) + length rounds \<and>
    nw_open (ap_net q) = [0..<length (nw_dials (ap_net q))]"
  using assms(4-6)
proof (induction rounds arbitrary: p)
  case Nil
  then show ?case by simp
next
  case (Cons r rounds)
  obtain ctx d where c: "PreConnectRPC L cc req (ap_net p) = (Inr (PreConnect ctx),
      (ap_net p)\<lparr>nw_dials := nw_dials (ap_net p) @ [d], nw_open := nw_open (ap_net p) @ [length (nw_dials (ap_net p))]\<rparr>)"
    using preconnect_answered [OF assms(1-3)] by blast
  let ?p = "p\<lparr>ap_net := (ap_net p)\<lparr>nw_dials := nw_dials (ap_net p) @ [d], nw_open := nw_open (ap_net p) @ [length (nw_dials (ap_net p))]\<rparr>\<rparr>"
  have "preconnect_round L AL conf cc req envs msgs p = (True, ?p)" for msgs
    by (simp add: preconnect_round_def c Let_def preconnect_status_never_understood)
  with Cons.prems have q: "q = runAgentController L AL conf cc req envs rounds ?p" by (cases r) auto
  have "nw_open (ap_net ?p) = [0..<length (nw_dials (ap_net ?p))]" using Cons.prems by simp
  from Cons.IH [OF _ this q] Cons.prems(1) show ?case by simp
qed

text \<open>
  C25: an embedded agent never serves against this gateway, and it exhausts its connections: if every dial succeeds
  and the gateway answers each pre-connect call, then after any number of rounds no controller was ever
  registered, and one more connection is open for every round.
\<close>

theorem embedded_agent_never_serves:
  assumes "\<forall>n addr opts. gl_dial L n addr opts = None" "\<forall>n md. \<exists>ctx. gl_preconnect L n md req = Inr (PreConnect ctx)"
    "cc_Insecure cc \<or> cc_TLSCA cc = '''' \<or> gl_append_certs L (cc_TLSCA cc)" "\<forall>r \<in> set rounds. \<not> fst r"
  shows "ap_store (runAgentController L AL conf cc req envs rounds ap_init) = mem_New \<and>
    nw_open (ap_net (runAgentController L AL conf cc req envs rounds ap_init)) = [0..<length rounds]"
  using embedded_rounds [OF assms(1-4) _ refl, of ap_init AL conf envs]
  by (simp add: ap_init_def nw_init_def)

definition demo_grpc :: grpc_libs where
  "demo_grpc = \<lparr>gl_append_certs = (\<lambda>_. True), gl_dial = (\<lambda>_ _ _. None),
     gl_stream = (\<lambda>n _. if n = 0 then Some ''unavailable'' else None),
     gl_preconnect = (\<lambda>_ md _. Inr (PreConnect (Some md))), gl_status = (\<lambda>_. None),
     gl_oauth = (\<lambda>token. [(''authorization'', ''Bearer '' @ token)]), gl_version = (\<lambda>_. ''1''), gl_os = []\<rparr>"

definition demo_tls :: client_config where
  "demo_tls = \<lparr>cc_ServerAddress = ''gw:8010'', cc_Token = ''test-token-123'', cc_UserAgent = '''', cc_Insecure = False,
     cc_TLSCA = '''', cc_TLSServerName = ''gw''\<rparr>"

theorem embedded_agent_never_serves_witness:
  "ap_store (runAgentController demo_grpc demo_agent_libs demo_cfg demo_tls \<lparr>pq_Name = ''a'', pq_Envs = []\<rparr> []
       [(False, []), (False, [])] ap_init) = mem_New \<and>
   nw_open (ap_net (runAgentController demo_grpc demo_agent_libs demo_cfg demo_tls \<lparr>pq_Name = ''a'', pq_Envs = []\<rparr> []
       [(False, []), (False, [])] ap_init)) = [0..<length [(False, [] :: packet result list), (False, [])]]"
  by (rule embedded_agent_never_serves) (auto simp: demo_grpc_def demo_tls_def)

abbreviation demo_rounds :: "fn_err list \<times> agent_proc" where
  "demo_rounds \<equiv> default_rounds demo_grpc demo_agent_libs demo_cfg demo_tls [(0, []), (0, [Inl ''EOF''])] ap_init"

theorem standard_mode_releases_witness:
  "snd (snd (Exponential2x (fst demo_rounds))) = None \<and> \<not> mem_Has (ap_store (snd demo_rounds)) agentInstanceKey \<and>
   nw_open (ap_net (snd demo_rounds)) = [0]"
proof -
  let ?dial = "(''gw:8010'', tls_dial demo_tls (TLSCreds \<lparr>tls_RootCAs = None, tls_ServerName = ''gw''\<rparr>))"
  let ?p = "\<lparr>ap_net = \<lparr>nw_dials = [?dial], nw_open = [0]\<rparr>, ap_store = mem_New\<rparr>"
  let ?q = "\<lparr>ap_net = \<lparr>nw_dials = [?dial, ?dial], nw_open = [0]\<rparr>,
     ap_store = mem_Del agentInstanceKey (mem_Set agentInstanceKey (Some 1) mem_New)\<rparr>"
  note defs = default_connect_def serve_def grpc_Connect_def demo_tls_def loadTLSCredentials_def connectRPC_def
    DialContext_def ap_init_def nw_init_def demo_grpc_def default_round_def Let_def
  have first: "default_connect demo_grpc demo_agent_libs demo_cfg demo_tls (0, []) ap_init = (Some (BackoffErr ''''), ?p)"
    by (simp add: defs)
  have run: "agent_Run L [Inl err] (agent_New cfg envs) = (Some err, agent_New cfg envs)" for L err cfg envs
    by (subst agent_Run.simps) (simp add: agent_New_def)
  have second: "default_connect demo_grpc demo_agent_libs demo_cfg demo_tls (0, [Inl ''EOF'']) ?p = (Some (BackoffErr ''''), ?q)"
    by (simp add: defs run client_Close_def)
  have rounds: "demo_rounds = ([BackoffErr '''', BackoffErr ''''], ?q)" by (simp add: first second)
  show ?thesis using standard_mode_releases [OF rounds] by (simp only: rounds) simp
qed

end
