(* ===== verification/Replies.thy ===== *)
theory Replies
  imports Gateway_Safety "HOL-Library.Sublist"
begin

text \<open>
  The way back through the gateway: what a client is sent is, in order and without repetition, what the agent
  of its session has sent for that session, as long as every agent only answers for its own sessions.  That
  they do is a property of the agents, proved for the controller where gateway and agents are put together.
\<close>

section \<open>Answers, pending and delivered\<close>

text \<open>What the agent of a session has sent under the session's id, and the one its handler is delivering.\<close>

definition from_agent :: "gateway \<Rightarrow> session_ptr \<Rightarrow> packet list" where
  "from_agent s p =
     filter (\<lambda>pkt. spec_get pkt SpecGatewaySessionID = ses_sessionID (gw_heap s ! p))
       (map snd (filter (\<lambda>(a, pkt). a = ac_stream (ses_agent (gw_heap s ! p))) (gw_rcvd s)))"

definition pending :: "gateway \<Rightarrow> session_ptr \<Rightarrow> packet list" where
  "pending s p =
     (case gw_threads s (ac_stream (ses_agent (gw_heap s ! p))) of
        Some (AgentDeliver a q pkt) \<Rightarrow> if q = p then [pkt] else []
      | _ \<Rightarrow> [])"

definition replies_ok :: "gateway \<Rightarrow> session_ptr \<Rightarrow> bool" where
  "replies_ok s p \<longleftrightarrow> (\<exists>over. from_agent s p = over @ pending s p \<and> subseq (to_client p s) over)"

text \<open>A handler only delivers to sessions that were opened on its own stream.\<close>

definition own_deliveries :: "gateway \<Rightarrow> bool" where
  "own_deliveries s \<longleftrightarrow>
     (\<forall>st a p pkt. gw_threads s st = Some (AgentDeliver a p pkt) \<longrightarrow> st = ac_stream (ses_agent (gw_heap s ! p)))"

definition gw_replies :: "gateway \<Rightarrow> bool" where
  "gw_replies s \<longleftrightarrow> (\<forall>p < length (gw_heap s). replies_ok s p)"

lemma replies_frame:
  assumes "replies_ok s p" "ses_sessionID (gw_heap s' ! p) = ses_sessionID (gw_heap s ! p)"
    "ses_clientStream (gw_heap s' ! p) = ses_clientStream (gw_heap s ! p)"
    "ac_stream (ses_agent (gw_heap s' ! p)) = ac_stream (ses_agent (gw_heap s ! p))"
    "pending s' p = pending s p" "gw_sent s' = gw_sent s @ out" "gw_rcvd s' = gw_rcvd s @ inp"
    "\<And>a x. (a, x) \<in> set out \<Longrightarrow> a \<noteq> ses_clientStream (gw_heap s ! p)"
    "\<And>a x. (a, x) \<in> set inp \<Longrightarrow> a \<noteq> ac_stream (ses_agent (gw_heap s ! p))"
  shows "replies_ok s' p"
proof -
  have "filter (\<lambda>(a, pkt). a = ses_clientStream (gw_heap s ! p)) out = []" using assms(8) by (auto simp: filter_empty_conv)
  then have "to_client p s' = to_client p s" by (simp add: to_client_def assms(3,6))
  moreover have "filter (\<lambda>(a, pkt). a = ac_stream (ses_agent (gw_heap s ! p))) inp = []"
    using assms(9) by (auto simp: filter_empty_conv)
  then have "from_agent s' p = from_agent s p" by (simp add: from_agent_def assms(2,4,7))
  ultimately show ?thesis using assms(1,5) by (simp add: replies_ok_def)
qed

text \<open>A step of the handler of a client, or of a new stream: no agent's handler moves.\<close>

lemma replies_other:
  assumes inv: "gw_inv s" and g: "gw_replies s"
    and thr: "gw_threads s' = (gw_threads s)(st := h)" "\<not> auth_stream (gw_ctx s) True st"
    and heap: "map ses_sessionID (gw_heap s') = map ses_sessionID (gw_heap s)"
      "map ses_clientStream (gw_heap s') = map ses_clientStream (gw_heap s)"
      "map ses_agent (gw_heap s') = map ses_agent (gw_heap s)"
    and logs: "gw_sent s' = gw_sent s @ out" "gw_rcvd s' = gw_rcvd s @ inp"
    and out: "\<And>a x. (a, x) \<in> set out \<Longrightarrow> auth_stream (gw_ctx s) True a"
    and inp: "\<And>a x. (a, x) \<in> set inp \<Longrightarrow> a = st"
  shows "gw_replies s'"
  unfolding gw_replies_def
proof (intro allI impI)
  fix p assume "p < length (gw_heap s')"
  with heap(1) have p: "p < length (gw_heap s)" by (metis length_map)
  have nth: "ses_sessionID (gw_heap s' ! p) = ses_sessionID (gw_heap s ! p)"
    "ses_clientStream (gw_heap s' ! p) = ses_clientStream (gw_heap s ! p)" "ses_agent (gw_heap s' ! p) = ses_agent (gw_heap s ! p)"
    using heap p by (metis length_map nth_map)+
  have ag: "auth_stream (gw_ctx s) True (ac_stream (ses_agent (gw_heap s ! p)))" by (rule gw_inv_nth(3) [OF inv p])
  show "replies_ok s' p"
  proof (rule replies_frame [OF _ nth(1,2) _ _ logs])
    show "replies_ok s p" using g p by (simp add: gw_replies_def)
    show "pending s' p = pending s p" using ag thr nth by (auto simp: pending_def)
    show "a \<noteq> ses_clientStream (gw_heap s ! p)" if "(a, x) \<in> set out" for a x
      using agent_owns_no_session [OF inv out [OF that] p] by simp
    show "a \<noteq> ac_stream (ses_agent (gw_heap s ! p))" if "(a, x) \<in> set inp" for a x
      using inp [OF that] ag thr(2) by auto
  qed (simp add: nth)
qed

lemma client_stream_no_agent:
  assumes "gw_inv s" "p < length (gw_heap s)" "ses_clientStream (gw_heap s ! p) = st"
  shows "\<not> auth_stream (gw_ctx s) True st"
  using agent_owns_no_session [OF assms(1) _ assms(2)] assms(3) by auto

text \<open>A step of the handler of an agent that delivers nothing.\<close>

lemma replies_agent:
  assumes inv: "gw_inv s" and g: "gw_replies s"
    and thr: "gw_threads s' = (gw_threads s)(st \<mapsto> h)" "auth_stream (gw_ctx s) True st"
      "\<And>a p pkt. gw_threads s st \<noteq> Some (AgentDeliver a p pkt)" "\<And>a p pkt. h \<noteq> AgentDeliver a p pkt"
    and same: "gw_heap s' = gw_heap s" "gw_rcvd s' = gw_rcvd s" "gw_sent s' = gw_sent s @ out"
    and out: "\<And>a x. (a, x) \<in> set out \<Longrightarrow> a = st"
  shows "gw_replies s'"
  unfolding gw_replies_def same(1)
proof (intro allI impI)
  fix p assume p: "p < length (gw_heap s)"
  show "replies_ok s' p"
  proof (rule replies_frame [where out = out and inp = "[]"])
    show "replies_ok s p" using g p by (simp add: gw_replies_def)
    show "pending s' p = pending s p"
      using thr by (auto simp: pending_def same(1) split: option.splits handler.splits)
    show "a \<noteq> ses_clientStream (gw_heap s ! p)" if "(a, x) \<in> set out" for a x
      using agent_owns_no_session [OF inv thr(2) p] out [OF that] by simp
  qed (simp_all add: same)
qed

section \<open>The steps\<close>

lemma replies_connect:
  assumes inv: "gw_inv s" and g: "gw_replies s" and new: "gw_ctx s st = None"
  shows "gw_replies (gw_Connect pick st c s)"
proof -
  have same: "gw_heap (gw_Connect pick st c s) = gw_heap s" "gw_sent (gw_Connect pick st c s) = gw_sent s"
      "gw_rcvd (gw_Connect pick st c s) = gw_rcvd s"
      "\<And>st'. st' \<noteq> st \<Longrightarrow> gw_threads (gw_Connect pick st c s) st' = gw_threads s st'"
    by (simp_all add: gw_Connect_def handleAgentConnection_def handleClientConnection_def Let_def split: sum.split)
  have thr: "gw_threads (gw_Connect pick st c s) = (gw_threads s)(st := gw_threads (gw_Connect pick st c s) st)"
    by (rule ext) (simp add: same(4))
  show ?thesis
    by (rule replies_other [OF inv g thr, where out = "[]" and inp = "[]"]) (simp_all add: same new auth_stream_def)
qed

lemma replies_hello:
  assumes inv: "gw_inv s" and g: "gw_replies s" and thr: "gw_threads s (ac_stream a) = Some (AgentHello a)"
  shows "gw_replies (agent_hello r a s)"
proof -
  have st: "auth_stream (gw_ctx s) True (ac_stream a)"
    using gw_inv_handler [OF inv thr] by (simp add: handler_ok_def)
  show ?thesis
    by (rule replies_agent [OF inv g _ st, where h = "case r of None \<Rightarrow> AgentLoop a | Some e \<Rightarrow> AgentDefer a e"
          and out = "case r of None \<Rightarrow> [(ac_stream a, hello_packet)] | Some e \<Rightarrow> []"])
       (auto simp: thr agent_hello_def stream_Send_def split: option.splits)
qed

lemma replies_agent_defer:
  assumes inv: "gw_inv s" and g: "gw_replies s" and thr: "gw_threads s (ac_stream a) = Some (AgentDefer a e)"
  shows "gw_replies (agent_defer a e s)"
proof -
  have st: "auth_stream (gw_ctx s) True (ac_stream a)"
    using gw_inv_handler [OF inv thr] by (simp add: handler_ok_def)
  show ?thesis
    by (rule replies_agent [OF inv g _ st, where h = "Finished e" and out = "[]"]) (simp_all add: thr agent_defer_def)
qed

lemma replies_agent_recv:
  assumes inv: "gw_inv s" and g: "gw_replies s" and thr: "gw_threads s (ac_stream a) = Some (AgentLoop a)"
  shows "gw_replies (agent_recv m a s)"
  unfolding gw_replies_def agent_recv_simps(3) [OF thr]
proof (intro allI impI)
  fix p assume p: "p < length (gw_heap s)"
  note simps = agent_recv_simps [OF thr]
  have ok: "replies_ok s p" using g p by (simp add: gw_replies_def)
  have entry: "q < length (gw_heap s) \<and> ses_sessionID (gw_heap s ! q) = k" if "gm_get (gw_sessions s) k = Some q" for q k
    using inv that by (simp add: gw_inv_def sessions_ok_def)
  have client: "to_client p (agent_recv m a s) = to_client p s" for m by (simp add: to_client_def simps)
  show "replies_ok (agent_recv m a s) p"
  proof (cases "ac_stream (ses_agent (gw_heap s ! p)) = ac_stream a")
    case False
    show ?thesis
      by (rule replies_frame [OF ok, where out = "[]" and inp = "case m of Inl _ \<Rightarrow> [] | Inr pkt \<Rightarrow> [(ac_stream a, pkt)]"])
        (use False in \<open>auto simp: simps pending_def split: sum.splits\<close>)
  next
    case True
    from ok True thr have over: "subseq (to_client p s) (from_agent s p)" by (simp add: replies_ok_def pending_def)
    show ?thesis
    proof (cases m)
      case (Inl e)
      with over True show ?thesis
        by (simp add: replies_ok_def client pending_def simps from_agent_def agent_next_def)
    next
      case (Inr pkt)
      let ?sid = "spec_get pkt SpecGatewaySessionID" and ?own = "ses_sessionID (gw_heap s ! p)"
      have grown: "from_agent (agent_recv m a s) p = from_agent s p @ (if ?sid = ?own then [pkt] else [])"
        using True by (simp add: from_agent_def simps Inr)
      have "pending (agent_recv m a s) p = (if ?sid = ?own \<and> gm_get (gw_sessions s) ?sid = Some p then [pkt] else [])"
        using True entry gw_inv_nth(1) [OF inv p] by (auto simp: pending_def simps agent_next_def Inr split: option.split)
      moreover have "gm_get (gw_sessions s) ?own = Some p" if "gm_get (gw_sessions s) ?own = Some q" for q
        using entry [OF that] that heap_nth_sid [OF gw_inv_heap [OF inv] _ p, of q] by simp
      ultimately show ?thesis
        using over by (cases "gm_get (gw_sessions s) ?own") (auto simp: replies_ok_def client grown)
    qed
  qed
qed

lemma replies_deliver:
  assumes inv: "gw_inv s" and g: "gw_replies s" and own: "own_deliveries s"
    and thr: "gw_threads s (ac_stream a) = Some (AgentDeliver a q pkt)"
  shows "gw_replies (agent_deliver r a q pkt s)"
proof -
  let ?s' = "agent_deliver r a q pkt s"
  have q: "q < length (gw_heap s)" and st: "auth_stream (gw_ctx s) True (ac_stream a)"
    using gw_inv_handler [OF inv thr] by (simp_all add: handler_ok_def)
  have ag: "ac_stream a = ac_stream (ses_agent (gw_heap s ! q))" using own thr by (simp add: own_deliveries_def)
  let ?out = "if ses_closed (gw_heap s ! q) \<or> r \<noteq> None then [] else [(ses_clientStream (gw_heap s ! q), pkt)]"
  have same: "gw_heap ?s' = gw_heap s" "gw_rcvd ?s' = gw_rcvd s" "gw_sent ?s' = gw_sent s @ ?out"
      "gw_threads ?s' = (gw_threads s)(ac_stream a \<mapsto> AgentLoop a)"
    by (auto simp: agent_deliver_def SendToClient_def stream_Send_def split: option.splits)
  show ?thesis
    unfolding gw_replies_def same(1)
  proof (intro allI impI)
    fix p assume p: "p < length (gw_heap s)"
    have ok: "replies_ok s p" using g p by (simp add: gw_replies_def)
    show "replies_ok ?s' p"
    proof (cases "p = q")
      case True
      from ok thr obtain over where "from_agent s q = over @ [pkt]" "subseq (to_client q s) over"
        by (auto simp: replies_ok_def pending_def True ag [symmetric])
      moreover have "to_client q ?s' = to_client q s @ map snd ?out" by (simp add: to_client_def same)
      ultimately show ?thesis
        by (auto simp: True replies_ok_def pending_def from_agent_def same ag [symmetric] intro: subseq_append_iff [THEN iffD2])
    next
      case False
      show ?thesis
      proof (rule replies_frame [OF ok, where out = ?out and inp = "[]"])
        show "pending ?s' p = pending s p" using thr False by (auto simp: pending_def same)
        show "c \<noteq> ses_clientStream (gw_heap s ! p)" if "(c, x) \<in> set ?out" for c x
          using that heap_nth_stream [OF gw_inv_heap [OF inv] q, of p] p False by (auto split: if_splits)
      qed (simp_all add: same)
    qed
  qed
qed

lemma replies_client_recv:
  assumes inv: "gw_inv s" and g: "gw_replies s" and thr: "gw_threads s st = Some (ClientLoop p)"
  shows "gw_replies (client_recv m st p s)"
proof -
  have p: "p < length (gw_heap s)" "ses_clientStream (gw_heap s ! p) = st"
    using gw_inv_handler [OF inv thr] by (simp_all add: handler_ok_def)
  show ?thesis
    by (rule replies_other [OF inv g _ client_stream_no_agent [OF inv p], where out = "[]"
          and inp = "case m of Inl _ \<Rightarrow> [] | Inr pkt \<Rightarrow> [(st, pkt)]"
          and h = "case m of Inl e \<Rightarrow> Some (ClientClosing p e)
            | Inr pkt \<Rightarrow> Some (ClientForward p (stamp (ses_sessionID (gw_heap s ! p)) pkt))"])
      (auto simp: client_recv_def split: sum.splits)
qed

lemma replies_forward:
  assumes inv: "gw_inv s" and g: "gw_replies s" and thr: "gw_threads s st = Some (ClientForward p pkt)"
  shows "gw_replies (client_forward r st p pkt s)"
proof -
  have p: "p < length (gw_heap s)" "ses_clientStream (gw_heap s ! p) = st"
    using gw_inv_handler [OF inv thr] by (simp_all add: handler_ok_def)
  show ?thesis
    by (rule replies_other [OF inv g _ client_stream_no_agent [OF inv p], where inp = "[]"
          and out = "case r of None \<Rightarrow> [(ac_stream (ses_agent (gw_heap s ! p)), pkt)] | Some _ \<Rightarrow> []"
          and h = "case r of None \<Rightarrow> Some (ClientLoop p) | Some e \<Rightarrow> Some (ClientClosing p e)"])
      (use gw_inv_nth(3) [OF inv p(1)] in \<open>auto simp: client_forward_def stream_Send_def split: option.splits\<close>)
qed

lemma replies_close:
  assumes inv: "gw_inv s" and g: "gw_replies s" and thr: "gw_threads s st = Some (ClientClosing p e)"
  shows "gw_replies (client_close st p e s)"
proof -
  have p: "p < length (gw_heap s)" "ses_clientStream (gw_heap s ! p) = st"
    using gw_inv_handler [OF inv thr] by (simp_all add: handler_ok_def)
  have upd: "map f ((gw_heap s)[p := (gw_heap s ! p)\<lparr>ses_closed := True, ses_cancelled := True\<rparr>]) = map f (gw_heap s)"
    if "f ((gw_heap s ! p)\<lparr>ses_closed := True, ses_cancelled := True\<rparr>) = f (gw_heap s ! p)" for f :: "session \<Rightarrow> 'a"
    using that p(1) by (simp add: map_update list_update_same_conv)
  show ?thesis
    by (rule replies_other [OF inv g _ client_stream_no_agent [OF inv p], where inp = "[]" and out = "[]"
          and h = "Some (ClientDelete p e)"])
      (simp_all add: client_close_def Session_Close_def upd)
qed

lemma replies_delete:
  assumes inv: "gw_inv s" and g: "gw_replies s" and thr: "gw_threads s st = Some (ClientDelete p e)"
  shows "gw_replies (client_delete st p e s)"
proof -
  have p: "p < length (gw_heap s)" "ses_clientStream (gw_heap s ! p) = st"
    using gw_inv_handler [OF inv thr] by (simp_all add: handler_ok_def)
  show ?thesis
    by (rule replies_other [OF inv g _ client_stream_no_agent [OF inv p], where inp = "[]" and out = "[]"
          and h = "Some (Finished e)"]) (simp_all add: client_delete_def)
qed

text \<open>A new session: nothing has been sent to its client, and no handler can be delivering to it.\<close>

lemma replies_create:
  assumes inv: "gw_inv s" and g: "gw_replies s" and thr: "gw_threads s st = Some (ClientLookup a)"
  shows "gw_replies (client_create sid st a s)"
proof -
  let ?s' = "client_create sid st a s" and ?n = "length (gw_heap s)"
  have st: "auth_stream (gw_ctx s) False st" "auth_stream (gw_ctx s) True (ac_stream a)"
      "st \<notin> ses_clientStream ` set (gw_heap s)"
    using gw_inv_handler [OF inv thr] by (auto simp: handler_ok_def)
  have no_agent: "\<not> auth_stream (gw_ctx s) True st" using st(1) by (auto simp: auth_stream_def)
  have new: "gw_heap ?s' ! ?n = \<lparr>ses_sessionID = sid, ses_agent = a, ses_clientStream = st,
                     ses_closed = False, ses_cancelled = False\<rparr>"
      "gw_threads ?s' = (gw_threads s)(st \<mapsto> ClientLoop ?n)" "gw_sent ?s' = gw_sent s" "gw_rcvd ?s' = gw_rcvd s"
      "length (gw_heap ?s') = Suc ?n"
    by (simp_all add: client_create_def Let_def)
  have old: "gw_heap ?s' ! p = gw_heap s ! p" if "p < ?n" for p
    using that by (simp add: client_create_def Let_def nth_append)
  have "replies_ok ?s' p" if p: "p < ?n" for p
  proof (rule replies_frame [where out = "[]" and inp = "[]"])
    show "replies_ok s p" using g p by (simp add: gw_replies_def)
    show "pending ?s' p = pending s p"
      using gw_inv_nth(3) [OF inv p] no_agent by (auto simp: pending_def new old [OF p])
  qed (simp_all add: new old [OF p])
  moreover have "replies_ok ?s' ?n"
  proof -
    have "(st, pkt) \<notin> set (gw_sent s)" for pkt
      using inv st by (fastforce simp: gw_inv_def routed_def auth_stream_def)
    then have "to_client ?n ?s' = []" by (auto simp: to_client_def new filter_empty_conv)
    moreover have "gw_threads s (ac_stream a) \<noteq> Some (AgentDeliver b ?n pkt)" for b pkt
      using gw_inv_handler [OF inv, of "ac_stream a" "AgentDeliver b ?n pkt"] by (auto simp: handler_ok_def)
    then have "pending ?s' ?n = []"
      using st(2) no_agent by (auto simp: pending_def new split: option.split handler.split)
    ultimately show ?thesis by (simp add: replies_ok_def)
  qed
  ultimately show ?thesis by (auto simp: gw_replies_def new less_Suc_eq)
qed

lemma gw_replies_step:
  "gw_replies s \<Longrightarrow> gw_inv s \<Longrightarrow> own_deliveries s \<Longrightarrow> gw_step s s' \<Longrightarrow> gw_replies s'"
  by (elim gw_step_cases)
     (auto intro: replies_connect replies_hello replies_agent_recv replies_deliver replies_agent_defer
        replies_create replies_client_recv replies_forward replies_close replies_delete)

lemma gw_replies_init: "gw_replies gw_init"
  by (simp add: gw_replies_def gw_init_def)

section \<open>What is delivered has been received\<close>

definition delivers_received :: "gateway \<Rightarrow> bool" where
  "delivers_received s \<longleftrightarrow>
     (\<forall>st a p pkt. gw_threads s st = Some (AgentDeliver a p pkt) \<longrightarrow> (st, pkt) \<in> set (gw_rcvd s))"

lemma delivers_received_move:
  assumes "delivers_received s" "gw_threads s' = (gw_threads s)(st := h)" "set (gw_rcvd s) \<subseteq> set (gw_rcvd s')"
    "\<And>a p pkt. h = Some (AgentDeliver a p pkt) \<Longrightarrow> (st, pkt) \<in> set (gw_rcvd s')"
  shows "delivers_received s'"
  using assms by (fastforce simp: delivers_received_def split: if_splits)

lemma connect_threads:
  "gw_threads (gw_Connect pick st c s) = (gw_threads s)(st := gw_threads (gw_Connect pick st c s) st)"
  "gw_threads (gw_Connect pick st c s) st \<noteq> Some (AgentDeliver a p pkt)"
  "gw_rcvd (gw_Connect pick st c s) = gw_rcvd s"
  by (auto simp: gw_Connect_def handleAgentConnection_def handleClientConnection_def Let_def split: sum.split)

lemma delivers_received_step: "delivers_received s \<Longrightarrow> gw_step s s' \<Longrightarrow> delivers_received s'"
proof (erule gw_step_cases)
  fix st pick ctx
  assume d: "delivers_received s" and s': "s' = gw_Connect pick st ctx s"
  show "delivers_received s'"
    unfolding s' by (rule delivers_received_move [OF d connect_threads(1)]) (use connect_threads(2) in \<open>auto simp: connect_threads(3)\<close>)
next
  fix a m
  assume d: "delivers_received s" and s': "s' = agent_recv m a s" and thr: "gw_threads s (ac_stream a) = Some (AgentLoop a)"
  show "delivers_received s'"
    unfolding s'
    by (rule delivers_received_move [OF d, where st = "ac_stream a"])
      (auto simp: agent_recv_simps [OF thr] agent_next_def split: sum.splits option.splits if_splits)
qed (fastforce simp: delivers_received_def gw_ops Let_def split: option.splits sum.splits if_splits)+

end
