(* ===== verification/Agent_Types.thy ===== *)
theory Agent_Types
  imports Agent_Safety
begin

text \<open>
  The types of the values in the agent's connection store.  The store holds values of any type
  (\<open>src/common/memory\<close>), and every read is a type assertion that yields nothing for a value of another type
  (\<open>connectionParams\<close>, \<open>conn_writer\<close>, \<open>as_proxy\<close>).  The keys decide: a key that starts with \<open>cmd:\<close> or \<open>exec:\<close> belongs
  to a command, any other with a colon to a connection, and one without a colon to a session.
\<close>

section \<open>A typing of the store\<close>

definition key_owner :: "string \<Rightarrow> string" where
  "key_owner key = takeWhile (\<lambda>c. c \<noteq> CHR '':'') key"

definition value_typed :: "string \<Rightarrow> store_obj option \<Rightarrow> bool" where
  "value_typed key v \<longleftrightarrow>
     (if CHR '':'' \<notin> set key then \<exists>p. v = Some (ConnParams p)
      else if key_owner key = ''cmd'' \<or> key_owner key = ''exec'' then \<exists>t. v = Some (NoopProxy t)
      else is_closer v)"

text \<open>The session ids that a gateway makes have no colon and are none of the two words that keys start with.\<close>

definition plain_sid :: "string \<Rightarrow> bool" where
  "plain_sid sid \<longleftrightarrow> CHR '':'' \<notin> set sid \<and> sid \<noteq> ''cmd'' \<and> sid \<noteq> ''exec''"

lemma key_owner_simps [simp]:
  "CHR '':'' \<notin> set sid \<Longrightarrow> key_owner (connection_key sid c) = sid" "key_owner (cmdStoreKey sid) = ''cmd''"
  "key_owner (execStoreKey sid) = ''exec''"
  by (simp_all add: key_owner_def connection_key_def cmdStoreKey_def execStoreKey_def takeWhile_append)

lemma key_colon [simp]:
  "CHR '':'' \<in> set (connection_key sid c)" "CHR '':'' \<in> set (cmdStoreKey sid)" "CHR '':'' \<in> set (execStoreKey sid)"
  by (simp_all add: connection_key_def cmdStoreKey_def execStoreKey_def)

definition store_typed :: "agent \<Rightarrow> bool" where
  "store_typed a \<longleftrightarrow>
     mem_wf (ag_connStore a) \<and> (\<forall>k v. mem_entry (ag_connStore a) k = Some v \<longrightarrow> value_typed k v)"

text \<open>A step keeps the typing.\<close>

named_theorems typed_intros \<open>steps that keep the store typed\<close>

lemma typed_Send [typed_intros]: "store_typed a \<Longrightarrow> store_typed (client_Send q a)"
  by (simp add: store_typed_def client_Send_def)

lemma typed_Set [typed_intros]: "store_typed a \<Longrightarrow> value_typed key (Some obj) \<Longrightarrow> store_typed (store_Set key obj a)"
  by (auto simp: store_typed_def store_Set_def ms.entry_set ms.wf_set split: if_splits)

lemma typed_Del [typed_intros]: "store_typed a \<Longrightarrow> store_typed (store_Del key a)"
  by (auto simp: store_typed_def store_Del_def ms.entry_del ms.wf_del split: if_splits)

lemma typed_Close [typed_intros]: "store_typed a \<Longrightarrow> store_typed (obj_Close key a)"
  by (simp add: store_typed_def obj_Close_def)

lemma typed_task [typed_intros]: "store_typed a \<Longrightarrow> store_typed (a\<lparr>ag_tasks := ts\<rparr>)"
  by (simp add: store_typed_def)

lemma typed_crash [typed_intros]: "store_typed a \<Longrightarrow> store_typed (a\<lparr>ag_crashed := c\<rparr>)"
  by (simp add: store_typed_def)

lemma typed_Write [typed_intros]: "store_typed a \<Longrightarrow> store_typed (snd (obj_Write L key obj p a))"
  by (auto simp: store_typed_def obj_Write_def Let_def split: store_obj.splits option.splits)

lemma typed_answers [typed_intros]:
  "store_typed a \<Longrightarrow> store_typed (sendClientSessionCloseWithExitCode sid m c a)"
  "store_typed a \<Longrightarrow> store_typed (sendClientSessionClose sid m a)"
  "store_typed a \<Longrightarrow> store_typed (sendCloseTerm sid m c a)"
  "store_typed a \<Longrightarrow> store_typed (sendClientTCPConnectionClose sid c a)"
  "store_typed a \<Longrightarrow> store_typed (refuse_session sid m a)"
  "store_typed a \<Longrightarrow> store_typed (streamWriter_Write t spec d a)"
  by (simp_all add: sendClientSessionCloseWithExitCode_def sendClientSessionClose_def sendCloseTerm_def
      sendClientTCPConnectionClose_def refuse_session_def streamWriter_Write_def typed_Send)

lemma typed_drop_closers [typed_intros]: "store_typed a \<Longrightarrow> store_typed (drop_closers P a)"
  by (auto simp: store_typed_def drop_closers_wf drop_closers_entry split: option.splits if_splits)

lemma typed_values [simp]:
  "value_typed (connection_key sid c) (Some (NoopProxy t))"
  "plain_sid sid \<Longrightarrow> value_typed (connection_key sid c) (Some (TCPConn d))"
  "value_typed (execStoreKey sid) (Some (NoopProxy t))" "value_typed (cmdStoreKey sid) (Some (NoopProxy t))"
  "plain_sid sid \<Longrightarrow> value_typed sid (Some (ConnParams p))"
proof -
  show "value_typed (connection_key sid c) (Some (NoopProxy t))"
    by (simp add: value_typed_def is_closer_def)
  show "plain_sid sid \<Longrightarrow> value_typed (connection_key sid c) (Some (TCPConn d))"
    by (simp add: value_typed_def is_closer_def plain_sid_def)
  show "value_typed (execStoreKey sid) (Some (NoopProxy t))" "value_typed (cmdStoreKey sid) (Some (NoopProxy t))"
    by (simp_all add: value_typed_def is_closer_def)
  show "plain_sid sid \<Longrightarrow> value_typed sid (Some (ConnParams p))"
    by (simp add: value_typed_def plain_sid_def)
qed

section \<open>The handlers\<close>

locale typed_handler =
  fixes handle :: "packet \<Rightarrow> agent \<Rightarrow> agent"
  assumes handle_typed: "plain_sid (spec_get pkt SpecGatewaySessionID) \<Longrightarrow> store_typed a \<Longrightarrow> store_typed (handle pkt a)"
begin

lemma handle_all_typed:
  "\<forall>pkt \<in> set pkts. plain_sid (spec_get pkt SpecGatewaySessionID) \<Longrightarrow> store_typed a \<Longrightarrow> store_typed (fold handle pkts a)"
  by (induction pkts arbitrary: a) (auto intro: handle_typed)

end

lemma write_open_conn_typed [typed_intros]: "store_typed a \<Longrightarrow> store_typed (write_open_conn L sid key obj pkt f a)"
  by (auto simp: write_open_conn_def case_prod_beta intro!: typed_intros split: handler_splits)

lemma write_tcp_conn_typed [typed_intros]: "store_typed a \<Longrightarrow> store_typed (write_tcp_conn L sid key obj pkt f a)"
  by (auto simp: write_tcp_conn_def case_prod_beta intro!: typed_intros split: handler_splits)

lemma start_db_proxy_typed [typed_intros]:
  "store_typed a \<Longrightarrow> store_typed (start_db_proxy L t sid (connection_key sid c) opts pkt a)"
  by (auto simp: start_db_proxy_def new_proxy_def noop_Run_def Let_def intro!: typed_intros)

lemma start_ssh_proxy_typed [typed_intros]:
  "store_typed a \<Longrightarrow> store_typed (start_ssh_proxy L sid (connection_key sid c) opts pkt a)"
  by (auto simp: start_ssh_proxy_def new_proxy_def noop_Run_def Let_def case_prod_beta intro!: typed_intros split: handler_splits)

lemma answer_command_typed [typed_intros]: "store_typed a \<Longrightarrow> store_typed (answer_command t spec sid r a)"
  by (auto simp: answer_command_def Let_def case_prod_beta intro!: typed_intros split: handler_splits)

interpretation pgt: typed_handler "processPGProtocol L" for L
  by unfold_locales (auto simp: processPGProtocol_def Let_def intro!: typed_intros split: handler_splits)

interpretation mssqlt: typed_handler "processMSSQLProtocol L" for L
  by unfold_locales (auto simp: processMSSQLProtocol_def Let_def intro!: typed_intros split: handler_splits)

interpretation mysqlt: typed_handler "processMySQLProtocol L" for L
  by unfold_locales (auto simp: processMySQLProtocol_def Let_def intro!: typed_intros split: handler_splits)

interpretation mongodbt: typed_handler "processMongoDBProtocol L" for L
  by unfold_locales (auto simp: processMongoDBProtocol_def Let_def intro!: typed_intros split: handler_splits)

interpretation ssht: typed_handler "processSSHProtocol L" for L
  by unfold_locales (auto simp: processSSHProtocol_def Let_def intro!: typed_intros split: handler_splits)

interpretation tcpt: typed_handler "processTCPWriteServer L" for L
  by unfold_locales (auto simp: processTCPWriteServer_def newTCPConn_def Let_def intro!: typed_intros split: handler_splits)

interpretation httpproxyt: typed_handler "processHttpProxyWriteServer L" for L
  by unfold_locales (auto simp: processHttpProxyWriteServer_def new_proxy_def Let_def intro!: typed_intros split: handler_splits)

interpretation terminalt: typed_handler "doTerminalWriteAgentStdin L" for L
  by unfold_locales
     (auto simp: doTerminalWriteAgentStdin_def new_proxy_def noop_Run_def Let_def case_prod_beta intro!: typed_intros split: handler_splits)

interpretation exect: typed_handler "doExec L" for L
  by unfold_locales (auto simp: doExec_def new_proxy_def noop_Run_def Let_def intro!: typed_intros split: handler_splits)

interpretation session_closet: typed_handler processSessionClose
  by unfold_locales (auto simp: processSessionClose_def sessionCleanup_def Let_def intro!: typed_intros)

interpretation tcp_closet: typed_handler processTCPCloseConnection
  by unfold_locales (auto simp: processTCPCloseConnection_def Let_def intro!: typed_intros)

lemma decode_typed: "store_typed a \<Longrightarrow> store_typed (snd (decodeConnectionParams L pkt a))"
  by (auto simp: decodeConnectionParams_def Let_def intro!: typed_intros split: outcome.splits handler_splits)

lemma build_typed: "store_typed a \<Longrightarrow> store_typed (snd (buildConnectionParams L pkt a))"
  using decode_typed [of a L pkt]
  by (auto simp: buildConnectionParams_def Let_def case_prod_beta split: option.splits)

interpretation session_opent: typed_handler "processSessionOpen L" for L
proof unfold_locales
  fix pkt a
  assume sid: "plain_sid (spec_get pkt SpecGatewaySessionID)" and a: "store_typed a"
  obtain r b where b: "buildConnectionParams L pkt a = (r, b)" by (cases "buildConnectionParams L pkt a")
  then have t: "store_typed b" using build_typed [OF a, of L pkt] by simp
  show "store_typed (processSessionOpen L pkt a)"
    using t sid by (auto simp: processSessionOpen_def Let_def b intro!: typed_intros split: sum.splits)
qed

lemmas handlers_typed = session_opent.handle_typed exect.handle_typed pgt.handle_typed mysqlt.handle_typed
  mssqlt.handle_typed mongodbt.handle_typed tcpt.handle_typed httpproxyt.handle_typed ssht.handle_typed
  terminalt.handle_typed session_closet.handle_typed tcp_closet.handle_typed

lemma sends_typed: "store_typed a \<Longrightarrow> store_typed (fold client_Send qs a)"
  by (induction qs arbitrary: a) (auto intro: typed_Send)

lemma typed_system [typed_intros]: "store_typed a \<Longrightarrow> store_typed (a\<lparr>ag_system := rs\<rparr>)"
  by (simp add: store_typed_def)

interpretation dispatcht: typed_handler "dispatch L" for L
  by unfold_locales (simp add: dispatch_def Let_def handlers_typed typed_system doTerminalResizeTTY_def)

lemma fold_stream_typed: "store_typed a \<Longrightarrow> store_typed (fold (streamWriter_Write t spec) chunks a)"
  by (induction chunks arbitrary: a) (auto intro: typed_intros)

lemma run_task_typed: "store_typed a \<Longrightarrow> store_typed (run_task L chunks copyErr t a)"
  by (cases t)
    (auto simp: run_task_def run_open_task_def run_tcp_task_def Let_def case_prod_beta intro!: typed_intros fold_stream_typed
      split: option.splits if_splits)

section \<open>What the handlers find\<close>

text \<open>In a typed store a lookup finds every value under the keys of its kind.\<close>

lemma store_typed_finds:
  assumes "store_typed a" "plain_sid sid"
  shows "mem_Has (ag_connStore a) sid \<longleftrightarrow> connectionParams sid a \<noteq> None"
    and "mem_Has (ag_connStore a) (connection_key sid conn) \<longleftrightarrow> conn_writer (connection_key sid conn) a \<noteq> None"
    and "mem_Has (ag_connStore a) (cmdStoreKey sid) \<longleftrightarrow> as_proxy (mem_Get (ag_connStore a) (cmdStoreKey sid)) \<noteq> None"
proof -
  have typed: "value_typed k v" if "mem_entry (ag_connStore a) k = Some v" for k v
    using assms(1) that by (simp add: store_typed_def)
  note lookup = mem_Has_def mem_entry_def mem_Get_def
  show "mem_Has (ag_connStore a) sid \<longleftrightarrow> connectionParams sid a \<noteq> None"
    using typed [of sid] assms(2)
    by (auto simp: value_typed_def plain_sid_def lookup connectionParams_def split: option.splits)
  show "mem_Has (ag_connStore a) (connection_key sid conn) \<longleftrightarrow> conn_writer (connection_key sid conn) a \<noteq> None"
    using typed [of "connection_key sid conn"] assms(2)
    by (auto simp: value_typed_def plain_sid_def lookup conn_writer_def is_closer_def Let_def split: option.splits)
  show "mem_Has (ag_connStore a) (cmdStoreKey sid) \<longleftrightarrow> as_proxy (mem_Get (ag_connStore a) (cmdStoreKey sid)) \<noteq> None"
    using typed [of "cmdStoreKey sid"]
    by (auto simp: value_typed_def lookup as_proxy_def split: option.splits)
qed

end
