(* ===== verification/Controller.thy ===== *)
theory Controller
  imports Agent_Types Provisioner_Safety
begin

text \<open>
  A controller with everything that runs beside it: the loop of \<open>Run\<close> in \<open>src/agent/controller/agent.go\<close>, the
  goroutines that the handlers start, and those of the provisioner and the runbook hooks
  (\<open>src/agent/controller/system\<close>), which \<open>Run\<close> only starts.  They interleave in any way; a provisioning request
  moves by one operation on the lock store at a time, and what it sends goes out on the controller's stream.

  The store of locks belongs to the process.  Requests from other connections of the same process may hold locks
  when a controller starts, and may take and release them at any time.  A panic anywhere ends the process.
\<close>

section \<open>Steps\<close>

abbreviation sid_of :: "packet \<Rightarrow> string" where
  "sid_of pkt \<equiv> spec_get pkt SpecGatewaySessionID"

record controller =
  ct_agent :: agent
  ct_system :: prov_state

definition controller_New :: "agent_config \<Rightarrow> string gomap \<Rightarrow> unit store \<Rightarrow> controller" where
  "controller_New cfg envs locks = \<lparr>ct_agent = agent_New cfg envs, ct_system = prov_init\<lparr>ps_store := locks\<rparr>\<rparr>"

definition ctl_handle :: "agent_libs \<Rightarrow> packet \<Rightarrow> controller \<Rightarrow> controller" where
  "ctl_handle L pkt c = c\<lparr>ct_agent := agent_handle L pkt (ct_agent c)\<rparr>"

definition ctl_task :: "agent_libs \<Rightarrow> string list \<Rightarrow> error option \<Rightarrow> task \<Rightarrow> task list \<Rightarrow> controller \<Rightarrow> controller" where
  "ctl_task L chunks copyErr t rest c = c\<lparr>ct_agent := run_task L chunks copyErr t ((ct_agent c)\<lparr>ag_tasks := rest\<rparr>)\<rparr>"

text \<open>The goroutine of a system request gets to run: a provisioning request starts, a hook runs and answers.\<close>

definition ctl_request :: "sys_libs \<Rightarrow> packet \<Rightarrow> packet list \<Rightarrow> controller \<Rightarrow> controller" where
  "ctl_request S pkt rest c =
     (let a = (ct_agent c)\<lparr>ag_system := rest\<rparr> in
      if pkt_Type pkt = system_ProvisionDBRolesRequest
      then \<lparr>ct_agent = a, ct_system = ProcessDBProvisionerRequest pkt (ct_system c)\<rparr>
      else c\<lparr>ct_agent := fold client_Send (hook_processRequest S pkt) a\<rparr>)"

definition ctl_provision :: "sys_libs \<Rightarrow> nat \<Rightarrow> controller \<Rightarrow> controller" where
  "ctl_provision S i c =
     (let s = prov_step S i (ct_system c); sent = drop (length (ps_sent (ct_system c))) (ps_sent s) in
      \<lparr>ct_agent = (fold client_Send sent (ct_agent c))\<lparr>ag_crashed := ps_crashed s\<rparr>, ct_system = s\<rparr>)"

inductive ctl_run :: "agent_libs \<Rightarrow> sys_libs \<Rightarrow> controller \<Rightarrow> controller \<Rightarrow> bool" for L S where
  task: "\<not> ag_crashed (ct_agent c) \<Longrightarrow> ag_tasks (ct_agent c) = before @ t # after
    \<Longrightarrow> ctl_run L S c (ctl_task L chunks copyErr t (before @ after) c)"
| request: "\<not> ag_crashed (ct_agent c) \<Longrightarrow> ag_system (ct_agent c) = before @ pkt # after
    \<Longrightarrow> ctl_run L S c (ctl_request S pkt (before @ after) c)"
| provision: "\<not> ag_crashed (ct_agent c) \<Longrightarrow> i < length (ps_threads (ct_system c)) \<Longrightarrow> ctl_run L S c (ctl_provision S i c)"
| other_locks: "ctl_run L S c (c\<lparr>ct_system := (ct_system c)\<lparr>ps_store := locks\<rparr>\<rparr>)"

inductive_cases ctl_run_cases: "ctl_run L S c c'"

text \<open>The states of a controller that has handled the given packets, in order.\<close>

inductive ctl_exec :: "agent_libs \<Rightarrow> sys_libs \<Rightarrow> packet list \<Rightarrow> controller \<Rightarrow> bool" for L S where
  start: "ctl_exec L S [] (controller_New cfg envs locks)"
| handle: "ctl_exec L S pkts c \<Longrightarrow> \<not> ag_crashed (ct_agent c) \<Longrightarrow> ctl_exec L S (pkts @ [pkt]) (ctl_handle L pkt c)"
| run: "ctl_exec L S pkts c \<Longrightarrow> ctl_run L S c c' \<Longrightarrow> ctl_exec L S pkts c'"

section \<open>Whose packets they are\<close>

text \<open>
  An answer to a packet names the session of the packet, or, for a provisioning request, the session that is
  named in its body.
\<close>

definition answers :: "sys_libs \<Rightarrow> packet \<Rightarrow> packet \<Rightarrow> bool" where
  "answers S pkt q \<longleftrightarrow> sid_of q = sid_of pkt \<or>
     pkt_Type pkt = system_ProvisionDBRolesRequest \<and> (\<exists>req. sy_json_request S (payload_str pkt) = Inr req \<and> sid_of q = dp_SID req)"

definition names_own :: "sys_libs \<Rightarrow> packet \<Rightarrow> bool" where
  "names_own S pkt \<longleftrightarrow> (\<forall>req. pkt_Type pkt = system_ProvisionDBRolesRequest \<longrightarrow> sy_json_request S (payload_str pkt) = Inr req
     \<longrightarrow> dp_SID req = sid_of pkt)"

lemma answers_own: "answers S pkt q \<Longrightarrow> names_own S pkt \<Longrightarrow> sid_of q = sid_of pkt"
  by (auto simp: answers_def names_own_def)

text \<open>All work that is still to be done, and all that is sent, goes back to one of the packets \<open>H\<close>.\<close>

definition pc_from :: "sys_libs \<Rightarrow> packet set \<Rightarrow> prov_pc \<Rightarrow> bool" where
  "pc_from S H pc \<longleftrightarrow>
     (let asked = (\<lambda>sid req. \<exists>pkt \<in> H. pkt_Type pkt = system_ProvisionDBRolesRequest \<and> sid = sid_of pkt
                     \<and> sy_json_request S (payload_str pkt) = Inr req) in
      case pc of
        PStart pkt \<Rightarrow> pkt \<in> H \<and> pkt_Type pkt = system_ProvisionDBRolesRequest
      | PMark sid req \<Rightarrow> asked sid req
      | PWork sid req \<Rightarrow> asked sid req
      | _ \<Rightarrow> True)"

definition work_of :: "sys_libs \<Rightarrow> packet set \<Rightarrow> controller \<Rightarrow> bool" where
  "work_of S H c \<longleftrightarrow>
     (\<forall>t \<in> set (ag_tasks (ct_agent c)). \<exists>pkt \<in> H. task_local (sid_of pkt) t) \<and>
     set (ag_system (ct_agent c)) \<subseteq> H \<and> (\<forall>pc \<in> set (ps_threads (ct_system c)). pc_from S H pc)"

definition sends_for :: "sys_libs \<Rightarrow> packet set \<Rightarrow> packet list \<Rightarrow> packet list \<Rightarrow> bool" where
  "sends_for S H qs qs' \<longleftrightarrow> (\<exists>new. qs' = qs @ new \<and> (\<forall>q \<in> set new. \<exists>pkt \<in> H. answers S pkt q))"

lemma sends_for_refl [simp]: "sends_for S H qs qs"
  by (simp add: sends_for_def)

lemma sends_for_trans: "sends_for S H qs rs \<Longrightarrow> sends_for S H rs ts \<Longrightarrow> sends_for S H qs ts"
  by (auto simp: sends_for_def)

lemma pc_from_simps [simp]:
  "pc_from S H (PStart pkt) \<longleftrightarrow> pkt \<in> H \<and> pkt_Type pkt = system_ProvisionDBRolesRequest"
  "pc_from S H (PMark sid req) \<longleftrightarrow> pc_from S H (PWork sid req)"
  "pc_from S H (PRelease key)" "pc_from S H PEnd"
  by (simp_all add: pc_from_def)

lemma pc_from_mono: "pc_from S H pc \<Longrightarrow> H \<subseteq> H' \<Longrightarrow> pc_from S H' pc"
  by (cases pc) (auto simp: pc_from_def Let_def)

lemma work_of_mono: "work_of S H c \<Longrightarrow> H \<subseteq> H' \<Longrightarrow> work_of S H' c"
  unfolding work_of_def using pc_from_mono by blast

lemma fold_send [simp]:
  "ag_sent (fold client_Send qs a) = ag_sent a @ qs" "ag_tasks (fold client_Send qs a) = ag_tasks a"
  "ag_system (fold client_Send qs a) = ag_system a" "ag_crashed (fold client_Send qs a) = ag_crashed a"
  by (induction qs arbitrary: a) (simp_all add: client_Send_def)

text \<open>A step on behalf of one session that a packet of \<open>H\<close> names.\<close>

lemma local_work:
  assumes "session_local (sid_of pkt) a b" "pkt \<in> H" "work_of S H c" "set (ag_tasks a) \<subseteq> set (ag_tasks (ct_agent c))"
    "ag_system a = ag_system (ct_agent c)" "ag_sent a = ag_sent (ct_agent c)" "set (ag_system b) \<subseteq> H"
  shows "work_of S H (c\<lparr>ct_agent := b\<rparr>)" and "sends_for S H (ag_sent (ct_agent c)) (ag_sent b)"
proof -
  from assms(1) obtain ts where ts: "ag_tasks b = ag_tasks a @ ts" "\<forall>t \<in> set ts. task_local (sid_of pkt) t"
    by (auto simp: session_local_def)
  have "\<exists>pkt \<in> H. task_local (sid_of pkt) t" if "t \<in> set (ag_tasks b)" for t
    using that ts assms(2-4) by (auto simp: work_of_def)
  then show "work_of S H (c\<lparr>ct_agent := b\<rparr>)" using assms(3,7) by (simp add: work_of_def)
  from assms(1) obtain new where "ag_sent b = ag_sent a @ new" "\<forall>q \<in> set new. sid_of q = sid_of pkt"
    by (auto simp: session_local_def)
  then show "sends_for S H (ag_sent (ct_agent c)) (ag_sent b)"
    using assms(2,6) by (auto simp: sends_for_def answers_def)
qed

lemma system_reply: "q \<in> set (hook_processRequest S pkt) \<Longrightarrow> sid_of q = sid_of pkt"
  by (auto simp: hook_processRequest_def hook_sendResponse_def new_proxy_def noop_Run_def hook_newError_def
      gm_str_def gm_get_Cons Let_def split: sum.splits)

lemma ctl_handle_work:
  assumes "work_of S H c"
  shows "work_of S (insert pkt H) (ctl_handle L pkt c)" (is ?work)
    and "sends_for S (insert pkt H) (ag_sent (ct_agent c)) (ag_sent (ct_agent (ctl_handle L pkt c)))" (is ?sends)
proof -
  note more = work_of_mono [OF assms subset_insertI, of pkt]
  have "?work \<and> ?sends"
  proof (cases "ag_crashed (ct_agent c)")
    case True
    then show ?thesis using more by (simp add: ctl_handle_def agent_handle_def work_of_def)
  next
    case live: False
    show ?thesis
    proof (cases "is_system pkt")
      case True
      then show ?thesis using more live by (simp add: ctl_handle_def agent_handle_def dispatch_system work_of_def)
    next
      case False
      have loc: "session_local (sid_of pkt) (ct_agent c) (dispatch L pkt (ct_agent c))" by (rule dispatch_local [OF False])
      then have "set (ag_system (dispatch L pkt (ct_agent c))) \<subseteq> insert pkt H"
        using more by (simp add: session_local_def work_of_def)
      from local_work [OF loc insertI1 more order_refl refl refl this] live show ?thesis
        by (simp add: ctl_handle_def agent_handle_def)
    qed
  qed
  then show ?work ?sends by simp_all
qed

lemma ctl_provision_work:
  assumes "work_of S H c" "i < length (ps_threads (ct_system c))"
  shows "work_of S H (ctl_provision S i c) \<and> sends_for S H (ag_sent (ct_agent c)) (ag_sent (ct_agent (ctl_provision S i c)))"
proof -
  let ?s = "ct_system c"
  have pc: "pc_from S H (ps_threads ?s ! i)" and all: "\<forall>pc \<in> set (ps_threads ?s). pc_from S H pc"
    using assms by (simp_all add: work_of_def)
  have goto: "\<forall>pc \<in> set ((ps_threads ?s)[i := pc']). pc_from S H pc" if "pc_from S H pc'" for pc'
    using all that set_update_subset_insert [of "ps_threads ?s" i pc'] by auto
  have step: "(\<forall>pc \<in> set (ps_threads (prov_step S i ?s)). pc_from S H pc) \<and> sends_for S H (ps_sent ?s) (ps_sent (prov_step S i ?s))"
  proof (cases "ps_crashed ?s")
    case True
    then show ?thesis using all by (simp add: prov_step_def)
  next
    case live: False
    note defs = live prov_step_def prov_goto_def prov_sendResponse_def sends_for_def answers_def Let_def
    show ?thesis
    proof (cases "ps_threads ?s ! i")
      case (PStart pkt)
      with pc have pkt: "pkt \<in> H" "pkt_Type pkt = system_ProvisionDBRolesRequest" by simp_all
      show ?thesis
      proof (cases "sy_json_request S (payload_str pkt)")
        case (Inl err)
        with PStart pkt goto [of PEnd] show ?thesis by (auto simp: defs pbs_NewError_def)
      next
        case (Inr req)
        with pkt have "pc_from S H (PMark (sid_of pkt) req)" by (auto simp: pc_from_def)
        with Inr PStart pkt goto [of PEnd] goto [of "PMark (sid_of pkt) req"] show ?thesis
          by (auto simp: defs pbs_NewError_def busy_response_def)
      qed
    next
      case (PMark sid req)
      with pc goto [of "PWork sid req"] show ?thesis by (simp add: defs)
    next
      case (PWork sid req)
      obtain res sql saved where r: "provision S sid req = Ret (res, sql, saved)" using provision_returns by blast
      have "pc_from S H (PWork sid req)" using pc PWork by simp
      then obtain pkt where "pkt \<in> H" "pkt_Type pkt = system_ProvisionDBRolesRequest" "sid = sid_of pkt"
        "sy_json_request S (payload_str pkt) = Inr req" by (auto simp: pc_from_def)
      with r PWork goto [of "PRelease (lockResourceID req)"] provision_SID [OF r] show ?thesis
        by (auto simp: defs)
    next
      case (PRelease key)
      with goto [of PEnd] show ?thesis by (simp add: defs)
    next
      case PEnd
      with all show ?thesis by (simp add: defs)
    qed
  qed
  then obtain new where new: "ps_sent (prov_step S i ?s) = ps_sent ?s @ new" "\<forall>q \<in> set new. \<exists>pkt \<in> H. answers S pkt q"
    by (auto simp: sends_for_def)
  then show ?thesis using step assms(1) by (auto simp: ctl_provision_def work_of_def sends_for_def Let_def)
qed

lemma ctl_run_work:
  assumes "work_of S H c" "ctl_run L S c c'"
  shows "work_of S H c' \<and> sends_for S H (ag_sent (ct_agent c)) (ag_sent (ct_agent c'))"
  using assms(2)
proof (rule ctl_run_cases)
  fix before t "after" chunks copyErr
  assume c': "c' = ctl_task L chunks copyErr t (before @ after) c" and t: "ag_tasks (ct_agent c) = before @ t # after"
  let ?a = "(ct_agent c)\<lparr>ag_tasks := before @ after\<rparr>"
  from t assms(1) obtain pkt where pkt: "pkt \<in> H" "task_local (sid_of pkt) t" by (auto simp: work_of_def)
  note loc = task_local_run [OF pkt(2), of ?a L chunks copyErr]
  have "set (ag_system (run_task L chunks copyErr t ?a)) \<subseteq> H" using loc assms(1) by (simp add: session_local_def work_of_def)
  from local_work [OF loc pkt(1) assms(1) _ _ _ this] t c' show ?thesis by (auto simp: ctl_task_def)
next
  fix before pkt "after"
  assume c': "c' = ctl_request S pkt (before @ after) c" and r: "ag_system (ct_agent c) = before @ pkt # after"
  from r assms(1) have pkt: "pkt \<in> H" by (auto simp: work_of_def)
  show ?thesis
  proof (cases "pkt_Type pkt = system_ProvisionDBRolesRequest")
    case True
    then show ?thesis using c' r pkt assms(1)
      by (auto simp: ctl_request_def work_of_def ProcessDBProvisionerRequest_def pc_from_def)
  next
    case False
    then show ?thesis using c' r pkt assms(1) system_reply [of _ S pkt]
      by (auto simp: ctl_request_def work_of_def sends_for_def answers_def Let_def)
  qed
next
  fix i
  assume "c' = ctl_provision S i c" "i < length (ps_threads (ct_system c))"
  then show ?thesis using ctl_provision_work [OF assms(1)] by simp
next
  fix locks
  assume "c' = c\<lparr>ct_system := (ct_system c)\<lparr>ps_store := locks\<rparr>\<rparr>"
  then show ?thesis using assms(1) by (simp add: work_of_def)
qed

lemma ctl_runs_work:
  assumes "(ctl_run L S)\<^sup>*\<^sup>* c c'" "work_of S H c"
  shows "work_of S H c' \<and> sends_for S H (ag_sent (ct_agent c)) (ag_sent (ct_agent c'))"
  using assms(1)
proof (induction rule: rtranclp_induct)
  case base
  then show ?case using assms(2) by simp
next
  case (step y z)
  then show ?case using ctl_run_work [of S H y L z] sends_for_trans by blast
qed

lemma work_of_New: "work_of S H (controller_New cfg envs locks)"
  by (simp add: work_of_def controller_New_def agent_New_def prov_init_def)

lemma ctl_exec_work:
  assumes "ctl_exec L S pkts c"
  shows "work_of S (set pkts) c \<and> sends_for S (set pkts) [] (ag_sent (ct_agent c))"
  using assms
proof (induction rule: ctl_exec.induct)
  case (start cfg envs locks)
  then show ?case using work_of_New by (simp add: controller_New_def agent_New_def)
next
  case (handle pkts c pkt)
  have "sends_for S (insert pkt (set pkts)) [] (ag_sent (ct_agent c))" using handle.IH by (auto simp: sends_for_def)
  with handle.IH ctl_handle_work [of S "set pkts" c pkt L] sends_for_trans show ?case by simp
next
  case (run pkts c c')
  then show ?case using ctl_run_work [of S "set pkts" c L c'] sends_for_trans by blast
qed

section \<open>What a controller sends\<close>


section \<open>The typing of the store\<close>

lemma agent_handle_typed: "plain_sid (sid_of pkt) \<Longrightarrow> store_typed a \<Longrightarrow> store_typed (agent_handle L pkt a)"
  by (simp add: agent_handle_def dispatcht.handle_typed)

lemma ctl_run_typed: "store_typed (ct_agent c) \<Longrightarrow> ctl_run L S c c' \<Longrightarrow> store_typed (ct_agent c')"
  by (erule ctl_run_cases)
    (simp_all add: ctl_task_def ctl_request_def ctl_provision_def Let_def run_task_typed typed_task typed_system sends_typed typed_crash)

lemma ctl_exec_typed:
  assumes "ctl_exec L S pkts c" "\<forall>pkt \<in> set pkts. plain_sid (sid_of pkt)"
  shows "store_typed (ct_agent c)"
  using assms
proof (induction rule: ctl_exec.induct)
  case (start cfg envs locks)
  then show ?case by (simp add: store_typed_def controller_New_def agent_New_def mem_wf_def mem_New_def mem_entry_def)
next
  case (handle pkts c pkt)
  then show ?case by (simp add: ctl_handle_def agent_handle_typed)
next
  case (run pkts c c')
  then show ?case using ctl_run_typed by blast
qed

text \<open>
  C26: the connection store is well typed in every state of a controller, however its goroutines interleave, for
  session ids like those that a gateway makes (without a colon, and neither \<open>cmd\<close> nor \<open>exec\<close>): whatever is stored
  under a session id is connection parameters, whatever is stored under the key of a connection can be written to and
  closed, and whatever is stored under the key of a terminal is a proxy of the library.  So the three lookups that the
  protocol handlers make, for the parameters of a session, for an open connection and for a running terminal, find
  what is there; none of them misses a value because of its type.
\<close>

theorem agent_store_well_typed:
  assumes "ctl_exec L S pkts c" "\<forall>pkt \<in> set pkts. plain_sid (sid_of pkt)" "plain_sid sid"
  shows "(mem_Has (ag_connStore (ct_agent c)) sid \<longleftrightarrow> connectionParams sid (ct_agent c) \<noteq> None) \<and>
    (\<forall>conn. mem_Has (ag_connStore (ct_agent c)) (connection_key sid conn) \<longleftrightarrow>
       conn_writer (connection_key sid conn) (ct_agent c) \<noteq> None) \<and>
    (mem_Has (ag_connStore (ct_agent c)) (cmdStoreKey sid) \<longleftrightarrow>
       as_proxy (mem_Get (ag_connStore (ct_agent c)) (cmdStoreKey sid)) \<noteq> None)"
  using store_typed_finds [OF ctl_exec_typed [OF assms(1,2)] assms(3)] by simp

section \<open>Concrete cases\<close>

definition demo_new :: controller where
  "demo_new = controller_New demo_cfg [] mem_New"

lemma demo_new_agent [simp]: "ct_agent demo_new = demo_ctl" "ct_system demo_new = prov_init"
  by (simp_all add: demo_new_def controller_New_def demo_ctl_def prov_init_def)

lemma demo_new_exec: "ctl_exec L S [] demo_new"
  unfolding demo_new_def by (rule ctl_exec.start)

text \<open>A provisioning request of session \<open>s2\<close> whose body names \<open>s1\<close>: the answer goes to \<open>s1\<close>.\<close>

definition demo_cross :: packet where
  "demo_cross = \<lparr>pkt_Type = system_ProvisionDBRolesRequest, pkt_Spec = Some [(SpecGatewaySessionID, ''s2'')], pkt_Payload = Some ''{}''\<rparr>"

definition demo_crossed :: controller where
  "demo_crossed = ctl_provision demo_sys 0 (ctl_provision demo_sys 0 (ctl_provision demo_sys 0
     (ctl_request demo_sys demo_cross [] (ctl_handle demo_agent_libs demo_cross demo_new))))"

lemma demo_cross_simps [simp]: "sid_of demo_cross = ''s2''" "pkt_Type demo_cross = system_ProvisionDBRolesRequest"
    "sy_json_request demo_sys x = Inr demo_prov_request" "dp_SID demo_prov_request = ''s1''"
  by (simp_all add: demo_cross_def demo_sys_def demo_prov_request_def gm_str_def gm_get_Cons)

lemma ctl_provision_parts:
  "ct_system (ctl_provision S i c) = prov_step S i (ct_system c)"
  "ag_sent (ct_agent (ctl_provision S i c)) = ag_sent (ct_agent c) @ drop (length (ps_sent (ct_system c))) (ps_sent (prov_step S i (ct_system c)))"
  "ag_crashed (ct_agent (ctl_provision S i c)) = ps_crashed (prov_step S i (ct_system c))"
  by (simp_all add: ctl_provision_def Let_def)

lemma demo_cross_answer:
  "\<exists>res sql saved. provision demo_sys ''s2'' demo_prov_request = Ret (res, sql, saved) \<and> ds_SID res = ''s1''"
proof -
  have "dp_Vault demo_prov_request = Some ''db/''" by (simp add: demo_prov_request_def)
  with provision_all_roles [OF demo_plan demo_all_roles, of "''s2''"] demo_provider obtain res sql saved where
    "provision demo_sys ''s2'' demo_prov_request = Ret (run_exec_hook demo_sys ''s2'' demo_prov_request res, sql, saved)"
    "ds_SID res = dp_SID demo_prov_request" by (simp only: option.case) blast
  moreover have "ds_SID (run_exec_hook demo_sys ''s2'' demo_prov_request res) = ds_SID res" by (rule run_exec_hook_keeps)
  ultimately show ?thesis by (simp only: demo_cross_simps) blast
qed

lemma demo_crossed_exec:
  "ctl_exec demo_agent_libs demo_sys [demo_cross] demo_crossed \<and>
   (\<exists>res. ag_sent (ct_agent demo_crossed) = [response_packet demo_sys res] \<and> ds_SID res = ''s1'')"
proof -
  define h where "h = ctl_handle demo_agent_libs demo_cross demo_new"
  define r where "r = ctl_request demo_sys demo_cross [] h"
  define p1 where "p1 = ctl_provision demo_sys 0 r"
  define p2 where "p2 = ctl_provision demo_sys 0 p1"
  have sys: "is_system demo_cross" by (simp add: is_system_def)
  have none: "ag_system demo_ctl = []" "ag_tasks demo_ctl = []" "ag_sent demo_ctl = []" "\<not> ag_crashed demo_ctl"
    by (simp_all add: demo_ctl_def agent_New_def)
  have h: "ct_agent h = demo_ctl\<lparr>ag_system := [demo_cross]\<rparr>" "ct_system h = prov_init"
    by (simp_all add: h_def ctl_handle_def agent_handle_def dispatch_system [OF sys] none)
  have r: "ct_agent r = demo_ctl\<lparr>ag_system := []\<rparr>" "ct_system r = prov_init\<lparr>ps_threads := [PStart demo_cross]\<rparr>"
    by (simp_all add: r_def ctl_request_def h ProcessDBProvisionerRequest_def prov_init_def)
  note steps = ctl_provision_parts prov_step_def prov_goto_def Let_def
  have p1: "ct_system p1 = prov_init\<lparr>ps_threads := [PMark ''s2'' demo_prov_request]\<rparr>" "ag_sent (ct_agent p1) = []"
      "\<not> ag_crashed (ct_agent p1)"
    by (simp_all add: p1_def steps r none prov_init_def)
  have p2: "ps_threads (ct_system p2) = [PWork ''s2'' demo_prov_request]" "ps_sent (ct_system p2) = []"
      "\<not> ps_crashed (ct_system p2)" "ag_sent (ct_agent p2) = []" "\<not> ag_crashed (ct_agent p2)"
    by (simp_all add: p2_def steps p1 prov_init_def)
  obtain res sql saved where res: "provision demo_sys ''s2'' demo_prov_request = Ret (res, sql, saved)" "ds_SID res = ''s1''"
    using demo_cross_answer by blast
  have c: "demo_crossed = ctl_provision demo_sys 0 p2" by (simp add: demo_crossed_def p2_def p1_def r_def h_def)
  have sent: "ag_sent (ct_agent demo_crossed) = [response_packet demo_sys res]"
    by (simp add: c steps prov_sendResponse_def p2 res(1))
  have "ctl_exec demo_agent_libs demo_sys [demo_cross] h"
    using ctl_exec.handle [OF demo_new_exec, of demo_agent_libs demo_sys demo_cross] none by (simp add: h_def)
  moreover have "ctl_run demo_agent_libs demo_sys h r"
    using ctl_run.request [of h "[]" demo_cross "[]"] by (simp add: h none r_def)
  moreover have "ctl_run demo_agent_libs demo_sys r p1"
    unfolding p1_def by (rule ctl_run.provision) (simp_all add: r none)
  moreover have "ctl_run demo_agent_libs demo_sys p1 p2"
    unfolding p2_def by (rule ctl_run.provision) (simp_all add: p1 prov_init_def)
  moreover have "ctl_run demo_agent_libs demo_sys p2 demo_crossed"
    unfolding c by (rule ctl_run.provision) (simp_all add: p2)
  ultimately have "ctl_exec demo_agent_libs demo_sys [demo_cross] demo_crossed" by (blast intro: ctl_exec.run)
  then show ?thesis using sent res(2) by blast
qed


theorem agent_store_well_typed_witness:
  "connectionParams ''s1'' (ct_agent (ctl_handle demo_agent_libs (demo_request\<lparr>pkt_Type := agent_SessionOpen\<rparr>) demo_new)) \<noteq> None"
proof -
  let ?pkt = "demo_request\<lparr>pkt_Type := agent_SessionOpen\<rparr>"
  let ?c = "ctl_handle demo_agent_libs ?pkt demo_new"
  have spec: "spec_get ?pkt k = spec_get demo_request k" for k by (simp add: spec_get_def)
  have live: "\<not> ag_crashed demo_ctl" by (simp add: demo_ctl_def agent_New_def)
  have "\<exists>envs. secrets_Decode demo_secrets demo_vars = Ret (Inr envs)"
    using decode_loop_spec [of demo_secrets no_providers demo_vars "[]" "[]"]
    by (simp add: secrets_Decode_def providers_ok_def no_providers_def slot_ok_def demo_vars_def demo_resolve gm_set_def)
  then have "\<exists>p. buildConnectionParams demo_agent_libs ?pkt demo_ctl = (Inr p, demo_ctl)"
    by (auto simp: buildConnectionParams_def decodeConnectionParams_def Let_def GobDecodeInto_def spec)
  then have has: "mem_Has (ag_connStore (ct_agent ?c)) ''s1''"
    using live by (auto simp: ctl_handle_def agent_handle_def dispatch_def processSessionOpen_def Let_def store_Set_def
        mem_Has_def mem_Set_def spec)
  have exec: "ctl_exec demo_agent_libs demo_sys [?pkt] ?c"
    using ctl_exec.handle [OF demo_new_exec, of demo_agent_libs demo_sys ?pkt] live by simp
  have plain: "plain_sid ''s1''" by (simp add: plain_sid_def)
  show ?thesis using agent_store_well_typed [OF exec _ plain] has plain by (simp add: spec)
qed

end
