(* ===== verification/World.thy ===== *)
theory World
  imports Replies Controller
begin

text \<open>
  The gateway together with its agents: the interleavings of \<open>src/gateway/main.go\<close> and of any number of
  controllers (\<open>src/agent/controller\<close>), one on each stream of an agent.

  A controller handles the packets that the gateway has sent on its stream, in order, while its goroutines and
  those of its system requests run in between; what the gateway receives on that stream is, at any moment, a prefix
  of what the controller has sent: a stream of gRPC is reliable and keeps the order.  Clients are free to send
  anything.
\<close>

section \<open>States and steps\<close>

record world =
  w_gw :: gateway
  w_ctl :: "stream \<Rightarrow> controller option"
  w_handled :: "stream \<Rightarrow> nat"

definition w_init :: world where
  "w_init = \<lparr>w_gw = gw_init, w_ctl = (\<lambda>_. None), w_handled = (\<lambda>_. 0)\<rparr>"

definition sent_to :: "stream \<Rightarrow> gateway \<Rightarrow> packet list" where
  "sent_to st g = map snd (filter (\<lambda>(a, pkt). a = st) (gw_sent g))"

definition rcvd_from :: "stream \<Rightarrow> gateway \<Rightarrow> packet list" where
  "rcvd_from st g = map snd (filter (\<lambda>(a, pkt). a = st) (gw_rcvd g))"

definition handled :: "world \<Rightarrow> stream \<Rightarrow> packet set" where
  "handled w st = set (take (w_handled w st) (sent_to st (w_gw w)))"

text \<open>Every stream that is accepted as an agent's is served by a controller.\<close>

inductive world_step :: "(stream \<Rightarrow> agent_libs) \<Rightarrow> (stream \<Rightarrow> sys_libs) \<Rightarrow> world \<Rightarrow> world \<Rightarrow> bool" for L S where
  gateway: "\<lbrakk>gw_step (w_gw w) g; \<And>st. auth_stream (gw_ctx g) True st \<Longrightarrow> w_ctl w st \<noteq> None;
      \<And>st c. w_ctl w st = Some c \<Longrightarrow> prefix (rcvd_from st g) (ag_sent (ct_agent c))\<rbrakk>
    \<Longrightarrow> world_step L S w (w\<lparr>w_gw := g\<rparr>)"
| start: "\<lbrakk>w_ctl w st = None; gw_ctx (w_gw w) st = None\<rbrakk>
    \<Longrightarrow> world_step L S w
      (w\<lparr>w_ctl := (w_ctl w)(st \<mapsto> controller_New cfg envs locks), w_handled := (w_handled w)(st := 0)\<rparr>)"
| handle: "\<lbrakk>w_ctl w st = Some c; \<not> ag_crashed (ct_agent c); w_handled w st < length (sent_to st (w_gw w))\<rbrakk>
    \<Longrightarrow> world_step L S w
      (w\<lparr>w_ctl := (w_ctl w)(st \<mapsto> ctl_handle (L st) (sent_to st (w_gw w) ! w_handled w st) c),
         w_handled := (w_handled w)(st := Suc (w_handled w st))\<rparr>)"
| goroutine: "\<lbrakk>w_ctl w st = Some c; ctl_run (L st) (S st) c c'\<rbrakk>
    \<Longrightarrow> world_step L S w (w\<lparr>w_ctl := (w_ctl w)(st \<mapsto> c')\<rparr>)"

inductive_cases world_step_cases: "world_step L S w w'"

interpretation wld: transition_system "\<lambda>w. w = w_init" "world_step L S" for L S .

section \<open>The invariant\<close>

text \<open>
  What a controller has sent and what its goroutines work on goes back to a packet that it has handled.  The
  answers come back to the session that asked as long as the provisioning requests name their own session; what
  the gateway delivers is only known under that condition.
\<close>

definition ctl_ok :: "sys_libs \<Rightarrow> gateway \<Rightarrow> stream \<Rightarrow> nat \<Rightarrow> controller \<Rightarrow> bool" where
  "ctl_ok S g st n c \<longleftrightarrow>
     n \<le> length (sent_to st g) \<and> prefix (rcvd_from st g) (ag_sent (ct_agent c)) \<and>
     work_of S (set (take n (sent_to st g))) c \<and> sends_for S (set (take n (sent_to st g))) [] (ag_sent (ct_agent c))"

definition own_requests :: "(stream \<Rightarrow> sys_libs) \<Rightarrow> world \<Rightarrow> bool" where
  "own_requests S w \<longleftrightarrow> (\<forall>st. w_ctl w st \<noteq> None \<longrightarrow> (\<forall>pkt \<in> handled w st. names_own (S st) pkt))"

definition w_inv :: "(stream \<Rightarrow> sys_libs) \<Rightarrow> world \<Rightarrow> bool" where
  "w_inv S w \<longleftrightarrow>
     gw_inv (w_gw w) \<and> gw_fifo (w_gw w) \<and> delivers_received (w_gw w) \<and> (own_requests S w \<longrightarrow> gw_replies (w_gw w)) \<and>
     (\<forall>st. auth_stream (gw_ctx (w_gw w)) True st \<longrightarrow> w_ctl w st \<noteq> None) \<and>
     (\<forall>st c. w_ctl w st = Some c \<longrightarrow> ctl_ok (S st) (w_gw w) st (w_handled w st) c)"

text \<open>A controller answers for the sessions that were opened on its own stream, and for no others.\<close>

lemma sent_for_own:
  assumes "w_inv S w" "own_requests S w" "w_ctl w st = Some c" "q \<in> set (ag_sent (ct_agent c))"
    "auth_stream (gw_ctx (w_gw w)) True st"
    "p < length (gw_heap (w_gw w))" "sid_of q = ses_sessionID (gw_heap (w_gw w) ! p)"
  shows "st = ac_stream (ses_agent (gw_heap (w_gw w) ! p)) \<and> (\<exists>pkt. pkt \<in> handled w st \<and> pkt \<in> set (forwarded (w_gw w) p))"
proof -
  let ?g = "w_gw w"
  have inv: "gw_inv ?g" and "ctl_ok (S st) ?g st (w_handled w st) c" using assms(1,3) by (simp_all add: w_inv_def)
  with assms(4) obtain pkt where pkt: "pkt \<in> handled w st" "answers (S st) pkt q"
    by (auto simp: ctl_ok_def sends_for_def handled_def)
  then have "sid_of q = sid_of pkt" using assms(2,3) answers_own by (auto simp: own_requests_def)
  note pkt = pkt(1) this [symmetric]
  then have sent: "(st, pkt) \<in> set (gw_sent ?g)" by (auto simp: handled_def sent_to_def dest!: in_set_takeD)
  then have "routed ?g st pkt" using inv by (auto simp: gw_inv_def)
  moreover have "sid_of pkt \<noteq> ''''" using pkt(2) assms(7) gw_inv_nth(1) [OF inv assms(6)] by simp
  ultimately obtain r where r: "r < length (gw_heap ?g)" "ac_stream (ses_agent (gw_heap ?g ! r)) = st"
      "sid_of pkt = ses_sessionID (gw_heap ?g ! r)"
    using assms(5) by (auto simp: routed_def auth_stream_def in_set_conv_nth)
  have "ses_sessionID (gw_heap ?g ! r) = ses_sessionID (gw_heap ?g ! p)" using r(3) pkt(2) assms(7) by metis
  then have "r = p" by (rule heap_nth_sid [OF gw_inv_heap [OF inv] r(1) assms(6)])
  with r(2,3) have p: "st = ac_stream (ses_agent (gw_heap ?g ! p))" "sid_of pkt = ses_sessionID (gw_heap ?g ! p)" by simp_all
  then have "(st, pkt) \<in> set (filter (\<lambda>(a, x). a = ac_stream (ses_agent (gw_heap ?g ! p)) \<and> sid_of x = ses_sessionID (gw_heap ?g ! p)) (gw_sent ?g))"
    using sent by simp
  then have "pkt \<in> set (forwarded ?g p)" unfolding forwarded_def set_map by (rule rev_image_eqI) simp
  with pkt(1) p(1) show ?thesis by blast
qed

lemma w_own_deliveries: "w_inv S w \<Longrightarrow> own_requests S w \<Longrightarrow> own_deliveries (w_gw w)"
  unfolding own_deliveries_def
proof (intro allI impI)
  fix st a p pkt
  assume inv: "w_inv S w" and own: "own_requests S w" and thr: "gw_threads (w_gw w) st = Some (AgentDeliver a p pkt)"
  from inv have g: "gw_inv (w_gw w)" by (simp add: w_inv_def)
  from gw_inv_handler [OF g thr] have h: "auth_stream (gw_ctx (w_gw w)) True st" "p < length (gw_heap (w_gw w))"
    "sid_of pkt = ses_sessionID (gw_heap (w_gw w) ! p)" by (simp_all add: handler_ok_def)
  then obtain c where c: "w_ctl w st = Some c" using inv by (auto simp: w_inv_def)
  have "(st, pkt) \<in> set (gw_rcvd (w_gw w))" using inv thr by (auto simp: w_inv_def delivers_received_def)
  then have "pkt \<in> set (rcvd_from st (w_gw w))" by (force simp: rcvd_from_def)
  moreover have "prefix (rcvd_from st (w_gw w)) (ag_sent (ct_agent c))" using inv c by (simp add: w_inv_def ctl_ok_def)
  ultimately have "pkt \<in> set (ag_sent (ct_agent c))" using set_mono_prefix by blast
  from sent_for_own [OF inv own c this h] show "st = ac_stream (ses_agent (gw_heap (w_gw w) ! p))" by simp
qed

section \<open>Every step keeps it\<close>

lemma gw_sent_grows: "gw_step s s' \<Longrightarrow> prefix (gw_sent s) (gw_sent s')"
  by (erule gw_step_cases)
     (auto simp: gw_ops Let_def split: option.splits sum.splits if_splits)

lemma sent_to_grows: "gw_step s s' \<Longrightarrow> prefix (sent_to st s) (sent_to st s')"
  using gw_sent_grows [of s s'] by (auto simp: sent_to_def prefix_def)

lemma take_grown: "prefix xs ys \<Longrightarrow> n \<le> length xs \<Longrightarrow> take n ys = take n xs"
  by (auto simp: prefix_def)

lemma ctl_ok_grow:
  assumes "ctl_ok S g st n c" "prefix (sent_to st g) (sent_to st g')" "prefix (rcvd_from st g') (ag_sent (ct_agent c))"
  shows "ctl_ok S g' st n c"
  using assms take_grown [OF assms(2)] prefix_length_le [OF assms(2)] by (simp add: ctl_ok_def)

lemma w_inv_gateway:
  assumes inv: "w_inv S w" and step: "gw_step (w_gw w) g"
    and ctl: "\<And>st. auth_stream (gw_ctx g) True st \<Longrightarrow> w_ctl w st \<noteq> None"
    and wire: "\<And>st c. w_ctl w st = Some c \<Longrightarrow> prefix (rcvd_from st g) (ag_sent (ct_agent c))"
  shows "w_inv S (w\<lparr>w_gw := g\<rparr>)"
proof -
  from inv have g: "gw_inv (w_gw w)" "gw_fifo (w_gw w)" "delivers_received (w_gw w)" by (simp_all add: w_inv_def)
  have same: "handled (w\<lparr>w_gw := g\<rparr>) st = handled w st" if c: "w_ctl w st \<noteq> None" for st
  proof -
    have "w_handled w st \<le> length (sent_to st (w_gw w))" using inv c by (auto simp: w_inv_def ctl_ok_def)
    then show ?thesis using take_grown [OF sent_to_grows [OF step]] by (simp add: handled_def)
  qed
  have "own_requests S w" if "own_requests S (w\<lparr>w_gw := g\<rparr>)" using that same by (simp add: own_requests_def)
  then have "gw_replies g" if "own_requests S (w\<lparr>w_gw := g\<rparr>)"
    using that inv gw_replies_step [OF _ g(1) w_own_deliveries [OF inv] step] by (simp add: w_inv_def)
  moreover have "gw_inv g" by (rule gw_inv_step [OF g(1) step])
  moreover from this have "gw_fifo g" "delivers_received g"
    using gw_fifo_step [OF g(2,1) _ step] delivers_received_step [OF g(3) step] by simp_all
  ultimately show ?thesis
    using inv ctl wire ctl_ok_grow [OF _ sent_to_grows [OF step]] by (simp add: w_inv_def)
qed

lemma rcvd_has_ctx: "gw_inv g \<Longrightarrow> gw_fifo g \<Longrightarrow> gw_ctx g st = None \<Longrightarrow> rcvd_from st g = []"
  using gw_inv_nth(2) [of g]
  by (fastforce simp: rcvd_from_def filter_empty_conv gw_fifo_def auth_stream_def in_set_conv_nth)

text \<open>A step of one controller, which may handle one more packet.\<close>

lemma w_inv_ctl:
  assumes inv: "w_inv S w" and c: "w_ctl w st = Some c" and n: "w_handled w st \<le> n" and ok: "ctl_ok (S st) (w_gw w) st n c'"
  shows "w_inv S (w\<lparr>w_ctl := (w_ctl w)(st \<mapsto> c'), w_handled := (w_handled w)(st := n)\<rparr>)" (is "w_inv S ?w'")
proof -
  have "handled w st' \<subseteq> handled ?w' st'" for st' using n by (simp add: handled_def set_take_subset_set_take)
  then have "own_requests S w" if "own_requests S ?w'" using that c by (fastforce simp: own_requests_def split: if_splits)
  then show ?thesis using inv ok by (simp add: w_inv_def)
qed

lemma w_inv_start:
  assumes inv: "w_inv S w" and new: "w_ctl w st = None" "gw_ctx (w_gw w) st = None"
  shows "w_inv S (w\<lparr>w_ctl := (w_ctl w)(st \<mapsto> controller_New cfg envs locks), w_handled := (w_handled w)(st := 0)\<rparr>)" (is "w_inv S ?w'")
proof -
  have "rcvd_from st (w_gw w) = []" using inv new(2) by (intro rcvd_has_ctx) (simp_all add: w_inv_def)
  then have "ctl_ok (S st) (w_gw w) st 0 (controller_New cfg envs locks)"
    using work_of_New by (simp add: ctl_ok_def controller_New_def agent_New_def)
  moreover have "own_requests S w" if own: "own_requests S ?w'"
    unfolding own_requests_def
  proof (intro allI impI)
    fix st'
    assume "w_ctl w st' \<noteq> None"
    with new(1) own show "\<forall>pkt \<in> handled w st'. names_own (S st') pkt"
      by (cases "st' = st") (auto simp: own_requests_def handled_def)
  qed
  ultimately show ?thesis using inv by (simp add: w_inv_def)
qed

lemma w_inv_handle:
  assumes inv: "w_inv S w" and c: "w_ctl w st = Some c" and n: "w_handled w st < length (sent_to st (w_gw w))"
  shows "w_inv S (w\<lparr>w_ctl := (w_ctl w)(st \<mapsto> ctl_handle (L st) (sent_to st (w_gw w) ! w_handled w st) c),
      w_handled := (w_handled w)(st := Suc (w_handled w st))\<rparr>)"
proof (rule w_inv_ctl [OF inv c])
  let ?sent = "sent_to st (w_gw w)" and ?n = "w_handled w st"
  let ?H = "set (take ?n ?sent)"
  have H: "set (take (Suc ?n) ?sent) = insert (?sent ! ?n) ?H" using n by (simp add: take_Suc_conv_app_nth)
  have ok: "prefix (rcvd_from st (w_gw w)) (ag_sent (ct_agent c))" "work_of (S st) ?H c" "sends_for (S st) ?H [] (ag_sent (ct_agent c))"
    using inv c by (simp_all add: w_inv_def ctl_ok_def)
  note h = ctl_handle_work [OF ok(2), of "?sent ! ?n" "L st"]
  have "sends_for (S st) (insert (?sent ! ?n) ?H) [] (ag_sent (ct_agent c))" using ok(3) by (auto simp: sends_for_def)
  from sends_for_trans [OF this h(2)] h ok(1) n show "ctl_ok (S st) (w_gw w) st (Suc ?n) (ctl_handle (L st) (?sent ! ?n) c)"
    unfolding ctl_ok_def H by (auto simp: sends_for_def prefix_prefix)
qed simp

lemma w_inv_goroutine:
  assumes inv: "w_inv S w" and c: "w_ctl w st = Some c" and run: "ctl_run (L st) (S st) c c'"
  shows "w_inv S (w\<lparr>w_ctl := (w_ctl w)(st \<mapsto> c')\<rparr>)"
proof -
  let ?n = "w_handled w st"
  have ok: "ctl_ok (S st) (w_gw w) st ?n c" using inv c by (simp add: w_inv_def)
  then have "work_of (S st) (set (take ?n (sent_to st (w_gw w)))) c" by (simp add: ctl_ok_def)
  from ctl_run_work [OF this run] ok have "ctl_ok (S st) (w_gw w) st ?n c'"
    using sends_for_trans by (auto simp: ctl_ok_def sends_for_def prefix_prefix)
  from w_inv_ctl [OF inv c order_refl this] show ?thesis by (simp only: fun_upd_triv) simp
qed

lemma w_inv_step: "w_inv S w \<Longrightarrow> world_step L S w w' \<Longrightarrow> w_inv S w'"
  by (erule world_step_cases) (auto intro: w_inv_gateway w_inv_start w_inv_handle w_inv_goroutine)

lemma w_inv_init: "w_inv S w_init"
proof -
  have "delivers_received gw_init" "\<not> auth_stream (gw_ctx gw_init) True st" for st
    by (simp_all add: delivers_received_def gw_init_def auth_stream_def)
  then show ?thesis by (simp add: w_inv_def w_init_def gw_inv_init gw_fifo_init gw_replies_init)
qed

lemma w_inv_reach: "wld.reach L S w \<Longrightarrow> w_inv S w"
  by (rule wld.invariant) (auto simp: w_inv_init intro: w_inv_step)

section \<open>Requests and replies\<close>

lemma subseq_set_subset: "subseq xs ys \<Longrightarrow> set xs \<subseteq> set ys"
  by (auto elim!: list_emb_set)


lemma forwarded_prefix:
  assumes "gw_inv s" "gw_fifo s" "p < length (gw_heap s)"
  shows "\<exists>lost. from_client s p = forwarded s p @ lost"
proof -
  have "fifo s p" using assms(2,3) by (simp add: gw_fifo_def)
  with gw_inv_session [OF assms(1,3)] show ?thesis
    by (cases rule: session_ok_cases) (auto simp: fifo_def)
qed


section \<open>A concrete run\<close>

text \<open>
  An agent and a client connect, the client asks to run a command in a session that the controller does not
  know, and the refusal comes back.
\<close>

definition demo_exec :: packet where
  "demo_exec = \<lparr>pkt_Type = agent_ExecWriteStdin, pkt_Spec = None, pkt_Payload = None\<rparr>"

definition demo_exec_reply :: packet where
  "demo_exec_reply = \<lparr>pkt_Type = client_SessionClose,
     pkt_Spec = Some [(SpecGatewaySessionID, ''12345678''), (SpecClientExitCodeKey, internalExitCode)],
     pkt_Payload = Some ''internal error, connection params not found''\<rparr>"

definition demo_asked :: gateway where
  "demo_asked = client_forward None 1 0 (stamp ''12345678'' demo_exec) (client_recv (Inr demo_exec) 1 0 demo_open)"

definition demo_answered_gw :: gateway where
  "demo_answered_gw = agent_deliver None demo_agent 0 demo_exec_reply (agent_recv (Inr demo_exec_reply) demo_agent demo_asked)"

definition demo_world :: "gateway \<Rightarrow> controller \<Rightarrow> nat \<Rightarrow> world" where
  "demo_world g c n = \<lparr>w_gw = g, w_ctl = [0 \<mapsto> c], w_handled = (\<lambda>_. 0)(0 := n)\<rparr>"

abbreviation demo_reach :: "world \<Rightarrow> bool" where
  "demo_reach \<equiv> wld.reach (\<lambda>_. demo_agent_libs) (\<lambda>_. demo_sys)"

lemma ctx_simps [simp]:
  "gw_ctx (agent_hello r a s) = gw_ctx s" "gw_ctx (client_create sid st a s) = gw_ctx s"
  "gw_ctx (client_recv m st p s) = gw_ctx s" "gw_ctx (client_forward r st p pkt s) = gw_ctx s"
  "gw_ctx (agent_recv m a s) = gw_ctx s" "gw_ctx (agent_deliver r a p pkt s) = gw_ctx s"
  "gw_ctx (gw_Connect pick st c s) = (gw_ctx s)(st \<mapsto> c)" "gw_ctx gw_init = (\<lambda>_. None)"
  by (simp_all add: gw_ops Let_def gw_init_def split: option.split sum.split)

lemma demo_client_md: "getMetadataValue demo_md ''origin'' \<noteq> ''agent''"
  by code_simp

lemma demo_gateway:
  assumes "demo_reach (demo_world g c n)" "gw_step g g'" "\<forall>st. st \<noteq> 0 \<longrightarrow> gw_ctx g' st \<in> {None, Some (Some demo_md)}"
    "prefix (rcvd_from 0 g') (ag_sent (ct_agent c))"
  shows "demo_reach (demo_world g' c n)"
proof -
  have auth: "st = 0" if "auth_stream (gw_ctx g') True st" for st
    using that assms(3) demo_client_md by (fastforce simp: auth_stream_def)
  have "world_step (\<lambda>_. demo_agent_libs) (\<lambda>_. demo_sys) (demo_world g c n) ((demo_world g c n)\<lparr>w_gw := g'\<rparr>)"
  proof (rule world_step.gateway)
    show "w_ctl (demo_world g c n) st \<noteq> None" if "auth_stream (gw_ctx g') True st" for st
      using auth [OF that] by (simp add: demo_world_def)
    show "prefix (rcvd_from st g') (ag_sent (ct_agent c'))" if "w_ctl (demo_world g c n) st = Some c'" for st c'
      using that assms(4) by (auto simp: demo_world_def split: if_splits)
  qed (use assms(2) in \<open>simp add: demo_world_def\<close>)
  with assms(1) have "demo_reach ((demo_world g c n)\<lparr>w_gw := g'\<rparr>)" by (rule wld.next_state)
  then show ?thesis by (simp add: demo_world_def)
qed

lemma demo_handle:
  assumes "demo_reach (demo_world g c n)" "\<not> ag_crashed (ct_agent c)" "n < length (sent_to 0 g)" "sent_to 0 g ! n = pkt"
  shows "demo_reach (demo_world g (ctl_handle demo_agent_libs pkt c) (Suc n))"
proof -
  have "world_step (\<lambda>_. demo_agent_libs) (\<lambda>_. demo_sys) (demo_world g c n) (demo_world g (ctl_handle demo_agent_libs pkt c) (Suc n))"
    using world_step.handle [of "demo_world g c n" 0 c "\<lambda>_. demo_agent_libs" "\<lambda>_. demo_sys"] assms(2-4)
    by (simp add: demo_world_def)
  with assms(1) show ?thesis by (rule wld.next_state)
qed

lemma demo_world_start: "demo_reach (demo_world gw_init demo_new 0)"
proof -
  let ?w = "w_init\<lparr>w_ctl := (w_ctl w_init)(0 \<mapsto> demo_new), w_handled := (w_handled w_init)(0 := 0)\<rparr>"
  have "world_step (\<lambda>_. demo_agent_libs) (\<lambda>_. demo_sys) w_init ?w"
    unfolding demo_new_def by (rule world_step.start) (simp_all add: w_init_def)
  with wld.start [OF refl] have "demo_reach ?w" by (rule wld.next_state)
  then show ?thesis by (simp add: demo_world_def w_init_def)
qed

lemma demo_world_open: "demo_reach (demo_world demo_open demo_new 0)"
proof -
  let ?c = "gw_Connect 0 0 (Some ((''origin'', [''agent'']) # demo_md)) gw_init"
  let ?h = "agent_hello None demo_agent ?c"
  let ?d = "gw_Connect 0 1 (Some demo_md) ?h"
  note sent = demo_store(7)
  have "demo_reach (demo_world ?c demo_new 0)"
    by (rule demo_gateway [OF demo_world_start gw_step.connect]) (simp_all add: gw_init_def, code_simp)
  then have "demo_reach (demo_world ?h demo_new 0)"
    by (rule demo_gateway [OF _ gw_step.hello]) (code_simp, simp, simp add: sent, code_simp)
  then have "demo_reach (demo_world ?d demo_new 0)"
    by (rule demo_gateway [OF _ gw_step.connect]) (code_simp, simp, simp add: sent, code_simp)
  then show ?thesis
    unfolding demo_open_def by (rule demo_gateway [OF _ gw_step.create]) (code_simp, code_simp, simp, simp add: sent, code_simp)
qed

lemma demo_new_sent: "ag_sent (ct_agent demo_new) = []"
  by (simp add: demo_store)

definition demo_refused :: controller where
  "demo_refused = demo_new\<lparr>ct_agent := demo_ctl\<lparr>ag_sent := [demo_exec_reply]\<rparr>\<rparr>"

lemma dispatch_exec: "pkt_Type pkt = agent_ExecWriteStdin \<Longrightarrow> dispatch L pkt a = doExec L pkt a"
  by (simp add: dispatch_def Let_def)

lemma doExec_unknown:
  "sid_of pkt = sid \<Longrightarrow> connectionParams sid a = None \<Longrightarrow>
   doExec L pkt a = sendClientSessionClose sid ''internal error, connection params not found'' a"
  by (simp add: doExec_def Let_def)

text \<open>The controller handles the greeting of the gateway, which it ignores, and refuses the request.\<close>

lemma demo_handles_hello: "ctl_handle demo_agent_libs hello_packet demo_new = demo_new"
  by (simp add: ctl_handle_def agent_handle_def dispatch_def hello_packet_def)

lemma demo_handles_exec:
  assumes "pkt_Type pkt = agent_ExecWriteStdin" "sid_of pkt = ''12345678''"
  shows "ctl_handle demo_agent_libs pkt demo_new = demo_refused"
proof -
  have none: "connectionParams ''12345678'' demo_ctl = None" by (simp add: demo_ctl_def agent_New_def connectionParams_def)
  have "dispatch demo_agent_libs pkt demo_ctl = sendClientSessionClose ''12345678'' ''internal error, connection params not found'' demo_ctl"
    unfolding dispatch_exec [OF assms(1)] by (rule doExec_unknown [OF assms(2) none])
  also have "\<dots> = demo_ctl\<lparr>ag_sent := [demo_exec_reply]\<rparr>"
    unfolding demo_exec_reply_def sendClientSessionClose_def sendClientSessionCloseWithExitCode_def
      client_Send_def demo_store(7) by simp
  finally show ?thesis by (simp add: ctl_handle_def agent_handle_def demo_refused_def demo_store(6))
qed

lemma demo_to_agent: "sent_to 0 demo_asked = [hello_packet, stamp ''12345678'' demo_exec]"
  by code_simp

lemma demo_stamped: "pkt_Type (stamp ''12345678'' demo_exec) = agent_ExecWriteStdin" "sid_of (stamp ''12345678'' demo_exec) = ''12345678''"
  by (simp_all add: demo_exec_def stamp_def Let_def)

lemma demo_world_asked: "demo_reach (demo_world demo_asked demo_refused 2)"
proof -
  let ?r = "client_recv (Inr demo_exec) 1 0 demo_open"
  let ?pkt = "stamp ''12345678'' demo_exec"
  note sent = demo_new_sent
  have ctx: "\<forall>st. st \<noteq> 0 \<longrightarrow> gw_ctx demo_open st \<in> {None, Some (Some demo_md)}" by (simp add: demo_open_def)
  have "demo_reach (demo_world ?r demo_new 0)"
    by (rule demo_gateway [OF demo_world_open gw_step.client_receive]) (code_simp, use ctx in simp, simp add: sent, code_simp)
  then have asked: "demo_reach (demo_world demo_asked demo_new 0)"
    unfolding demo_asked_def
    by (rule demo_gateway [OF _ gw_step.forward]) (code_simp, use ctx in simp, simp add: sent, code_simp)
  have live: "\<not> ag_crashed (ct_agent demo_new)" by (simp add: demo_store(6))
  have "demo_reach (demo_world demo_asked demo_new (Suc 0))"
    using demo_handle [OF asked live, of hello_packet] by (simp only: demo_to_agent demo_handles_hello) simp
  from demo_handle [OF this live, of ?pkt] show ?thesis
    by (simp only: demo_to_agent demo_handles_exec [OF demo_stamped] numeral_2_eq_2) simp
qed

lemma demo_world_answered: "demo_reach (demo_world demo_answered_gw demo_refused 2)"
proof -
  have ctx: "\<forall>st. st \<noteq> 0 \<longrightarrow> gw_ctx demo_asked st \<in> {None, Some (Some demo_md)}" by (simp add: demo_asked_def demo_open_def)
  have "demo_reach (demo_world (agent_recv (Inr demo_exec_reply) demo_agent demo_asked) demo_refused 2)"
  proof (rule demo_gateway [OF demo_world_asked gw_step.agent_receive])
    show "gw_threads demo_asked (ac_stream demo_agent) = Some (AgentLoop demo_agent)" by code_simp
    have "rcvd_from 0 (agent_recv (Inr demo_exec_reply) demo_agent demo_asked) = [demo_exec_reply]" by code_simp
    then show "prefix (rcvd_from 0 (agent_recv (Inr demo_exec_reply) demo_agent demo_asked)) (ag_sent (ct_agent demo_refused))"
      by (simp add: demo_refused_def)
  qed (use ctx in simp)
  then show ?thesis
    unfolding demo_answered_gw_def
  proof (rule demo_gateway [OF _ gw_step.deliver])
    show "gw_threads (agent_recv (Inr demo_exec_reply) demo_agent demo_asked) (ac_stream demo_agent) =
        Some (AgentDeliver demo_agent 0 demo_exec_reply)" by code_simp
    have "rcvd_from 0 (agent_deliver None demo_agent 0 demo_exec_reply (agent_recv (Inr demo_exec_reply) demo_agent demo_asked)) = [demo_exec_reply]"
      by code_simp
    then show "prefix (rcvd_from 0 (agent_deliver None demo_agent 0 demo_exec_reply (agent_recv (Inr demo_exec_reply) demo_agent demo_asked)))
        (ag_sent (ct_agent demo_refused))" by (simp add: demo_refused_def)
  qed (use ctx in simp)
qed


end
