(* ===== verification/Keys.thy ===== *)
theory Keys
  imports Base64
begin

text \<open>
  Secret keys and access tokens, \<open>src/common/keys/keys.go\<close>: random keys with their hash, EdDSA tokens, and the
  base64 form of Ed25519 keys.

  \<open>crypto/rand\<close>, SHA-256, Ed25519 and the JWT library are the parameter \<open>key_libs\<close>.  Parsing a token is what
  \<open>jwt.Parse\<close> documents: decode it, ask the key function for the key, verify with that key.
\<close>

datatype claim_value = ClaimStr string | ClaimOther string

record jwt_token =
  jwt_Method :: string
  jwt_Claims :: "claim_value gomap"
  jwt_Valid :: bool

record jwt_claims =
  jc_Email :: string
  jc_Subject :: string
  jc_IssuedAt :: int
  jc_ExpiresAt :: int

record key_libs =
  kl_random :: "nat \<Rightarrow> string result"
  kl_sha256 :: "string \<Rightarrow> string"
  kl_now :: int
  kl_generate :: "(string \<times> string) result"
  kl_jwt_sign :: "jwt_claims \<Rightarrow> string \<Rightarrow> string result"
  kl_jwt_decode :: "string \<Rightarrow> jwt_token result"
  kl_jwt_verify :: "string \<Rightarrow> string \<Rightarrow> unit result"

section \<open>Random keys\<close>

abbreviation defaultKeySize :: "16 word" where "defaultKeySize \<equiv> 32"
abbreviation defaultPrefixKey :: string where "defaultPrefixKey \<equiv> ''xagt''"

text \<open>\<open>base64.RawURLEncoding\<close>: the URL alphabet, without padding.\<close>

definition url_char :: "char \<Rightarrow> char" where
  "url_char c = (if c = CHR ''+'' then CHR ''-'' else if c = CHR ''/'' then CHR ''_'' else c)"

definition raw_url_encode :: "string \<Rightarrow> string" where
  "raw_url_encode s = map url_char (filter (\<lambda>c. c \<noteq> b64_pad) (b64_encode s))"

text \<open>\<open>%x\<close> on bytes.\<close>

definition hex_bytes :: "string \<Rightarrow> string" where
  "hex_bytes s = concat (map (\<lambda>c. [hex_digit (of_char c div 16), hex_digit (of_char c mod 16)]) s)"

definition Hash256Key :: "key_libs \<Rightarrow> string \<Rightarrow> string result" where
  "Hash256Key L secretKey = Inr (hex_bytes (kl_sha256 L secretKey))"

definition GenerateSecureRandomKey :: "key_libs \<Rightarrow> string \<Rightarrow> 16 word \<Rightarrow> (string \<times> string) result" where
  "GenerateSecureRandomKey L prefixKey keySize =
     (let keySize = (if keySize \<le> 0 then defaultKeySize else keySize) in
      case kl_random L (unat keySize) of
        Inl err \<Rightarrow> Inl (''failed generating entropy, err='' @ err)
      | Inr secretRandomBytes \<Rightarrow>
          (let prefixKey = (if prefixKey = '''' then defaultPrefixKey else prefixKey);
               secretKey = prefixKey @ ''-'' @ raw_url_encode secretRandomBytes
           in case Hash256Key L secretKey of
                Inl err \<Rightarrow> Inl (''failed generating secret hash, err='' @ err)
              | Inr secretKeyHash \<Rightarrow> Inr (secretKey, secretKeyHash)))"

section \<open>Access tokens\<close>

definition NewJwtToken :: "key_libs \<Rightarrow> string \<Rightarrow> string \<Rightarrow> string \<Rightarrow> int \<Rightarrow> string result" where
  "NewJwtToken L privKey subject email tokenDuration =
     kl_jwt_sign L \<lparr>jc_Email = email, jc_Subject = subject, jc_IssuedAt = kl_now L, jc_ExpiresAt = kl_now L + tokenDuration\<rparr> privKey"

definition VerifyAccessToken :: "key_libs \<Rightarrow> string \<Rightarrow> string \<Rightarrow> string result" where
  "VerifyAccessToken L tokenString pubKey =
     (let parsed =
        bind_result (kl_jwt_decode L tokenString) (\<lambda>token.
          if jwt_Method token \<noteq> ''EdDSA'' then Inl (''unexpected signing method: '' @ jwt_Method token)
          else bind_result (kl_jwt_verify L tokenString pubKey) (\<lambda>_. Inr token))
      in case parsed of
           Inl err \<Rightarrow> Inl (''failed to parse access token: '' @ err)
         | Inr token \<Rightarrow>
             if \<not> jwt_Valid token then Inl ''access token is invalid''
             else (case gm_get (jwt_Claims token) ''sub'' of
                     Some (ClaimStr subject) \<Rightarrow>
                       if subject = '''' then Inl ([CHR 39] @ ''sub'' @ [CHR 39] @ '' not found or has an empty value'')
                       else Inr subject
                   | _ \<Rightarrow> Inl ([CHR 39] @ ''sub'' @ [CHR 39] @ '' not found or has an empty value'')))"

section \<open>Ed25519 keys\<close>

definition GenerateEd25519KeyPair :: "key_libs \<Rightarrow> (string \<times> string) result" where
  "GenerateEd25519KeyPair L = kl_generate L"

definition Base64DecodeEd25519PrivateKey :: "string \<Rightarrow> string result" where
  "Base64DecodeEd25519PrivateKey encodedKey =
     (case b64_decode_string encodedKey of
        Inl err \<Rightarrow> Inl (''failed to decode private key: '' @ err)
      | Inr privKeyBytes \<Rightarrow>
          if length privKeyBytes \<noteq> 64
          then Inl (''invalid private key size: expected 64 bytes, got '' @ nat_dec (length privKeyBytes) @ '' bytes'')
          else Inr privKeyBytes)"

definition Base64DecodeEd25519PublicKey :: "string \<Rightarrow> string result" where
  "Base64DecodeEd25519PublicKey encodedKey =
     (case b64_decode_string encodedKey of
        Inl err \<Rightarrow> Inl (''failed to decode public key: '' @ err)
      | Inr pubKeyBytes \<Rightarrow>
          if length pubKeyBytes \<noteq> 32
          then Inl (''invalid public key size: expected 32 bytes, got '' @ nat_dec (length pubKeyBytes) @ '' bytes'')
          else Inr pubKeyBytes)"

section \<open>Properties\<close>

text \<open>Keys of the right size, and only those, survive their base64 form.\<close>

lemma private_key_roundtrip: "Base64DecodeEd25519PrivateKey (b64_encode k) = Inr k \<longleftrightarrow> length k = 64"
  by (simp add: Base64DecodeEd25519PrivateKey_def)

lemma public_key_roundtrip: "Base64DecodeEd25519PublicKey (b64_encode k) = Inr k \<longleftrightarrow> length k = 32"
  by (simp add: Base64DecodeEd25519PublicKey_def)

lemma decoded_key_size:
  "Base64DecodeEd25519PrivateKey e = Inr k \<Longrightarrow> length k = 64" "Base64DecodeEd25519PublicKey e = Inr k \<Longrightarrow> length k = 32"
  by (auto simp: Base64DecodeEd25519PrivateKey_def Base64DecodeEd25519PublicKey_def split: sum.splits if_splits)

lemma hex_bytes_length: "length (hex_bytes s) = 2 * length s"
  by (induction s) (simp_all add: hex_bytes_def)

lemma b64_plain_length: "length (filter (\<lambda>c. c \<noteq> b64_pad) (b64_encode s)) = (4 * length s + 2) div 3"
proof (induction s rule: b64_encode.induct)
  case (4 a b c rest)
  have "length (filter (\<lambda>c. c \<noteq> b64_pad) (b64_encode (a # b # c # rest))) = 4 + (4 * length rest + 2) div 3"
    using 4 by (simp add: b64_encode.simps b64_quad_def b64_char_plain b64_quad_idx b64_triple_lt)
  then show ?case by simp
qed (simp_all add: b64_encode.simps b64_quad_def b64_char_plain b64_quad_idx b64_triple_lt)

text \<open>A random key: its prefix, a dash, and four characters for every three bytes.\<close>

lemma random_key_length:
  assumes "GenerateSecureRandomKey L prefixKey keySize = Inr (secretKey, hash)" "keySize \<noteq> 0" "prefixKey \<noteq> ''''"
    "\<And>n bytes. kl_random L n = Inr bytes \<Longrightarrow> length bytes = n"
  shows "length secretKey = length prefixKey + 1 + (4 * unat keySize + 2) div 3"
  using assms(1-3)
  by (auto simp: GenerateSecureRandomKey_def Hash256Key_def Let_def raw_url_encode_def b64_plain_length assms(4) split: sum.splits)

lemma access_token_roundtrip:
  assumes "NewJwtToken L priv subject email d = Inr t" "subject \<noteq> ''''"
    "\<And>c. kl_jwt_sign L c priv = Inr t \<Longrightarrow> \<exists>token. kl_jwt_decode L t = Inr token \<and> jwt_Method token = ''EdDSA'' \<and> jwt_Valid token \<and>
        gm_get (jwt_Claims token) ''sub'' = Some (ClaimStr (jc_Subject c))"
    "kl_jwt_verify L t pub = Inr ()"
  shows "VerifyAccessToken L t pub = Inr subject"
  using assms(3) [OF assms(1) [unfolded NewJwtToken_def]] assms(2,4)
  by (auto simp: VerifyAccessToken_def Let_def)

text \<open>A token is accepted only under the EdDSA method, whatever its claims say.\<close>

lemma only_eddsa: "VerifyAccessToken L t pub = Inr s \<Longrightarrow> \<exists>token. kl_jwt_decode L t = Inr token \<and> jwt_Method token = ''EdDSA''"
  by (auto simp: VerifyAccessToken_def Let_def bind_result_def split: sum.splits if_splits)

end
