(* ===== verification/Streams.thy ===== *)
theory Streams
  imports Agent Transition
begin

text \<open>
  The writers of \<open>src/common/proto/types.go\<close>: \<open>streamWriter\<close>, which sends what is written to it as
  packets, and \<open>ConnectionWrapper\<close>, whose \<open>Close\<close> closes a channel in a goroutine.

  The spec of a stream writer is a Go map, shared with whoever made the writer, so it is a reference into
  a list of maps; the packet that goes out is a copy, since the transport encodes it before \<open>Send\<close>
  returns.  A writer without a client refuses to write.
\<close>

section \<open>Stream writers\<close>

type_synonym spec_heap = "string gomap list"

record stream_writer =
  sw_client :: bool
  sw_packetType :: string
  sw_packetSpec :: "nat option"

definition NewStreamWriter :: "bool \<Rightarrow> string \<Rightarrow> nat option \<Rightarrow> stream_writer" where
  "NewStreamWriter client pktType spec = \<lparr>sw_client = client, sw_packetType = pktType, sw_packetSpec = spec\<rparr>"

definition sw_packet :: "spec_heap \<Rightarrow> stream_writer \<Rightarrow> string \<Rightarrow> packet" where
  "sw_packet h w data =
     \<lparr>pkt_Type = sw_packetType w, pkt_Spec = map_option (\<lambda>r. h ! r) (sw_packetSpec w), pkt_Payload = Some data\<rparr>"

text \<open>\<open>Write\<close>: the number of bytes and the error, and the packet that was given to \<open>Send\<close>.\<close>

definition sw_Write :: "(packet \<Rightarrow> error option) \<Rightarrow> spec_heap \<Rightarrow> stream_writer \<Rightarrow> string \<Rightarrow> (nat \<times> error option) \<times> packet option" where
  "sw_Write send h w data =
     (if \<not> sw_client w then ((0, Some ''stream writer client is empty''), None)
      else (let p = sw_packet h w data in ((length data, send p), Some p)))"

definition sw_AddSpecVal :: "string \<Rightarrow> string \<Rightarrow> spec_heap \<Rightarrow> stream_writer \<Rightarrow> spec_heap \<times> stream_writer" where
  "sw_AddSpecVal key val h w =
     (case sw_packetSpec w of
        None \<Rightarrow> (h @ [gm_set key val []], w\<lparr>sw_packetSpec := Some (length h)\<rparr>)
      | Some r \<Rightarrow> (h[r := gm_set key val (h ! r)], w))"

text \<open>\<open>Close\<close>: does it close the client, which is the stream of the whole agent?\<close>

definition sw_Close :: "stream_writer \<Rightarrow> bool" where
  "sw_Close w = sw_client w"

section \<open>Connection wrappers\<close>

text \<open>
  Each \<open>Close\<close> starts a goroutine that looks whether \<open>doneC\<close> is closed and, if not, closes it: two
  steps.  Closing a closed channel panics.
\<close>

datatype closer = CloserNew | CloserSawOpen | CloserDone

record conn_wrapper =
  cw_done :: bool
  cw_closers :: "closer list"
  cw_panicked :: bool

definition NewConnectionWrapper :: "bool \<Rightarrow> conn_wrapper" where
  "NewConnectionWrapper doneC = \<lparr>cw_done = doneC, cw_closers = [], cw_panicked = False\<rparr>"

definition cw_Close :: "conn_wrapper \<Rightarrow> conn_wrapper" where
  "cw_Close s = s\<lparr>cw_closers := cw_closers s @ [CloserNew]\<rparr>"

definition cw_look :: "nat \<Rightarrow> conn_wrapper \<Rightarrow> conn_wrapper" where
  "cw_look i s = s\<lparr>cw_closers := (cw_closers s)[i := if cw_done s then CloserDone else CloserSawOpen]\<rparr>"

definition cw_close_chan :: "nat \<Rightarrow> conn_wrapper \<Rightarrow> conn_wrapper" where
  "cw_close_chan i s =
     (if cw_done s then s\<lparr>cw_panicked := True\<rparr>
      else s\<lparr>cw_done := True, cw_closers := (cw_closers s)[i := CloserDone]\<rparr>)"

inductive cw_step :: "conn_wrapper \<Rightarrow> conn_wrapper \<Rightarrow> bool" where
  cw_call: "\<not> cw_panicked s \<Longrightarrow> cw_step s (cw_Close s)"
| cw_looks: "\<not> cw_panicked s \<Longrightarrow> i < length (cw_closers s) \<Longrightarrow> cw_closers s ! i = CloserNew \<Longrightarrow> cw_step s (cw_look i s)"
| cw_closes: "\<not> cw_panicked s \<Longrightarrow> i < length (cw_closers s) \<Longrightarrow> cw_closers s ! i = CloserSawOpen \<Longrightarrow> cw_step s (cw_close_chan i s)"

inductive_cases cw_step_cases: "cw_step s s'"

section \<open>Properties\<close>

text \<open>On a working client, writing is what the controller of the agent does with its stream.\<close>

lemma sw_Write_is_send:
  assumes "sw_client w"
  shows "streamWriter_Write (sw_packetType w) (map_option (\<lambda>r. h ! r) (sw_packetSpec w)) data a
           = client_Send (the (snd (sw_Write send h w data))) a"
  using assms by (simp add: sw_Write_def sw_packet_def streamWriter_Write_def Let_def)

text \<open>
  A value that is added to one writer reaches the packets of every writer that was made with the same map,
  and no others.
\<close>

lemma AddSpecVal_shared:
  assumes "sw_packetSpec w = Some r" "sw_packetSpec v = Some r'" "r < length h" "r' < length h"
    and "sw_AddSpecVal key val h w = (h', w')"
  shows "spec_get (sw_packet h' v data) k = (if r' = r \<and> k = key then val else spec_get (sw_packet h v data) k)"
  using assms by (cases "r' = r") (auto simp: sw_AddSpecVal_def sw_packet_def)

lemma AddSpecVal_own:
  assumes "sw_packetSpec w = None" "sw_packetSpec v = Some r'" "r' < length h" "sw_AddSpecVal key val h w = (h', w')"
  shows "sw_packet h' v data = sw_packet h v data" and "spec_get (sw_packet h' w' data) key = val"
  using assms by (auto simp: sw_AddSpecVal_def sw_packet_def nth_append)

text \<open>
  The channel is closed at most once as long as \<open>Close\<close> is called at most once; two calls may both see it
  open, and then the process panics.
\<close>

interpretation cw: transition_system "\<lambda>s. s = NewConnectionWrapper False" cw_step .

definition cw_safe :: "conn_wrapper \<Rightarrow> bool" where
  "cw_safe s \<longleftrightarrow> (length (cw_closers s) \<le> 1 \<longrightarrow>
     \<not> cw_panicked s \<and> (cw_done s \<longrightarrow> cw_closers s = [CloserDone]))"

lemma cw_step_length: "cw_step s s' \<Longrightarrow> length (cw_closers s) \<le> length (cw_closers s')"
  by (auto simp: cw_Close_def cw_look_def cw_close_chan_def elim!: cw_step_cases)

lemma single_close_safe: "cw.reach s \<Longrightarrow> cw_safe s"
proof (rule cw.invariant)
  fix s s' assume safe: "cw_safe s" and step: "cw_step s s'"
  consider "cw_closers s = []" | c where "cw_closers s = [c]" | "length (cw_closers s) > 1"
    by (cases "cw_closers s" rule: remdups_adj.cases) auto
  then show "cw_safe s'"
  proof cases
    case 1
    with safe step show ?thesis by (auto simp: cw_safe_def cw_Close_def elim!: cw_step_cases)
  next
    case 2
    with safe step show ?thesis
      by (auto simp: cw_safe_def cw_Close_def cw_look_def cw_close_chan_def elim!: cw_step_cases)
  next
    case 3
    with cw_step_length [OF step] show ?thesis by (simp add: cw_safe_def)
  qed
next
  fix s assume "s = NewConnectionWrapper False"
  then show "cw_safe s" by (simp add: cw_safe_def NewConnectionWrapper_def)
qed

lemma double_close_panics: "\<exists>s. cw_step\<^sup>*\<^sup>* (NewConnectionWrapper False) s \<and> length (cw_closers s) = 2 \<and> cw_panicked s"
proof -
  let ?s = "cw_look 1 (cw_look 0 (cw_Close (cw_Close (NewConnectionWrapper False))))"
  have calls: "cw_step\<^sup>*\<^sup>* (NewConnectionWrapper False) (cw_Close (cw_Close (NewConnectionWrapper False)))"
    by (rule rtranclp.rtrancl_into_rtrancl [OF r_into_rtranclp]; rule cw_call) (simp_all add: cw_Close_def NewConnectionWrapper_def)
  have looks: "cw_step\<^sup>*\<^sup>* (cw_Close (cw_Close (NewConnectionWrapper False))) ?s"
    by (rule rtranclp.rtrancl_into_rtrancl [OF r_into_rtranclp]; rule cw_looks) (simp_all add: cw_Close_def cw_look_def NewConnectionWrapper_def)
  have closes: "cw_step\<^sup>*\<^sup>* ?s (cw_close_chan 1 (cw_close_chan 0 ?s))"
    by (rule rtranclp.rtrancl_into_rtrancl [OF r_into_rtranclp]; rule cw_closes)
      (simp_all add: cw_Close_def cw_look_def cw_close_chan_def NewConnectionWrapper_def)
  show ?thesis
    using rtranclp_trans [OF rtranclp_trans [OF calls looks] closes]
    by (intro exI [of _ "cw_close_chan 1 (cw_close_chan 0 ?s)"])
      (simp add: cw_Close_def cw_look_def cw_close_chan_def NewConnectionWrapper_def)
qed

end
