(* ===== verification/HttpClient.thy ===== *)
theory HttpClient
  imports Secrets
begin

text \<open>
  The HTTP client of \<open>src/common/httpclient/httpclient.go\<close>, which the Vault provider uses.

  \<open>NewHttpClient\<close> puts the transport for its CA into \<open>http.DefaultClient\<close>, which all clients of the
  process share.  So the state is the transport of that client: none stands for the default transport,
  which trusts the roots of the system.  Parsing certificates and sending a request over a transport are
  parameters.
\<close>

section \<open>Clients\<close>

record transport =
  tp_RootCAs :: string

record http_client =
  hc_err :: "error option"

record http_libs =
  hl_AppendCerts :: "string \<Rightarrow> bool"
  hl_Do :: "transport option \<Rightarrow> http_request \<Rightarrow> http_response result"

definition NewHttpClient :: "http_libs \<Rightarrow> string \<Rightarrow> transport option \<Rightarrow> http_client \<times> transport option" where
  "NewHttpClient H tlsCA defaultTransport =
     (if tlsCA \<noteq> '''' then
        (if \<not> hl_AppendCerts H tlsCA then
           (\<lparr>hc_err = Some ''failed to append root CA into cert pool''\<rparr>, defaultTransport)
         else (\<lparr>hc_err = None\<rparr>, Some \<lparr>tp_RootCAs = tlsCA\<rparr>))
      else (\<lparr>hc_err = None\<rparr>, defaultTransport))"

definition http_Do :: "http_libs \<Rightarrow> http_client \<Rightarrow> transport option \<Rightarrow> http_request \<Rightarrow> http_response result" where
  "http_Do H c defaultTransport req =
     (case hc_err c of Some e \<Rightarrow> Inl e | None \<Rightarrow> hl_Do H defaultTransport req)"

section \<open>Properties\<close>

text \<open>The clients that a process makes, one after the other.\<close>

fun make_clients :: "http_libs \<Rightarrow> string list \<Rightarrow> transport option \<Rightarrow> http_client list \<times> transport option" where
  "make_clients H [] tp = ([], tp)"
| "make_clients H (ca # cas) tp =
     (case NewHttpClient H ca tp of (c, tp) \<Rightarrow>
        (case make_clients H cas tp of (cs, tp) \<Rightarrow> (c # cs, tp)))"

text \<open>The transport is the one for the last CA that could be parsed.\<close>

definition usable_CAs :: "http_libs \<Rightarrow> string list \<Rightarrow> string list" where
  "usable_CAs H cas = filter (\<lambda>ca. ca \<noteq> '''' \<and> hl_AppendCerts H ca) cas"

lemma make_clients_transport:
  "snd (make_clients H cas tp) = (if usable_CAs H cas = [] then tp else Some \<lparr>tp_RootCAs = last (usable_CAs H cas)\<rparr>)"
  by (induction cas arbitrary: tp) (auto simp: NewHttpClient_def usable_CAs_def case_prod_beta)

lemma make_clients_nth:
  "i < length cas \<Longrightarrow> fst (make_clients H cas tp) ! i = fst (NewHttpClient H (cas ! i) None)"
  by (induction cas arbitrary: tp i) (auto simp: NewHttpClient_def case_prod_beta nth_Cons split: nat.split)

text \<open>What a client of its own would do: this is what the Vault provider is given as \<open>sl_httpDo\<close>.\<close>

definition private_Do :: "http_libs \<Rightarrow> string \<Rightarrow> http_request \<Rightarrow> http_response result" where
  "private_Do H tlsCA req = (case NewHttpClient H tlsCA None of (c, tp) \<Rightarrow> http_Do H c tp req)"

lemma usable_CAs_same: "set cas \<subseteq> {ca} \<Longrightarrow> cas \<noteq> [] \<Longrightarrow> ca \<noteq> '''' \<Longrightarrow> hl_AppendCerts H ca \<Longrightarrow> usable_CAs H cas = cas"
  unfolding usable_CAs_def by (rule filter_True) auto

text \<open>As long as the process only uses one CA, each client works as if it had a transport of its own.\<close>

lemma one_CA_is_private:
  assumes "set cas = {ca}" "i < length cas" "make_clients H cas None = (cs, tp)"
  shows "http_Do H (cs ! i) tp req = private_Do H ca req"
proof -
  have ca: "cas ! i = ca" using assms(1,2) nth_mem by blast
  have cs: "cs ! i = fst (NewHttpClient H ca None)" using make_clients_nth [OF assms(2), of H None] assms(3) ca by simp
  have tp: "tp = (if usable_CAs H cas = [] then None else Some \<lparr>tp_RootCAs = last (usable_CAs H cas)\<rparr>)"
    using make_clients_transport [of H cas None] assms(3) by simp
  show ?thesis
  proof (cases "ca \<noteq> '''' \<and> hl_AppendCerts H ca")
    case True
    have "cas \<noteq> []" using assms(2) by (cases cas) simp_all
    moreover from this True have usable: "usable_CAs H cas = cas"
      using usable_CAs_same [OF equalityD1 [OF assms(1)]] by simp
    moreover from \<open>cas \<noteq> []\<close> have "last cas = ca" using assms(1) last_in_set [of cas] by simp
    ultimately have "tp = Some \<lparr>tp_RootCAs = ca\<rparr>" using tp usable by simp
    with True show ?thesis unfolding cs private_Do_def NewHttpClient_def by simp
  next
    case False
    then have "usable_CAs H cas = []" using assms(1) by (auto simp: usable_CAs_def filter_empty_conv)
    then have "tp = None" using tp by simp
    with False show ?thesis unfolding cs private_Do_def NewHttpClient_def by (cases "ca = []") simp_all
  qed
qed

text \<open>With two CAs, the client that was made first goes by the CA of the second.\<close>

lemma second_CA_wins:
  assumes "hl_AppendCerts H ca1" "hl_AppendCerts H ca2" "ca2 \<noteq> ''''" "make_clients H [ca1, ca2] None = (cs, tp)"
  shows "http_Do H (cs ! 0) tp req = private_Do H ca2 req"
  using assms by (auto simp: NewHttpClient_def private_Do_def http_Do_def split: if_splits)

lemma decode_error_cong:
  "sl_json_errors L = sl_json_errors L' \<Longrightarrow> decodeVaultHttpErrorResponseBody L resp = decodeVaultHttpErrorResponseBody L' resp"
  unfolding decodeVaultHttpErrorResponseBody_def by (simp cong: if_cong)

text \<open>A request of the Vault provider, with the HTTP client of the process in place of the parameter.\<close>

lemma vault_exchange_over_client:
  assumes "set cas = {vc_tlsCA (vp_config p)}" "i < length cas" "make_clients H cas None = (cs, tp)"
  shows "vault_exchange (L\<lparr>sl_httpDo := private_Do H\<rparr>) p req
           = vault_exchange (L\<lparr>sl_httpDo := (\<lambda>_. http_Do H (cs ! i) tp)\<rparr>) p req"
  unfolding vault_exchange_def
  using one_CA_is_private [OF assms, of req]
    decode_error_cong [of "L\<lparr>sl_httpDo := private_Do H\<rparr>" "L\<lparr>sl_httpDo := (\<lambda>_. http_Do H (cs ! i) tp)\<rparr>"] by simp

end
