(* ===== verification/ClientConfig.thy ===== *)
theory ClientConfig
  imports Prelude
begin

text \<open>
  The files of \<open>src/common/clientconfig/clientconfig.go\<close>: the home directory of the program and the
  configuration files in it.

  The file system is a map from paths to directories and files with their mode bits.  What the operating
  system adds is a parameter (\<open>fs_libs\<close>): the user's home, joining paths, the directories above a path,
  the mode that is left of a requested one, and the calls it refuses.  A \<open>Stat\<close> that is refused for
  another reason than a missing path counts as present, as in the code.
\<close>

section \<open>File system\<close>

datatype fs_node = Directory nat | File nat string

type_synonym fs = "string \<Rightarrow> fs_node option"

record fs_libs =
  fl_UserHomeDir :: "string result"
  fl_Join :: "string list \<Rightarrow> string"
  fl_parents :: "string \<Rightarrow> string list"
  fl_masked :: "nat \<Rightarrow> nat"
  fl_hidden :: "string \<Rightarrow> bool"
  fl_MkdirAll_err :: "string \<Rightarrow> error option"
  fl_Create_err :: "string \<Rightarrow> error option"
  fl_Chmod_err :: "string \<Rightarrow> error option"

definition clientConfigFolder :: string where
  "clientConfigFolder = ''.hoop''"

text \<open>The modes 0700, 0600 and 0666, which \<open>os.Create\<close> asks for.\<close>

abbreviation mode_dir :: nat where "mode_dir \<equiv> 448"
abbreviation mode_private :: nat where "mode_private \<equiv> 384"
abbreviation mode_create :: nat where "mode_create \<equiv> 438"

definition not_exist :: "fs_libs \<Rightarrow> fs \<Rightarrow> string \<Rightarrow> bool" where
  "not_exist L fs path = (fs path = None \<and> \<not> fl_hidden L path)"

definition mkdir :: "fs_libs \<Rightarrow> string \<Rightarrow> fs \<Rightarrow> fs" where
  "mkdir L path fs = (if fs path = None then fs(path \<mapsto> Directory (fl_masked L mode_dir)) else fs)"

definition MkdirAll :: "fs_libs \<Rightarrow> string \<Rightarrow> fs \<Rightarrow> fs" where
  "MkdirAll L path fs = fold (mkdir L) (fl_parents L path @ [path]) fs"

definition chmod :: "fs_libs \<Rightarrow> string \<Rightarrow> nat \<Rightarrow> fs \<Rightarrow> fs" where
  "chmod L path mode fs =
     (if fl_Chmod_err L path \<noteq> None then fs
      else (case fs path of
              Some (File _ content) \<Rightarrow> fs(path \<mapsto> File mode content)
            | Some (Directory _) \<Rightarrow> fs(path \<mapsto> Directory mode)
            | None \<Rightarrow> fs))"

section \<open>The operations\<close>

definition NewHomeDir :: "fs_libs \<Rightarrow> string list \<Rightarrow> fs \<Rightarrow> string result \<times> fs" where
  "NewHomeDir L folderPaths fs =
     (case fl_UserHomeDir L of
        Inl err \<Rightarrow> (Inl (''failed obtaing home dir, err='' @ err), fs)
      | Inr home \<Rightarrow>
          (let hoopHomeDir = fl_Join L ([home, clientConfigFolder] @ folderPaths) in
           if not_exist L fs hoopHomeDir then
             (case fl_MkdirAll_err L hoopHomeDir of
                Some err \<Rightarrow> (Inl (''failed creating hoop home dir ('' @ hoopHomeDir @ ''), err='' @ err), fs)
              | None \<Rightarrow> (Inr hoopHomeDir, MkdirAll L hoopHomeDir fs))
           else (Inr hoopHomeDir, fs)))"

text \<open>When the file cannot be created, \<open>NewPath\<close> returns its path together with the error.\<close>

definition NewPath :: "fs_libs \<Rightarrow> string \<Rightarrow> fs \<Rightarrow> (string \<times> error option) \<times> fs" where
  "NewPath L configFile fs =
     (case NewHomeDir L [] fs of
        (Inl err, fs) \<Rightarrow> (('''', Some err), fs)
      | (Inr hoopHomeDir, fs) \<Rightarrow>
          (let path = hoopHomeDir @ ''/'' @ configFile in
           if not_exist L fs path then
             (case fl_Create_err L path of
                Some err \<Rightarrow> ((path, Some (''failed creating config file ('' @ path @ ''), err='' @ err)), fs)
              | None \<Rightarrow>
                  (let fs = fs(path \<mapsto> File (fl_masked L mode_create) '''');
                       fs = chmod L path mode_private fs
                   in ((path, None), fs)))
           else ((path, None), fs)))"

section \<open>Properties\<close>

text \<open>Nothing that is there is ever changed.\<close>

lemma mkdir_keeps: "fs p \<noteq> None \<Longrightarrow> mkdir L q fs p = fs p"
  by (auto simp: mkdir_def)

lemma fold_mkdir_keeps: "fs p \<noteq> None \<Longrightarrow> fold (mkdir L) qs fs p = fs p"
  by (induction qs arbitrary: fs) (simp_all add: mkdir_keeps)

lemma fold_mkdir_new: "q \<in> set qs \<Longrightarrow> fold (mkdir L) qs fs q \<noteq> None"
proof (induction qs arbitrary: fs)
  case (Cons p qs)
  show ?case
  proof (cases "q = p")
    case True
    have "mkdir L p fs p \<noteq> None" by (simp add: mkdir_def)
    then show ?thesis using True fold_mkdir_keeps [of "mkdir L p fs" p L qs] by simp
  next
    case False
    with Cons show ?thesis by simp
  qed
qed simp

lemma fold_mkdir_node: "fold (mkdir L) qs fs p = Some n \<Longrightarrow> fs p = Some n \<or> n = Directory (fl_masked L mode_dir)"
  by (induction qs arbitrary: fs) (fastforce simp: mkdir_def split: if_splits)+

lemma NewHomeDir_keeps: "NewHomeDir L fps fs = (r, fs') \<Longrightarrow> fs p \<noteq> None \<Longrightarrow> fs' p = fs p"
  by (auto simp: NewHomeDir_def MkdirAll_def Let_def fold_mkdir_keeps mkdir_keeps split: sum.splits if_splits option.splits)

lemma NewPath_keeps:
  assumes "NewPath L f fs = (r, fs')" "fs p \<noteq> None"
  shows "fs' p = fs p"
proof -
  obtain d fs1 where d: "NewHomeDir L [] fs = (d, fs1)" by (rule prod.exhaust)
  have keep: "fs1 p = fs p" using NewHomeDir_keeps [OF d assms(2)] .
  then have "fs1 p \<noteq> None" using assms(2) by simp
  then show ?thesis
    using assms(1) d unfolding NewPath_def chmod_def
    by (cases d) (auto simp: Let_def not_exist_def keep [symmetric] split: if_splits option.splits)
qed

text \<open>A directory that was made is private to the user.\<close>

lemma NewHomeDir_made:
  assumes "NewHomeDir L fps fs = (Inr dir, fs')" "fs dir = None" "\<not> fl_hidden L dir"
  shows "fs' dir = Some (Directory (fl_masked L mode_dir))"
proof -
  have fs': "fs' = MkdirAll L dir fs"
    using assms by (auto simp: NewHomeDir_def Let_def not_exist_def split: sum.splits if_splits option.splits)
  obtain n where n: "MkdirAll L dir fs dir = Some n"
    using fold_mkdir_new [of dir "fl_parents L dir @ [dir]" L fs] by (auto simp: MkdirAll_def)
  with fold_mkdir_node [of L "fl_parents L dir @ [dir]" fs dir n] assms(2) show ?thesis
    by (simp add: fs' MkdirAll_def)
qed

text \<open>
  A configuration file that is new is empty, and private as long as its mode could be set; asking for it
  again gives the same path and changes nothing.
\<close>

lemma NewPath_made:
  assumes "NewHomeDir L [] fs = (Inr dir, fs1)" "NewPath L f fs = ((path, None), fs')" "not_exist L fs1 path"
  shows "path = dir @ ''/'' @ f"
    and "fs' path = Some (File (if fl_Chmod_err L path = None then mode_private else fl_masked L mode_create) '''')"
  using assms by (auto simp: NewPath_def chmod_def Let_def split: if_splits option.splits)

lemma NewHomeDir_exists:
  assumes "NewHomeDir L fps fs = (Inr dir, fs')"
  shows "\<not> not_exist L fs' dir" and "\<not> not_exist L fs2 dir \<Longrightarrow> NewHomeDir L fps fs2 = (Inr dir, fs2)"
  using assms fold_mkdir_new [of dir "fl_parents L dir @ [dir]" L fs]
  by (auto simp: NewHomeDir_def MkdirAll_def Let_def not_exist_def split: sum.splits if_splits option.splits)

lemma NewPath_again:
  assumes "NewPath L f fs = ((path, None), fs')"
  shows "NewPath L f fs' = ((path, None), fs')"
proof -
  obtain dir fs1 where dir: "NewHomeDir L [] fs = (Inr dir, fs1)"
    using assms by (auto simp: NewPath_def split: prod.splits sum.splits)
  have path: "path = dir @ ''/'' @ f" and node: "\<not> not_exist L fs' path" and keep: "p \<noteq> path \<Longrightarrow> fs' p = fs1 p" for p
    using assms dir by (auto simp: NewPath_def chmod_def not_exist_def Let_def split: if_splits option.splits)
  have "\<not> not_exist L fs' dir"
    using NewHomeDir_exists(1) [OF dir] keep [of dir] path by (simp add: not_exist_def)
  from NewHomeDir_exists(2) [OF dir this] have again: "NewHomeDir L [] fs' = (Inr dir, fs')" .
  show ?thesis using node unfolding NewPath_def again by (simp add: path)
qed

end
