(* ===== verification/Runtime.thy ===== *)
theory Runtime
  imports GrpcClient
begin

text \<open>
  What the programs tell about themselves: \<open>src/common/version/version.go\<close>,
  \<open>src/common/appruntime/runtime.go\<close>, and \<open>src/common/monitoring\<close>.

  The values put in by the linker, the Go runtime, running a command and reading a file are parameters, as
  are the JSON codec, \<open>url.Parse\<close> and the monitoring services.  A nil slice is \<open>None\<close>.
\<close>

section \<open>version\<close>

record version_info =
  vi_Version :: string
  vi_GitCommit :: string
  vi_BuildDate :: string
  vi_GoVersion :: string
  vi_Compiler :: string
  vi_Platform :: string

record build_vars =
  bv_version :: string
  bv_gitCommit :: string
  bv_buildDate :: string
  bv_runtimeVersion :: string
  bv_runtimeCompiler :: string
  bv_GOOS :: string
  bv_GOARCH :: string

definition version_Get :: "build_vars \<Rightarrow> version_info" where
  "version_Get B =
     (let i = \<lparr>vi_Version = bv_version B, vi_GitCommit = bv_gitCommit B, vi_BuildDate = bv_buildDate B,
               vi_GoVersion = bv_runtimeVersion B, vi_Compiler = bv_runtimeCompiler B,
               vi_Platform = bv_GOOS B @ ''/'' @ bv_GOARCH B\<rparr>
      in if vi_Version i = '''' then i\<lparr>vi_Version := ''unknown'', vi_BuildDate := '''', vi_GitCommit := ''''\<rparr> else i)"

text \<open>\<open>json.Unmarshal\<close> fills the value it is given; its error is ignored, and other types are not decoded.\<close>

datatype version_obj = ObjString string | ObjBytes string | ObjOther

definition zero_info :: version_info where
  "zero_info = \<lparr>vi_Version = '''', vi_GitCommit = '''', vi_BuildDate = '''', vi_GoVersion = '''', vi_Compiler = '''', vi_Platform = ''''\<rparr>"

definition version_Decode :: "(string \<Rightarrow> version_info \<Rightarrow> version_info) \<Rightarrow> version_obj \<Rightarrow> version_info" where
  "version_Decode unmarshal obj =
     (case obj of ObjString v \<Rightarrow> unmarshal v zero_info | ObjBytes v \<Rightarrow> unmarshal v zero_info | ObjOther \<Rightarrow> zero_info)"

definition version_JSON :: "(version_info \<Rightarrow> string) \<Rightarrow> build_vars \<Rightarrow> string" where
  "version_JSON marshal B = marshal (version_Get B)"

section \<open>appruntime\<close>

record host =
  ho_command :: "string \<Rightarrow> string list \<Rightarrow> string option"
  ho_file :: "string \<Rightarrow> string option"
  ho_FindProcess :: "int \<Rightarrow> error option"
  ho_Signal :: "int \<Rightarrow> int \<Rightarrow> error option"

definition runCommand :: "host \<Rightarrow> string \<Rightarrow> string list \<Rightarrow> string option" where
  "runCommand H command arg =
     (case ho_command H command arg of None \<Rightarrow> None | Some resp \<Rightarrow> Some (trim_space (trim_suffix resp [CHR 0x0A])))"

definition runtime_readFile :: "host \<Rightarrow> string \<Rightarrow> string option" where
  "runtime_readFile H path =
     (case ho_file H path of None \<Rightarrow> None | Some content \<Rightarrow> Some (trim_suffix content [CHR 0x0A]))"

definition runtime_String :: "string option \<Rightarrow> string" where
  "runtime_String val = (case val of None \<Rightarrow> '''' | Some v \<Rightarrow> v)"

definition runtime_OS :: "host \<Rightarrow> string gomap" where
  "runtime_OS H =
     [(''hostname'', runtime_String (runCommand H ''hostname'' [])),
      (''kernel_version'', runtime_String (runCommand H ''uname'' [''-a''])),
      (''machine_id'', runtime_String (runtime_readFile H ''/sys/class/dmi/id/product_uuid''))]"

definition runtime_Kill :: "host \<Rightarrow> int \<Rightarrow> int \<Rightarrow> error option" where
  "runtime_Kill H pid signum = (case ho_FindProcess H pid of Some err \<Rightarrow> Some err | None \<Rightarrow> ho_Signal H pid signum)"

section \<open>monitoring\<close>

text \<open>\<open>url.Parse\<close> gives a nil URL when it fails.\<close>

definition NormalizeEnvironment :: "(string \<Rightarrow> url result) \<Rightarrow> string \<Rightarrow> string" where
  "NormalizeEnvironment urlParse apiURL =
     (case urlParse apiURL of
        Inr u \<Rightarrow> url_Hostname u
      | Inl _ \<Rightarrow> (let environment = trim_prefix apiURL ''http://'' in trim_prefix environment ''https://''))"

definition StartSentry :: "(string \<Rightarrow> string \<Rightarrow> error option) \<Rightarrow> string \<Rightarrow> build_vars \<Rightarrow> bool \<times> error option" where
  "StartSentry sentry_Init sentryDSN B =
     (if sentryDSN = '''' then (False, None)
      else (let err = sentry_Init sentryDSN (vi_Version (version_Get B)) in (err = None, err)))"

record telemetry_options =
  to_ServiceName :: string
  to_ServiceVersion :: string
  to_ExporterEndpoint :: string
  to_Headers :: "string gomap"

definition NewOpenTracing :: "(telemetry_options \<Rightarrow> 'a result) \<Rightarrow> os_env \<Rightarrow> string \<Rightarrow> build_vars \<Rightarrow> 'a result" where
  "NewOpenTracing configure os honeycombApiKey B =
     (let hcApiKey = (if honeycombApiKey = '''' then os_Getenv os ''HONEYCOMB_API_KEY'' else honeycombApiKey) in
      configure \<lparr>to_ServiceName = ''hoopdev'', to_ServiceVersion = vi_Version (version_Get B),
                 to_ExporterEndpoint = ''https://api.honeycomb.io:443'', to_Headers = [(''x-honeycomb-team'', hcApiKey)]\<rparr>)"

section \<open>Properties\<close>

text \<open>What a stream of the gRPC client reports; the version is never empty.\<close>

definition version_field :: "build_vars \<Rightarrow> string \<Rightarrow> string" where
  "version_field B name =
     (let i = version_Get B in
      if name = ''Version'' then vi_Version i else if name = ''GoVersion'' then vi_GoVersion i
      else if name = ''Compiler'' then vi_Compiler i else if name = ''Platform'' then vi_Platform i else '''')"

lemma version_never_empty: "vi_Version (version_Get B) \<noteq> ''''"
  by (simp add: version_Get_def Let_def)

lemma unknown_version_has_no_commit:
  "bv_version B = '''' \<Longrightarrow> vi_Version (version_Get B) = ''unknown'' \<and> vi_GitCommit (version_Get B) = '''' \<and> vi_BuildDate (version_Get B) = ''''"
  by (simp add: version_Get_def)

lemma base_options_of_host:
  assumes "gl_version L = version_field B" "gl_os L = runtime_OS H"
  shows "base_options L =
    [(''version'', vi_Version (version_Get B)), (''go-version'', bv_runtimeVersion B), (''compiler'', bv_runtimeCompiler B),
     (''platform'', bv_GOOS B @ ''/'' @ bv_GOARCH B), (''hostname'', runtime_String (runCommand H ''hostname'' [])),
     (''machine-id'', runtime_String (runtime_readFile H ''/sys/class/dmi/id/product_uuid'')),
     (''kernel-version'', runtime_String (runCommand H ''uname'' [''-a'']))]"
  unfolding base_options_def assms by (simp add: version_field_def version_Get_def Let_def runtime_OS_def gm_str_def gm_get_def)

lemma version_roundtrip:
  assumes "\<And>i. unmarshal (marshal i) zero_info = i"
  shows "version_Decode unmarshal (ObjBytes (version_JSON marshal B)) = version_Get B"
  using assms by (simp add: version_Decode_def version_JSON_def)

end
