(* ===== verification/ApiMain.thy ===== *)
theory ApiMain
  imports QueryClient Config
begin

text \<open>
  The start of the REST API, \<open>main\<close> of \<open>src/api-server/main.go\<close> and \<open>src/api-server/db.go\<close>: settings with
  defaults, the connection string of the database, and which handler answers which path.

  Opening and pinging the database are parameters; a failure ends the process.  The multiplexer of the
  standard library picks the handler of the path, or of its longest prefix that ends in a slash; \<open>AnsNotFound\<close>
  is its answer to other paths.
\<close>

section \<open>Settings\<close>

definition getEnv :: "os_env \<Rightarrow> string \<Rightarrow> string \<Rightarrow> string" where
  "getEnv os key defaultValue = (let v = os_Getenv os key in if v \<noteq> '''' then v else defaultValue)"

definition gatewayAddr :: "os_env \<Rightarrow> string" where
  "gatewayAddr os = getEnv os ''GATEWAY_ADDR'' ''localhost:8010''"

definition gateway_agents_url :: "os_env \<Rightarrow> string" where
  "gateway_agents_url os = ''http://'' @ getEnv os ''GATEWAY_HTTP_ADDR'' ''localhost:8011'' @ ''/agents''"

definition connStr :: "os_env \<Rightarrow> string" where
  "connStr os =
     ''host='' @ getEnv os ''POSTGRES_HOST'' ''localhost'' @ '' port='' @ getEnv os ''POSTGRES_PORT'' ''5432''
       @ '' user='' @ getEnv os ''POSTGRES_USER'' ''bifrost_admin''
       @ '' password='' @ getEnv os ''POSTGRES_PASSWORD'' ''bifrost_secure_pass''
       @ '' dbname='' @ getEnv os ''POSTGRES_DB'' ''bifrost_app'' @ '' sslmode='' @ getEnv os ''POSTGRES_SSLMODE'' ''disable''"

text \<open>\<open>InitDB\<close>: the handle that is left in the variable \<open>db\<close>, and the error.\<close>

definition InitDB :: "(string \<Rightarrow> 'db result) \<Rightarrow> ('db \<Rightarrow> error option) \<Rightarrow> os_env \<Rightarrow> 'db option \<times> error option" where
  "InitDB sql_Open ping os =
     (case sql_Open (connStr os) of
        Inl err \<Rightarrow> (None, Some (''failed to open database: '' @ err))
      | Inr db \<Rightarrow>
          (case ping db of
             Some err \<Rightarrow> (Some db, Some (''failed to ping database: '' @ err))
           | None \<Rightarrow> (Some db, None)))"

section \<open>Routes\<close>

datatype api_answer =
    AnsApi response api_db
  | AnsQuery "query_reply option"
  | AnsHealth "string gomap"
  | AnsNotFound

definition handleHealth :: api_answer where
  "handleHealth = AnsHealth [(''status'', ''ok'')]"

definition api_mux :: "api_libs \<Rightarrow> query_libs \<Rightarrow> (string \<Rightarrow> query_request result) \<Rightarrow> error option \<Rightarrow> bool \<Rightarrow> http_request
    \<Rightarrow> recv list \<Rightarrow> api_db \<Rightarrow> api_answer" where
  "api_mux L Q json fault drawn r rs d =
     (if rq_Path r = ''/api/execute-query'' then AnsQuery (handleExecuteQuery Q json fault r rs d)
      else if rq_Path r = ''/health'' then handleHealth
      else case api_route L fault drawn r d of Some (resp, d) \<Rightarrow> AnsApi resp d | None \<Rightarrow> AnsNotFound)"

text \<open>\<open>main\<close> up to the listener: none when the process ends before it serves.\<close>

definition api_main :: "(string \<Rightarrow> 'db result) \<Rightarrow> ('db \<Rightarrow> error option) \<Rightarrow> os_env \<Rightarrow> string option" where
  "api_main sql_Open ping os = (case InitDB sql_Open ping os of (_, Some _) \<Rightarrow> None | (_, None) \<Rightarrow> Some '':8080'')"

section \<open>Properties\<close>

lemma getEnv_nonempty: "defaultValue \<noteq> '''' \<Longrightarrow> getEnv os key defaultValue \<noteq> ''''"
  by (simp add: getEnv_def Let_def)

text \<open>The API only serves on a database that answered.\<close>

lemma api_main_serves: "api_main sql_Open ping os \<noteq> None \<longleftrightarrow> (\<exists>db. sql_Open (connStr os) = Inr db \<and> ping db = None)"
  by (auto simp: api_main_def InitDB_def split: sum.splits option.splits)

text \<open>The health check and the queries leave the stored data alone, and hide no other handler.\<close>

lemma api_mux_data:
  assumes "api_mux L Q json fault drawn r rs d = AnsApi resp d'"
  shows "api_route L fault drawn r d = Some (resp, d')"
  using assms by (auto simp: api_mux_def handleHealth_def split: if_splits option.splits)

lemma api_mux_route:
  assumes "api_route L fault drawn r d = Some (resp, d')"
  shows "api_mux L Q json fault drawn r rs d = AnsApi resp d'"
proof -
  have "rq_Path r \<noteq> ''/api/execute-query''" "rq_Path r \<noteq> ''/health''"
    using assms by (auto simp: api_route_def Let_def has_prefix_def)
  then show ?thesis using assms by (simp add: api_mux_def)
qed

end
