(* ===== verification/VaultLog.thy ===== *)
theory VaultLog
  imports Secrets
begin

text \<open>
  What the Vault provider writes into the log about the responses of Vault: the \<open>String\<close> methods of
  \<open>src/agent/secretsmanager/vault.go\<close>.  They are meant to show what came back without showing a secret.
\<close>

definition show_bool :: "bool \<Rightarrow> string" where
  "show_bool b = (if b then ''true'' else ''false'')"

definition getDataKeys :: "string gomap option \<Rightarrow> string list" where
  "getDataKeys m = (case m of None \<Rightarrow> [] | Some m \<Rightarrow> map fst m)"

definition meta_String :: "kv_meta \<Rightarrow> string" where
  "meta_String k =
     ''request_id='' @ km_RequestID k @ '', lease_id='' @ km_LeaseID k @ '', lease_duration='' @ itoa (km_LeaseDuration k)
       @ '', mount_type='' @ km_MountType k"

definition KeyValV1_String :: "kv_v1 \<Rightarrow> string" where
  "KeyValV1_String k = meta_String (k1_Meta k) @ '', keys='' @ go_show_list (getDataKeys (k1_Data k))"

definition KeyValV2_String :: "kv_v2 \<Rightarrow> string" where
  "KeyValV2_String k =
     (let m = kd_Metadata (k2_Data k) in
      meta_String (k2_Meta k) @ '', created_at='' @ show_any m ''created_at'' @ '', destroyed='' @ show_any m ''destroyed''
        @ '', version='' @ show_any m ''version'' @ '', keys='' @ go_show_list (getDataKeys (kd_Data (k2_Data k))))"

definition kv_String :: "kv_getter \<Rightarrow> string" where
  "kv_String kv = (case kv of KeyValV1 k \<Rightarrow> KeyValV1_String k | KeyValV2 k \<Rightarrow> KeyValV2_String k)"

text \<open>The log line of a login has the length of the token; a token that is not there is printed as nil.\<close>

definition login_String :: "login_response \<Rightarrow> string" where
  "login_String r =
     (let auth = ar_Auth r; clientToken = show_any auth ''client_token'' in
      ''requestid='' @ ar_RequestID r @ '', token_length='' @ itoa (int (length clientToken))
        @ '', token_policies='' @ show_any auth ''token_policies'' @ '', orphan='' @ show_any auth ''orphan''
        @ '', lease_duration='' @ show_any auth ''lease_duration'' @ '', renewable='' @ show_any auth ''renewable'')"

section \<open>Properties\<close>

text \<open>
  The line for a secret depends on its keys and its metadata, not on the values: two responses that differ
  in the values only are logged alike.
\<close>

definition hide_values :: "(string \<Rightarrow> string \<Rightarrow> string) \<Rightarrow> string gomap option \<Rightarrow> string gomap option" where
  "hide_values f = map_option (map (\<lambda>(k, v). (k, f k v)))"

definition kv_hide :: "(string \<Rightarrow> string \<Rightarrow> string) \<Rightarrow> kv_getter \<Rightarrow> kv_getter" where
  "kv_hide f kv =
     (case kv of
        KeyValV1 k \<Rightarrow> KeyValV1 (k\<lparr>k1_Data := hide_values f (k1_Data k)\<rparr>)
      | KeyValV2 k \<Rightarrow> KeyValV2 (k\<lparr>k2_Data := (k2_Data k)\<lparr>kd_Data := hide_values f (kd_Data (k2_Data k))\<rparr>\<rparr>))"

lemma hide_values_keys [simp]: "getDataKeys (hide_values f m) = getDataKeys m"
  by (cases m) (simp_all add: getDataKeys_def hide_values_def case_prod_beta comp_def)

lemma log_hides_values: "kv_String (kv_hide f kv) = kv_String kv"
  by (cases kv) (simp_all add: kv_String_def kv_hide_def KeyValV1_String_def KeyValV2_String_def)

lemma show_any_set: "show_any (gm_set k v m) k' = (if k' = k then env_show v else show_any m k')"
  by (simp add: show_any_def)

text \<open>The line of a login only depends on the length of the token.\<close>

lemma log_hides_token:
  assumes "length (show_any (ar_Auth r) ''client_token'') = length t" "ar_Auth r \<noteq> []"
  shows "login_String (r\<lparr>ar_Auth := gm_set ''client_token'' (EnvStr t) (ar_Auth r)\<rparr>) = login_String r"
    and "getClientToken (r\<lparr>ar_Auth := gm_set ''client_token'' (EnvStr t) (ar_Auth r)\<rparr>) = t"
proof -
  have "gm_set ''client_token'' (EnvStr t) (ar_Auth r) \<noteq> []"
    using assms(2) by (cases "ar_Auth r") (auto simp: gm_set_def)
  then show "getClientToken (r\<lparr>ar_Auth := gm_set ''client_token'' (EnvStr t) (ar_Auth r)\<rparr>) = t"
    by (simp add: getClientToken_def show_any_set env_show_def)
  show "login_String (r\<lparr>ar_Auth := gm_set ''client_token'' (EnvStr t) (ar_Auth r)\<rparr>) = login_String r"
    using assms(1) by (simp add: login_String_def show_any_set env_show_def Let_def cong: if_cong)
qed

text \<open>A login without a token is not an error: what is printed for nil is used as the token.\<close>

lemma missing_token_is_nil:
  "ar_Auth r \<noteq> [] \<Longrightarrow> gm_get (ar_Auth r) ''client_token'' = None \<Longrightarrow> getClientToken r = ''<nil>''"
  by (simp add: getClientToken_def show_any_def)

end
