(* ===== verification/SshTypes.thy ===== *)
theory SshTypes
  imports Prelude
begin

text \<open>
  The SSH messages of \<open>src/agent/libbifrost/proxy/ssh/types/types.go\<close>.  Like the rest of that library they are
  stubs: what the real library does is not in the repository, and nothing of the program uses them.
\<close>

datatype ssh_msg =
    OpenChannel "16 word" string string
  | SSHRequest "16 word" string bool string
  | SSHData "16 word" string
  | CloseChannel "16 word" string

text \<open>The methods \<open>Encode\<close> of the four types.\<close>

fun ssh_Encode :: "ssh_msg \<Rightarrow> string" where
  "ssh_Encode (OpenChannel channelID channelType channelExtraData) = ''''"
| "ssh_Encode (SSHRequest channelID requestType wantReply payload) = ''''"
| "ssh_Encode (SSHData channelID payload) = ''''"
| "ssh_Encode (CloseChannel cid typ) = ''''"

abbreviation OpenChannelType :: "8 word" where "OpenChannelType \<equiv> 1"
abbreviation SSHRequestType :: "8 word" where "SSHRequestType \<equiv> 2"
abbreviation DataType :: "8 word" where "DataType \<equiv> 3"
abbreviation CloseChannelType :: "8 word" where "CloseChannelType \<equiv> 4"

definition ssh_DecodeType :: "string \<Rightarrow> 8 word" where
  "ssh_DecodeType data = 0"

definition ssh_Decode :: "string \<Rightarrow> 'a \<Rightarrow> 'a \<times> error option" where
  "ssh_Decode data into = (into, Some ''libbifrost: not implemented'')"

text \<open>The writer for the data of a channel.\<close>

definition DataWriter_Write :: "string \<Rightarrow> nat \<times> error option" where
  "DataWriter_Write b = (0, Some ''libbifrost: not implemented'')"

text \<open>No message survives the stub: all are encoded alike, and no type is recognised.\<close>

lemma ssh_stub_forgets: "ssh_Encode m = ssh_Encode m'"
  by (cases m; cases m') simp_all

lemma ssh_stub_knows_no_type:
  "ssh_DecodeType data \<notin> {OpenChannelType, SSHRequestType, DataType, CloseChannelType}"
  by (simp add: ssh_DecodeType_def)

end
