(* ===== verification/Gateway_Races.thy ===== *)
theory Gateway_Races
  imports Gateway_Safety
begin

text \<open>
  Interleavings of \<open>src/gateway/main.go\<close> that the code does not expect: a reconnecting agent that is lost,
  and two senders on one stream.
\<close>

section \<open>A reconnecting agent\<close>

definition demo_agent_again :: agent_connection where
  "demo_agent_again = demo_agent\<lparr>ac_stream := 1\<rparr>"

definition demo_reconnected :: gateway where
  "demo_reconnected =
     (let md = Some ((''origin'', [''agent'']) # demo_md) in
      agent_defer demo_agent ''EOF'' (agent_recv (Inl ''EOF'') demo_agent
        (agent_hello None demo_agent_again (gw_Connect 0 1 md
          (agent_hello None demo_agent (gw_Connect 0 0 md gw_init))))))"

lemma demo_reconnected_reach: "gws.reach demo_reconnected"
  unfolding demo_reconnected_def Let_def
  apply (rule gw_step_reach [OF _ gw_step.agent_exit])
   apply (rule gw_step_reach [OF _ gw_step.agent_receive])
    apply (rule gw_step_reach [OF _ gw_step.hello])
     apply (rule gw_step_reach [OF _ gw_step.connect])
      apply (rule gw_step_reach [OF _ gw_step.hello])
       apply (rule gw_step_reach [OF _ gw_step.connect])
        apply (rule gws.start, rule refl)
       apply code_simp+
  done

text \<open>
  The agent registry is not exact: the deferred delete of an agent's handler removes the entry
  of a newer connection with the same id, so an agent can be connected, with its handler in the
  receive loop, and be missing from the active agents.
\<close>

theorem gateway_reconnected_agent_lost:
  "\<exists>s a. gws.reach s \<and> gw_threads s (ac_stream a) = Some (AgentLoop a) \<and> ac_agentID a \<notin> set (GetActiveAgents s)"
proof (intro exI conjI)
  show "gws.reach demo_reconnected" by (rule demo_reconnected_reach)
  show "gw_threads demo_reconnected (ac_stream demo_agent_again) = Some (AgentLoop demo_agent_again)" by code_simp
  show "ac_agentID demo_agent_again \<notin> set (GetActiveAgents demo_reconnected)" by code_simp
qed

section \<open>Two senders\<close>

text \<open>
  The stream of an agent has no lock.  Every client that uses the agent sends on it from its own handler, and
  \<open>grpc\<close> does not allow two goroutines to call \<open>Send\<close> on a stream at the same time; the model, where a send is
  one step, only shows that nothing keeps them apart: two handlers are about to send on the same stream.
\<close>

definition demo_two_senders :: gateway where
  "demo_two_senders =
     client_recv (Inr demo_packet) 2 1 (client_recv (Inr demo_packet) 1 0
       (client_create ''abcdefgh'' 2 demo_agent (gw_Connect 0 2 (Some demo_md) demo_open)))"

lemma demo_two_senders_reach: "gws.reach demo_two_senders"
  unfolding demo_two_senders_def
  apply (rule gw_step_reach [OF _ gw_step.client_receive])
   apply (rule gw_step_reach [OF _ gw_step.client_receive])
    apply (rule gw_step_reach [OF _ gw_step.create])
      apply (rule gw_step_reach [OF _ gw_step.connect])
       apply (rule demo_open_reach)
      apply code_simp+
  done

lemma gateway_concurrent_sends:
  "\<exists>s st st' p p' pkt pkt'. gws.reach s \<and> st \<noteq> st' \<and> gw_threads s st = Some (ClientForward p pkt)
     \<and> gw_threads s st' = Some (ClientForward p' pkt')
     \<and> ac_stream (ses_agent (gw_heap s ! p)) = ac_stream (ses_agent (gw_heap s ! p'))"
proof (intro exI conjI)
  show "gws.reach demo_two_senders" by (rule demo_two_senders_reach)
  show "(1 :: stream) \<noteq> 2" by simp
  show "gw_threads demo_two_senders 1 = Some (ClientForward 0 (stamp ''12345678'' demo_packet))" by code_simp
  show "gw_threads demo_two_senders 2 = Some (ClientForward 1 (stamp ''abcdefgh'' demo_packet))" by code_simp
  show "ac_stream (ses_agent (gw_heap demo_two_senders ! 0)) = ac_stream (ses_agent (gw_heap demo_two_senders ! 1))" by code_simp
qed

end
