(* ===== verification/GatewayMain.thy ===== *)
theory GatewayMain
  imports Gateway_Races ApiMain GrpcClient ApiServer
begin

text \<open>
  The gateway as a process, \<open>main\<close> and \<open>startHTTPServer\<close> of \<open>src/gateway/main.go\<close>, and what its neighbours see
  of it: the list of agents that the API server fetches, and the size of the messages that pass.

  Whether an address can be bound is the parameter \<open>bind\<close>, how the gRPC server ends is an argument of the step.
  The HTTP server runs in a goroutine of its own, and \<open>log.Fatalf\<close> in any goroutine ends the process.
\<close>

section \<open>Start and end\<close>

abbreviation ListenAddr :: string where "ListenAddr \<equiv> '':8010''"
abbreviation HTTPListenAddr :: string where "HTTPListenAddr \<equiv> '':8011''"
abbreviation MaxRecvSize :: nat where "MaxRecvSize \<equiv> 1024 * 1024 * 17"

record server_options =
  so_MaxRecvMsgSize :: nat
  so_MaxSendMsgSize :: nat

definition gateway_server_options :: server_options where
  "gateway_server_options = \<lparr>so_MaxRecvMsgSize = MaxRecvSize, so_MaxSendMsgSize = MaxRecvSize\<rparr>"

text \<open>While it serves, is the HTTP server up?  A process that has ended has a message, or \<open>main\<close> returned.\<close>

datatype gateway_process = GwStarting | GwServing bool | GwEnded "error option"

definition gateway_listen :: "(string \<Rightarrow> error option) \<Rightarrow> gateway_process" where
  "gateway_listen bind =
     (case bind ListenAddr of
        Some err \<Rightarrow> GwEnded (Some (''Failed to listen on '' @ ListenAddr @ '': '' @ err))
      | None \<Rightarrow> GwServing False)"

definition startHTTPServer :: "(string \<Rightarrow> error option) \<Rightarrow> gateway_process" where
  "startHTTPServer bind =
     (case bind HTTPListenAddr of
        Some err \<Rightarrow> GwEnded (Some (''HTTP server failed: '' @ err))
      | None \<Rightarrow> GwServing True)"

definition gateway_serve_end :: "error option \<Rightarrow> gateway_process" where
  "gateway_serve_end r = GwEnded (map_option (\<lambda>err. ''Failed to serve: '' @ err) r)"

inductive gateway_main :: "(string \<Rightarrow> error option) \<Rightarrow> gateway_process \<Rightarrow> gateway_process \<Rightarrow> bool" for bind where
  listens: "gateway_main bind GwStarting (gateway_listen bind)"
| http: "gateway_main bind (GwServing False) (startHTTPServer bind)"
| serve_ends: "gateway_main bind (GwServing up) (gateway_serve_end r)"

inductive_cases gateway_mainE: "gateway_main bind s s'"

interpretation gwm: transition_system "\<lambda>s. s = GwStarting" "gateway_main bind" for bind .

section \<open>The HTTP endpoints\<close>

datatype gateway_answer = GwAgents "string list" nat | GwHealth "string gomap" | GwNotFound

definition gateway_mux :: "string \<Rightarrow> gateway \<Rightarrow> gateway_answer" where
  "gateway_mux path s =
     (if path = ''/agents'' then (case http_agents s of (agents, count) \<Rightarrow> GwAgents agents count)
      else if path = ''/health'' then GwHealth [(''status'', ''ok'')]
      else GwNotFound)"

text \<open>What the API server reads when it asks a gateway: JSON carries the names of the agents over.\<close>

definition fetched_agents :: "gateway \<Rightarrow> string list result" where
  "fetched_agents s = (case gateway_mux ''/agents'' s of GwAgents agents _ \<Rightarrow> Inr agents | _ \<Rightarrow> Inl ''unexpected answer'')"

definition with_gateway :: "api_libs \<Rightarrow> gateway \<Rightarrow> api_libs" where
  "with_gateway L s = L\<lparr>ap_gateway_agents := fetched_agents s\<rparr>"

section \<open>Message sizes\<close>

text \<open>
  A receiver refuses a message above its limit, which is 4 MiB in gRPC when nothing else is set; \<open>bytes\<close> is
  the size of the encoding.  The API server dials without options.
\<close>

definition grpc_default_limit :: nat where
  "grpc_default_limit = 1024 * 1024 * 4"

definition received :: "nat option \<Rightarrow> (packet \<Rightarrow> nat) \<Rightarrow> packet \<Rightarrow> packet result" where
  "received limit bytes pkt =
     (let max = (case limit of None \<Rightarrow> grpc_default_limit | Some n \<Rightarrow> n) in
      if bytes pkt > max
      then Inl (status_error ''ResourceExhausted''
             (''grpc: received message larger than max ('' @ nat_dec (bytes pkt) @ '' vs. '' @ nat_dec max @ '')''))
      else Inr pkt)"

definition api_dial :: dial_options where
  "api_dial = \<lparr>do_TransportCredentials = InsecureCreds, do_PerRPCCredentials = None, do_UserAgent = '''', do_MaxRecvMsgSize = None\<rparr>"

definition api_receives :: "(packet \<Rightarrow> nat) \<Rightarrow> packet \<Rightarrow> recv" where
  "api_receives bytes pkt = (case received (do_MaxRecvMsgSize api_dial) bytes pkt of Inl e \<Rightarrow> RErr e | Inr p \<Rightarrow> RPkt p)"

definition gateway_receives :: "(packet \<Rightarrow> nat) \<Rightarrow> packet \<Rightarrow> packet result" where
  "gateway_receives = received (Some (so_MaxRecvMsgSize gateway_server_options))"

section \<open>Properties\<close>

text \<open>A gateway only serves when its address was free, and shows its status only when the other was free, too.\<close>

definition bound :: "(string \<Rightarrow> error option) \<Rightarrow> gateway_process \<Rightarrow> bool" where
  "bound bind s \<longleftrightarrow> (case s of GwServing up \<Rightarrow> bind ListenAddr = None \<and> (up \<longrightarrow> bind HTTPListenAddr = None) | _ \<Rightarrow> True)"

lemma bound_step:
  assumes "bound bind s" "gateway_main bind s s'"
  shows "bound bind s'"
  using assms(2)
proof (rule gateway_mainE)
  assume "s' = gateway_listen bind"
  then show ?thesis by (cases "bind ListenAddr") (simp_all add: bound_def gateway_listen_def)
next
  assume "s = GwServing False" "s' = startHTTPServer bind"
  then show ?thesis using assms(1) by (cases "bind HTTPListenAddr") (simp_all add: bound_def startHTTPServer_def)
next
  fix r assume "s' = gateway_serve_end r"
  then show ?thesis by (simp add: bound_def gateway_serve_end_def)
qed

lemma gateway_serves_bound: "gwm.reach bind s \<Longrightarrow> bound bind s"
  by (erule gwm.invariant) (simp_all add: bound_step, simp add: bound_def)

text \<open>The list of agents is not optional: when its address is taken, the gateway stops serving.\<close>

lemma status_address_taken:
  assumes "bind HTTPListenAddr \<noteq> None" "gateway_main bind (GwServing False) s"
  shows "\<exists>err. s = GwEnded err"
  using assms(2)
proof (rule gateway_mainE)
  assume "s = startHTTPServer bind"
  then show ?thesis using assms(1) by (cases "bind HTTPListenAddr") (simp_all add: startHTTPServer_def)
qed (simp_all add: gateway_serve_end_def)

text \<open>
  The status of an agent in the API is its registration in the gateway; an agent shown as connected has a
  stream that authenticated as an agent.
\<close>

lemma agent_status_registered:
  "agent_status (with_gateway L s) a = ''connected'' \<longleftrightarrow> gm_get (gw_agents s) (ar_AgentID a) \<noteq> None"
  by (simp add: agent_status_def getActiveAgentsFromGateway_def with_gateway_def fetched_agents_def gateway_mux_def
      http_agents_def GetActiveAgents_def gm_get_dom Let_def)

lemma connected_agent_authenticated:
  assumes "gws.reach s" "agent_status (with_gateway L s) a = ''connected''"
  shows "\<exists>conn. gm_get (gw_agents s) (ar_AgentID a) = Some conn \<and> ac_agentID conn = ar_AgentID a
    \<and> auth_stream (gw_ctx s) True (ac_stream conn)"
proof -
  from assms(2) obtain conn where conn: "gm_get (gw_agents s) (ar_AgentID a) = Some conn"
    by (auto simp: agent_status_registered)
  then have "(ar_AgentID a, conn) \<in> set (gw_agents s)" using gw_inv_reach [OF assms(1)]
    by (simp add: gm_get_in_set gw_inv_def Gateway_Safety.agents_ok_def)
  with conn gw_inv_reach [OF assms(1)] show ?thesis by (auto simp: gw_inv_def Gateway_Safety.agents_ok_def)
qed

text \<open>
  A result above 4 MiB fails the query, although agent and gateway accept it; one above the limit of the
  gateway ends the stream of its agent, which takes the agent out of the list and away from all its sessions.
\<close>

lemma large_result_fails:
  assumes "grpc_default_limit < bytes pkt" "bytes pkt \<le> MaxRecvSize"
  shows "gateway_receives bytes pkt = Inr pkt"
    and "\<exists>e. execute_loop Q sendType recvType query (api_receives bytes pkt # rs) sent results exitCode
           = Some (Inl (''stream error: '' @ e), sent)"
  using assms by (simp_all add: gateway_receives_def received_def gateway_server_options_def api_receives_def api_dial_def)

lemma active_registered: "k \<in> set (GetActiveAgents s) \<longleftrightarrow> gm_get (gw_agents s) k \<noteq> None"
  by (simp add: GetActiveAgents_def gm_get_dom)

lemma oversized_result_drops_agent:
  assumes "MaxRecvSize < bytes pkt"
  shows "\<exists>e. agent_recv (gateway_receives bytes pkt) agent s = goto (ac_stream agent) (AgentDefer agent e) s"
    and "ac_agentID agent \<notin> set (GetActiveAgents (agent_defer agent e s))"
proof -
  have "\<exists>e. gateway_receives bytes pkt = Inl e"
    using assms by (simp add: gateway_receives_def received_def gateway_server_options_def)
  then obtain e' where "gateway_receives bytes pkt = Inl e'" by blast
  then show "\<exists>e. agent_recv (gateway_receives bytes pkt) agent s = goto (ac_stream agent) (AgentDefer agent e) s"
    by (auto simp: agent_recv_def)
  show "ac_agentID agent \<notin> set (GetActiveAgents (agent_defer agent e s))"
    unfolding active_registered agent_defer_def by simp
qed

end
