(* ===== verification/HookOutput.thy ===== *)
theory HookOutput
  imports Provisioner Transition
begin

text \<open>
  How the output of a hook's command is collected: \<open>copyBuffer\<close>, \<open>outputSafeWriter\<close> and the callback of
  \<open>src/agent/controller/system/runbookhook/runbookhook.go\<close>, which
  \<open>src/agent/controller/system/dbprovisioner/dbprovisioner.go\<close> repeats for its own hook.

  The command is a parameter, the writes \<open>w st\<close> it makes on each of its streams before it calls back; the
  proxy in the repository makes none.  Each stream is an \<open>io.Pipe\<close>: a write waits until its bytes are taken, and
  the reader goroutine takes at most the length of its buffer at a time.  The reader then appends what it took
  to the shared buffer, which is a step of its own.  The callback closes the pipes and reads the buffer; only
  after \<open>Run\<close> does the request wait for the two readers.
\<close>

section \<open>Streams and steps\<close>

datatype hook_stream = Stdout | Stderr

text \<open>A pipe: the writes to come, what is left of the write that waits, what the reader has taken.\<close>

record hook_pipe =
  hp_todo :: "string list"
  hp_offered :: "string option"
  hp_taken :: "string option"
  hp_closed :: bool
  hp_done :: bool

text \<open>The shared buffer is kept as the list of what was appended, with the stream of each piece.\<close>

type_synonym output_buffer = "(hook_stream \<times> string) list"

definition osw_String :: "output_buffer \<Rightarrow> string" where
  "osw_String buf = concat (map snd buf)"

definition osw_Len :: "output_buffer \<Rightarrow> nat" where
  "osw_Len buf = length (osw_String buf)"

definition osw_Write :: "hook_stream \<Rightarrow> string \<Rightarrow> output_buffer \<Rightarrow> output_buffer" where
  "osw_Write st data buf = buf @ [(st, data)]"

record hook_io =
  ho_pipe :: "hook_stream \<Rightarrow> hook_pipe"
  ho_output :: output_buffer
  ho_answer :: "string option"
  ho_returned :: bool

definition on_pipe :: "hook_stream \<Rightarrow> (hook_pipe \<Rightarrow> hook_pipe) \<Rightarrow> hook_io \<Rightarrow> hook_io" where
  "on_pipe st f s = s\<lparr>ho_pipe := (ho_pipe s)(st := f (ho_pipe s st))\<rparr>"

definition hook_start :: "(hook_stream \<Rightarrow> string list) \<Rightarrow> hook_io" where
  "hook_start w = \<lparr>ho_pipe = (\<lambda>st. \<lparr>hp_todo = w st, hp_offered = None, hp_taken = None, hp_closed = False, hp_done = False\<rparr>),
     ho_output = [], ho_answer = None, ho_returned = False\<rparr>"

text \<open>The next write of the command on a stream.\<close>

definition command_write :: "hook_stream \<Rightarrow> hook_io \<Rightarrow> hook_io" where
  "command_write st = on_pipe st (\<lambda>p. p\<lparr>hp_todo := tl (hp_todo p), hp_offered := Some (hd (hp_todo p))\<rparr>)"

text \<open>
  One round of \<open>io.CopyBuffer\<close>: the read, which leaves the rest of the write on offer, the write to the
  buffer, and the end of the loop when the pipe is closed.  A read of no bytes writes nothing.
\<close>

definition hook_buf_size :: nat where
  "hook_buf_size = 4096"

definition copy_read :: "hook_stream \<Rightarrow> string \<Rightarrow> hook_io \<Rightarrow> hook_io" where
  "copy_read st d = on_pipe st (\<lambda>p.
     p\<lparr>hp_offered := (if drop hook_buf_size d = [] then None else Some (drop hook_buf_size d)),
       hp_taken := (if d = [] then None else Some (take hook_buf_size d))\<rparr>)"

definition copy_write :: "hook_stream \<Rightarrow> string \<Rightarrow> hook_io \<Rightarrow> hook_io" where
  "copy_write st c s = on_pipe st (\<lambda>p. p\<lparr>hp_taken := None\<rparr>) (s\<lparr>ho_output := osw_Write st c (ho_output s)\<rparr>)"

definition copy_end :: "hook_stream \<Rightarrow> hook_io \<Rightarrow> hook_io" where
  "copy_end st = on_pipe st (\<lambda>p. p\<lparr>hp_done := True\<rparr>)"

text \<open>The callback closes both pipes and reads the buffer for the response.\<close>

definition hook_callback :: "hook_io \<Rightarrow> hook_io" where
  "hook_callback s =
     s\<lparr>ho_pipe := (\<lambda>st. (ho_pipe s st)\<lparr>hp_closed := True\<rparr>), ho_answer := Some (truncate_output (osw_String (ho_output s)))\<rparr>"

definition hook_return :: "hook_io \<Rightarrow> hook_io" where
  "hook_return s = s\<lparr>ho_returned := True\<rparr>"

inductive hook_step :: "hook_io \<Rightarrow> hook_io \<Rightarrow> bool" where
  writes: "hp_todo (ho_pipe s st) \<noteq> [] \<Longrightarrow> hp_offered (ho_pipe s st) = None \<Longrightarrow> hook_step s (command_write st s)"
| reads: "hp_offered (ho_pipe s st) = Some d \<Longrightarrow> hp_taken (ho_pipe s st) = None \<Longrightarrow> hook_step s (copy_read st d s)"
| copies: "hp_taken (ho_pipe s st) = Some c \<Longrightarrow> hook_step s (copy_write st c s)"
| ends: "hp_closed (ho_pipe s st) \<Longrightarrow> \<not> hp_done (ho_pipe s st) \<Longrightarrow> hp_taken (ho_pipe s st) = None \<Longrightarrow> hook_step s (copy_end st s)"
| calls_back: "ho_answer s = None \<Longrightarrow> (\<And>st. hp_todo (ho_pipe s st) = [] \<and> hp_offered (ho_pipe s st) = None)
    \<Longrightarrow> hook_step s (hook_callback s)"
| returns: "ho_answer s \<noteq> None \<Longrightarrow> \<not> ho_returned s \<Longrightarrow> (\<And>st. hp_done (ho_pipe s st)) \<Longrightarrow> hook_step s (hook_return s)"

interpretation hook: transition_system "\<lambda>s. s = hook_start w" hook_step for w .

section \<open>What is collected\<close>

definition on_stream :: "hook_stream \<Rightarrow> output_buffer \<Rightarrow> string" where
  "on_stream st buf = concat (map snd (filter (\<lambda>x. fst x = st) buf))"

definition waiting :: "string option \<Rightarrow> string" where
  "waiting x = (case x of None \<Rightarrow> '''' | Some s \<Rightarrow> s)"

definition on_its_way :: "hook_pipe \<Rightarrow> string" where
  "on_its_way p = waiting (hp_taken p) @ waiting (hp_offered p) @ concat (hp_todo p)"

lemma on_stream_simps [simp]:
  "on_stream st [] = ''''" "on_stream st (a @ b) = on_stream st a @ on_stream st b"
  "on_stream st [(st', d)] = (if st' = st then d else '''')"
  by (simp_all add: on_stream_def)

lemma waiting_simps [simp]: "waiting None = ''''" "waiting (Some s) = s"
  by (simp_all add: waiting_def)

lemma on_pipe_simps [simp]:
  "ho_pipe (on_pipe st f s) = (ho_pipe s)(st := f (ho_pipe s st))" "ho_output (on_pipe st f s) = ho_output s"
  "ho_answer (on_pipe st f s) = ho_answer s" "ho_returned (on_pipe st f s) = ho_returned s"
  by (simp_all add: on_pipe_def)

text \<open>Nothing is lost, doubled or reordered within a stream, and a pipe is closed when the answer is taken.\<close>

definition pipe_ok :: "string list \<Rightarrow> hook_stream \<Rightarrow> hook_io \<Rightarrow> bool" where
  "pipe_ok ws st s \<longleftrightarrow> (let p = ho_pipe s st in
     on_stream st (ho_output s) @ on_its_way p = concat ws
     \<and> length (waiting (hp_taken p)) \<le> hook_buf_size
     \<and> hp_closed p = (ho_answer s \<noteq> None)
     \<and> (hp_closed p \<longrightarrow> hp_todo p = [] \<and> hp_offered p = None)
     \<and> (hp_done p \<longrightarrow> hp_closed p \<and> hp_taken p = None))"

lemmas hook_ops = command_write_def copy_read_def copy_write_def copy_end_def hook_callback_def hook_return_def osw_Write_def

lemma take_drop_append: "take n d @ drop n d @ x = d @ x"
  by (simp flip: append_assoc)

lemma pipe_ok_step:
  assumes "pipe_ok ws st s" "hook_step s s'"
  shows "pipe_ok ws st s'"
  using assms(2)
proof (cases rule: hook_step.cases)
  case (writes st')
  with assms(1) show ?thesis
    by (cases "hp_todo (ho_pipe s st')") (auto simp: pipe_ok_def hook_ops on_its_way_def Let_def)
next
  case (reads st' d)
  with assms(1) show ?thesis
    by (auto simp: pipe_ok_def hook_ops on_its_way_def Let_def take_drop_append)
next
  case (copies st' c)
  with assms(1) show ?thesis by (auto simp: pipe_ok_def hook_ops on_its_way_def Let_def)
next
  case (ends st')
  with assms(1) show ?thesis by (auto simp: pipe_ok_def hook_ops on_its_way_def Let_def)
next
  case calls_back
  with assms(1) show ?thesis by (auto simp: pipe_ok_def hook_ops on_its_way_def Let_def)
next
  case returns
  with assms(1) show ?thesis by (auto simp: pipe_ok_def hook_ops on_its_way_def Let_def)
qed

lemma pipe_ok_start: "pipe_ok (w st) st (hook_start w)"
  by (simp add: pipe_ok_def hook_start_def on_its_way_def)

lemma pipe_ok_reach: "hook.reach w s \<Longrightarrow> pipe_ok (w st) st s"
  by (erule hook.invariant) (auto intro: pipe_ok_start pipe_ok_step)

text \<open>
  The answer is what was in the buffer at one moment; what comes later on a stream is at most the one piece
  that its reader held.
\<close>

definition answer_ok :: "hook_io \<Rightarrow> bool" where
  "answer_ok s \<longleftrightarrow> (\<forall>a. ho_answer s = Some a \<longrightarrow> (\<exists>buf rest. ho_output s = buf @ rest \<and> a = truncate_output (osw_String buf)
     \<and> (\<forall>st. length (on_stream st rest @ waiting (hp_taken (ho_pipe s st))) \<le> hook_buf_size)))"

lemma answer_ok_cong:
  "answer_ok s \<Longrightarrow> ho_output s' = ho_output s \<Longrightarrow> ho_answer s' = ho_answer s
    \<Longrightarrow> (\<And>st. hp_taken (ho_pipe s' st) = hp_taken (ho_pipe s st)) \<Longrightarrow> answer_ok s'"
  by (simp add: answer_ok_def)

lemma answer_ok_step:
  assumes "answer_ok s" "\<And>st. pipe_ok (w st) st s" "hook_step s s'"
  shows "answer_ok s'"
  using assms(3)
proof (cases rule: hook_step.cases)
  case (writes st)
  then show ?thesis using answer_ok_cong [OF assms(1)] by (simp add: hook_ops)
next
  case (reads st d)
  then have "ho_answer s = None" using assms(2) [of st] by (auto simp: pipe_ok_def Let_def)
  then show ?thesis using reads by (simp add: answer_ok_def hook_ops)
next
  case (copies st c)
  show ?thesis
    unfolding answer_ok_def
  proof (intro allI impI)
    fix a assume "ho_answer s' = Some a"
    then have "ho_answer s = Some a" using copies by (simp add: hook_ops)
    with assms(1) obtain buf rest where out: "ho_output s = buf @ rest" "a = truncate_output (osw_String buf)"
      and len: "\<And>st. length (on_stream st rest @ waiting (hp_taken (ho_pipe s st))) \<le> hook_buf_size"
      unfolding answer_ok_def by blast
    have "length (on_stream st' (rest @ [(st, c)]) @ waiting (hp_taken (ho_pipe s' st'))) \<le> hook_buf_size" for st'
      using len [of st'] copies by (auto simp: hook_ops)
    moreover have "ho_output s' = buf @ rest @ [(st, c)]" using copies out by (simp add: hook_ops)
    ultimately show "\<exists>buf rest. ho_output s' = buf @ rest \<and> a = truncate_output (osw_String buf)
       \<and> (\<forall>st. length (on_stream st rest @ waiting (hp_taken (ho_pipe s' st))) \<le> hook_buf_size)"
      using out(2) by blast
  qed
next
  case (ends st)
  then show ?thesis using answer_ok_cong [OF assms(1)] by (simp add: hook_ops)
next
  case calls_back
  have "length (waiting (hp_taken (ho_pipe s st))) \<le> hook_buf_size" for st
    using assms(2) [of st] by (simp add: pipe_ok_def Let_def)
  then show ?thesis
    unfolding answer_ok_def calls_back(1)
    by (intro allI impI exI [of _ "ho_output s"] exI [of _ "[]"]) (simp add: hook_ops)
next
  case returns
  then show ?thesis using answer_ok_cong [OF assms(1)] by (simp add: hook_ops)
qed

lemma answer_ok_reach:
  assumes "hook.reach w s"
  shows "answer_ok s"
proof (rule hook.invariant_with [OF assms, where J = "\<lambda>s. \<forall>st. pipe_ok (w st) st s"])
  show "\<forall>st. pipe_ok (w st) st s" if "hook.reach w s" for s using pipe_ok_reach [OF that] by blast
  show "answer_ok s" if "s = hook_start w" for s using that by (simp add: answer_ok_def hook_start_def)
  show "answer_ok s'" if "answer_ok s" "\<forall>st. pipe_ok (w st) st s" "hook_step s s'" for s s'
    using answer_ok_step [of s w s'] that by blast
qed

text \<open>The response misses at most the end of each stream, and no more of it than a reader holds.\<close>

lemma hook_answer_nearly_complete:
  assumes "hook.reach w s" "ho_answer s = Some a"
  obtains buf where "prefix buf (ho_output s)" "a = truncate_output (osw_String buf)"
    and "\<And>st. \<exists>rest. on_stream st buf @ rest = concat (w st) \<and> length rest \<le> hook_buf_size"
proof -
  from answer_ok_reach [OF assms(1)] assms(2) obtain buf rest
    where out: "ho_output s = buf @ rest" "a = truncate_output (osw_String buf)"
      and len: "\<And>st. length (on_stream st rest @ waiting (hp_taken (ho_pipe s st))) \<le> hook_buf_size"
    unfolding answer_ok_def by blast
  have "on_stream st buf @ (on_stream st rest @ waiting (hp_taken (ho_pipe s st))) = concat (w st)" for st
    using pipe_ok_reach [OF assms(1), of st] assms(2) out(1) by (auto simp: pipe_ok_def Let_def on_its_way_def)
  moreover have "prefix buf (ho_output s)" using out(1) by simp
  ultimately show ?thesis using that out(2) len by blast
qed

lemma osw_String_silent: "(\<And>st. on_stream st buf = '''') \<Longrightarrow> osw_String buf = ''''"
proof (induction buf)
  case (Cons x buf)
  have "snd x = '''' \<and> on_stream st buf = ''''" for st
    using Cons.prems [of "fst x"] Cons.prems [of st] by (simp add: on_stream_def split: if_splits)
  with Cons.IH show ?case by (simp add: osw_String_def)
qed (simp add: osw_String_def)

text \<open>The command of the repository writes nothing, so its response is the one of \<open>hook_processRequest\<close>.\<close>

lemma stub_hook_output:
  assumes "hook.reach (\<lambda>_. []) s" "ho_answer s = Some a"
  shows "a = truncate_output ''''"
proof -
  obtain buf where buf: "a = truncate_output (osw_String buf)"
    and "\<And>st. \<exists>rest. on_stream st buf @ rest = concat ((\<lambda>_. []) st) \<and> length rest \<le> hook_buf_size"
    using hook_answer_nearly_complete [OF assms] by blast
  then have "\<And>st. on_stream st buf = ''''" by auto
  with buf show ?thesis by (simp add: osw_String_silent)
qed

section \<open>The end of a request\<close>

text \<open>When the request is done, everything is in the buffer, whatever the response had.\<close>

definition returned_ok :: "hook_io \<Rightarrow> bool" where
  "returned_ok s \<longleftrightarrow> (ho_returned s \<longrightarrow> (\<forall>st. hp_done (ho_pipe s st)))"

lemma returned_ok_reach: "hook.reach w s \<Longrightarrow> returned_ok s"
proof (erule hook.invariant)
  show "returned_ok s'" if "returned_ok s" "hook_step s s'" for s s'
    using that(2,1) by (cases rule: hook_step.cases) (auto simp: returned_ok_def hook_ops)
qed (simp add: returned_ok_def hook_start_def)

lemma hook_returns_complete:
  assumes "hook.reach w s" "ho_returned s"
  shows "on_stream st (ho_output s) = concat (w st)"
  using pipe_ok_reach [OF assms(1), of st] returned_ok_reach [OF assms(1)] assms(2)
  by (auto simp: pipe_ok_def returned_ok_def on_its_way_def Let_def)

text \<open>
  A request always comes to its end: every step uses something up, and as long as the request has not
  returned, there is a step.
\<close>

definition pipe_left :: "hook_pipe \<Rightarrow> nat" where
  "pipe_left p = sum_list (map (\<lambda>d. 2 * length d + 4) (hp_todo p))
     + (case hp_offered p of None \<Rightarrow> 0 | Some d \<Rightarrow> 2 * length d + 3)
     + (case hp_taken p of None \<Rightarrow> 0 | Some _ \<Rightarrow> 1) + (if hp_done p then 0 else 1)"

definition hook_left :: "hook_io \<Rightarrow> nat" where
  "hook_left s = pipe_left (ho_pipe s Stdout) + pipe_left (ho_pipe s Stderr)
     + (if ho_answer s = None then 1 else 0) + (if ho_returned s then 0 else 1)"

lemma pipe_left_on:
  assumes "pipe_left (f (ho_pipe s st)) < pipe_left (ho_pipe s st)"
  shows "hook_left (on_pipe st f s) < hook_left s"
  using assms by (cases st) (auto simp: hook_left_def)

lemma hook_left_cong:
  "ho_pipe s' = ho_pipe s \<Longrightarrow> ho_answer s' = ho_answer s \<Longrightarrow> ho_returned s' = ho_returned s \<Longrightarrow> hook_left s' = hook_left s"
  by (simp add: hook_left_def)

lemma hook_step_uses: "hook_step s s' \<Longrightarrow> hook_left s' < hook_left s"
proof (induction rule: hook_step.induct)
  case (writes s st)
  then show ?case unfolding command_write_def
    by (intro pipe_left_on) (cases "hp_todo (ho_pipe s st)"; simp add: pipe_left_def)
next
  case (reads s st d)
  then show ?case unfolding copy_read_def
    by (intro pipe_left_on) (auto simp: pipe_left_def hook_buf_size_def)
next
  case (copies s st c)
  let ?s = "s\<lparr>ho_output := osw_Write st c (ho_output s)\<rparr>"
  have "hook_left (copy_write st c s) < hook_left ?s"
    unfolding copy_write_def using copies by (intro pipe_left_on) (simp add: pipe_left_def)
  then show ?case by (simp add: hook_left_cong [of ?s s])
next
  case (ends s st)
  then show ?case unfolding copy_end_def by (intro pipe_left_on) (simp add: pipe_left_def)
next
  case (calls_back s)
  then show ?case by (simp add: hook_left_def hook_callback_def pipe_left_def)
next
  case (returns s)
  then show ?case by (simp add: hook_left_def hook_return_def)
qed

lemma hook_run_ends: "wf {(s', s). hook_step s s'}"
  by (rule wf_subset [OF wf_measure [of hook_left]]) (auto simp: hook_step_uses)

lemma hook_never_stuck:
  assumes "hook.reach w s" "\<not> ho_returned s"
  shows "\<exists>s'. hook_step s s'"
proof (rule ccontr)
  assume stuck: "\<nexists>s'. hook_step s s'"
  have taken: "hp_taken (ho_pipe s st) = None" for st
    using stuck hook_step.copies [of s st] by (cases "hp_taken (ho_pipe s st)") auto
  have offered: "hp_offered (ho_pipe s st) = None" for st
    using stuck hook_step.reads [of s st] taken [of st] by (cases "hp_offered (ho_pipe s st)") auto
  have todo: "hp_todo (ho_pipe s st) = []" for st
    using stuck hook_step.writes [of s st] offered [of st] by blast
  have answered: "ho_answer s \<noteq> None"
    using stuck hook_step.calls_back [of s] offered todo by blast
  then have "hp_closed (ho_pipe s st)" for st
    using pipe_ok_reach [OF assms(1), of st] by (simp add: pipe_ok_def Let_def)
  then have "hp_done (ho_pipe s st)" for st
    using stuck hook_step.ends [of s st] taken [of st] by blast
  with stuck hook_step.returns [of s] answered assms(2) show False by blast
qed

lemma hook_runs_finite: "\<exists>i. \<not> hook_step (f i) (f (Suc i))"
  using hook_run_ends [unfolded wf_iff_no_infinite_down_chain] by blast

text \<open>
  C21: a hook's request always ends, with one answer, whatever its command writes and however the command, the two
  readers and the callback interleave: every run is finite, and as long as the request has not returned, some part of
  it can go on.  When it has returned, the answer was sent and the buffer holds everything that was written on each
  stream, in order.  The answer is the truncation to 4096 bytes of what was in the buffer at one earlier moment, in
  which at most the last 4096 bytes of each stream may still be missing.  The command is any that makes given writes
  and then calls back once; the callback's unlocked read of the buffer is taken as one step.
\<close>

theorem hook_request_ends:
  assumes "hook.reach w s"
  shows "(\<forall>f. f 0 = s \<longrightarrow> (\<exists>i. \<not> hook_step (f i) (f (Suc i)))) \<and>
    (\<not> ho_returned s \<longrightarrow> (\<exists>s'. hook_step s s')) \<and>
    (ho_returned s \<longrightarrow> ho_answer s \<noteq> None \<and> (\<forall>st. on_stream st (ho_output s) = concat (w st))) \<and>
    (\<forall>a. ho_answer s = Some a \<longrightarrow> (\<exists>buf. prefix buf (ho_output s) \<and> a = truncate_output (osw_String buf) \<and>
       (\<forall>st. \<exists>rest. on_stream st buf @ rest = concat (w st) \<and> length rest \<le> 4096)))"
proof (intro conjI allI impI)
  show "\<exists>i. \<not> hook_step (f i) (f (Suc i))" for f by (rule hook_runs_finite)
  show "\<exists>s'. hook_step s s'" if "\<not> ho_returned s" using hook_never_stuck [OF assms that] .
  show "on_stream st (ho_output s) = concat (w st)" if "ho_returned s" for st using hook_returns_complete [OF assms that] .
  show "ho_answer s \<noteq> None" if "ho_returned s"
    using returned_ok_reach [OF assms] pipe_ok_reach [OF assms, of Stdout] that by (auto simp: returned_ok_def pipe_ok_def Let_def)
  show "\<exists>buf. prefix buf (ho_output s) \<and> a = truncate_output (osw_String buf) \<and>
      (\<forall>st. \<exists>rest. on_stream st buf @ rest = concat (w st) \<and> length rest \<le> 4096)" if "ho_answer s = Some a" for a
    using hook_answer_nearly_complete [OF assms that] unfolding hook_buf_size_def by metis
qed

text \<open>
  The waiting comes too late: the command may have written, and the request may end with everything in the
  buffer, and still the response went out without it.
\<close>

definition demo_hook_writes :: "hook_stream \<Rightarrow> string list" where
  "demo_hook_writes st = (case st of Stdout \<Rightarrow> [''x''] | Stderr \<Rightarrow> [])"

definition demo_hook_lost :: hook_io where
  "demo_hook_lost = hook_return (copy_end Stderr (copy_end Stdout (copy_write Stdout ''x''
     (hook_callback (copy_read Stdout ''x'' (command_write Stdout (hook_start demo_hook_writes)))))))"

lemma not_Stdout: "st \<noteq> Stdout \<longleftrightarrow> st = Stderr"
  by (cases st) simp_all

lemma demo_hook_lost_reach: "hook.reach demo_hook_writes demo_hook_lost"
proof -
  note defs = hook_ops on_pipe_def hook_start_def demo_hook_writes_def hook_buf_size_def fun_upd_def
  show ?thesis
    unfolding demo_hook_lost_def
    apply (rule hook.next_state [OF _ hook_step.returns])
       apply (rule hook.next_state [OF _ hook_step.ends])
          apply (rule hook.next_state [OF _ hook_step.ends])
             apply (rule hook.next_state [OF _ hook_step.copies])
              apply (rule hook.next_state [OF _ hook_step.calls_back])
                apply (rule hook.next_state [OF _ hook_step.reads])
                  apply (rule hook.next_state [OF _ hook_step.writes])
                    apply (rule hook.start, rule refl)
                   apply (simp_all add: defs not_Stdout split: hook_stream.split)
    done
qed

lemma hook_output_lost:
  "\<exists>w s. hook.reach w s \<and> ho_returned s \<and> ho_answer s = Some '''' \<and> on_stream Stdout (ho_output s) = ''x''"
proof (intro exI conjI)
  note defs = hook_ops on_pipe_def hook_start_def demo_hook_writes_def hook_buf_size_def fun_upd_def
  show "hook.reach demo_hook_writes demo_hook_lost" by (rule demo_hook_lost_reach)
  show "ho_returned demo_hook_lost" by (simp add: demo_hook_lost_def hook_return_def)
  show "ho_answer demo_hook_lost = Some ''''"
    by (simp add: demo_hook_lost_def defs osw_String_def truncate_output_def)
  show "on_stream Stdout (ho_output demo_hook_lost) = ''x''"
    by (simp add: demo_hook_lost_def defs on_stream_def)
qed

theorem hook_request_ends_witness:
  "ho_returned demo_hook_lost \<and> ho_answer demo_hook_lost = Some '''' \<and>
   on_stream Stdout (ho_output demo_hook_lost) = concat (demo_hook_writes Stdout)"
proof -
  have "ho_returned demo_hook_lost" by (simp add: demo_hook_lost_def hook_return_def)
  moreover have "ho_answer demo_hook_lost = Some ''''"
    by (simp add: demo_hook_lost_def hook_ops on_pipe_def hook_start_def osw_String_def truncate_output_def)
  ultimately show ?thesis using hook_request_ends [OF demo_hook_lost_reach] by blast
qed

end
